(* ===== verification/Jvm_Prelude.thy ===== *)
theory Jvm_Prelude
  imports Main "HOL-Library.Word"
begin

unbundle bit_operations_syntax

text \<open>
  What every component of the development shares: the ways the C++ program can stop
  (\<open>vm_error\<close>), the state-passing operations that may stop (\<open>op\<close>), total-correctness
  triples over them (\<open>valid\<close>) with their composition rules, the reading of
  \<open>size_t\<close> arithmetic and of \<open>std::vector\<close> indexing, and the splitting of a 64-bit value
  into two 32-bit slots.
\<close>

section \<open>How the program stops\<close>

text \<open>
  \<open>Fatal\<close> is glog's \<open>LOG(FATAL)\<close> (the process aborts); \<open>Runtime_Error\<close> is a C++ exception that no
  caller catches; \<open>Out_Of_Range\<close> is what \<open>vector::at\<close> throws; \<open>Assert_Failure\<close> is a failed
  \<open>assert\<close>; \<open>Null_Dereference\<close> is a member access through a null pointer; \<open>Undefined\<close> is any
  other construct to which C++ gives no meaning (an index past the end of a vector, a shift by
  the width of the type or more, a write past the end of an allocated block).
\<close>

datatype vm_error =
    Fatal string
  | Runtime_Error string
  | Out_Of_Range
  | Assert_Failure
  | Null_Dereference
  | Undefined string

type_synonym 'a res = "vm_error + 'a"

text \<open>An operation reads and updates a state of type \<open>'s\<close> and returns a value, or stops.\<close>

type_synonym ('s, 'a) op = "'s \<Rightarrow> ('a \<times> 's) res"

named_theorems op_simps \<open>unfolding of the state operations\<close>
named_theorems triple \<open>composition rules of total-correctness triples\<close>
named_theorems keeps_rules \<open>composition rules of invariants of operations\<close>

definition ret :: "'a \<Rightarrow> ('s, 'a) op" where
  [op_simps]: "ret x = (\<lambda>s. Inr (x, s))"

definition raise :: "vm_error \<Rightarrow> ('s, 'a) op" where
  [op_simps]: "raise e = (\<lambda>s. Inl e)"

definition bind :: "('s, 'a) op \<Rightarrow> ('a \<Rightarrow> ('s, 'b) op) \<Rightarrow> ('s, 'b) op" where
  [op_simps]: "bind m f = (\<lambda>s. case m s of Inl e \<Rightarrow> Inl e | Inr (x, t) \<Rightarrow> f x t)"

definition andthen :: "('s, 'a) op \<Rightarrow> ('s, 'b) op \<Rightarrow> ('s, 'b) op" where
  [op_simps]: "andthen m k = bind m (\<lambda>_. k)"

definition reads :: "('s \<Rightarrow> 'a) \<Rightarrow> ('s, 'a) op" where
  [op_simps]: "reads f = (\<lambda>s. Inr (f s, s))"

definition modifies :: "('s \<Rightarrow> 's) \<Rightarrow> ('s, unit) op" where
  [op_simps]: "modifies f = (\<lambda>s. Inr ((), f s))"

definition lift_res :: "'a res \<Rightarrow> ('s, 'a) op" where
  [op_simps]: "lift_res r = (\<lambda>s. case r of Inl e \<Rightarrow> Inl e | Inr x \<Rightarrow> Inr (x, s))"

text \<open>\<open>zoom get put m\<close> runs \<open>m\<close> on the part of the state that \<open>get\<close> reads and \<open>put\<close> writes.\<close>

definition zoom :: "('s \<Rightarrow> 't) \<Rightarrow> ('t \<Rightarrow> 's \<Rightarrow> 's) \<Rightarrow> ('t, 'a) op \<Rightarrow> ('s, 'a) op" where
  [op_simps]: "zoom get put m =
     (\<lambda>s. case m (get s) of Inl e \<Rightarrow> Inl e | Inr (x, t) \<Rightarrow> Inr (x, put t s))"

text \<open>A counted loop that collects the result of each round.\<close>

primrec repeat_op :: "nat \<Rightarrow> ('s, 'a) op \<Rightarrow> ('s, 'a list) op" where
  "repeat_op 0 m = ret []"
| "repeat_op (Suc n) m = bind m (\<lambda>x. bind (repeat_op n m) (\<lambda>xs. ret (x # xs)))"

lemma bind_Inr: "m s = Inr (x, t) \<Longrightarrow> bind m f s = f x t"
  by (simp add: bind_def)

lemma bind_Inl: "m s = Inl e \<Longrightarrow> bind m f s = Inl e"
  by (simp add: bind_def)

lemma bind_assoc: "bind (bind m f) g = bind m (\<lambda>x. bind (f x) g)"
  by (rule ext) (auto simp: bind_def split: sum.splits prod.splits)

lemma bind_ret [simp]: "bind (ret x) f = f x"
  by (simp add: bind_def ret_def)

lemma ret_bind [simp]: "bind m ret = m"
  by (rule ext) (auto simp: bind_def ret_def split: sum.splits prod.splits)

lemma bind_InrE:
  assumes "bind m f s = Inr (y, u)"
  obtains x t where "m s = Inr (x, t)" and "f x t = Inr (y, u)"
  using assms by (auto simp: bind_def split: sum.splits prod.splits)


section \<open>Total-correctness triples\<close>

text \<open>
  \<open>valid P m Q\<close>: from every state of \<open>P\<close> the operation returns, and its value and final state
  satisfy \<open>Q\<close>. \<open>stops P m E\<close>: from every state of \<open>P\<close> the operation stops with an error of \<open>E\<close>.
\<close>

definition valid :: "('s \<Rightarrow> bool) \<Rightarrow> ('s, 'a) op \<Rightarrow> ('a \<Rightarrow> 's \<Rightarrow> bool) \<Rightarrow> bool" where
  "valid P m Q \<longleftrightarrow> (\<forall>s. P s \<longrightarrow> (\<exists>x t. m s = Inr (x, t) \<and> Q x t))"

definition stops :: "('s \<Rightarrow> bool) \<Rightarrow> ('s, 'a) op \<Rightarrow> (vm_error \<Rightarrow> bool) \<Rightarrow> bool" where
  "stops P m E \<longleftrightarrow> (\<forall>s. P s \<longrightarrow> (\<exists>e. m s = Inl e \<and> E e))"

lemma validI: "(\<And>s. P s \<Longrightarrow> \<exists>x t. m s = Inr (x, t) \<and> Q x t) \<Longrightarrow> valid P m Q"
  by (simp add: valid_def)

lemma validE:
  assumes "valid P m Q" and "P s"
  obtains x t where "m s = Inr (x, t)" and "Q x t"
  using assms by (auto simp: valid_def)

lemma stopsI: "(\<And>s. P s \<Longrightarrow> \<exists>e. m s = Inl e \<and> E e) \<Longrightarrow> stops P m E"
  by (simp add: stops_def)

lemma stopsE:
  assumes "stops P m E" and "P s"
  obtains e where "m s = Inl e" and "E e"
  using assms by (auto simp: stops_def)

lemma valid_bind [triple]:
  "valid P m R \<Longrightarrow> (\<And>x. valid (R x) (f x) Q) \<Longrightarrow> valid P (bind m f) Q"
  unfolding valid_def bind_def by fastforce

lemma valid_andthen [triple]:
  "valid P m (\<lambda>_. R) \<Longrightarrow> valid R k Q \<Longrightarrow> valid P (andthen m k) Q"
  unfolding andthen_def by (rule valid_bind)

lemma valid_ret [triple]: "valid (Q x) (ret x) Q"
  by (simp add: valid_def ret_def)

lemma valid_conseq:
  "valid P' m Q' \<Longrightarrow> (\<And>s. P s \<Longrightarrow> P' s) \<Longrightarrow> (\<And>x s. Q' x s \<Longrightarrow> Q x s) \<Longrightarrow> valid P m Q"
  unfolding valid_def by meson

lemma valid_pre: "valid P' m Q \<Longrightarrow> (\<And>s. P s \<Longrightarrow> P' s) \<Longrightarrow> valid P m Q"
  by (rule valid_conseq)

lemma valid_gen: "(A \<Longrightarrow> valid P m Q) \<Longrightarrow> valid (\<lambda>s. A \<and> P s) m Q"
  by (auto simp: valid_def)

lemma valid_ex: "(\<And>a. valid (P a) m Q) \<Longrightarrow> valid (\<lambda>s. \<exists>a. P a s) m Q"
  unfolding valid_def by blast

lemma stops_bind_first: "stops P m E \<Longrightarrow> stops P (bind m f) E"
  unfolding stops_def bind_def by fastforce

lemma stops_bind_then:
  "valid P m R \<Longrightarrow> (\<And>x. stops (R x) (f x) E) \<Longrightarrow> stops P (bind m f) E"
  unfolding stops_def valid_def bind_def by fastforce

lemma stops_conseq:
  "stops P' m E' \<Longrightarrow> (\<And>s. P s \<Longrightarrow> P' s) \<Longrightarrow> (\<And>e. E' e \<Longrightarrow> E e) \<Longrightarrow> stops P m E"
  unfolding stops_def by blast

lemma stops_raise: "E e \<Longrightarrow> stops P (raise e) E"
  by (simp add: stops_def raise_def)

lemma valid_not_stops: "valid P m Q \<Longrightarrow> P s \<Longrightarrow> m s \<noteq> Inl e"
  by (auto simp: valid_def)


section \<open>Invariants of operations\<close>

text \<open>\<open>keeps P m\<close>: whenever \<open>m\<close> returns from a state of \<open>P\<close>, the new state is one of \<open>P\<close>.\<close>

definition keeps :: "('s \<Rightarrow> bool) \<Rightarrow> ('s, 'a) op \<Rightarrow> bool" where
  "keeps P m \<longleftrightarrow> (\<forall>s x t. P s \<longrightarrow> m s = Inr (x, t) \<longrightarrow> P t)"

lemma keepsD: "keeps P m \<Longrightarrow> P s \<Longrightarrow> m s = Inr (x, t) \<Longrightarrow> P t"
  unfolding keeps_def by blast

lemma keeps_ret [keeps_rules]: "keeps P (ret x)"
  by (simp add: keeps_def ret_def)

lemma keeps_raise [keeps_rules]: "keeps P (raise e)"
  by (simp add: keeps_def raise_def)

lemma keeps_lift_res [keeps_rules]: "keeps P (lift_res r)"
  by (simp add: keeps_def lift_res_def split: sum.splits)

lemma keeps_bind [keeps_rules]:
  assumes "keeps P m" and "\<And>x. keeps P (f x)"
  shows "keeps P (bind m f)"
  using assms unfolding keeps_def by (meson bind_InrE)

lemma keeps_andthen [keeps_rules]: "keeps P m \<Longrightarrow> keeps P k \<Longrightarrow> keeps P (andthen m k)"
  unfolding andthen_def by (rule keeps_bind)

lemma keeps_if [keeps_rules]: "(b \<Longrightarrow> keeps P m) \<Longrightarrow> (\<not> b \<Longrightarrow> keeps P k) \<Longrightarrow> keeps P (if b then m else k)"
  by simp

lemma keeps_reads [keeps_rules]: "keeps P (reads f)"
  by (simp add: keeps_def reads_def)

lemma keeps_option [keeps_rules]:
  "keeps P m \<Longrightarrow> (\<And>x. keeps P (f x)) \<Longrightarrow> keeps P (case y of None \<Rightarrow> m | Some x \<Rightarrow> f x)"
  by (cases y) simp_all

lemma keeps_prod [keeps_rules]: "(\<And>x y. keeps P (f x y)) \<Longrightarrow> keeps P (case z of (x, y) \<Rightarrow> f x y)"
  by (cases z) simp

lemma keeps_let [keeps_rules]: "keeps P (f x) \<Longrightarrow> keeps P (let y = x in f y)"
  by simp

lemma keeps_modifies: "(\<And>s. P s \<Longrightarrow> P (f s)) \<Longrightarrow> keeps P (modifies f)"
  by (simp add: keeps_def modifies_def)

lemma keeps_conj: "keeps P m \<Longrightarrow> keeps Q m \<Longrightarrow> keeps (\<lambda>s. P s \<and> Q s) m"
  unfolding keeps_def by blast

lemma keeps_repeat [keeps_rules]: "keeps P m \<Longrightarrow> keeps P (repeat_op n m)"
  by (induction n) (auto intro: keeps_ret keeps_bind)


text \<open>\<open>gives P m R\<close>: \<open>m\<close> keeps \<open>P\<close>, and the value it returns satisfies \<open>R\<close>.\<close>

definition gives :: "('s \<Rightarrow> bool) \<Rightarrow> ('s, 'a) op \<Rightarrow> ('a \<Rightarrow> bool) \<Rightarrow> bool" where
  "gives P m R \<longleftrightarrow> (\<forall>s x t. P s \<longrightarrow> m s = Inr (x, t) \<longrightarrow> P t \<and> R x)"

lemma gives_ret: "R x \<Longrightarrow> gives P (ret x) R"
  by (simp add: gives_def ret_def)

lemma givesD: "gives P m R \<Longrightarrow> P s \<Longrightarrow> m s = Inr (x, t) \<Longrightarrow> P t \<and> R x"
  unfolding gives_def by blast

lemma givesI: "(\<And>s x t. P s \<Longrightarrow> m s = Inr (x, t) \<Longrightarrow> P t \<and> R x) \<Longrightarrow> gives P m R"
  unfolding gives_def by blast

lemma gives_bind:
  assumes "gives P m R" "\<And>x. R x \<Longrightarrow> gives P (f x) Q"
  shows "gives P (bind m f) Q"
  by (rule givesI, erule bind_InrE) (use givesD [OF assms(1)] givesD [OF assms(2)] in blast)

lemma keeps_gives: "keeps P m \<longleftrightarrow> gives P m (\<lambda>_. True)"
  by (simp add: keeps_def gives_def)

lemma gives_keeps_bind: "keeps P m \<Longrightarrow> (\<And>x. gives P (f x) Q) \<Longrightarrow> gives P (bind m f) Q"
  unfolding keeps_gives by (rule gives_bind)

lemma gives_andthen: "keeps P m \<Longrightarrow> gives P k Q \<Longrightarrow> gives P (andthen m k) Q"
  unfolding andthen_def by (rule gives_keeps_bind)

lemma keeps_gives_bind: "gives P m R \<Longrightarrow> (\<And>x. R x \<Longrightarrow> keeps P (f x)) \<Longrightarrow> keeps P (bind m f)"
  unfolding keeps_gives by (rule gives_bind)


section \<open>size_t, vectors, slices\<close>

text \<open>\<open>size_t\<close> is unsigned and 64 bits wide: \<open>a - b\<close> wraps around when \<open>a < b\<close>.\<close>

definition size_t_sub :: "nat \<Rightarrow> nat \<Rightarrow> nat" where
  "size_t_sub a b = (if b \<le> a then a - b else a + 2 ^ 64 - b)"

lemma size_t_sub_le [simp]: "b \<le> a \<Longrightarrow> size_t_sub a b = a - b"
  by (simp add: size_t_sub_def)

lemma size_t_sub_0_1 [simp]: "size_t_sub 0 (Suc 0) = 18446744073709551615"
  by (simp add: size_t_sub_def)

text \<open>\<open>std::vector\<close>: \<open>operator[]\<close> is undefined out of range, \<open>at\<close> throws.\<close>

definition vec_get :: "'a list \<Rightarrow> nat \<Rightarrow> 'a res" where
  "vec_get xs i = (if i < length xs then Inr (xs ! i) else Inl (Undefined ''vector index''))"

definition vec_set :: "'a list \<Rightarrow> nat \<Rightarrow> 'a \<Rightarrow> 'a list res" where
  "vec_set xs i v =
     (if i < length xs then Inr (xs[i := v]) else Inl (Undefined ''vector index''))"

definition vec_at :: "'a list \<Rightarrow> nat \<Rightarrow> 'a res" where
  "vec_at xs i = (if i < length xs then Inr (xs ! i) else Inl Out_Of_Range)"

text \<open>\<open>splice xs i ys\<close> overwrites the elements of \<open>xs\<close> from \<open>i\<close> on with \<open>ys\<close>.\<close>

definition splice :: "'a list \<Rightarrow> nat \<Rightarrow> 'a list \<Rightarrow> 'a list" where
  "splice xs i ys = take i xs @ ys @ drop (i + length ys) xs"

lemma length_splice [simp]: "i + length ys \<le> length xs \<Longrightarrow> length (splice xs i ys) = length xs"
  by (simp add: splice_def)

lemma splice_nth:
  "i + length ys \<le> length xs \<Longrightarrow> j < length xs \<Longrightarrow>
   splice xs i ys ! j = (if i \<le> j \<and> j < i + length ys then ys ! (j - i) else xs ! j)"
  by (auto simp: splice_def nth_append)

lemma splice_one: "i < length xs \<Longrightarrow> splice xs i [v] = xs[i := v]"
  by (simp add: splice_def upd_conv_take_nth_drop)

lemma splice_two: "i + 1 < length xs \<Longrightarrow> splice xs i [v, w] = xs[i := v, Suc i := w]"
  by (rule nth_equalityI) (auto simp: splice_nth nth_list_update)

lemma take_splice_end: "i + length ys \<le> length xs \<Longrightarrow> take (i + length ys) (splice xs i ys) = take i xs @ ys"
  by (simp add: splice_def)

lemma slice_splice_same:
  "i + length ys \<le> length xs \<Longrightarrow> take (length ys) (drop i (splice xs i ys)) = ys"
  by (simp add: splice_def)

lemma slice_splice_other:
  assumes "i + length ys \<le> length xs" and "j + w \<le> length xs" and "j + w \<le> i \<or> i + length ys \<le> j"
  shows "take w (drop j (splice xs i ys)) = take w (drop j xs)"
  using assms by (auto intro!: nth_equalityI simp: splice_nth)

lemma take_2_eq_iff:
  "i + 1 < length xs \<Longrightarrow> take (Suc (Suc 0)) (drop i xs) = [a, b] \<longleftrightarrow> xs ! i = a \<and> xs ! Suc i = b"
  by (auto simp: list_eq_iff_nth_eq less_Suc_eq all_conj_distrib)

lemma take_1_eq_iff: "i < length xs \<Longrightarrow> take (Suc 0) (drop i xs) = [a] \<longleftrightarrow> xs ! i = a"
  by (auto simp: list_eq_iff_nth_eq)

lemma take_Suc_snoc: "i < length xs \<Longrightarrow> take (Suc i) xs = take i xs @ [xs ! i]"
  by (rule take_Suc_conv_app_nth)

lemma sint_of_nat31 [simp]: "n < 2 ^ 31 \<Longrightarrow> sint (of_nat n :: 32 word) = int n"
  by (simp add: signed_of_nat signed_take_bit_int_eq_self)

lemma unat_of_nat31 [simp]: "n < 2 ^ 31 \<Longrightarrow> unat (of_nat n :: 32 word) = n"
  by (simp add: unat_of_nat)

section \<open>A 64-bit value in two slots\<close>

text \<open>
  \<open>lo32\<close> and \<open>hi32\<close> are the two halves that \<open>SetLong\<close> stores
  (\<open>val & UINT32_MAX\<close>, \<open>(val >> 32) & UINT32_MAX\<close>), \<open>join32\<close> is the reading of \<open>GetLong\<close>
  (\<open>int64_t(high) << 32 | int64_t(low)\<close>).
\<close>

definition lo32 :: "64 word \<Rightarrow> 32 word" where
  "lo32 v = ucast (v AND 0xFFFFFFFF)"

definition hi32 :: "64 word \<Rightarrow> 32 word" where
  "hi32 v = ucast (signed_drop_bit 32 v AND 0xFFFFFFFF)"

definition join32 :: "32 word \<Rightarrow> 32 word \<Rightarrow> 64 word" where
  "join32 h l = push_bit 32 (ucast h) OR ucast l"

lemma mask_32_64: "(0xFFFFFFFF :: 64 word) = mask 32"
  by (simp add: mask_eq_exp_minus_1)

lemma lo32_ucast: "lo32 v = ucast v"
  unfolding lo32_def mask_32_64 by (rule bit_word_eqI) (auto simp: bit_simps)

lemma hi32_ucast: "hi32 v = ucast (drop_bit 32 v)"
  unfolding hi32_def mask_32_64 by (rule bit_word_eqI) (auto simp: bit_simps)

lemma join32_split [simp]: "join32 (hi32 v) (lo32 v) = v"
  unfolding join32_def hi32_ucast lo32_ucast by (rule bit_word_eqI) (auto simp: bit_simps)

lemma lo32_join32 [simp]: "lo32 (join32 h l) = l"
  unfolding join32_def lo32_ucast by (rule bit_word_eqI) (auto simp: bit_simps)

lemma hi32_join32 [simp]: "hi32 (join32 h l) = h"
  unfolding join32_def hi32_ucast
  by (rule bit_word_eqI) (auto simp: bit_simps dest: bit_imp_le_length)

lemma join32_eq_iff [simp]: "join32 h l = join32 h' l' \<longleftrightarrow> h = h' \<and> l = l'"
  by (metis hi32_join32 lo32_join32)

end
