(* ===== verification/Class_File.thy ===== *)
theory Class_File
  imports Jvm_Prelude
begin

text \<open>
  The class-file parser of \<open>src/src/classfile\<close>: \<open>class_parser.h/.cpp\<close>, \<open>constant_pool.h\<close>,
  \<open>attr_info.h/.cpp\<close> and \<open>member_info.h/.cpp\<close>. A parser is given the bytes of the file and works on
  the position \<open>int& pos\<close>. The code never compares the position with the size of the data: a read
  past the end is a read past the end of the block (\<open>Undefined\<close>).
\<close>

type_synonym u1 = "8 word"
type_synonym u2 = "16 word"
type_synonym u4 = "32 word"
type_synonym u8 = "64 word"
type_synonym bytes = "u1 list"

section \<open>Integers and byte runs\<close>

text \<open>\<open>data->GetData()[i]\<close>.\<close>

definition data_at :: "bytes \<Rightarrow> nat \<Rightarrow> u1 res" where
  "data_at data i = (if i < length data then Inr (data ! i) else Inl (Undefined ''read past class data''))"

text \<open>The byte is promoted to a 32-bit \<open>int\<close> before it is shifted, whatever the width of the result.\<close>

definition shift_int :: "u1 \<Rightarrow> nat \<Rightarrow> 32 word res" where
  "shift_int b k = (if k < 32 then Inr (push_bit k (ucast b)) else Inl (Undefined ''shift count''))"

fun ParseUnsignedInt_loop :: "nat \<Rightarrow> bytes \<Rightarrow> nat \<Rightarrow> 'w::len word \<Rightarrow> 'w word res" where
  "ParseUnsignedInt_loop 0 data p t = Inr t"
| "ParseUnsignedInt_loop (Suc n) data p t =
     (case data_at data p of
        Inl e \<Rightarrow> Inl e
      | Inr b \<Rightarrow>
          (case shift_int b (n * 8) of
             Inl e \<Rightarrow> Inl e
           | Inr x \<Rightarrow> ParseUnsignedInt_loop n data (Suc p) (t OR scast x)))"

definition ParseUnsignedInt :: "bytes \<Rightarrow> (nat, 'w::len word) op" where
  "ParseUnsignedInt data = (\<lambda>pos.
     let size = LENGTH('w) div 8 in
     case ParseUnsignedInt_loop size data pos 0 of
       Inl e \<Rightarrow> Inl e
     | Inr t \<Rightarrow> Inr (t, pos + size))"

definition ParseBytes :: "bytes \<Rightarrow> nat \<Rightarrow> (nat, bytes) op" where
  "ParseBytes data len = (\<lambda>pos.
     if pos + len \<le> length data then Inr (take len (drop pos data), pos + len)
     else Inl (Undefined ''read past class data''))"

section \<open>Constants\<close>

datatype constant_info =
    ConstantUtf8Info string
  | ConstantIntegerInfo "32 word"
  | ConstantFloatInfo "32 word"
  | ConstantLongInfo "64 word"
  | ConstantDoubleInfo "64 word"
  | ConstantClassInfo u2
  | ConstantStringInfo u2
  | ConstantFieldRefInfo u2 u2
  | ConstantMethodRefInfo u2 u2
  | ConstantInterfaceMethodRefInfo u2 u2
  | ConstantNameAndTypeInfo u2 u2
  | ConstantMethodHandleInfo u1 u2
  | ConstantMethodTypeInfo u2
  | ConstantDynamicInfo u2 u2
  | ConstantInvokeDynamicInfo u2 u2
  | ConstantModuleInfo u2
  | ConstantPackageInfo u2

definition string_of_bytes :: "bytes \<Rightarrow> string" where
  "string_of_bytes bs = map (\<lambda>b. char_of (unat b)) bs"

definition bytes_of_string :: "string \<Rightarrow> bytes" where
  "bytes_of_string s = map (\<lambda>c. of_nat (of_char c)) s"

lemma length_bytes_of_string [simp]: "length (bytes_of_string s) = length s"
  by (simp add: bytes_of_string_def)

lemma string_of_bytes_of_string [simp]: "string_of_bytes (bytes_of_string s) = s"
proof -
  have "unat (of_nat (of_char c) :: u1) = of_char c" for c
    using nat_of_char_less_256 [of c] by (simp add: unat_of_nat)
  then show ?thesis
    by (simp add: string_of_bytes_def bytes_of_string_def comp_def)
qed

definition parse_u2 :: "bytes \<Rightarrow> (u2 \<Rightarrow> 'a) \<Rightarrow> (nat, 'a) op" where
  "parse_u2 data k = bind (ParseUnsignedInt data) (\<lambda>x. ret (k x))"

definition parse_u2_u2 :: "bytes \<Rightarrow> (u2 \<Rightarrow> u2 \<Rightarrow> 'a) \<Rightarrow> (nat, 'a) op" where
  "parse_u2_u2 data k =
     bind (ParseUnsignedInt data) (\<lambda>x. bind (ParseUnsignedInt data) (\<lambda>y. ret (k x y)))"

text \<open>The \<open>ParseConstantInfo\<close> member of each constant class.\<close>

definition ParseUtf8Info :: "bytes \<Rightarrow> (nat, constant_info) op" where
  "ParseUtf8Info data =
     bind (ParseUnsignedInt data) (\<lambda>length::u2.
     bind (ParseBytes data (unat length)) (\<lambda>tmp.
     ret (ConstantUtf8Info (string_of_bytes tmp))))"

definition ParseIntegerInfo :: "bytes \<Rightarrow> (nat, constant_info) op" where
  "ParseIntegerInfo data = bind (ParseUnsignedInt data) (\<lambda>v::32 word. ret (ConstantIntegerInfo v))"

definition ParseFloatInfo :: "bytes \<Rightarrow> (nat, constant_info) op" where
  "ParseFloatInfo data = bind (ParseUnsignedInt data) (\<lambda>v::u4. ret (ConstantFloatInfo v))"

definition ParseLongInfo :: "bytes \<Rightarrow> (nat, constant_info) op" where
  "ParseLongInfo data = bind (ParseUnsignedInt data) (\<lambda>v::u8. ret (ConstantLongInfo v))"

definition ParseDoubleInfo :: "bytes \<Rightarrow> (nat, constant_info) op" where
  "ParseDoubleInfo data = bind (ParseUnsignedInt data) (\<lambda>v::u8. ret (ConstantDoubleInfo v))"

definition ParseClassInfo :: "bytes \<Rightarrow> (nat, constant_info) op" where
  "ParseClassInfo data = parse_u2 data ConstantClassInfo"

definition ParseStringInfo :: "bytes \<Rightarrow> (nat, constant_info) op" where
  "ParseStringInfo data = parse_u2 data ConstantStringInfo"

text \<open>\<open>ConstantMemberRefInfo\<close> is the base of the three member references.\<close>

definition ParseMemberRefInfo ::
    "bytes \<Rightarrow> (u2 \<Rightarrow> u2 \<Rightarrow> constant_info) \<Rightarrow> (nat, constant_info) op" where
  "ParseMemberRefInfo data ref = parse_u2_u2 data ref"

definition ParseNameAndTypeInfo :: "bytes \<Rightarrow> (nat, constant_info) op" where
  "ParseNameAndTypeInfo data = parse_u2_u2 data ConstantNameAndTypeInfo"

definition ParseMethodHandleInfo :: "bytes \<Rightarrow> (nat, constant_info) op" where
  "ParseMethodHandleInfo data =
     bind (ParseUnsignedInt data) (\<lambda>kind::u1.
     bind (ParseUnsignedInt data) (\<lambda>index::u2. ret (ConstantMethodHandleInfo kind index)))"

definition ParseMethodTypeInfo :: "bytes \<Rightarrow> (nat, constant_info) op" where
  "ParseMethodTypeInfo data = parse_u2 data ConstantMethodTypeInfo"

definition ParseDynamicInfo :: "bytes \<Rightarrow> (nat, constant_info) op" where
  "ParseDynamicInfo data = parse_u2_u2 data ConstantDynamicInfo"

definition ParseInvokeDynamicInfo :: "bytes \<Rightarrow> (nat, constant_info) op" where
  "ParseInvokeDynamicInfo data = parse_u2_u2 data ConstantInvokeDynamicInfo"

definition ParseModuleInfo :: "bytes \<Rightarrow> (nat, constant_info) op" where
  "ParseModuleInfo data = parse_u2 data ConstantModuleInfo"

definition ParsePackageInfo :: "bytes \<Rightarrow> (nat, constant_info) op" where
  "ParsePackageInfo data = parse_u2 data ConstantPackageInfo"

text \<open>
  The tags of \<open>enum ConstantType\<close>. \<open>CreateConstantInfo\<close> makes the object of the tag and the virtual
  \<open>ParseConstantInfo\<close> of that object reads it; here the tag selects the reader.
\<close>

definition CreateConstantInfo :: "nat \<Rightarrow> (bytes \<Rightarrow> (nat, constant_info) op) res" where
  "CreateConstantInfo tag =
     (if tag = 1 then Inr ParseUtf8Info
      else if tag = 3 then Inr ParseIntegerInfo
      else if tag = 4 then Inr ParseFloatInfo
      else if tag = 5 then Inr ParseLongInfo
      else if tag = 6 then Inr ParseDoubleInfo
      else if tag = 7 then Inr ParseClassInfo
      else if tag = 8 then Inr ParseStringInfo
      else if tag = 9 then Inr (\<lambda>d. ParseMemberRefInfo d ConstantFieldRefInfo)
      else if tag = 10 then Inr (\<lambda>d. ParseMemberRefInfo d ConstantMethodRefInfo)
      else if tag = 11 then Inr (\<lambda>d. ParseMemberRefInfo d ConstantInterfaceMethodRefInfo)
      else if tag = 12 then Inr ParseNameAndTypeInfo
      else if tag = 15 then Inr ParseMethodHandleInfo
      else if tag = 16 then Inr ParseMethodTypeInfo
      else if tag = 17 then Inr ParseDynamicInfo
      else if tag = 18 then Inr ParseInvokeDynamicInfo
      else if tag = 19 then Inr ParseModuleInfo
      else if tag = 20 then Inr ParsePackageInfo
      else Inl (Fatal ''java.lang.ClassFormatError: constant pool tag''))"

definition ParseConstantInfo :: "bytes \<Rightarrow> (nat, constant_info) op" where
  "ParseConstantInfo data =
     bind (ParseUnsignedInt data) (\<lambda>tag::u1.
     bind (lift_res (CreateConstantInfo (unat tag))) (\<lambda>parse. parse data))"

section \<open>The constant pool\<close>

record constant_pool =
  cp_count :: u2
  cp_infos :: "constant_info option list"

definition GetConstantInfo :: "constant_pool \<Rightarrow> u2 \<Rightarrow> constant_info option res" where
  "GetConstantInfo cp index =
     (if unat index < 1 \<or> unat index \<ge> unat (cp_count cp) then Inl (Fatal ''Invalid constant pool index'')
      else vec_get (cp_infos cp) (unat index))"

text \<open>A failed \<open>dynamic_pointer_cast\<close> gives a null pointer, which the next member access follows.\<close>

definition GetUtf8 :: "constant_pool \<Rightarrow> u2 \<Rightarrow> string res" where
  "GetUtf8 cp index = (case GetConstantInfo cp index of
     Inl e \<Rightarrow> Inl e
   | Inr (Some (ConstantUtf8Info v)) \<Rightarrow> Inr v
   | Inr _ \<Rightarrow> Inl Null_Dereference)"

definition GetClassName :: "constant_pool \<Rightarrow> u2 \<Rightarrow> string res" where
  "GetClassName cp index = (case GetConstantInfo cp index of
     Inl e \<Rightarrow> Inl e
   | Inr (Some (ConstantClassInfo name_index)) \<Rightarrow> GetUtf8 cp name_index
   | Inr _ \<Rightarrow> Inl Null_Dereference)"

definition GetNameAndType :: "constant_pool \<Rightarrow> u2 \<Rightarrow> (string \<times> string) res" where
  "GetNameAndType cp index = (case GetConstantInfo cp index of
     Inl e \<Rightarrow> Inl e
   | Inr (Some (ConstantNameAndTypeInfo name_index descriptor_index)) \<Rightarrow>
       (case GetUtf8 cp name_index of
          Inl e \<Rightarrow> Inl e
        | Inr name \<Rightarrow>
            (case GetUtf8 cp descriptor_index of Inl e \<Rightarrow> Inl e | Inr ty \<Rightarrow> Inr (name, ty)))
   | Inr _ \<Rightarrow> Inl Null_Dereference)"

definition takes_two_entries :: "constant_info \<Rightarrow> bool" where
  "takes_two_entries c = (case c of
     ConstantDoubleInfo _ \<Rightarrow> True | ConstantLongInfo _ \<Rightarrow> True | _ \<Rightarrow> False)"

function ParseConstantPool_loop ::
    "bytes \<Rightarrow> nat \<Rightarrow> nat \<Rightarrow> constant_info option list \<Rightarrow> (nat, constant_info option list) op" where
  "ParseConstantPool_loop data count i infos pos =
     (if i < count then
        (case ParseConstantInfo data pos of
           Inl e \<Rightarrow> Inl e
         | Inr (c, pos') \<Rightarrow>
             if takes_two_entries c
             then ParseConstantPool_loop data count (i + 2) (infos @ [Some c, None]) pos'
             else ParseConstantPool_loop data count (i + 1) (infos @ [Some c]) pos')
      else Inr (infos, pos))"
  by pat_completeness auto
termination
  by (relation "measure (\<lambda>(data, count, i, infos, pos). count - i)") auto

declare ParseConstantPool_loop.simps [simp del]

definition ParseConstantPool :: "bytes \<Rightarrow> (nat, constant_pool) op" where
  "ParseConstantPool data =
     bind (ParseUnsignedInt data) (\<lambda>constant_pool_count::u2.
     bind (ParseConstantPool_loop data (unat constant_pool_count) 1 [None]) (\<lambda>infos.
     ret \<lparr>cp_count = constant_pool_count, cp_infos = infos\<rparr>))"

section \<open>Attributes\<close>

record exception_entry =
  ee_start_pc :: u2
  ee_end_pc :: u2
  ee_handler_pc :: u2
  ee_catch_type :: u2

record line_number_entry =
  ln_start_pc :: u2
  ln_line_number :: u2

record local_variable_entry =
  lv_start_pc :: u2
  lv_length :: u2
  lv_name_index :: u2
  lv_descriptor_index :: u2
  lv_index :: u2

datatype attribute_info =
    CodeAttributeInfo u2 u2 bytes "exception_entry list" "attribute_info list"
  | ConstantValueAttributeInfo u2
  | DeprecatedAttributeInfo
  | ExceptionsAttributeInfo "u2 list"
  | LineNumberTableAttributeInfo "line_number_entry list"
  | LocalVariableTableAttributeInfo "local_variable_entry list"
  | SourceFileAttributeInfo u2
  | SyntheticAttributeInfo
  | UnparsedAttributeInfo string bytes

definition ParseExceptionEntry :: "bytes \<Rightarrow> (nat, exception_entry) op" where
  "ParseExceptionEntry data =
     bind (ParseUnsignedInt data) (\<lambda>a. bind (ParseUnsignedInt data) (\<lambda>b.
     bind (ParseUnsignedInt data) (\<lambda>c. bind (ParseUnsignedInt data) (\<lambda>d.
     ret \<lparr>ee_start_pc = a, ee_end_pc = b, ee_handler_pc = c, ee_catch_type = d\<rparr>))))"

definition ParseExceptionTable :: "bytes \<Rightarrow> (nat, exception_entry list) op" where
  "ParseExceptionTable data =
     bind (ParseUnsignedInt data) (\<lambda>len::u2. repeat_op (unat len) (ParseExceptionEntry data))"

definition ParseExceptions :: "bytes \<Rightarrow> (nat, attribute_info) op" where
  "ParseExceptions data =
     bind (ParseUnsignedInt data) (\<lambda>len::u2.
     bind (repeat_op (unat len) (ParseUnsignedInt data)) (\<lambda>idxs.
     ret (ExceptionsAttributeInfo idxs)))"

definition ParseLineNumberEntry :: "bytes \<Rightarrow> (nat, line_number_entry) op" where
  "ParseLineNumberEntry data =
     bind (ParseUnsignedInt data) (\<lambda>a. bind (ParseUnsignedInt data) (\<lambda>b.
     ret \<lparr>ln_start_pc = a, ln_line_number = b\<rparr>))"

definition ParseLineNumberTable :: "bytes \<Rightarrow> (nat, attribute_info) op" where
  "ParseLineNumberTable data =
     bind (ParseUnsignedInt data) (\<lambda>len::u2.
     bind (repeat_op (unat len) (ParseLineNumberEntry data)) (\<lambda>es.
     ret (LineNumberTableAttributeInfo es)))"

definition ParseLocalVariableEntry :: "bytes \<Rightarrow> (nat, local_variable_entry) op" where
  "ParseLocalVariableEntry data =
     bind (ParseUnsignedInt data) (\<lambda>a. bind (ParseUnsignedInt data) (\<lambda>b.
     bind (ParseUnsignedInt data) (\<lambda>c. bind (ParseUnsignedInt data) (\<lambda>d.
     bind (ParseUnsignedInt data) (\<lambda>e.
     ret \<lparr>lv_start_pc = a, lv_length = b, lv_name_index = c, lv_descriptor_index = d, lv_index = e\<rparr>)))))"

definition ParseLocalVariableTable :: "bytes \<Rightarrow> (nat, attribute_info) op" where
  "ParseLocalVariableTable data =
     bind (ParseUnsignedInt data) (\<lambda>len::u2.
     bind (repeat_op (unat len) (ParseLocalVariableEntry data)) (\<lambda>es.
     ret (LocalVariableTableAttributeInfo es)))"

definition ParseSourceFile :: "bytes \<Rightarrow> (nat, attribute_info) op" where
  "ParseSourceFile data = parse_u2 data SourceFileAttributeInfo"

definition ParseConstantValue :: "bytes \<Rightarrow> (nat, attribute_info) op" where
  "ParseConstantValue data = parse_u2 data ConstantValueAttributeInfo"

definition ParseUnparsed :: "bytes \<Rightarrow> string \<Rightarrow> u4 \<Rightarrow> (nat, attribute_info) op" where
  "ParseUnparsed data name len =
     bind (ParseBytes data (unat len)) (\<lambda>info. ret (UnparsedAttributeInfo name info))"

text \<open>
  The attributes whose reader does not read attributes itself. The name compared with for
  \<open>DeprecatedAttributeInfo\<close> is spelled as in the source.
\<close>

definition CreateAttributeInfo :: "string \<Rightarrow> u4 \<Rightarrow> bytes \<Rightarrow> (nat, attribute_info) op" where
  "CreateAttributeInfo attr_name attr_len data =
     (if attr_name = ''ConstantValue'' then ParseConstantValue data
      else if attr_name = ''DepreCated'' then ret DeprecatedAttributeInfo
      else if attr_name = ''Exceptions'' then ParseExceptions data
      else if attr_name = ''LineNumberTable'' then ParseLineNumberTable data
      else if attr_name = ''LocalVariableTable'' then ParseLocalVariableTable data
      else if attr_name = ''SourceFile'' then ParseSourceFile data
      else if attr_name = ''Synthetic'' then ret SyntheticAttributeInfo
      else ParseUnparsed data attr_name attr_len)"

definition ParseAttributeHeader :: "bytes \<Rightarrow> constant_pool \<Rightarrow> (nat, string \<times> u4) op" where
  "ParseAttributeHeader data cp =
     bind (ParseUnsignedInt data) (\<lambda>attr_name_index::u2.
     bind (lift_res (GetUtf8 cp attr_name_index)) (\<lambda>attr_name.
     bind (ParseUnsignedInt data) (\<lambda>attr_len::u4. ret (attr_name, attr_len))))"

definition ParseCodeHeader :: "bytes \<Rightarrow> (nat, u2 \<times> u2 \<times> bytes \<times> exception_entry list \<times> u2) op" where
  "ParseCodeHeader data =
     bind (ParseUnsignedInt data) (\<lambda>max_operand_stack::u2.
     bind (ParseUnsignedInt data) (\<lambda>max_locals::u2.
     bind (ParseUnsignedInt data) (\<lambda>code_len::u4.
     bind (ParseBytes data (unat code_len)) (\<lambda>codes.
     bind (ParseExceptionTable data) (\<lambda>ets.
     bind (ParseUnsignedInt data) (\<lambda>attribute_count::u2.
     ret (max_operand_stack, max_locals, codes, ets, attribute_count)))))))"

text \<open>
  \<open>ParseAttributeInfo\<close> calls \<open>CodeAttributeInfo::ParseAttrInfo\<close>, which calls it back for the
  attributes of the code. The first argument bounds the nesting; \<open>parse_attribute_enough\<close> below
  shows that the size of the data is enough.
\<close>

fun parse_attribute :: "nat \<Rightarrow> bytes \<Rightarrow> constant_pool \<Rightarrow> (nat, attribute_info) op"
  and parse_attributes :: "nat \<Rightarrow> bytes \<Rightarrow> constant_pool \<Rightarrow> nat \<Rightarrow> (nat, attribute_info list) op" where
  "parse_attribute 0 data cp pos = Inl (Undefined ''attribute nesting'')"
| "parse_attribute (Suc k) data cp pos =
     (case ParseAttributeHeader data cp pos of
        Inl e \<Rightarrow> Inl e
      | Inr ((attr_name, attr_len), p1) \<Rightarrow>
          if attr_name = ''Code'' then
            (case ParseCodeHeader data p1 of
               Inl e \<Rightarrow> Inl e
             | Inr ((max_stack, max_locals, codes, ets, attribute_count), p2) \<Rightarrow>
                 (case parse_attributes k data cp (unat attribute_count) p2 of
                    Inl e \<Rightarrow> Inl e
                  | Inr (attrs, p3) \<Rightarrow>
                      Inr (CodeAttributeInfo max_stack max_locals codes ets attrs, p3)))
          else CreateAttributeInfo attr_name attr_len data p1)"
| "parse_attributes k data cp 0 pos = Inr ([], pos)"
| "parse_attributes k data cp (Suc n) pos =
     (case parse_attribute k data cp pos of
        Inl e \<Rightarrow> Inl e
      | Inr (a, p1) \<Rightarrow>
          (case parse_attributes k data cp n p1 of
             Inl e \<Rightarrow> Inl e
           | Inr (as, p2) \<Rightarrow> Inr (a # as, p2)))"

definition ParseAttributeInfo :: "bytes \<Rightarrow> constant_pool \<Rightarrow> (nat, attribute_info) op" where
  "ParseAttributeInfo data cp = parse_attribute (Suc (length data)) data cp"

section \<open>Members\<close>

record member_info =
  mi_access_flags :: u2
  mi_name_index :: u2
  mi_descriptor_index :: u2
  mi_attributes :: "attribute_info list"

fun GetCodeAttribute_in :: "attribute_info list \<Rightarrow> attribute_info option" where
  "GetCodeAttribute_in [] = None"
| "GetCodeAttribute_in (CodeAttributeInfo a b c d e # as) = Some (CodeAttributeInfo a b c d e)"
| "GetCodeAttribute_in (_ # as) = GetCodeAttribute_in as"

definition GetCodeAttribute :: "member_info \<Rightarrow> attribute_info option" where
  "GetCodeAttribute m = GetCodeAttribute_in (mi_attributes m)"

fun GetConstantAttribute_in :: "attribute_info list \<Rightarrow> u2 option" where
  "GetConstantAttribute_in [] = None"
| "GetConstantAttribute_in (ConstantValueAttributeInfo i # as) = Some i"
| "GetConstantAttribute_in (_ # as) = GetConstantAttribute_in as"

definition GetConstantAttribute :: "member_info \<Rightarrow> u2 option" where
  "GetConstantAttribute m = GetConstantAttribute_in (mi_attributes m)"

definition MemberInfo_GetName :: "constant_pool \<Rightarrow> member_info \<Rightarrow> string res" where
  "MemberInfo_GetName cp m = GetUtf8 cp (mi_name_index m)"

definition MemberInfo_GetDescriptor :: "constant_pool \<Rightarrow> member_info \<Rightarrow> string res" where
  "MemberInfo_GetDescriptor cp m = GetUtf8 cp (mi_descriptor_index m)"

definition ParseMember :: "bytes \<Rightarrow> constant_pool \<Rightarrow> (nat, member_info) op" where
  "ParseMember data cp =
     bind (ParseUnsignedInt data) (\<lambda>access_flags::u2.
     bind (ParseUnsignedInt data) (\<lambda>name_index::u2.
     bind (ParseUnsignedInt data) (\<lambda>descriptor_index::u2.
     bind (ParseUnsignedInt data) (\<lambda>attribute_count::u2.
     bind (repeat_op (unat attribute_count) (ParseAttributeInfo data cp)) (\<lambda>attrs.
     ret \<lparr>mi_access_flags = access_flags, mi_name_index = name_index,
          mi_descriptor_index = descriptor_index, mi_attributes = attrs\<rparr>)))))"

definition ParseMembers :: "bytes \<Rightarrow> constant_pool \<Rightarrow> (nat, member_info list) op" where
  "ParseMembers data cp =
     bind (ParseUnsignedInt data) (\<lambda>count::u2. repeat_op (unat count) (ParseMember data cp))"

section \<open>The class file\<close>

record class_file =
  cf_magic :: u4
  cf_minor_version :: u2
  cf_major_version :: u2
  cf_constant_pool :: constant_pool
  cf_access_flags :: u2
  cf_this_class :: u2
  cf_super_class :: u2
  cf_interfaces :: "u2 list"
  cf_fields :: "member_info list"
  cf_methods :: "member_info list"
  cf_attributes :: "attribute_info list"

definition ParseAndCheckMagic :: "bytes \<Rightarrow> (nat, u4) op" where
  "ParseAndCheckMagic data =
     bind (ParseUnsignedInt data) (\<lambda>magic.
     if magic \<noteq> 0xCAFEBABE then raise (Fatal ''Magic number wrong'') else ret magic)"

definition ParseAndCheckVersion :: "bytes \<Rightarrow> (nat, u2 \<times> u2) op" where
  "ParseAndCheckVersion data =
     bind (ParseUnsignedInt data) (\<lambda>minor::u2.
     bind (ParseUnsignedInt data) (\<lambda>major::u2.
     if major = 45 then ret (minor, major)
     else if major \<in> {46, 47, 48, 49, 50, 51, 52} \<and> minor = 0 then ret (minor, major)
     else raise (Fatal ''java.lang.UnsupportedClassVersionError'')))"

definition ParseAccessFlags :: "bytes \<Rightarrow> (nat, u2) op" where
  "ParseAccessFlags data = ParseUnsignedInt data"

definition ParseThisClass :: "bytes \<Rightarrow> (nat, u2) op" where
  "ParseThisClass data = ParseUnsignedInt data"

definition ParseSuperClass :: "bytes \<Rightarrow> (nat, u2) op" where
  "ParseSuperClass data = ParseUnsignedInt data"

definition ParseInterfaces :: "bytes \<Rightarrow> (nat, u2 list) op" where
  "ParseInterfaces data =
     bind (ParseUnsignedInt data) (\<lambda>count::u2. repeat_op (unat count) (ParseUnsignedInt data))"

definition ParseFieldInfos :: "bytes \<Rightarrow> constant_pool \<Rightarrow> (nat, member_info list) op" where
  "ParseFieldInfos data cp = ParseMembers data cp"

definition ParseMethodInfos :: "bytes \<Rightarrow> constant_pool \<Rightarrow> (nat, member_info list) op" where
  "ParseMethodInfos data cp = ParseMembers data cp"

definition ParseAttributeInfos :: "bytes \<Rightarrow> constant_pool \<Rightarrow> (nat, attribute_info list) op" where
  "ParseAttributeInfos data cp =
     bind (ParseUnsignedInt data) (\<lambda>attribute_count::u2.
     repeat_op (unat attribute_count) (ParseAttributeInfo data cp))"

definition Parse :: "bytes \<Rightarrow> class_file res" where
  "Parse data = map_sum id fst (
     bind (ParseAndCheckMagic data) (\<lambda>magic.
     bind (ParseAndCheckVersion data) (\<lambda>(minor, major).
     bind (ParseConstantPool data) (\<lambda>cp.
     bind (ParseAccessFlags data) (\<lambda>flags.
     bind (ParseThisClass data) (\<lambda>this_class.
     bind (ParseSuperClass data) (\<lambda>super_class.
     bind (ParseInterfaces data) (\<lambda>interfaces.
     bind (ParseFieldInfos data cp) (\<lambda>fields.
     bind (ParseMethodInfos data cp) (\<lambda>methods.
     bind (ParseAttributeInfos data cp) (\<lambda>attributes.
     ret \<lparr>cf_magic = magic, cf_minor_version = minor, cf_major_version = major,
          cf_constant_pool = cp, cf_access_flags = flags, cf_this_class = this_class,
          cf_super_class = super_class, cf_interfaces = interfaces, cf_fields = fields,
          cf_methods = methods, cf_attributes = attributes\<rparr>)))))))))) 0)"

definition ClassFile_GetClassName :: "class_file \<Rightarrow> string res" where
  "ClassFile_GetClassName cf = GetClassName (cf_constant_pool cf) (cf_this_class cf)"

definition GetSuperClassName :: "class_file \<Rightarrow> string res" where
  "GetSuperClassName cf =
     (if cf_super_class cf > 0 then GetClassName (cf_constant_pool cf) (cf_super_class cf)
      else Inr [])"

fun GetInterfaceNames_loop :: "constant_pool \<Rightarrow> u2 list \<Rightarrow> string list res" where
  "GetInterfaceNames_loop cp [] = Inr []"
| "GetInterfaceNames_loop cp (i # is) =
     (case GetClassName cp i of
        Inl e \<Rightarrow> Inl e
      | Inr n \<Rightarrow> (case GetInterfaceNames_loop cp is of Inl e \<Rightarrow> Inl e | Inr ns \<Rightarrow> Inr (n # ns)))"

definition GetInterfaceNames :: "class_file \<Rightarrow> string list res" where
  "GetInterfaceNames cf = GetInterfaceNames_loop (cf_constant_pool cf) (cf_interfaces cf)"

fun GetSourceFile_in :: "constant_pool \<Rightarrow> attribute_info list \<Rightarrow> string res" where
  "GetSourceFile_in cp [] = Inr []"
| "GetSourceFile_in cp (SourceFileAttributeInfo i # as) = GetUtf8 cp i"
| "GetSourceFile_in cp (_ # as) = GetSourceFile_in cp as"

definition GetSourceFile :: "class_file \<Rightarrow> string res" where
  "GetSourceFile cf = GetSourceFile_in (cf_constant_pool cf) (cf_attributes cf)"

end
