(* ===== verification/Class_File_Format.thy ===== *)
theory Class_File_Format
  imports Class_File
begin

text \<open>
  The class-file format as a writer, and the round trip of the parser with it: what \<open>Parse\<close> returns
  for the bytes of a well-formed class file is that class file. \<open>parses p bs x\<close> says that the
  parser \<open>p\<close> reads \<open>x\<close> from \<open>bs\<close> wherever \<open>bs\<close> stands in the data; it composes along \<open>bind\<close>
  and \<open>repeat_op\<close>. The nesting bound of the attribute parser is shown to be immaterial.
\<close>

section \<open>Readers of a run of bytes\<close>

definition parses :: "(bytes \<Rightarrow> (nat, 'a) op) \<Rightarrow> bytes \<Rightarrow> 'a \<Rightarrow> bool" where
  "parses p bs x \<longleftrightarrow>
     (\<forall>pre post. p (pre @ bs @ post) (length pre) = Inr (x, length pre + length bs))"

lemma parsesI:
  "(\<And>pre post. p (pre @ bs @ post) (length pre) = Inr (x, length pre + length bs)) \<Longrightarrow> parses p bs x"
  by (simp add: parses_def)

lemma parsesD: "parses p bs x \<Longrightarrow> p (pre @ bs @ post) (length pre) = Inr (x, length pre + length bs)"
  by (simp add: parses_def)

lemma parses_bind:
  assumes "parses p bs x" and "parses (\<lambda>d. f d x) cs y"
  shows "parses (\<lambda>d. bind (p d) (f d)) (bs @ cs) y"
proof (rule parsesI)
  fix pre post
  have "p (pre @ (bs @ cs) @ post) (length pre) = Inr (x, length (pre @ bs))"
    using parsesD [OF assms(1), of pre "cs @ post"] by simp
  moreover have "f (pre @ (bs @ cs) @ post) x (length (pre @ bs)) = Inr (y, length (pre @ bs) + length cs)"
    using parsesD [OF assms(2), of "pre @ bs" post] by simp
  ultimately show "bind (p (pre @ (bs @ cs) @ post)) (f (pre @ (bs @ cs) @ post)) (length pre) =
      Inr (y, length pre + length (bs @ cs))"
    by (simp add: bind_def)
qed

lemma parses_ret: "parses (\<lambda>d. ret x) [] x"
  by (simp add: parses_def ret_def)

lemma parses_bind_ret:
  "parses p bs x \<Longrightarrow> g x = y \<Longrightarrow> parses (\<lambda>d. bind (p d) (\<lambda>x. ret (g x))) bs y"
  using parses_bind [of p bs x "\<lambda>d x. ret (g x)" "[]" y] parses_ret [of y] by simp

lemma parses_lift_res:
  "r = Inr x \<Longrightarrow> parses (\<lambda>d. f d x) cs y \<Longrightarrow> parses (\<lambda>d. bind (lift_res r) (f d)) cs y"
  by (simp add: parses_def bind_def lift_res_def)

lemma parses_repeat:
  assumes "\<And>x. x \<in> set xs \<Longrightarrow> parses p (em x) x"
  shows "parses (\<lambda>d. repeat_op (length xs) (p d)) (concat (map em xs)) xs"
  using assms
proof (induction xs)
  case Nil
  show ?case by (simp add: parses_ret)
next
  case (Cons x xs)
  have "parses (\<lambda>d. bind (repeat_op (length xs) (p d)) (\<lambda>ys. ret (x # ys))) (concat (map em xs)) (x # xs)"
    by (rule parses_bind_ret [OF Cons.IH]) (use Cons.prems in auto)
  then show ?case
    using parses_bind [of p "em x" x "\<lambda>d x. bind (repeat_op (length xs) (p d)) (\<lambda>ys. ret (x # ys))"]
      Cons.prems by simp
qed

section \<open>Integers\<close>

definition emit_u1 :: "u1 \<Rightarrow> bytes" where
  "emit_u1 x = [x]"

definition emit_u2 :: "u2 \<Rightarrow> bytes" where
  "emit_u2 x = [ucast (drop_bit 8 x), ucast x]"

definition emit_u4 :: "u4 \<Rightarrow> bytes" where
  "emit_u4 x = [ucast (drop_bit 24 x), ucast (drop_bit 16 x), ucast (drop_bit 8 x), ucast x]"

lemma data_at_mid [simp]: "data_at (pre @ x # post) (length pre) = Inr x"
  by (simp add: data_at_def)

lemma data_at_mid2 [simp]: "data_at (pre @ x # y # post) (Suc (length pre)) = Inr y"
  using data_at_mid [of "pre @ [x]" y post] by simp

lemma data_at_mid3 [simp]: "data_at (pre @ x # y # z # post) (Suc (Suc (length pre))) = Inr z"
  using data_at_mid [of "pre @ [x, y]" z post] by simp

lemma data_at_mid4 [simp]: "data_at (pre @ x # y # z # w # post) (Suc (Suc (Suc (length pre)))) = Inr w"
  using data_at_mid [of "pre @ [x, y, z]" w post] by simp

lemma join_u2: "scast (push_bit 8 (ucast (ucast (drop_bit 8 x) :: u1)) :: 32 word) OR
    scast (ucast (ucast x :: u1) :: 32 word) = (x :: u2)"
  by (rule bit_word_eqI) (auto simp: bit_simps less_diff_conv2 not_less dest: bit_imp_le_length)

lemma join_u4: "scast (push_bit 24 (ucast (ucast (drop_bit 24 x) :: u1)) :: 32 word) OR
    scast (push_bit 16 (ucast (ucast (drop_bit 16 x) :: u1)) :: 32 word) OR
    scast (push_bit 8 (ucast (ucast (drop_bit 8 x) :: u1)) :: 32 word) OR
    scast (ucast (ucast x :: u1) :: 32 word) = (x :: u4)"
  by (rule bit_word_eqI)
    (auto simp: bit_simps less_diff_conv2 not_less dest: bit_imp_le_length;
     metis le_add_diff_inverse linorder_not_less)

lemma loop_unfold:
  "ParseUnsignedInt_loop 2 = ParseUnsignedInt_loop (Suc (Suc 0))"
  "ParseUnsignedInt_loop 4 = ParseUnsignedInt_loop (Suc (Suc (Suc (Suc 0))))"
  by (simp_all add: numeral_eq_Suc)

lemma parses_u1: "parses ParseUnsignedInt (emit_u1 x) x"
proof (rule parsesI)
  fix pre post
  have "scast (ucast x :: 32 word) = x"
    by (rule bit_word_eqI) (auto simp: bit_simps dest: bit_imp_le_length)
  then show "ParseUnsignedInt (pre @ emit_u1 x @ post) (length pre) = Inr (x, length pre + length (emit_u1 x))"
    by (simp add: ParseUnsignedInt_def emit_u1_def shift_int_def)
qed

lemma parses_u2: "parses ParseUnsignedInt (emit_u2 x) x"
  using join_u2 [of x]
  by (intro parsesI) (simp add: ParseUnsignedInt_def emit_u2_def shift_int_def loop_unfold or.assoc)

lemma parses_u4: "parses ParseUnsignedInt (emit_u4 x) x"
  using join_u4 [of x]
  by (intro parsesI)
    (simp add: ParseUnsignedInt_def emit_u4_def shift_int_def loop_unfold or.assoc)

lemmas parses_u1_bind = parses_bind [OF parses_u1]
lemmas parses_u2_bind = parses_bind [OF parses_u2]
lemmas parses_u4_bind = parses_bind [OF parses_u4]
lemmas parses_u2_ret = parses_bind_ret [OF parses_u2]

lemma parses_bytes: "parses (\<lambda>d. ParseBytes d (length bs)) bs bs"
  by (rule parsesI) (simp add: ParseBytes_def)

lemma parses_count:
  assumes "length xs < 2 ^ 16" and "\<And>x. x \<in> set xs \<Longrightarrow> parses p (em x) x"
  shows "parses (\<lambda>d. bind (ParseUnsignedInt d) (\<lambda>n::u2. repeat_op (unat n) (p d)))
    (emit_u2 (of_nat (length xs)) @ concat (map em xs)) xs"
proof (rule parses_u2_bind)
  show "parses (\<lambda>d. repeat_op (unat (of_nat (length xs) :: u2)) (p d)) (concat (map em xs)) xs"
    using parses_repeat [of xs p em] assms by (simp add: unat_of_nat)
qed

text \<open>
  Eight bytes are never read: the first shift already moves a 32-bit \<open>int\<close> by 56 places.
\<close>

lemma parse_u8_undefined: "\<exists>m. (ParseUnsignedInt data :: (nat, u8) op) pos = Inl (Undefined m)"
proof -
  have "LENGTH(64) div 8 = Suc 7"
    by simp
  then have "(ParseUnsignedInt data :: (nat, u8) op) pos =
      (case ParseUnsignedInt_loop (Suc 7) data pos 0 of Inl e \<Rightarrow> Inl e | Inr t \<Rightarrow> Inr (t, pos + Suc 7))"
    by (simp only: ParseUnsignedInt_def Let_def)
  moreover have "shift_int b (7 * 8) = Inl (Undefined ''shift count'')" for b
    by (simp add: shift_int_def)
  ultimately show ?thesis
    by (cases "data_at data pos")
      (auto simp only: ParseUnsignedInt_loop.simps(2) sum.case data_at_def split: if_splits)
qed

section \<open>Constants and the constant pool\<close>

text \<open>
  The writer of a constant: its tag and its payload. Well-formed constants are those the format
  can hold; the two kinds with an eight-byte payload are left out, since the parser has no defined
  behaviour on them (\<open>parse_u8_undefined\<close>).
\<close>

fun emit_constant :: "constant_info \<Rightarrow> bytes" where
  "emit_constant (ConstantUtf8Info s) = emit_u1 1 @ emit_u2 (of_nat (length s)) @ bytes_of_string s"
| "emit_constant (ConstantIntegerInfo v) = emit_u1 3 @ emit_u4 v"
| "emit_constant (ConstantFloatInfo v) = emit_u1 4 @ emit_u4 v"
| "emit_constant (ConstantLongInfo v) = emit_u1 5 @ emit_u4 (hi32 v) @ emit_u4 (lo32 v)"
| "emit_constant (ConstantDoubleInfo v) = emit_u1 6 @ emit_u4 (hi32 v) @ emit_u4 (lo32 v)"
| "emit_constant (ConstantClassInfo i) = emit_u1 7 @ emit_u2 i"
| "emit_constant (ConstantStringInfo i) = emit_u1 8 @ emit_u2 i"
| "emit_constant (ConstantFieldRefInfo i j) = emit_u1 9 @ emit_u2 i @ emit_u2 j"
| "emit_constant (ConstantMethodRefInfo i j) = emit_u1 10 @ emit_u2 i @ emit_u2 j"
| "emit_constant (ConstantInterfaceMethodRefInfo i j) = emit_u1 11 @ emit_u2 i @ emit_u2 j"
| "emit_constant (ConstantNameAndTypeInfo i j) = emit_u1 12 @ emit_u2 i @ emit_u2 j"
| "emit_constant (ConstantMethodHandleInfo k i) = emit_u1 15 @ emit_u1 k @ emit_u2 i"
| "emit_constant (ConstantMethodTypeInfo i) = emit_u1 16 @ emit_u2 i"
| "emit_constant (ConstantDynamicInfo i j) = emit_u1 17 @ emit_u2 i @ emit_u2 j"
| "emit_constant (ConstantInvokeDynamicInfo i j) = emit_u1 18 @ emit_u2 i @ emit_u2 j"
| "emit_constant (ConstantModuleInfo i) = emit_u1 19 @ emit_u2 i"
| "emit_constant (ConstantPackageInfo i) = emit_u1 20 @ emit_u2 i"

definition wf_constant :: "constant_info \<Rightarrow> bool" where
  "wf_constant c \<longleftrightarrow> \<not> takes_two_entries c \<and>
     (case c of ConstantUtf8Info s \<Rightarrow> length s < 2 ^ 16 | _ \<Rightarrow> True)"

lemma parses_tagged:
  assumes "CreateConstantInfo (unat tag) = Inr q" and "parses q bs c"
  shows "parses ParseConstantInfo (emit_u1 tag @ bs) c"
  unfolding ParseConstantInfo_def
  by (rule parses_u1_bind)
    (rule parses_lift_res [OF assms(1), where f = "\<lambda>d q. q d"], rule assms(2))

lemma parses_parse_u2: "k i = c \<Longrightarrow> parses (\<lambda>d. parse_u2 d k) (emit_u2 i) c"
  unfolding parse_u2_def by (rule parses_u2_ret)

lemma parses_parse_u2_u2: "k i j = c \<Longrightarrow> parses (\<lambda>d. parse_u2_u2 d k) (emit_u2 i @ emit_u2 j) c"
  unfolding parse_u2_u2_def by (rule parses_u2_bind) (rule parses_u2_ret)

lemma parses_utf8:
  assumes "length s < 2 ^ 16"
  shows "parses ParseUtf8Info (emit_u2 (of_nat (length s)) @ bytes_of_string s) (ConstantUtf8Info s)"
  unfolding ParseUtf8Info_def
proof (rule parses_u2_bind, rule parses_bind_ret)
  show "parses (\<lambda>d. ParseBytes d (unat (of_nat (length s) :: u2))) (bytes_of_string s) (bytes_of_string s)"
    using parses_bytes [of "bytes_of_string s"] assms by (simp add: unat_of_nat)
qed simp

lemma parses_method_handle:
  "parses ParseMethodHandleInfo (emit_u1 k @ emit_u2 i) (ConstantMethodHandleInfo k i)"
  unfolding ParseMethodHandleInfo_def
  by (rule parses_u1_bind) (rule parses_u2_ret, rule refl)

lemma parses_int_float:
  "parses ParseIntegerInfo (emit_u4 v) (ConstantIntegerInfo v)"
  "parses ParseFloatInfo (emit_u4 v) (ConstantFloatInfo v)"
  unfolding ParseIntegerInfo_def ParseFloatInfo_def
  by (rule parses_bind_ret [OF parses_u4], rule refl)+

lemmas u2_reader_defs =
  ParseClassInfo_def ParseStringInfo_def ParseMemberRefInfo_def ParseNameAndTypeInfo_def
  ParseMethodTypeInfo_def ParseDynamicInfo_def ParseInvokeDynamicInfo_def ParseModuleInfo_def
  ParsePackageInfo_def

lemma parses_constant:
  assumes "wf_constant c"
  shows "parses ParseConstantInfo (emit_constant c) c"
  using assms
  by (cases c)
    (auto simp: wf_constant_def takes_two_entries_def CreateConstantInfo_def u2_reader_defs [abs_def]
      intro!: parses_tagged parses_utf8 parses_int_float parses_parse_u2 parses_parse_u2_u2
        parses_method_handle)

definition emit_constant_pool :: "constant_info list \<Rightarrow> bytes" where
  "emit_constant_pool cs = emit_u2 (of_nat (length cs + 1)) @ concat (map emit_constant cs)"

definition pool_of :: "constant_info list \<Rightarrow> constant_pool" where
  "pool_of cs = \<lparr>cp_count = of_nat (length cs + 1), cp_infos = None # map Some cs\<rparr>"

lemma parses_pool_loop:
  assumes "\<forall>c \<in> set cs. wf_constant c" and "count = i + length cs"
  shows "parses (\<lambda>d. ParseConstantPool_loop d count i infos) (concat (map emit_constant cs))
    (infos @ map Some cs)"
  using assms
proof (induction cs arbitrary: i infos)
  case Nil
  then show ?case
    by (simp add: parses_def ParseConstantPool_loop.simps)
next
  case (Cons c cs)
  show ?case
  proof (rule parsesI)
    fix pre post
    let ?data = "pre @ concat (map emit_constant (c # cs)) @ post"
    have c: "ParseConstantInfo ?data (length pre) = Inr (c, length (pre @ emit_constant c))"
      using parsesD [OF parses_constant, of c pre "concat (map emit_constant cs) @ post"] Cons.prems by simp
    have cs: "ParseConstantPool_loop ?data count (i + 1) (infos @ [Some c]) (length (pre @ emit_constant c)) =
        Inr (infos @ map Some (c # cs), length pre + length (concat (map emit_constant (c # cs))))"
      using parsesD [OF Cons.IH [of "i + 1" "infos @ [Some c]"], of "pre @ emit_constant c" post] Cons.prems
      by simp
    have "\<not> takes_two_entries c"
      using Cons.prems by (simp add: wf_constant_def)
    with c cs Cons.prems show "ParseConstantPool_loop ?data count i infos (length pre) =
        Inr (infos @ map Some (c # cs), length pre + length (concat (map emit_constant (c # cs))))"
      by (subst ParseConstantPool_loop.simps) simp
  qed
qed

lemma parses_constant_pool:
  assumes "\<forall>c \<in> set cs. wf_constant c" and "length cs + 1 < 2 ^ 16"
  shows "parses ParseConstantPool (emit_constant_pool cs) (pool_of cs)"
  unfolding ParseConstantPool_def emit_constant_pool_def
proof (rule parses_u2_bind, rule parses_bind_ret)
  have "unat (of_nat (length cs + 1) :: u2) = 1 + length cs"
    using assms(2) by (subst unat_of_nat) simp
  then show "parses (\<lambda>d. ParseConstantPool_loop d (unat (of_nat (length cs + 1) :: u2)) 1 [None])
      (concat (map emit_constant cs)) ([None] @ map Some cs)"
    by (intro parses_pool_loop assms)
qed (simp add: pool_of_def)

section \<open>Attributes\<close>

definition emit_exception_entry :: "exception_entry \<Rightarrow> bytes" where
  "emit_exception_entry e =
     emit_u2 (ee_start_pc e) @ emit_u2 (ee_end_pc e) @ emit_u2 (ee_handler_pc e) @ emit_u2 (ee_catch_type e)"

definition emit_line_number_entry :: "line_number_entry \<Rightarrow> bytes" where
  "emit_line_number_entry e = emit_u2 (ln_start_pc e) @ emit_u2 (ln_line_number e)"

definition emit_local_variable_entry :: "local_variable_entry \<Rightarrow> bytes" where
  "emit_local_variable_entry e =
     emit_u2 (lv_start_pc e) @ emit_u2 (lv_length e) @ emit_u2 (lv_name_index e) @
     emit_u2 (lv_descriptor_index e) @ emit_u2 (lv_index e)"

definition emit_list :: "('a \<Rightarrow> bytes) \<Rightarrow> 'a list \<Rightarrow> bytes" where
  "emit_list em xs = emit_u2 (of_nat (length xs)) @ concat (map em xs)"

text \<open>The names under which the parser recognises an attribute.\<close>

fun attr_name :: "attribute_info \<Rightarrow> string" where
  "attr_name (CodeAttributeInfo _ _ _ _ _) = ''Code''"
| "attr_name (ConstantValueAttributeInfo _) = ''ConstantValue''"
| "attr_name DeprecatedAttributeInfo = ''DepreCated''"
| "attr_name (ExceptionsAttributeInfo _) = ''Exceptions''"
| "attr_name (LineNumberTableAttributeInfo _) = ''LineNumberTable''"
| "attr_name (LocalVariableTableAttributeInfo _) = ''LocalVariableTable''"
| "attr_name (SourceFileAttributeInfo _) = ''SourceFile''"
| "attr_name SyntheticAttributeInfo = ''Synthetic''"
| "attr_name (UnparsedAttributeInfo name _) = name"

definition known_attr_names :: "string list" where
  "known_attr_names = [''Code'', ''ConstantValue'', ''DepreCated'', ''Exceptions'', ''LineNumberTable'',
     ''LocalVariableTable'', ''SourceFile'', ''Synthetic'']"

definition with_header :: "(string \<Rightarrow> u2) \<Rightarrow> string \<Rightarrow> bytes \<Rightarrow> bytes" where
  "with_header ix name body = emit_u2 (ix name) @ emit_u4 (of_nat (length body)) @ body"

fun emit_attribute :: "(string \<Rightarrow> u2) \<Rightarrow> attribute_info \<Rightarrow> bytes" where
  "emit_attribute ix (CodeAttributeInfo ms ml codes ets as) =
     with_header ix ''Code''
       (emit_u2 ms @ emit_u2 ml @ emit_u4 (of_nat (length codes)) @ codes @
        emit_list emit_exception_entry ets @
        emit_u2 (of_nat (length as)) @ concat (map (emit_attribute ix) as))"
| "emit_attribute ix (ConstantValueAttributeInfo i) = with_header ix ''ConstantValue'' (emit_u2 i)"
| "emit_attribute ix DeprecatedAttributeInfo = with_header ix ''DepreCated'' []"
| "emit_attribute ix (ExceptionsAttributeInfo is) = with_header ix ''Exceptions'' (emit_list emit_u2 is)"
| "emit_attribute ix (LineNumberTableAttributeInfo es) =
     with_header ix ''LineNumberTable'' (emit_list emit_line_number_entry es)"
| "emit_attribute ix (LocalVariableTableAttributeInfo es) =
     with_header ix ''LocalVariableTable'' (emit_list emit_local_variable_entry es)"
| "emit_attribute ix (SourceFileAttributeInfo i) = with_header ix ''SourceFile'' (emit_u2 i)"
| "emit_attribute ix SyntheticAttributeInfo = with_header ix ''Synthetic'' []"
| "emit_attribute ix (UnparsedAttributeInfo name info) = with_header ix name info"

text \<open>
  A well-formed attribute: its name is in the pool at the index the writer uses, its lists have a
  16-bit length, and an attribute kept unparsed does not have the name of a parsed one.
\<close>

fun wf_attribute :: "(string \<Rightarrow> u2) \<Rightarrow> constant_pool \<Rightarrow> attribute_info \<Rightarrow> bool" where
  "wf_attribute ix cp (CodeAttributeInfo ms ml codes ets as) \<longleftrightarrow>
     GetUtf8 cp (ix ''Code'') = Inr ''Code'' \<and> length codes < 2 ^ 32 \<and> length ets < 2 ^ 16 \<and>
     length as < 2 ^ 16 \<and> list_all (wf_attribute ix cp) as"
| "wf_attribute ix cp (ExceptionsAttributeInfo is) \<longleftrightarrow>
     GetUtf8 cp (ix ''Exceptions'') = Inr ''Exceptions'' \<and> length is < 2 ^ 16"
| "wf_attribute ix cp (LineNumberTableAttributeInfo es) \<longleftrightarrow>
     GetUtf8 cp (ix ''LineNumberTable'') = Inr ''LineNumberTable'' \<and> length es < 2 ^ 16"
| "wf_attribute ix cp (LocalVariableTableAttributeInfo es) \<longleftrightarrow>
     GetUtf8 cp (ix ''LocalVariableTable'') = Inr ''LocalVariableTable'' \<and> length es < 2 ^ 16"
| "wf_attribute ix cp (UnparsedAttributeInfo name info) \<longleftrightarrow>
     GetUtf8 cp (ix name) = Inr name \<and> length info < 2 ^ 32 \<and> name \<notin> set known_attr_names"
| "wf_attribute ix cp a \<longleftrightarrow> GetUtf8 cp (ix (attr_name a)) = Inr (attr_name a)"

fun attr_depth :: "attribute_info \<Rightarrow> nat" where
  "attr_depth (CodeAttributeInfo _ _ _ _ as) = Suc (foldr (\<lambda>a n. max (attr_depth a) n) as 0)"
| "attr_depth _ = 1"

lemma attr_depth_in: "a \<in> set as \<Longrightarrow> attr_depth a \<le> foldr (\<lambda>a n. max (attr_depth a) n) as 0"
  by (induction as) auto

lemma length_emit_u [simp]:
  "length (emit_u1 x) = 1" "length (emit_u2 y) = 2" "length (emit_u4 z) = 4"
  by (simp_all add: emit_u1_def emit_u2_def emit_u4_def)

lemma depth_list_bound:
  "(\<And>a. a \<in> set as \<Longrightarrow> attr_depth a \<le> length (em a)) \<Longrightarrow>
   foldr (\<lambda>a n. max (attr_depth a) n) as 0 \<le> length (concat (map em as))"
  by (induction as) (auto intro: le_SucI add_increasing2 max.boundedI trans_le_add1 trans_le_add2)

lemma attr_depth_bound: "attr_depth a \<le> length (emit_attribute ix a)"
proof (induction a)
  case (CodeAttributeInfo ms ml codes ets as)
  then have "foldr (\<lambda>a n. max (attr_depth a) n) as 0 \<le> length (concat (map (emit_attribute ix) as))"
    by (intro depth_list_bound)
  then show ?case
    by (simp add: with_header_def)
qed (simp_all add: with_header_def)

lemma parses_exception_entry: "parses ParseExceptionEntry (emit_exception_entry e) e"
  unfolding ParseExceptionEntry_def emit_exception_entry_def
  by (intro parses_u2_bind parses_u2_ret) simp

lemma parses_line_number_entry: "parses ParseLineNumberEntry (emit_line_number_entry e) e"
  unfolding ParseLineNumberEntry_def emit_line_number_entry_def
  by (intro parses_u2_bind parses_u2_ret) simp

lemma parses_local_variable_entry: "parses ParseLocalVariableEntry (emit_local_variable_entry e) e"
  unfolding ParseLocalVariableEntry_def emit_local_variable_entry_def
  by (intro parses_u2_bind parses_u2_ret) simp

lemma parses_list:
  assumes "length xs < 2 ^ 16" and "\<And>x. x \<in> set xs \<Longrightarrow> parses p (em x) x"
  shows "parses (\<lambda>d. bind (ParseUnsignedInt d) (\<lambda>n::u2. repeat_op (unat n) (p d))) (emit_list em xs) xs"
  unfolding emit_list_def by (rule parses_count [OF assms])

lemma parses_list_ret:
  assumes "length xs < 2 ^ 16" and "\<And>x. x \<in> set xs \<Longrightarrow> parses p (em x) x" and "k xs = y"
  shows "parses (\<lambda>d. bind (ParseUnsignedInt d) (\<lambda>n::u2. bind (repeat_op (unat n) (p d)) (\<lambda>xs. ret (k xs))))
    (emit_list em xs) y"
  using parses_bind_ret [OF parses_list [OF assms(1,2)], where g = k and y = y] assms(3)
  by (simp add: bind_assoc)

lemma parses_attribute_header:
  assumes "GetUtf8 cp i = Inr name"
  shows "parses (\<lambda>d. ParseAttributeHeader d cp) (emit_u2 i @ emit_u4 len) (name, len)"
  unfolding ParseAttributeHeader_def
  by (rule parses_u2_bind, rule parses_lift_res [OF assms], rule parses_bind_ret [OF parses_u4], rule refl)

lemma parses_exception_table:
  "length ets < 2 ^ 16 \<Longrightarrow> parses ParseExceptionTable (emit_list emit_exception_entry ets) ets"
  unfolding ParseExceptionTable_def by (rule parses_list) (auto intro: parses_exception_entry)

lemma parses_code_header:
  assumes "length codes < 2 ^ 32" and "length ets < 2 ^ 16"
  shows "parses ParseCodeHeader
    (emit_u2 ms @ emit_u2 ml @ emit_u4 (of_nat (length codes)) @ codes @
     emit_list emit_exception_entry ets @ emit_u2 n) (ms, ml, codes, ets, n)"
  unfolding ParseCodeHeader_def
proof (rule parses_u2_bind, rule parses_u2_bind, rule parses_u4_bind, rule parses_bind)
  show "parses (\<lambda>d. ParseBytes d (unat (of_nat (length codes) :: u4))) codes codes"
    using parses_bytes [of codes] assms(1) by (simp add: unat_of_nat)
qed (rule parses_bind [OF parses_exception_table [OF assms(2)]], rule parses_u2_ret, rule refl)

text \<open>Inside an attribute, what follows the header is read by the parser of its name.\<close>

lemma parse_attribute_Suc:
  "parse_attribute (Suc k) data cp =
     bind (ParseAttributeHeader data cp) (\<lambda>(name, len).
       if name = ''Code'' then
         bind (ParseCodeHeader data) (\<lambda>(ms, ml, codes, ets, n).
         bind (parse_attributes k data cp (unat n)) (\<lambda>as. ret (CodeAttributeInfo ms ml codes ets as)))
       else CreateAttributeInfo name len data)"
  by (rule ext) (auto simp: bind_def ret_def split: sum.splits prod.splits)

lemma parse_attributes_repeat: "parse_attributes k data cp n = repeat_op n (parse_attribute k data cp)"
  by (induction n) (auto simp: bind_def ret_def split: sum.splits prod.splits)

lemma parses_headed:
  assumes "GetUtf8 cp (ix name) = Inr name" and "name \<noteq> ''Code''"
    and "parses (CreateAttributeInfo name (of_nat (length body))) body a"
  shows "parses (\<lambda>d. parse_attribute (Suc k) d cp) (with_header ix name body) a"
proof -
  have "parses (\<lambda>d. bind (ParseAttributeHeader d cp) (\<lambda>(name, len).
       if name = ''Code'' then
         bind (ParseCodeHeader d) (\<lambda>(ms, ml, codes, ets, n).
         bind (parse_attributes k d cp (unat n)) (\<lambda>as. ret (CodeAttributeInfo ms ml codes ets as)))
       else CreateAttributeInfo name len d)) ((emit_u2 (ix name) @ emit_u4 (of_nat (length body))) @ body) a"
    by (rule parses_bind [OF parses_attribute_header [OF assms(1)]]) (use assms in simp)
  then show ?thesis
    by (simp add: parse_attribute_Suc with_header_def)
qed

lemma parses_code_attribute:
  assumes "GetUtf8 cp (ix ''Code'') = Inr ''Code''" and "length codes < 2 ^ 32" and "length ets < 2 ^ 16"
    and "length as < 2 ^ 16"
    and "\<And>a. a \<in> set as \<Longrightarrow> parses (\<lambda>d. parse_attribute k d cp) (emit_attribute ix a) a"
  shows "parses (\<lambda>d. parse_attribute (Suc k) d cp)
    (emit_attribute ix (CodeAttributeInfo ms ml codes ets as)) (CodeAttributeInfo ms ml codes ets as)"
proof -
  let ?a = "CodeAttributeInfo ms ml codes ets as"
  let ?head = "emit_u2 ms @ emit_u2 ml @ emit_u4 (of_nat (length codes)) @ codes @
      emit_list emit_exception_entry ets @ emit_u2 (of_nat (length as))"
  let ?tail = "concat (map (emit_attribute ix) as)"
  have "unat (of_nat (length as) :: u2) = length as"
    using assms(4) by (simp add: unat_of_nat)
  then have tail: "parses (\<lambda>d. parse_attributes k d cp (unat (of_nat (length as) :: u2))) ?tail as"
    using parses_repeat [OF assms(5)] by (simp add: parse_attributes_repeat)
  have body: "parses (\<lambda>d. bind (ParseCodeHeader d) (\<lambda>(ms, ml, codes, ets, n).
         bind (parse_attributes k d cp (unat n)) (\<lambda>as. ret (CodeAttributeInfo ms ml codes ets as))))
      (?head @ ?tail) ?a"
    by (rule parses_bind [OF parses_code_header [OF assms(2,3)]])
      (simp add: parses_bind_ret [OF tail])
  have "parses (\<lambda>d. bind (ParseAttributeHeader d cp) (\<lambda>(name, len).
       if name = ''Code'' then
         bind (ParseCodeHeader d) (\<lambda>(ms, ml, codes, ets, n).
         bind (parse_attributes k d cp (unat n)) (\<lambda>as. ret (CodeAttributeInfo ms ml codes ets as)))
       else CreateAttributeInfo name len d))
      ((emit_u2 (ix ''Code'') @ emit_u4 (of_nat (length (?head @ ?tail)))) @ ?head @ ?tail) ?a"
    by (rule parses_bind [OF parses_attribute_header [OF assms(1)]]) (use body in simp)
  then show ?thesis
    by (simp add: parse_attribute_Suc with_header_def)
qed

lemma parses_unparsed:
  "length info < 2 ^ 32 \<Longrightarrow>
   parses (\<lambda>d. ParseUnparsed d name (of_nat (length info))) info (UnparsedAttributeInfo name info)"
  unfolding ParseUnparsed_def
  by (rule parses_bind_ret [where x = info]) (use parses_bytes [of info] in \<open>simp_all add: unat_of_nat\<close>)

lemmas table_readers = ParseExceptions_def [abs_def] ParseLineNumberTable_def [abs_def]
  ParseLocalVariableTable_def [abs_def] ParseConstantValue_def [abs_def] ParseSourceFile_def [abs_def]

lemma parses_tables:
  "length is < 2 ^ 16 \<Longrightarrow> parses ParseExceptions (emit_list emit_u2 is) (ExceptionsAttributeInfo is)"
  "length ls < 2 ^ 16 \<Longrightarrow>
   parses ParseLineNumberTable (emit_list emit_line_number_entry ls) (LineNumberTableAttributeInfo ls)"
  "length vs < 2 ^ 16 \<Longrightarrow>
   parses ParseLocalVariableTable (emit_list emit_local_variable_entry vs) (LocalVariableTableAttributeInfo vs)"
  unfolding table_readers
  by (rule parses_list_ret; simp add: parses_u2 parses_line_number_entry parses_local_variable_entry)+

lemma parses_indexed:
  "parses ParseConstantValue (emit_u2 i) (ConstantValueAttributeInfo i)"
  "parses ParseSourceFile (emit_u2 i) (SourceFileAttributeInfo i)"
  unfolding table_readers by (rule parses_parse_u2, rule refl)+

lemma CreateAttributeInfo_names:
  "CreateAttributeInfo ''ConstantValue'' len = ParseConstantValue"
  "CreateAttributeInfo ''DepreCated'' len = (\<lambda>d. ret DeprecatedAttributeInfo)"
  "CreateAttributeInfo ''Exceptions'' len = ParseExceptions"
  "CreateAttributeInfo ''LineNumberTable'' len = ParseLineNumberTable"
  "CreateAttributeInfo ''LocalVariableTable'' len = ParseLocalVariableTable"
  "CreateAttributeInfo ''SourceFile'' len = ParseSourceFile"
  "CreateAttributeInfo ''Synthetic'' len = (\<lambda>d. ret SyntheticAttributeInfo)"
  "name \<notin> set known_attr_names \<Longrightarrow> CreateAttributeInfo name len = (\<lambda>d. ParseUnparsed d name len)"
  by (rule ext, simp add: CreateAttributeInfo_def known_attr_names_def)+

declare parse_attribute.simps(2) [simp del]

text \<open>Round trip of one attribute, for every nesting bound that reaches its depth.\<close>

lemma attr_depth_pos: "0 < attr_depth a"
  by (cases a) simp_all

lemma parses_attribute:
  "wf_attribute ix cp a \<Longrightarrow> attr_depth a \<le> Suc k \<Longrightarrow>
   parses (\<lambda>d. parse_attribute (Suc k) d cp) (emit_attribute ix a) a"
proof (induction a arbitrary: k)
  case (CodeAttributeInfo ms ml codes ets as)
  have "parses (\<lambda>d. parse_attribute k d cp) (emit_attribute ix a) a" if a: "a \<in> set as" for a
  proof -
    have "attr_depth a \<le> k"
      using attr_depth_in [OF a] CodeAttributeInfo.prems by simp
    with attr_depth_pos [of a] obtain j where "k = Suc j" and "attr_depth a \<le> Suc j"
      by (cases k) auto
    with CodeAttributeInfo a show ?thesis
      by (auto simp: list_all_iff)
  qed
  with CodeAttributeInfo.prems show ?case
    by (intro parses_code_attribute) auto
next
  case (UnparsedAttributeInfo name info)
  then show ?case
    by (auto simp: CreateAttributeInfo_names known_attr_names_def intro!: parses_headed parses_unparsed)
qed (simp_all add: parses_headed CreateAttributeInfo_names parses_tables parses_indexed parses_ret)

lemma parses_ParseAttributeInfo:
  assumes "wf_attribute ix cp a"
  shows "parses (\<lambda>d. ParseAttributeInfo d cp) (emit_attribute ix a) a"
proof (rule parsesI)
  fix pre post
  let ?data = "pre @ emit_attribute ix a @ post"
  have "attr_depth a \<le> Suc (length ?data)"
    using attr_depth_bound [of a ix] by simp
  from parsesD [OF parses_attribute [OF assms this], of pre post]
  show "ParseAttributeInfo ?data cp (length pre) = Inr (a, length pre + length (emit_attribute ix a))"
    by (simp add: ParseAttributeInfo_def)
qed

section \<open>The nesting bound is immaterial\<close>

text \<open>
  \<open>within data m\<close>: the parser \<open>m\<close> never moves back, and when it moves it stays in the data. Every
  nested attribute starts at least six bytes after the one around it, so the size of the data
  bounds the nesting, and a larger bound gives the same result on every input, malformed ones too.
\<close>

definition within :: "bytes \<Rightarrow> (nat, 'a) op \<Rightarrow> bool" where
  "within data m \<longleftrightarrow> (\<forall>pos x p. m pos = Inr (x, p) \<longrightarrow> pos \<le> p \<and> (pos < p \<longrightarrow> p \<le> length data))"

lemma withinD: "within data m \<Longrightarrow> m pos = Inr (x, p) \<Longrightarrow> pos \<le> p \<and> (pos < p \<longrightarrow> p \<le> length data)"
  by (simp add: within_def)

lemma within_ret: "within data (ret x)"
  by (simp add: within_def ret_def)

lemma within_lift_res: "within data (lift_res r)"
  by (simp add: within_def lift_res_def split: sum.splits)

lemma within_bind:
  assumes "within data m" and "\<And>x. within data (f x)"
  shows "within data (bind m f)"
  unfolding within_def
proof (intro allI impI)
  fix pos y p assume "bind m f pos = Inr (y, p)"
  then obtain x q where "m pos = Inr (x, q)" and "f x q = Inr (y, p)"
    by (rule bind_InrE)
  then have "pos \<le> q \<and> (pos < q \<longrightarrow> q \<le> length data)" and "q \<le> p \<and> (q < p \<longrightarrow> p \<le> length data)"
    using withinD [OF assms(1)] withinD [OF assms(2)] by blast+
  then show "pos \<le> p \<and> (pos < p \<longrightarrow> p \<le> length data)"
    by linarith
qed

lemma within_repeat: "within data m \<Longrightarrow> within data (repeat_op n m)"
  by (induction n) (auto intro!: within_bind within_ret)

lemma loop_in_data:
  "ParseUnsignedInt_loop n data p t = Inr r \<Longrightarrow> 0 < n \<Longrightarrow> p + n \<le> length data"
proof (induction n data p t arbitrary: r rule: ParseUnsignedInt_loop.induct)
  case (2 n data p t)
  then show ?case
    by (cases n) (auto simp: data_at_def split: sum.splits if_splits)
qed simp

lemma ParseUnsignedInt_moves:
  assumes "(ParseUnsignedInt data :: (nat, 'w::len word) op) pos = Inr (x, p)"
  shows "p = pos + LENGTH('w) div 8 \<and> (pos < p \<longrightarrow> p \<le> length data)"
  using assms loop_in_data [of "LENGTH('w) div 8" data pos "0 :: 'w word"]
  by (auto simp: ParseUnsignedInt_def Let_def split: sum.splits)

lemma within_ParseUnsignedInt: "within data (ParseUnsignedInt data)"
  unfolding within_def using ParseUnsignedInt_moves by fastforce

lemma within_ParseBytes: "within data (ParseBytes data n)"
  by (auto simp: within_def ParseBytes_def)

lemmas within_rules = within_bind within_ret within_lift_res within_repeat within_ParseUnsignedInt
  within_ParseBytes

lemmas attribute_readers = table_readers ParseExceptionTable_def ParseExceptionEntry_def
  ParseLineNumberEntry_def ParseLocalVariableEntry_def parse_u2_def ParseUnparsed_def

lemma within_CreateAttributeInfo: "within data (CreateAttributeInfo name len data)"
  unfolding CreateAttributeInfo_def attribute_readers by (auto intro!: within_rules)

lemma within_ParseCodeHeader: "within data (ParseCodeHeader data)"
  unfolding ParseCodeHeader_def attribute_readers by (intro within_rules)

lemma within_ParseAttributeHeader: "within data (ParseAttributeHeader data cp)"
  unfolding ParseAttributeHeader_def by (intro within_rules)

lemma header_moves:
  assumes "ParseAttributeHeader data cp pos = Inr (h, p)"
  shows "pos < p \<and> p \<le> length data"
proof -
  let ?m = "\<lambda>i. bind (lift_res (GetUtf8 cp i)) (\<lambda>attr_name.
      bind (ParseUnsignedInt data) (\<lambda>attr_len::u4. ret (attr_name, attr_len)))"
  obtain i q where "(ParseUnsignedInt data :: (nat, u2) op) pos = Inr (i, q)"
    and rest: "?m i q = Inr (h, p)"
    using assms unfolding ParseAttributeHeader_def by (rule bind_InrE)
  then have "pos < q" and "q \<le> length data"
    using ParseUnsignedInt_moves by fastforce+
  moreover have "within data (?m i)"
    by (intro within_rules)
  then have "q \<le> p" and "q < p \<longrightarrow> p \<le> length data"
    using withinD [of data "?m i" q h p] rest by auto
  ultimately show ?thesis by linarith
qed

lemma within_parse_attribute: "within data (parse_attribute k data cp)"
proof (induction k)
  case 0
  show ?case by (simp add: within_def)
next
  case (Suc k)
  then have "within data (parse_attributes k data cp n)" for n
    by (simp add: parse_attributes_repeat within_repeat)
  then show ?case
    unfolding parse_attribute_Suc
    by (auto intro!: within_rules within_ParseAttributeHeader within_ParseCodeHeader
      within_CreateAttributeInfo split: prod.split)
qed

lemma parse_attribute_more:
  "length data - pos < k \<Longrightarrow> parse_attribute (Suc k) data cp pos = parse_attribute k data cp pos"
proof (induction k arbitrary: pos)
  case (Suc k)
  have list: "parse_attributes (Suc k) data cp n q = parse_attributes k data cp n q"
    if "length data - q < k" for n q
    using that
  proof (induction n arbitrary: q)
    case (Suc n)
    have "length data - r < k" if "parse_attribute k data cp q = Inr (a, r)" for a r
      using withinD [OF within_parse_attribute that] Suc.prems by linarith
    with Suc \<open>\<And>pos. length data - pos < k \<Longrightarrow> parse_attribute (Suc k) data cp pos = parse_attribute k data cp pos\<close>
    show ?case
      by (auto split: sum.split)
  qed simp
  show ?case
  proof (cases "ParseAttributeHeader data cp pos")
    case (Inr hp)
    obtain name len p1 where hp: "hp = ((name, len), p1)"
      by (cases hp) auto
    have p1: "pos < p1" "p1 \<le> length data"
      using header_moves Inr hp by blast+
    have "length data - p2 < k" if "ParseCodeHeader data p1 = Inr (c, p2)" for c p2
      using withinD [OF within_ParseCodeHeader that] p1 Suc.prems by linarith
    with Inr hp list show ?thesis
      by (auto simp: parse_attribute.simps(2) split: sum.split)
  qed (simp add: parse_attribute.simps(2))
qed simp

lemma parse_attribute_enough:
  assumes "length data < k"
  shows "parse_attribute k data cp pos = ParseAttributeInfo data cp pos"
proof -
  have "parse_attribute (Suc (length data) + n) data cp pos = ParseAttributeInfo data cp pos" for n
    by (induction n) (auto simp: ParseAttributeInfo_def parse_attribute_more)
  from this [of "k - Suc (length data)"] assms show ?thesis
    by simp
qed

section \<open>Members and the class file\<close>

definition emit_member :: "(string \<Rightarrow> u2) \<Rightarrow> member_info \<Rightarrow> bytes" where
  "emit_member ix m =
     emit_u2 (mi_access_flags m) @ emit_u2 (mi_name_index m) @ emit_u2 (mi_descriptor_index m) @
     emit_list (emit_attribute ix) (mi_attributes m)"

definition wf_member :: "(string \<Rightarrow> u2) \<Rightarrow> constant_pool \<Rightarrow> member_info \<Rightarrow> bool" where
  "wf_member ix cp m \<longleftrightarrow>
     length (mi_attributes m) < 2 ^ 16 \<and> list_all (wf_attribute ix cp) (mi_attributes m)"

lemma parses_member:
  assumes "wf_member ix cp m"
  shows "parses (\<lambda>d. ParseMember d cp) (emit_member ix m) m"
  unfolding ParseMember_def emit_member_def
  using assms
  by (intro parses_u2_bind parses_list_ret)
    (auto simp: wf_member_def list_all_iff intro: parses_ParseAttributeInfo)

definition emit_class_file :: "(string \<Rightarrow> u2) \<Rightarrow> constant_info list \<Rightarrow> class_file \<Rightarrow> bytes" where
  "emit_class_file ix cs cf =
     emit_u4 (cf_magic cf) @ (emit_u2 (cf_minor_version cf) @ emit_u2 (cf_major_version cf)) @
     emit_constant_pool cs @ emit_u2 (cf_access_flags cf) @ emit_u2 (cf_this_class cf) @
     emit_u2 (cf_super_class cf) @ emit_list emit_u2 (cf_interfaces cf) @
     emit_list (emit_member ix) (cf_fields cf) @ emit_list (emit_member ix) (cf_methods cf) @
     emit_list (emit_attribute ix) (cf_attributes cf)"

definition supported_version :: "u2 \<Rightarrow> u2 \<Rightarrow> bool" where
  "supported_version minor major \<longleftrightarrow> major = 45 \<or> 46 \<le> major \<and> major \<le> 52 \<and> minor = 0"

definition wf_class_file :: "(string \<Rightarrow> u2) \<Rightarrow> constant_info list \<Rightarrow> class_file \<Rightarrow> bool" where
  "wf_class_file ix cs cf \<longleftrightarrow>
     cf_magic cf = 0xCAFEBABE \<and> supported_version (cf_minor_version cf) (cf_major_version cf) \<and>
     list_all wf_constant cs \<and> length cs + 1 < 2 ^ 16 \<and> cf_constant_pool cf = pool_of cs \<and>
     length (cf_interfaces cf) < 2 ^ 16 \<and>
     length (cf_fields cf) < 2 ^ 16 \<and> list_all (wf_member ix (pool_of cs)) (cf_fields cf) \<and>
     length (cf_methods cf) < 2 ^ 16 \<and> list_all (wf_member ix (pool_of cs)) (cf_methods cf) \<and>
     length (cf_attributes cf) < 2 ^ 16 \<and> list_all (wf_attribute ix (pool_of cs)) (cf_attributes cf)"

lemma supported_major:
  "supported_version minor major \<longleftrightarrow> major = 45 \<or> major \<in> {46, 47, 48, 49, 50, 51, 52} \<and> minor = 0"
proof -
  have "(46 \<le> major \<and> major \<le> 52) = (major \<in> {46, 47, 48, 49, 50, 51, 52})"
    unfolding word_le_nat_alt word_unat_eq_iff insert_iff empty_iff by simp presburger
  then show ?thesis
    by (auto simp: supported_version_def)
qed

lemma parses_magic: "parses ParseAndCheckMagic (emit_u4 0xCAFEBABE) 0xCAFEBABE"
  unfolding ParseAndCheckMagic_def
  using parses_u4_bind [of "\<lambda>d magic. if magic \<noteq> 0xCAFEBABE then raise (Fatal ''Magic number wrong'') else ret magic"
      "0xCAFEBABE" "[]" "0xCAFEBABE"] parses_ret [of "0xCAFEBABE :: u4"] by simp

lemma parses_version:
  assumes "supported_version minor major"
  shows "parses ParseAndCheckVersion (emit_u2 minor @ emit_u2 major) (minor, major)"
proof -
  have "parses ParseAndCheckVersion (emit_u2 minor @ emit_u2 major @ []) (minor, major)"
    unfolding ParseAndCheckVersion_def
    by (rule parses_u2_bind, rule parses_u2_bind) (use assms parses_ret in \<open>auto simp: supported_major\<close>)
  then show ?thesis by simp
qed

lemma bad_version:
  assumes "\<not> supported_version minor major"
  shows "ParseAndCheckVersion (pre @ emit_u2 minor @ emit_u2 major @ post) (length pre) =
    Inl (Fatal ''java.lang.UnsupportedClassVersionError'')"
proof -
  let ?d = "pre @ emit_u2 minor @ emit_u2 major @ post"
  have "ParseUnsignedInt ?d (length pre) = Inr (minor, length pre + 2)"
    using parsesD [OF parses_u2 [of minor], of pre "emit_u2 major @ post"] by simp
  moreover have "ParseUnsignedInt ?d (length pre + 2) = Inr (major, length pre + 4)"
    using parsesD [OF parses_u2 [of major], of "pre @ emit_u2 minor" post] by simp
  ultimately show ?thesis
    using assms by (auto simp: ParseAndCheckVersion_def bind_def raise_def supported_major)
qed

lemma parses_members:
  "length ms < 2 ^ 16 \<Longrightarrow> list_all (wf_member ix cp) ms \<Longrightarrow>
   parses (\<lambda>d. ParseMembers d cp) (emit_list (emit_member ix) ms) ms"
  unfolding ParseMembers_def by (rule parses_list) (auto simp: list_all_iff intro: parses_member)

lemma parses_attribute_infos:
  "length as < 2 ^ 16 \<Longrightarrow> list_all (wf_attribute ix cp) as \<Longrightarrow>
   parses (\<lambda>d. ParseAttributeInfos d cp) (emit_list (emit_attribute ix) as) as"
  unfolding ParseAttributeInfos_def
  by (rule parses_list) (auto simp: list_all_iff intro: parses_ParseAttributeInfo)

lemma parses_interfaces:
  "length is < 2 ^ 16 \<Longrightarrow> parses ParseInterfaces (emit_list emit_u2 is) is"
  unfolding ParseInterfaces_def by (rule parses_list) (auto intro: parses_u2)

lemma parses_wf_pool:
  "wf_class_file ix cs cf \<Longrightarrow> parses ParseConstantPool (emit_constant_pool cs) (cf_constant_pool cf)"
  by (simp add: wf_class_file_def list_all_iff parses_constant_pool)

theorem Parse_emit:
  assumes wf: "wf_class_file ix cs cf"
  shows "Parse (emit_class_file ix cs cf @ rest) = Inr cf"
proof -
  let ?p = "\<lambda>data. bind (ParseAndCheckMagic data) (\<lambda>magic.
     bind (ParseAndCheckVersion data) (\<lambda>(minor, major).
     bind (ParseConstantPool data) (\<lambda>cp.
     bind (ParseAccessFlags data) (\<lambda>flags.
     bind (ParseThisClass data) (\<lambda>this_class.
     bind (ParseSuperClass data) (\<lambda>super_class.
     bind (ParseInterfaces data) (\<lambda>interfaces.
     bind (ParseFieldInfos data cp) (\<lambda>fields.
     bind (ParseMethodInfos data cp) (\<lambda>methods.
     bind (ParseAttributeInfos data cp) (\<lambda>attributes.
     ret \<lparr>cf_magic = magic, cf_minor_version = minor, cf_major_version = major,
          cf_constant_pool = cp, cf_access_flags = flags, cf_this_class = this_class,
          cf_super_class = super_class, cf_interfaces = interfaces, cf_fields = fields,
          cf_methods = methods, cf_attributes = attributes\<rparr>))))))))))"
  have magic: "cf_magic cf = 0xCAFEBABE" and version: "supported_version (cf_minor_version cf) (cf_major_version cf)"
    and pool: "cf_constant_pool cf = pool_of cs"
    using wf by (simp_all add: wf_class_file_def)
  have "parses ?p (emit_class_file ix cs cf) cf"
    unfolding emit_class_file_def ParseAccessFlags_def ParseThisClass_def ParseSuperClass_def
      ParseFieldInfos_def ParseMethodInfos_def
    apply (rule parses_bind, simp only: magic, rule parses_magic)
    apply (rule parses_bind, rule parses_version [OF version])
    apply (unfold prod.case)
    apply (rule parses_bind, rule parses_wf_pool [OF wf])
    apply (rule parses_u2_bind)+
    apply (rule parses_bind, rule parses_interfaces, use wf in \<open>simp add: wf_class_file_def\<close>)
    apply (rule parses_bind, rule parses_members; use wf in \<open>simp add: wf_class_file_def\<close>)
    apply (rule parses_bind, rule parses_members; use wf in \<open>simp add: wf_class_file_def\<close>)
    apply (rule parses_bind_ret, rule parses_attribute_infos; use wf in \<open>simp add: wf_class_file_def\<close>)
    done
  from parsesD [OF this, of "[]" rest] show ?thesis
    by (simp add: Parse_def)
qed

end
