(* ===== verification/Bytecode_Reader.thy ===== *)
theory Bytecode_Reader
  imports Class_File
begin

text \<open>
  \<open>src/src/instructions/base/bytecode_reader.h\<close>: a cursor over the code of a method. The cursor
  \<open>pc_\<close> is a signed 32-bit number; \<open>code_->at(pc_++)\<close> converts it to \<open>size_t\<close>, so that a
  negative cursor, like one past the end, makes \<open>at\<close> throw. The last section shows what the
  multi-byte reads return, that \<open>skipPadding\<close> reaches the next multiple of four, and that the
  reader never moves back.
\<close>

record bytecode_reader =
  br_code :: bytes
  br_pc :: "32 word"

definition reset :: "bytes \<Rightarrow> 32 word \<Rightarrow> bytecode_reader" where
  "reset codes pc = \<lparr>br_code = codes, br_pc = pc\<rparr>"

definition CurrentPc :: "bytecode_reader \<Rightarrow> 32 word" where
  "CurrentPc r = br_pc r"

definition code_at :: "bytes \<Rightarrow> 32 word \<Rightarrow> u1 res" where
  "code_at codes pc = (if 0 \<le> sint pc then vec_at codes (unat pc) else Inl Out_Of_Range)"

definition ReadUnsignedInt8 :: "(bytecode_reader, u1) op" where
  "ReadUnsignedInt8 = (\<lambda>r.
     case code_at (br_code r) (br_pc r) of
       Inl e \<Rightarrow> Inl e
     | Inr b \<Rightarrow> Inr (b, r\<lparr>br_pc := br_pc r + 1\<rparr>))"

definition ReadInt8 :: "(bytecode_reader, 8 word) op" where
  "ReadInt8 = ReadUnsignedInt8"

definition ReadUnsignedInt16 :: "(bytecode_reader, u2) op" where
  "ReadUnsignedInt16 =
     bind ReadUnsignedInt8 (\<lambda>b1. bind ReadUnsignedInt8 (\<lambda>b2.
     ret (ucast (push_bit 8 (ucast b1 :: 32 word) OR ucast b2))))"

definition ReadInt16 :: "(bytecode_reader, 16 word) op" where
  "ReadInt16 = ReadUnsignedInt16"

definition readInt32 :: "(bytecode_reader, 32 word) op" where
  "readInt32 =
     bind ReadUnsignedInt8 (\<lambda>b1. bind ReadUnsignedInt8 (\<lambda>b2.
     bind ReadUnsignedInt8 (\<lambda>b3. bind ReadUnsignedInt8 (\<lambda>b4.
     ret (push_bit 24 (ucast b1) OR push_bit 16 (ucast b2) OR push_bit 8 (ucast b3) OR ucast b4)))))"

text \<open>The loop \<open>for (int i = 0; i < n; i++)\<close> runs \<open>n\<close> times, and not at all for a negative \<open>n\<close>.\<close>

definition readInt32s :: "32 word \<Rightarrow> (bytecode_reader, 32 word list) op" where
  "readInt32s n = repeat_op (nat (sint n)) readInt32"

lemma ReadUnsignedInt8_pc:
  "ReadUnsignedInt8 r = Inr (b, r') \<Longrightarrow> r' = r\<lparr>br_pc := br_pc r + 1\<rparr>"
  by (auto simp: ReadUnsignedInt8_def split: sum.splits)

lemma unat_plus_1_mod_4: "unat (x + 1 :: 32 word) mod 4 = Suc (unat x) mod 4"
proof -
  have "unat (x + 1) = (unat x + 1) mod 2 ^ 32"
    by (simp add: unat_word_ariths)
  moreover have "(unat x + 1) mod 2 ^ 32 mod 4 = (unat x + 1) mod 4"
    by (rule mod_mod_cancel) simp
  ultimately show ?thesis by simp
qed

lemma padding_decreases:
  assumes "unat x mod 4 \<noteq> 0"
  shows "(4 - unat (x + 1 :: 32 word) mod 4) mod 4 < (4 - unat x mod 4) mod 4"
proof -
  have "unat x mod 4 < 4"
    by simp
  with assms show ?thesis
    unfolding unat_plus_1_mod_4 by (auto simp: mod_Suc)
qed

function skipPadding :: "(bytecode_reader, unit) op" where
  "skipPadding r =
     (if unat (br_pc r) mod 4 \<noteq> 0 then
        (case ReadUnsignedInt8 r of Inl e \<Rightarrow> Inl e | Inr (b, r') \<Rightarrow> skipPadding r')
      else Inr ((), r))"
  by pat_completeness auto
termination
proof (relation "measure (\<lambda>r. (4 - unat (br_pc r) mod 4) mod 4)", goal_cases)
  case (2 r v b r')
  then have "br_pc r' = br_pc r + 1"
    using ReadUnsignedInt8_pc [of r b r'] by auto
  then show ?case
    using 2(1) padding_decreases [of "br_pc r"] by simp
qed simp

declare skipPadding.simps [simp del]

section \<open>What the reads return\<close>

text \<open>\<open>reads m bs v\<close>: with the cursor on the bytes \<open>bs\<close> of the code, \<open>m\<close> returns \<open>v\<close> and moves past them.\<close>

definition reads_from :: "(bytecode_reader, 'a) op \<Rightarrow> bytes \<Rightarrow> 'a \<Rightarrow> bool" where
  "reads_from m bs v \<longleftrightarrow> (\<forall>pre post. length (pre @ bs @ post) < 2 ^ 31 \<longrightarrow>
     m \<lparr>br_code = pre @ bs @ post, br_pc = of_nat (length pre)\<rparr> =
     Inr (v, \<lparr>br_code = pre @ bs @ post, br_pc = of_nat (length pre + length bs)\<rparr>))"

lemma reads_fromD:
  "reads_from m bs v \<Longrightarrow> length (pre @ bs @ post) < 2 ^ 31 \<Longrightarrow>
   m \<lparr>br_code = pre @ bs @ post, br_pc = of_nat (length pre)\<rparr> =
   Inr (v, \<lparr>br_code = pre @ bs @ post, br_pc = of_nat (length pre + length bs)\<rparr>)"
  by (simp add: reads_from_def)

lemma code_at_of_nat: "n < 2 ^ 31 \<Longrightarrow> code_at codes (of_nat n) = vec_at codes n"
  by (simp add: code_at_def)

lemma reads_bind:
  assumes "reads_from m bs x" and "reads_from (f x) cs y"
  shows "reads_from (bind m f) (bs @ cs) y"
  unfolding reads_from_def
proof (intro allI impI)
  fix pre post :: bytes assume len: "length (pre @ (bs @ cs) @ post) < 2 ^ 31"
  then have "m \<lparr>br_code = pre @ bs @ cs @ post, br_pc = of_nat (length pre)\<rparr> =
      Inr (x, \<lparr>br_code = pre @ bs @ cs @ post, br_pc = of_nat (length pre + length bs)\<rparr>)"
    using reads_fromD [OF assms(1), of pre "cs @ post"] by simp
  moreover have "f x \<lparr>br_code = (pre @ bs) @ cs @ post, br_pc = of_nat (length (pre @ bs))\<rparr> =
      Inr (y, \<lparr>br_code = (pre @ bs) @ cs @ post, br_pc = of_nat (length (pre @ bs) + length cs)\<rparr>)"
    using reads_fromD [OF assms(2), of "pre @ bs" post] len by simp
  ultimately show "bind m f \<lparr>br_code = pre @ (bs @ cs) @ post, br_pc = of_nat (length pre)\<rparr> =
      Inr (y, \<lparr>br_code = pre @ (bs @ cs) @ post, br_pc = of_nat (length pre + length (bs @ cs))\<rparr>)"
    by (simp add: bind_def add.assoc)
qed

lemma reads_ret: "reads_from (ret x) [] x"
  by (simp add: reads_from_def ret_def)

lemma reads_u1: "reads_from ReadUnsignedInt8 [b] b"
  unfolding reads_from_def ReadUnsignedInt8_def
  by (auto simp: code_at_of_nat vec_at_def)

lemma reads_u1_then: "reads_from (f b) cs y \<Longrightarrow> reads_from (bind ReadUnsignedInt8 f) (b # cs) y"
  using reads_bind [OF reads_u1, of f b cs y] by simp

lemma reads_u2: "reads_from ReadUnsignedInt16 [b1, b2] (push_bit 8 (ucast b1) OR ucast b2)"
proof -
  have "ucast (push_bit 8 (ucast b1 :: 32 word) OR ucast b2) = (push_bit 8 (ucast b1) OR ucast b2 :: u2)"
    by (rule bit_word_eqI) (auto simp: bit_simps dest: bit_imp_le_length)
  then show ?thesis
    unfolding ReadUnsignedInt16_def by (auto intro!: reads_u1_then simp: reads_ret)
qed

lemma reads_i4: "reads_from readInt32 [b1, b2, b3, b4]
    (push_bit 24 (ucast b1) OR push_bit 16 (ucast b2) OR push_bit 8 (ucast b3) OR ucast b4)"
  unfolding readInt32_def by (auto intro!: reads_u1_then simp: reads_ret)

text \<open>\<open>skipPadding\<close> stops at the next cursor that is a multiple of four, at most three bytes on.\<close>

lemma skipPadding_aligned: "skipPadding r = Inr (u, r') \<Longrightarrow> unat (br_pc r') mod 4 = 0"
proof (induction r rule: skipPadding.induct)
  case (1 r)
  then show ?case
    by (subst (asm) (2) skipPadding.simps) (auto split: if_splits sum.splits)
qed

lemma padding_aligns: "(x + (4 - x mod 4) mod 4) mod 4 = (0 :: nat)"
proof -
  have "x = 4 * (x div 4) + x mod 4" and "x mod 4 < 4"
    by simp_all
  then have "x + (4 - x mod 4) = 4 * (x div 4) + 4"
    by linarith
  then show ?thesis
    by (simp add: mod_add_right_eq)
qed

lemma padding_Suc:
  assumes "x mod 4 \<noteq> 0"
  shows "(4 - x mod 4) mod 4 = Suc ((4 - Suc x mod 4) mod 4)"
proof -
  have "x mod 4 < 4" by simp
  with assms have "x mod 4 = 1 \<or> x mod 4 = 2 \<or> x mod 4 = 3" by linarith
  then show ?thesis by (auto simp: mod_Suc)
qed

lemma skipPadding_moves:
  "unat (br_pc r) + (4 - unat (br_pc r) mod 4) mod 4 \<le> length (br_code r) \<Longrightarrow>
   length (br_code r) < 2 ^ 31 \<Longrightarrow>
   skipPadding r = Inr ((), r\<lparr>br_pc := br_pc r + of_nat ((4 - unat (br_pc r) mod 4) mod 4)\<rparr>)"
proof (induction r rule: skipPadding.induct)
  case (1 r)
  show ?case
  proof (cases "unat (br_pc r) mod 4 = 0")
    case False
    let ?r = "r\<lparr>br_pc := br_pc r + 1\<rparr>"
    have pad: "(4 - unat (br_pc r) mod 4) mod 4 = Suc ((4 - Suc (unat (br_pc r)) mod 4) mod 4)"
      using False by (rule padding_Suc)
    then have lt: "unat (br_pc r) < length (br_code r)"
      using 1(2) by linarith
    then have "of_nat (unat (br_pc r)) = br_pc r" and "unat (br_pc r) < 2 ^ 31"
      using 1 by auto
    then have read: "ReadUnsignedInt8 r = Inr (br_code r ! unat (br_pc r), ?r)"
      using code_at_of_nat [of "unat (br_pc r)" "br_code r"] lt
      by (simp add: ReadUnsignedInt8_def vec_at_def)
    have nxt: "unat (br_pc r + 1) = Suc (unat (br_pc r))"
      using \<open>unat (br_pc r) < 2 ^ 31\<close> by (simp add: unat_word_ariths)
    have "skipPadding ?r =
        Inr ((), ?r\<lparr>br_pc := br_pc ?r + of_nat ((4 - unat (br_pc ?r) mod 4) mod 4)\<rparr>)"
      using 1(1) [OF False read refl] 1(2,3) nxt pad by simp
    with False read nxt pad show ?thesis
      by (subst skipPadding.simps) (simp add: add.assoc)
  qed (simp add: skipPadding.simps)
qed

end
