(* ===== verification/Instruction.thy ===== *)
theory Instruction
  imports Bytecode_Reader
begin

text \<open>
  The instruction objects of \<open>src/src/instructions\<close> as a datatype, the opcode table of
  \<open>instruction_factory.cpp\<close> and the reading of operands (\<open>FetchOperands\<close>). A template argument of a
  C++ class is an argument of its constructor, and so is each data member that \<open>FetchOperands\<close>
  fills; \<open>CreateInstruction\<close> makes the object with these members zero (the ones that C++ leaves
  uninitialised are always filled before they are read, \<open>fetch_blank\<close> in \<open>Instruction_Format\<close>).
\<close>

section \<open>Instructions\<close>

text \<open>The types that the templates are instantiated with.\<close>

datatype ctype =
    Int8 | Char16 | Int16 | Int32 | Int64 | Float | Double | ObjectPtr | VoidPtr

datatype const_inst =
    ACONST_NULL | DCONST_0 | DCONST_1 | FCONST_0 | FCONST_1 | FCONST_2
  | ICONST_M1 | ICONST_0 | ICONST_1 | ICONST_2 | ICONST_3 | ICONST_4 | ICONST_5
  | LCONST_0 | LCONST_1 | BIPUSH "8 word" | SIPUSH "16 word"

datatype load_inst =
    LOAD ctype u4 | LOAD_0 ctype | LOAD_1 ctype | LOAD_2 ctype | LOAD_3 ctype | ALOAD ctype

datatype store_inst =
    STORE ctype u4 | STORE_0 ctype | STORE_1 ctype | STORE_2 ctype | STORE_3 ctype | ASTORE ctype

datatype stack_inst =
    POP | POP2 | DUP | DUP_X1 | DUP_X2 | DUP2 | DUP2_X1 | DUP2_X2 | SWAP

datatype arithmetic_inst =
    ADD ctype | SUB ctype | MUL ctype | DIV ctype | IREM ctype | FREM ctype | NEG ctype
  | SHL ctype | SHR ctype | USHR ctype | AND_T ctype | OR_T ctype | XOR_T ctype
  | IINC u4 "32 word"

datatype conversion_inst = T2R ctype ctype | I2R ctype

datatype compare_inst =
    LCMP | FCMPL ctype | FCMPG ctype
  | IFEQ "32 word" | IFNE "32 word" | IFLT "32 word" | IFLE "32 word" | IFGT "32 word" | IFGE "32 word"
  | IF_ICMPEQ "32 word" | IF_ICMPNE "32 word" | IF_ICMPLT "32 word" | IF_ICMPLE "32 word"
  | IF_ICMPGT "32 word" | IF_ICMPGE "32 word" | IF_ACMPEQ "32 word" | IF_ACMPNE "32 word"

datatype control_inst =
    GOTO "32 word"
  | TABLE_SWITCH "32 word" "32 word" "32 word" "32 word list"
  | LOOKUP_SWITCH "32 word" "32 word" "32 word list"

datatype return_inst = RETURN | IRETURN | LRETURN | FRETURN | DRETURN | ARETURN

datatype reference_inst =
    ATHROW | NEW u4 | NEW_ARRAY u1 | ANEW_ARRAY u4 | ARRAY_LENGTH | MULTI_ANEW_ARRAY u2 u1
  | PUT_STATIC u4 | GET_STATIC u4 | GET_FIELD u4 | PUT_FIELD u4 | INSTANCE_OF u4 | CHECK_CAST u4
  | LDC u4 | LDC_W u4 | LDC2_W u4

datatype invoke_inst =
    INVOKE_STATIC u4 | INVOKE_SPECIAL u4 | INVOKE_VIRTUAL u4 | INVOKE_INTERFACE u4 | INVOKE_NATIVE

text \<open>The instructions that \<open>WIDE\<close> can hold in \<open>modified_ins_\<close>; \<open>None\<close> is the null pointer.\<close>

datatype modified_inst = WideLoad load_inst | WideStore store_inst | WideArith arithmetic_inst

datatype extend_inst =
    WIDE "modified_inst option" | IFNULL "32 word" | IFNONNULL "32 word" | GOTO_W "32 word"

text \<open>One constructor per header file of \<open>src/src/instructions\<close>.\<close>

datatype instruction =
    NOP
  | ConstI const_inst | LoadI load_inst | StoreI store_inst | StackI stack_inst
  | ArithI arithmetic_inst | ConvI conversion_inst | CmpI compare_inst | CtrlI control_inst
  | RetI return_inst | RefI reference_inst | InvI invoke_inst | ExtI extend_inst

section \<open>The opcode table\<close>

text \<open>The cases of the \<open>switch\<close> of \<open>CreateInstruction\<close>, in their order.\<close>

definition const_table :: "(nat \<times> instruction) list" where
  "const_table =
     [(0x00, NOP), (0x01, ConstI ACONST_NULL), (0x02, ConstI ICONST_M1), (0x03, ConstI ICONST_0),
      (0x04, ConstI ICONST_1), (0x05, ConstI ICONST_2), (0x06, ConstI ICONST_3),
      (0x07, ConstI ICONST_4), (0x08, ConstI ICONST_5), (0x09, ConstI LCONST_0),
      (0x0A, ConstI LCONST_1), (0x0B, ConstI FCONST_0), (0x0C, ConstI FCONST_1),
      (0x0D, ConstI FCONST_2), (0x0E, ConstI DCONST_0), (0x0F, ConstI DCONST_1),
      (0x10, ConstI (BIPUSH 0)), (0x11, ConstI (SIPUSH 0)), (0x12, RefI (LDC 0)),
      (0x13, RefI (LDC_W 0)), (0x14, RefI (LDC2_W 0))]"

definition load_table :: "(nat \<times> instruction) list" where
  "load_table =
     [(0x15, LoadI (LOAD Int32 0)), (0x16, LoadI (LOAD Int64 0)), (0x17, LoadI (LOAD Float 0)),
      (0x18, LoadI (LOAD Double 0)), (0x19, LoadI (LOAD ObjectPtr 0)), (0x1A, LoadI (LOAD_0 Int32)),
      (0x1B, LoadI (LOAD_1 Int32)), (0x1C, LoadI (LOAD_2 Int32)), (0x1D, LoadI (LOAD_3 Int32)),
      (0x1E, LoadI (LOAD_0 Int64)), (0x1F, LoadI (LOAD_1 Int64)), (0x20, LoadI (LOAD_2 Int64)),
      (0x21, LoadI (LOAD_3 Int64)), (0x22, LoadI (LOAD_0 Float)), (0x23, LoadI (LOAD_1 Float)),
      (0x24, LoadI (LOAD_2 Float)), (0x25, LoadI (LOAD_3 Float)), (0x26, LoadI (LOAD_0 Double)),
      (0x27, LoadI (LOAD_1 Double)), (0x28, LoadI (LOAD_2 Double)), (0x29, LoadI (LOAD_3 Double)),
      (0x2A, LoadI (LOAD_0 ObjectPtr)), (0x2B, LoadI (LOAD_1 ObjectPtr)),
      (0x2C, LoadI (LOAD_2 ObjectPtr)), (0x2D, LoadI (LOAD_3 ObjectPtr)), (0x2E, LoadI (ALOAD Int32)),
      (0x2F, LoadI (ALOAD Int64)), (0x30, LoadI (ALOAD Float)), (0x31, LoadI (ALOAD Double)),
      (0x32, LoadI (ALOAD ObjectPtr)), (0x33, LoadI (ALOAD Int8)), (0x34, LoadI (ALOAD Char16)),
      (0x35, LoadI (ALOAD Int16))]"

definition store_table :: "(nat \<times> instruction) list" where
  "store_table =
     [(0x36, StoreI (STORE Int32 0)), (0x37, StoreI (STORE Int64 0)), (0x38, StoreI (STORE Float 0)),
      (0x39, StoreI (STORE Double 0)), (0x3A, StoreI (STORE ObjectPtr 0)),
      (0x3B, StoreI (STORE_0 Int32)), (0x3C, StoreI (STORE_1 Int32)), (0x3D, StoreI (STORE_2 Int32)),
      (0x3E, StoreI (STORE_3 Int32)), (0x3F, StoreI (STORE_0 Int64)), (0x40, StoreI (STORE_1 Int64)),
      (0x41, StoreI (STORE_2 Int64)), (0x42, StoreI (STORE_3 Int64)), (0x43, StoreI (STORE_0 Float)),
      (0x44, StoreI (STORE_1 Float)), (0x45, StoreI (STORE_2 Float)), (0x46, StoreI (STORE_3 Float)),
      (0x47, StoreI (STORE_0 Double)), (0x48, StoreI (STORE_1 Double)),
      (0x49, StoreI (STORE_2 Double)), (0x4A, StoreI (STORE_3 Double)),
      (0x4B, StoreI (STORE_0 ObjectPtr)), (0x4C, StoreI (STORE_1 ObjectPtr)),
      (0x4D, StoreI (STORE_2 ObjectPtr)), (0x4E, StoreI (STORE_3 ObjectPtr)),
      (0x4F, StoreI (ASTORE Int32)), (0x50, StoreI (ASTORE Int64)), (0x51, StoreI (ASTORE Float)),
      (0x52, StoreI (ASTORE Double)), (0x53, StoreI (ASTORE ObjectPtr)), (0x54, StoreI (ASTORE Int8)),
      (0x55, StoreI (ASTORE Char16)), (0x56, StoreI (ASTORE Int16))]"

definition stack_table :: "(nat \<times> instruction) list" where
  "stack_table =
     [(0x57, StackI POP), (0x58, StackI POP2), (0x59, StackI DUP), (0x5A, StackI DUP_X1),
      (0x5B, StackI DUP_X2), (0x5C, StackI DUP2), (0x5D, StackI DUP2_X1), (0x5E, StackI DUP2_X2),
      (0x5F, StackI SWAP)]"

definition arithmetic_table :: "(nat \<times> instruction) list" where
  "arithmetic_table =
     [(0x60, ArithI (ADD Int32)), (0x61, ArithI (ADD Int64)), (0x62, ArithI (ADD Float)),
      (0x63, ArithI (ADD Double)), (0x64, ArithI (SUB Int32)), (0x65, ArithI (SUB Int64)),
      (0x66, ArithI (SUB Float)), (0x67, ArithI (SUB Double)), (0x68, ArithI (MUL Int32)),
      (0x69, ArithI (MUL Int64)), (0x6A, ArithI (MUL Float)), (0x6B, ArithI (MUL Double)),
      (0x6C, ArithI (DIV Int32)), (0x6D, ArithI (DIV Int64)), (0x6E, ArithI (DIV Float)),
      (0x6F, ArithI (DIV Double)), (0x70, ArithI (IREM Int32)), (0x71, ArithI (IREM Int64)),
      (0x72, ArithI (FREM Float)), (0x73, ArithI (FREM Double)), (0x74, ArithI (NEG Int32)),
      (0x75, ArithI (NEG Int64)), (0x76, ArithI (NEG Float)), (0x77, ArithI (NEG Double)),
      (0x78, ArithI (SHL Int32)), (0x79, ArithI (SHL Int64)), (0x7A, ArithI (SHR Int32)),
      (0x7B, ArithI (SHR Int64)), (0x7C, ArithI (USHR Int32)), (0x7D, ArithI (USHR Int64)),
      (0x7E, ArithI (AND_T Int32)), (0x7F, ArithI (AND_T Int64)), (0x80, ArithI (OR_T Int32)),
      (0x81, ArithI (OR_T Int64)), (0x82, ArithI (XOR_T Int32)), (0x83, ArithI (XOR_T Int64)),
      (0x84, ArithI (IINC 0 0))]"

definition conversion_table :: "(nat \<times> instruction) list" where
  "conversion_table =
     [(0x85, ConvI (T2R Int32 Int64)), (0x86, ConvI (T2R Int32 Float)),
      (0x87, ConvI (T2R Int32 Double)), (0x88, ConvI (T2R Int64 Int32)),
      (0x89, ConvI (T2R Int64 Float)), (0x8A, ConvI (T2R Int64 Double)),
      (0x8B, ConvI (T2R Float Int32)), (0x8C, ConvI (T2R Float Int64)),
      (0x8D, ConvI (T2R Float Double)), (0x8E, ConvI (T2R Double Int32)),
      (0x8F, ConvI (T2R Double Int64)), (0x90, ConvI (T2R Double Float)), (0x91, ConvI (I2R Int8)),
      (0x92, ConvI (I2R Char16)), (0x93, ConvI (I2R Int16))]"

definition compare_table :: "(nat \<times> instruction) list" where
  "compare_table =
     [(0x94, CmpI LCMP), (0x95, CmpI (FCMPL Float)), (0x96, CmpI (FCMPG Float)),
      (0x97, CmpI (FCMPL Double)), (0x98, CmpI (FCMPG Double)), (0x99, CmpI (IFEQ 0)),
      (0x9A, CmpI (IFNE 0)), (0x9B, CmpI (IFLT 0)), (0x9C, CmpI (IFGE 0)), (0x9D, CmpI (IFGT 0)),
      (0x9E, CmpI (IFLE 0)), (0x9F, CmpI (IF_ICMPEQ 0)), (0xA0, CmpI (IF_ICMPNE 0)),
      (0xA1, CmpI (IF_ICMPLT 0)), (0xA2, CmpI (IF_ICMPGE 0)), (0xA3, CmpI (IF_ICMPGT 0)),
      (0xA4, CmpI (IF_ICMPLE 0)), (0xA5, CmpI (IF_ACMPEQ 0)), (0xA6, CmpI (IF_ACMPNE 0))]"

definition control_table :: "(nat \<times> instruction) list" where
  "control_table =
     [(0xA7, CtrlI (GOTO 0)), (0xAA, CtrlI (TABLE_SWITCH 0 0 0 [])),
      (0xAB, CtrlI (LOOKUP_SWITCH 0 0 [])), (0xAC, RetI IRETURN), (0xAD, RetI LRETURN),
      (0xAE, RetI FRETURN), (0xAF, RetI DRETURN), (0xB0, RetI ARETURN), (0xB1, RetI RETURN)]"

definition reference_table :: "(nat \<times> instruction) list" where
  "reference_table =
     [(0xB2, RefI (GET_STATIC 0)), (0xB3, RefI (PUT_STATIC 0)), (0xB4, RefI (GET_FIELD 0)),
      (0xB5, RefI (PUT_FIELD 0)), (0xB6, InvI (INVOKE_VIRTUAL 0)), (0xB7, InvI (INVOKE_SPECIAL 0)),
      (0xB8, InvI (INVOKE_STATIC 0)), (0xB9, InvI (INVOKE_INTERFACE 0)), (0xBB, RefI (NEW 0)),
      (0xBC, RefI (NEW_ARRAY 0)), (0xBD, RefI (ANEW_ARRAY 0)), (0xBE, RefI ARRAY_LENGTH),
      (0xBF, RefI ATHROW), (0xC0, RefI (CHECK_CAST 0)), (0xC1, RefI (INSTANCE_OF 0))]"

definition extend_table :: "(nat \<times> instruction) list" where
  "extend_table =
     [(0xC4, ExtI (WIDE None)), (0xC5, RefI (MULTI_ANEW_ARRAY 0 0)), (0xC6, ExtI (IFNULL 0)),
      (0xC7, ExtI (IFNONNULL 0)), (0xC8, ExtI (GOTO_W 0)), (0xFE, InvI INVOKE_NATIVE)]"

definition opcode_table :: "(nat \<times> instruction) list" where
  "opcode_table =
     const_table @ load_table @ store_table @ stack_table @ arithmetic_table @ conversion_table @
     compare_table @ control_table @ reference_table @ extend_table"

text \<open>\<open>None\<close> is the \<open>InstNotFoundException\<close>.\<close>

definition CreateInstruction :: "u1 \<Rightarrow> instruction option" where
  "CreateInstruction opcode = map_of opcode_table (unat opcode)"

section \<open>Reading the operands\<close>

definition Index8_FetchOperands :: "(u4 \<Rightarrow> instruction) \<Rightarrow> (bytecode_reader, instruction) op" where
  "Index8_FetchOperands k = bind ReadUnsignedInt8 (\<lambda>i. ret (k (ucast i)))"

definition Index16_FetchOperands :: "(u4 \<Rightarrow> instruction) \<Rightarrow> (bytecode_reader, instruction) op" where
  "Index16_FetchOperands k = bind ReadUnsignedInt16 (\<lambda>i. ret (k (ucast i)))"

definition Branch_FetchOperands :: "(32 word \<Rightarrow> instruction) \<Rightarrow> (bytecode_reader, instruction) op" where
  "Branch_FetchOperands k = bind ReadInt16 (\<lambda>offset. ret (k (scast offset)))"

definition BIPUSH_FetchOperands :: "(bytecode_reader, instruction) op" where
  "BIPUSH_FetchOperands = bind ReadInt8 (\<lambda>v. ret (ConstI (BIPUSH v)))"

definition SIPUSH_FetchOperands :: "(bytecode_reader, instruction) op" where
  "SIPUSH_FetchOperands = bind ReadInt16 (\<lambda>v. ret (ConstI (SIPUSH v)))"

definition IINC_FetchOperands :: "(bytecode_reader, instruction) op" where
  "IINC_FetchOperands =
     bind ReadUnsignedInt8 (\<lambda>i. bind ReadInt8 (\<lambda>c. ret (ArithI (IINC (ucast i) (scast c)))))"

definition TABLE_SWITCH_FetchOperands :: "(bytecode_reader, instruction) op" where
  "TABLE_SWITCH_FetchOperands =
     andthen skipPadding (
     bind readInt32 (\<lambda>default_offset. bind readInt32 (\<lambda>low. bind readInt32 (\<lambda>high.
     bind (readInt32s (high - low + 1)) (\<lambda>offset_table.
     ret (CtrlI (TABLE_SWITCH default_offset low high offset_table)))))))"

definition LOOKUP_SWITCH_FetchOperands :: "(bytecode_reader, instruction) op" where
  "LOOKUP_SWITCH_FetchOperands =
     andthen skipPadding (
     bind readInt32 (\<lambda>default_offset. bind readInt32 (\<lambda>npairs.
     bind (readInt32s (npairs * 2)) (\<lambda>offset_table.
     ret (CtrlI (LOOKUP_SWITCH default_offset npairs offset_table))))))"

definition GOTO_W_FetchOperands :: "(bytecode_reader, instruction) op" where
  "GOTO_W_FetchOperands = bind readInt32 (\<lambda>offset. ret (ExtI (GOTO_W offset)))"

text \<open>
  \<open>WIDE\<close> makes the instruction it modifies. As in the source, \<open>aload\<close> and \<open>astore\<close> get the
  template argument \<open>void*\<close>, \<open>iinc\<close> is recognised by the decimal number 84, and every other opcode
  leaves the pointer null.
\<close>

definition wide_index :: "(u4 \<Rightarrow> modified_inst) \<Rightarrow> (bytecode_reader, instruction) op" where
  "wide_index k = bind ReadUnsignedInt16 (\<lambda>i. ret (ExtI (WIDE (Some (k (ucast i))))))"

definition WIDE_FetchOperands :: "(bytecode_reader, instruction) op" where
  "WIDE_FetchOperands =
     bind ReadUnsignedInt8 (\<lambda>op_code.
       if op_code = 0x15 then wide_index (\<lambda>i. WideLoad (LOAD Int32 i))
       else if op_code = 0x16 then wide_index (\<lambda>i. WideLoad (LOAD Int64 i))
       else if op_code = 0x17 then wide_index (\<lambda>i. WideLoad (LOAD Float i))
       else if op_code = 0x18 then wide_index (\<lambda>i. WideLoad (LOAD Double i))
       else if op_code = 0x19 then wide_index (\<lambda>i. WideLoad (LOAD VoidPtr i))
       else if op_code = 0x36 then wide_index (\<lambda>i. WideStore (STORE Int32 i))
       else if op_code = 0x37 then wide_index (\<lambda>i. WideStore (STORE Int64 i))
       else if op_code = 0x38 then wide_index (\<lambda>i. WideStore (STORE Float i))
       else if op_code = 0x39 then wide_index (\<lambda>i. WideStore (STORE Double i))
       else if op_code = 0x3A then wide_index (\<lambda>i. WideStore (STORE VoidPtr i))
       else if op_code = 84 then
         bind ReadUnsignedInt16 (\<lambda>i. bind ReadInt16 (\<lambda>c. ret (ExtI (WIDE (Some (WideArith (IINC (ucast i) (scast c))))))))
       else ret (ExtI (WIDE None)))"

definition NEW_ARRAY_FetchOperands :: "(bytecode_reader, instruction) op" where
  "NEW_ARRAY_FetchOperands = bind ReadUnsignedInt8 (\<lambda>t. ret (RefI (NEW_ARRAY t)))"

definition MULTI_ANEW_ARRAY_FetchOperands :: "(bytecode_reader, instruction) op" where
  "MULTI_ANEW_ARRAY_FetchOperands =
     bind ReadUnsignedInt16 (\<lambda>i. bind ReadUnsignedInt8 (\<lambda>d. ret (RefI (MULTI_ANEW_ARRAY i d))))"

definition INVOKE_INTERFACE_FetchOperands :: "(bytecode_reader, instruction) op" where
  "INVOKE_INTERFACE_FetchOperands =
     bind ReadUnsignedInt16 (\<lambda>i. andthen ReadUnsignedInt8 (andthen ReadUnsignedInt8
     (ret (InvI (INVOKE_INTERFACE (ucast i))))))"

text \<open>The virtual call: each class has its own \<open>FetchOperands\<close> or inherits one.\<close>

fun FetchOperands :: "instruction \<Rightarrow> (bytecode_reader, instruction) op" where
  "FetchOperands (ConstI (BIPUSH _)) = BIPUSH_FetchOperands"
| "FetchOperands (ConstI (SIPUSH _)) = SIPUSH_FetchOperands"
| "FetchOperands (RefI (LDC _)) = Index8_FetchOperands (\<lambda>i. RefI (LDC i))"
| "FetchOperands (RefI (LDC_W _)) = Index16_FetchOperands (\<lambda>i. RefI (LDC_W i))"
| "FetchOperands (RefI (LDC2_W _)) = Index16_FetchOperands (\<lambda>i. RefI (LDC2_W i))"
| "FetchOperands (LoadI (LOAD t _)) = Index8_FetchOperands (\<lambda>i. LoadI (LOAD t i))"
| "FetchOperands (StoreI (STORE t _)) = Index8_FetchOperands (\<lambda>i. StoreI (STORE t i))"
| "FetchOperands (ArithI (IINC _ _)) = IINC_FetchOperands"
| "FetchOperands (CmpI (IFEQ _)) = Branch_FetchOperands (\<lambda>i. CmpI (IFEQ i))"
| "FetchOperands (CmpI (IFNE _)) = Branch_FetchOperands (\<lambda>i. CmpI (IFNE i))"
| "FetchOperands (CmpI (IFLT _)) = Branch_FetchOperands (\<lambda>i. CmpI (IFLT i))"
| "FetchOperands (CmpI (IFLE _)) = Branch_FetchOperands (\<lambda>i. CmpI (IFLE i))"
| "FetchOperands (CmpI (IFGT _)) = Branch_FetchOperands (\<lambda>i. CmpI (IFGT i))"
| "FetchOperands (CmpI (IFGE _)) = Branch_FetchOperands (\<lambda>i. CmpI (IFGE i))"
| "FetchOperands (CmpI (IF_ICMPEQ _)) = Branch_FetchOperands (\<lambda>i. CmpI (IF_ICMPEQ i))"
| "FetchOperands (CmpI (IF_ICMPNE _)) = Branch_FetchOperands (\<lambda>i. CmpI (IF_ICMPNE i))"
| "FetchOperands (CmpI (IF_ICMPLT _)) = Branch_FetchOperands (\<lambda>i. CmpI (IF_ICMPLT i))"
| "FetchOperands (CmpI (IF_ICMPLE _)) = Branch_FetchOperands (\<lambda>i. CmpI (IF_ICMPLE i))"
| "FetchOperands (CmpI (IF_ICMPGT _)) = Branch_FetchOperands (\<lambda>i. CmpI (IF_ICMPGT i))"
| "FetchOperands (CmpI (IF_ICMPGE _)) = Branch_FetchOperands (\<lambda>i. CmpI (IF_ICMPGE i))"
| "FetchOperands (CmpI (IF_ACMPEQ _)) = Branch_FetchOperands (\<lambda>i. CmpI (IF_ACMPEQ i))"
| "FetchOperands (CmpI (IF_ACMPNE _)) = Branch_FetchOperands (\<lambda>i. CmpI (IF_ACMPNE i))"
| "FetchOperands (CtrlI (GOTO _)) = Branch_FetchOperands (\<lambda>i. CtrlI (GOTO i))"
| "FetchOperands (ExtI (IFNULL _)) = Branch_FetchOperands (\<lambda>i. ExtI (IFNULL i))"
| "FetchOperands (ExtI (IFNONNULL _)) = Branch_FetchOperands (\<lambda>i. ExtI (IFNONNULL i))"
| "FetchOperands (CtrlI (TABLE_SWITCH _ _ _ _)) = TABLE_SWITCH_FetchOperands"
| "FetchOperands (CtrlI (LOOKUP_SWITCH _ _ _)) = LOOKUP_SWITCH_FetchOperands"
| "FetchOperands (RefI (GET_STATIC _)) = Index16_FetchOperands (\<lambda>i. RefI (GET_STATIC i))"
| "FetchOperands (RefI (PUT_STATIC _)) = Index16_FetchOperands (\<lambda>i. RefI (PUT_STATIC i))"
| "FetchOperands (RefI (GET_FIELD _)) = Index16_FetchOperands (\<lambda>i. RefI (GET_FIELD i))"
| "FetchOperands (RefI (PUT_FIELD _)) = Index16_FetchOperands (\<lambda>i. RefI (PUT_FIELD i))"
| "FetchOperands (InvI (INVOKE_VIRTUAL _)) = Index16_FetchOperands (\<lambda>i. InvI (INVOKE_VIRTUAL i))"
| "FetchOperands (InvI (INVOKE_SPECIAL _)) = Index16_FetchOperands (\<lambda>i. InvI (INVOKE_SPECIAL i))"
| "FetchOperands (InvI (INVOKE_STATIC _)) = Index16_FetchOperands (\<lambda>i. InvI (INVOKE_STATIC i))"
| "FetchOperands (InvI (INVOKE_INTERFACE _)) = INVOKE_INTERFACE_FetchOperands"
| "FetchOperands (RefI (NEW _)) = Index16_FetchOperands (\<lambda>i. RefI (NEW i))"
| "FetchOperands (RefI (NEW_ARRAY _)) = NEW_ARRAY_FetchOperands"
| "FetchOperands (RefI (ANEW_ARRAY _)) = Index16_FetchOperands (\<lambda>i. RefI (ANEW_ARRAY i))"
| "FetchOperands (RefI (MULTI_ANEW_ARRAY _ _)) = MULTI_ANEW_ARRAY_FetchOperands"
| "FetchOperands (RefI (CHECK_CAST _)) = Index16_FetchOperands (\<lambda>i. RefI (CHECK_CAST i))"
| "FetchOperands (RefI (INSTANCE_OF _)) = Index16_FetchOperands (\<lambda>i. RefI (INSTANCE_OF i))"
| "FetchOperands (ExtI (WIDE _)) = WIDE_FetchOperands"
| "FetchOperands (ExtI (GOTO_W _)) = GOTO_W_FetchOperands"
| "FetchOperands i = ret i"

text \<open>
  The part of \<open>LoopExecute\<close> that reads one instruction; the exception for an unknown opcode ends in
  \<open>LOG(FATAL)\<close>.
\<close>

definition fetch_instruction :: "(bytecode_reader, instruction) op" where
  "fetch_instruction =
     bind ReadUnsignedInt8 (\<lambda>opcode.
     case CreateInstruction opcode of
       None \<Rightarrow> raise (Fatal ''Unsupported OpCode'')
     | Some i \<Rightarrow> FetchOperands i)"

end
