(* ===== verification/Instruction_Format.thy ===== *)
theory Instruction_Format
  imports Instruction Class_File_Format
begin

text \<open>
  The encoding of instructions as bytes, and the round trip: what \<open>fetch_instruction\<close> reads from the
  encoding of an instruction is that instruction, at every position of the code (the padding of the
  two switches depends on it). Also: which opcodes exist, and that no two make the same object.
\<close>

section \<open>The opcode table is a bijection\<close>

lemma table_keys:
  "map fst const_table = [0..<0x15]" "map fst load_table = [0x15..<0x36]"
  "map fst store_table = [0x36..<0x57]" "map fst stack_table = [0x57..<0x60]"
  "map fst arithmetic_table = [0x60..<0x85]" "map fst conversion_table = [0x85..<0x94]"
  "map fst compare_table = [0x94..<0xA7]"
  "map fst control_table = [0xA7] @ [0xAA..<0xB2]" "map fst reference_table = [0xB2..<0xBA] @ [0xBB..<0xC2]"
  "map fst extend_table = [0xC4..<0xC9] @ [0xFE]"
  unfolding const_table_def load_table_def store_table_def stack_table_def arithmetic_table_def
    conversion_table_def compare_table_def control_table_def reference_table_def extend_table_def
  by (simp_all add: upt_rec)

lemma opcode_keys:
  "map fst opcode_table = [0..<0x15] @ [0x15..<0x36] @ [0x36..<0x57] @ [0x57..<0x60] @ [0x60..<0x85] @
     [0x85..<0x94] @ [0x94..<0xA7] @ ([0xA7] @ [0xAA..<0xB2]) @ ([0xB2..<0xBA] @ [0xBB..<0xC2]) @
     ([0xC4..<0xC9] @ [0xFE])"
  by (simp only: opcode_table_def map_append table_keys)

lemma opcode_keys_distinct: "distinct (map fst opcode_table)"
  unfolding opcode_keys distinct_append set_append set_upt by (auto simp del: upt_rec_numeral)

lemma opcode_keys_less: "(k, i) \<in> set opcode_table \<Longrightarrow> k < 256"
proof -
  assume "(k, i) \<in> set opcode_table"
  then have "k \<in> set (map fst opcode_table)"
    by force
  then show ?thesis
    unfolding opcode_keys set_append set_upt by auto
qed

lemma opcode_values_distinct: "distinct (map snd opcode_table)"
  by code_simp

text \<open>The opcodes without an instruction: \<open>jsr\<close>, \<open>ret\<close>, \<open>invokedynamic\<close>, the monitors, and the rest.\<close>

definition unsupported :: "nat \<Rightarrow> bool" where
  "unsupported k \<longleftrightarrow> k \<in> {0xA8, 0xA9, 0xBA, 0xC2, 0xC3, 0xFF} \<or> 0xC9 \<le> k \<and> k \<le> 0xFD"

lemma opcode_key_set:
  "set (map fst opcode_table) = {0..<0xA8} \<union> {0xAA..<0xBA} \<union> {0xBB..<0xC2} \<union> {0xC4..<0xC9} \<union> {0xFE}"
  unfolding opcode_keys set_append set_upt by auto

lemma CreateInstruction_None: "CreateInstruction op = None \<longleftrightarrow> unsupported (unat op)"
proof -
  have op: "unat op < 256"
    using unsigned_less [of op, where ?'a = nat] by simp
  have "CreateInstruction op = None \<longleftrightarrow> unat op \<notin> set (map fst opcode_table)"
    by (simp add: CreateInstruction_def map_of_eq_None_iff)
  also have "\<dots> \<longleftrightarrow> unsupported (unat op)"
    unfolding opcode_key_set unsupported_def using op by auto
  finally show ?thesis .
qed

lemma CreateInstruction_iff:
  "CreateInstruction op = Some i \<longleftrightarrow> (unat op, i) \<in> set opcode_table"
  unfolding CreateInstruction_def by (rule map_of_eq_Some_iff [OF opcode_keys_distinct])

lemma CreateInstruction_inj:
  assumes "CreateInstruction a = Some i" and "CreateInstruction b = Some i"
  shows "a = b"
proof -
  have "inj_on snd (set opcode_table)"
    using opcode_values_distinct by (simp add: distinct_map)
  then have "(unat a, i) = (unat b, i)"
    by (rule inj_onD) (use assms in \<open>auto simp: CreateInstruction_iff\<close>)
  then show ?thesis
    by (simp add: word_unat_eq_iff)
qed

section \<open>The encoding of an instruction\<close>

text \<open>An index or offset of the instruction object is 32 bits wide; these are the ones the code can hold.\<close>

definition small8 :: "u4 \<Rightarrow> bool" where
  "small8 n \<longleftrightarrow> ucast (ucast n :: u1) = n"

definition small16 :: "u4 \<Rightarrow> bool" where
  "small16 n \<longleftrightarrow> ucast (ucast n :: u2) = n"

definition signed8 :: "32 word \<Rightarrow> bool" where
  "signed8 n \<longleftrightarrow> scast (ucast n :: 8 word) = n"

definition signed16 :: "32 word \<Rightarrow> bool" where
  "signed16 n \<longleftrightarrow> scast (ucast n :: 16 word) = n"

text \<open>The number of bytes from position \<open>p\<close> to the next multiple of four.\<close>

definition padding :: "nat \<Rightarrow> nat" where
  "padding p = (4 - p mod 4) mod 4"

fun wide_bytes :: "modified_inst option \<Rightarrow> bytes" where
  "wide_bytes (Some (WideLoad (LOAD t n))) =
     (if t = Int32 then 0x15 else if t = Int64 then 0x16 else if t = Float then 0x17
      else if t = Double then 0x18 else 0x19) # emit_u2 (ucast n)"
| "wide_bytes (Some (WideStore (STORE t n))) =
     (if t = Int32 then 0x36 else if t = Int64 then 0x37 else if t = Float then 0x38
      else if t = Double then 0x39 else 0x3A) # emit_u2 (ucast n)"
| "wide_bytes (Some (WideArith (IINC n c))) = 84 # emit_u2 (ucast n) @ emit_u2 (ucast c)"
| "wide_bytes _ = [0xA9]"

fun wf_wide :: "modified_inst option \<Rightarrow> bool" where
  "wf_wide (Some (WideLoad (LOAD t n))) \<longleftrightarrow> t \<in> {Int32, Int64, Float, Double, VoidPtr} \<and> small16 n"
| "wf_wide (Some (WideStore (STORE t n))) \<longleftrightarrow> t \<in> {Int32, Int64, Float, Double, VoidPtr} \<and> small16 n"
| "wf_wide (Some (WideArith (IINC n c))) \<longleftrightarrow> small16 n \<and> signed16 c"
| "wf_wide None \<longleftrightarrow> True"
| "wf_wide _ \<longleftrightarrow> False"

text \<open>\<open>blank i\<close> is the object that \<open>CreateInstruction\<close> makes, \<open>operand_bytes p i\<close> what follows the opcode.\<close>

fun blank :: "instruction \<Rightarrow> instruction" where
  "blank (ConstI (BIPUSH v)) = ConstI (BIPUSH 0)"
| "blank (ConstI (SIPUSH v)) = ConstI (SIPUSH 0)"
| "blank (LoadI (LOAD t n)) = LoadI (LOAD t 0)"
| "blank (StoreI (STORE t n)) = StoreI (STORE t 0)"
| "blank (ArithI (IINC n c)) = ArithI (IINC 0 0)"
| "blank (CmpI (IFEQ off)) = CmpI (IFEQ 0)"
| "blank (CmpI (IFNE off)) = CmpI (IFNE 0)"
| "blank (CmpI (IFLT off)) = CmpI (IFLT 0)"
| "blank (CmpI (IFLE off)) = CmpI (IFLE 0)"
| "blank (CmpI (IFGT off)) = CmpI (IFGT 0)"
| "blank (CmpI (IFGE off)) = CmpI (IFGE 0)"
| "blank (CmpI (IF_ICMPEQ off)) = CmpI (IF_ICMPEQ 0)"
| "blank (CmpI (IF_ICMPNE off)) = CmpI (IF_ICMPNE 0)"
| "blank (CmpI (IF_ICMPLT off)) = CmpI (IF_ICMPLT 0)"
| "blank (CmpI (IF_ICMPLE off)) = CmpI (IF_ICMPLE 0)"
| "blank (CmpI (IF_ICMPGT off)) = CmpI (IF_ICMPGT 0)"
| "blank (CmpI (IF_ICMPGE off)) = CmpI (IF_ICMPGE 0)"
| "blank (CmpI (IF_ACMPEQ off)) = CmpI (IF_ACMPEQ 0)"
| "blank (CmpI (IF_ACMPNE off)) = CmpI (IF_ACMPNE 0)"
| "blank (CtrlI (GOTO off)) = CtrlI (GOTO 0)"
| "blank (CtrlI (TABLE_SWITCH d lo hi table)) = CtrlI (TABLE_SWITCH 0 0 0 [])"
| "blank (CtrlI (LOOKUP_SWITCH d n table)) = CtrlI (LOOKUP_SWITCH 0 0 [])"
| "blank (RefI (NEW n)) = RefI (NEW 0)"
| "blank (RefI (ANEW_ARRAY n)) = RefI (ANEW_ARRAY 0)"
| "blank (RefI (PUT_STATIC n)) = RefI (PUT_STATIC 0)"
| "blank (RefI (GET_STATIC n)) = RefI (GET_STATIC 0)"
| "blank (RefI (GET_FIELD n)) = RefI (GET_FIELD 0)"
| "blank (RefI (PUT_FIELD n)) = RefI (PUT_FIELD 0)"
| "blank (RefI (INSTANCE_OF n)) = RefI (INSTANCE_OF 0)"
| "blank (RefI (CHECK_CAST n)) = RefI (CHECK_CAST 0)"
| "blank (RefI (LDC_W n)) = RefI (LDC_W 0)"
| "blank (RefI (LDC2_W n)) = RefI (LDC2_W 0)"
| "blank (RefI (LDC n)) = RefI (LDC 0)"
| "blank (RefI (NEW_ARRAY t)) = RefI (NEW_ARRAY 0)"
| "blank (RefI (MULTI_ANEW_ARRAY n d)) = RefI (MULTI_ANEW_ARRAY 0 0)"
| "blank (InvI (INVOKE_STATIC n)) = InvI (INVOKE_STATIC 0)"
| "blank (InvI (INVOKE_SPECIAL n)) = InvI (INVOKE_SPECIAL 0)"
| "blank (InvI (INVOKE_VIRTUAL n)) = InvI (INVOKE_VIRTUAL 0)"
| "blank (InvI (INVOKE_INTERFACE n)) = InvI (INVOKE_INTERFACE 0)"
| "blank (ExtI (WIDE m)) = ExtI (WIDE None)"
| "blank (ExtI (IFNULL off)) = ExtI (IFNULL 0)"
| "blank (ExtI (IFNONNULL off)) = ExtI (IFNONNULL 0)"
| "blank (ExtI (GOTO_W off)) = ExtI (GOTO_W 0)"
| "blank i = i"

fun operand_bytes :: "nat \<Rightarrow> instruction \<Rightarrow> bytes" where
  "operand_bytes p (ConstI (BIPUSH v)) = [v]"
| "operand_bytes p (ConstI (SIPUSH v)) = emit_u2 v"
| "operand_bytes p (LoadI (LOAD t n)) = [ucast n]"
| "operand_bytes p (StoreI (STORE t n)) = [ucast n]"
| "operand_bytes p (ArithI (IINC n c)) = [ucast n, ucast c]"
| "operand_bytes p (CmpI (IFEQ off)) = emit_u2 (ucast off)"
| "operand_bytes p (CmpI (IFNE off)) = emit_u2 (ucast off)"
| "operand_bytes p (CmpI (IFLT off)) = emit_u2 (ucast off)"
| "operand_bytes p (CmpI (IFLE off)) = emit_u2 (ucast off)"
| "operand_bytes p (CmpI (IFGT off)) = emit_u2 (ucast off)"
| "operand_bytes p (CmpI (IFGE off)) = emit_u2 (ucast off)"
| "operand_bytes p (CmpI (IF_ICMPEQ off)) = emit_u2 (ucast off)"
| "operand_bytes p (CmpI (IF_ICMPNE off)) = emit_u2 (ucast off)"
| "operand_bytes p (CmpI (IF_ICMPLT off)) = emit_u2 (ucast off)"
| "operand_bytes p (CmpI (IF_ICMPLE off)) = emit_u2 (ucast off)"
| "operand_bytes p (CmpI (IF_ICMPGT off)) = emit_u2 (ucast off)"
| "operand_bytes p (CmpI (IF_ICMPGE off)) = emit_u2 (ucast off)"
| "operand_bytes p (CmpI (IF_ACMPEQ off)) = emit_u2 (ucast off)"
| "operand_bytes p (CmpI (IF_ACMPNE off)) = emit_u2 (ucast off)"
| "operand_bytes p (CtrlI (GOTO off)) = emit_u2 (ucast off)"
| "operand_bytes p (CtrlI (TABLE_SWITCH d lo hi table)) = replicate (padding p) 0 @ emit_u4 d @ emit_u4 lo @ emit_u4 hi @ concat (map emit_u4 table)"
| "operand_bytes p (CtrlI (LOOKUP_SWITCH d n table)) = replicate (padding p) 0 @ emit_u4 d @ emit_u4 n @ concat (map emit_u4 table)"
| "operand_bytes p (RefI (NEW n)) = emit_u2 (ucast n)"
| "operand_bytes p (RefI (ANEW_ARRAY n)) = emit_u2 (ucast n)"
| "operand_bytes p (RefI (PUT_STATIC n)) = emit_u2 (ucast n)"
| "operand_bytes p (RefI (GET_STATIC n)) = emit_u2 (ucast n)"
| "operand_bytes p (RefI (GET_FIELD n)) = emit_u2 (ucast n)"
| "operand_bytes p (RefI (PUT_FIELD n)) = emit_u2 (ucast n)"
| "operand_bytes p (RefI (INSTANCE_OF n)) = emit_u2 (ucast n)"
| "operand_bytes p (RefI (CHECK_CAST n)) = emit_u2 (ucast n)"
| "operand_bytes p (RefI (LDC_W n)) = emit_u2 (ucast n)"
| "operand_bytes p (RefI (LDC2_W n)) = emit_u2 (ucast n)"
| "operand_bytes p (RefI (LDC n)) = [ucast n]"
| "operand_bytes p (RefI (NEW_ARRAY t)) = [t]"
| "operand_bytes p (RefI (MULTI_ANEW_ARRAY n d)) = emit_u2 n @ [d]"
| "operand_bytes p (InvI (INVOKE_STATIC n)) = emit_u2 (ucast n)"
| "operand_bytes p (InvI (INVOKE_SPECIAL n)) = emit_u2 (ucast n)"
| "operand_bytes p (InvI (INVOKE_VIRTUAL n)) = emit_u2 (ucast n)"
| "operand_bytes p (InvI (INVOKE_INTERFACE n)) = emit_u2 (ucast n) @ [0, 0]"
| "operand_bytes p (ExtI (WIDE m)) = wide_bytes m"
| "operand_bytes p (ExtI (IFNULL off)) = emit_u2 (ucast off)"
| "operand_bytes p (ExtI (IFNONNULL off)) = emit_u2 (ucast off)"
| "operand_bytes p (ExtI (GOTO_W off)) = emit_u4 off"
| "operand_bytes p i = []"

fun wf_operands :: "instruction \<Rightarrow> bool" where
  "wf_operands (ConstI (BIPUSH v)) \<longleftrightarrow> True"
| "wf_operands (ConstI (SIPUSH v)) \<longleftrightarrow> True"
| "wf_operands (LoadI (LOAD t n)) \<longleftrightarrow> small8 n"
| "wf_operands (StoreI (STORE t n)) \<longleftrightarrow> small8 n"
| "wf_operands (ArithI (IINC n c)) \<longleftrightarrow> small8 n \<and> signed8 c"
| "wf_operands (CmpI (IFEQ off)) \<longleftrightarrow> signed16 off"
| "wf_operands (CmpI (IFNE off)) \<longleftrightarrow> signed16 off"
| "wf_operands (CmpI (IFLT off)) \<longleftrightarrow> signed16 off"
| "wf_operands (CmpI (IFLE off)) \<longleftrightarrow> signed16 off"
| "wf_operands (CmpI (IFGT off)) \<longleftrightarrow> signed16 off"
| "wf_operands (CmpI (IFGE off)) \<longleftrightarrow> signed16 off"
| "wf_operands (CmpI (IF_ICMPEQ off)) \<longleftrightarrow> signed16 off"
| "wf_operands (CmpI (IF_ICMPNE off)) \<longleftrightarrow> signed16 off"
| "wf_operands (CmpI (IF_ICMPLT off)) \<longleftrightarrow> signed16 off"
| "wf_operands (CmpI (IF_ICMPLE off)) \<longleftrightarrow> signed16 off"
| "wf_operands (CmpI (IF_ICMPGT off)) \<longleftrightarrow> signed16 off"
| "wf_operands (CmpI (IF_ICMPGE off)) \<longleftrightarrow> signed16 off"
| "wf_operands (CmpI (IF_ACMPEQ off)) \<longleftrightarrow> signed16 off"
| "wf_operands (CmpI (IF_ACMPNE off)) \<longleftrightarrow> signed16 off"
| "wf_operands (CtrlI (GOTO off)) \<longleftrightarrow> signed16 off"
| "wf_operands (CtrlI (TABLE_SWITCH d lo hi table)) \<longleftrightarrow> int (length table) = sint (hi - lo + 1)"
| "wf_operands (CtrlI (LOOKUP_SWITCH d n table)) \<longleftrightarrow> int (length table) = sint (n * 2)"
| "wf_operands (RefI (NEW n)) \<longleftrightarrow> small16 n"
| "wf_operands (RefI (ANEW_ARRAY n)) \<longleftrightarrow> small16 n"
| "wf_operands (RefI (PUT_STATIC n)) \<longleftrightarrow> small16 n"
| "wf_operands (RefI (GET_STATIC n)) \<longleftrightarrow> small16 n"
| "wf_operands (RefI (GET_FIELD n)) \<longleftrightarrow> small16 n"
| "wf_operands (RefI (PUT_FIELD n)) \<longleftrightarrow> small16 n"
| "wf_operands (RefI (INSTANCE_OF n)) \<longleftrightarrow> small16 n"
| "wf_operands (RefI (CHECK_CAST n)) \<longleftrightarrow> small16 n"
| "wf_operands (RefI (LDC_W n)) \<longleftrightarrow> small16 n"
| "wf_operands (RefI (LDC2_W n)) \<longleftrightarrow> small16 n"
| "wf_operands (RefI (LDC n)) \<longleftrightarrow> small8 n"
| "wf_operands (RefI (NEW_ARRAY t)) \<longleftrightarrow> True"
| "wf_operands (RefI (MULTI_ANEW_ARRAY n d)) \<longleftrightarrow> True"
| "wf_operands (InvI (INVOKE_STATIC n)) \<longleftrightarrow> small16 n"
| "wf_operands (InvI (INVOKE_SPECIAL n)) \<longleftrightarrow> small16 n"
| "wf_operands (InvI (INVOKE_VIRTUAL n)) \<longleftrightarrow> small16 n"
| "wf_operands (InvI (INVOKE_INTERFACE n)) \<longleftrightarrow> small16 n"
| "wf_operands (ExtI (WIDE m)) \<longleftrightarrow> wf_wide m"
| "wf_operands (ExtI (IFNULL off)) \<longleftrightarrow> signed16 off"
| "wf_operands (ExtI (IFNONNULL off)) \<longleftrightarrow> signed16 off"
| "wf_operands (ExtI (GOTO_W off)) \<longleftrightarrow> True"
| "wf_operands i \<longleftrightarrow> True"

text \<open>Operands are read whatever the members held before.\<close>

lemma fetch_blank: "FetchOperands (blank i) = FetchOperands i"
  by (cases i rule: blank.cases) simp_all

section \<open>Reading the encoding back\<close>

text \<open>\<open>reads_at p m bs v\<close> is \<open>reads_from m bs v\<close> for a cursor at position \<open>p\<close>.\<close>

definition reads_at :: "nat \<Rightarrow> (bytecode_reader, 'a) op \<Rightarrow> bytes \<Rightarrow> 'a \<Rightarrow> bool" where
  "reads_at p m bs v \<longleftrightarrow> (\<forall>pre post. length pre = p \<longrightarrow> length (pre @ bs @ post) < 2 ^ 31 \<longrightarrow>
     m \<lparr>br_code = pre @ bs @ post, br_pc = of_nat p\<rparr> =
     Inr (v, \<lparr>br_code = pre @ bs @ post, br_pc = of_nat (p + length bs)\<rparr>))"

lemma reads_atD:
  "reads_at (length pre) m bs v \<Longrightarrow> length (pre @ bs @ post) < 2 ^ 31 \<Longrightarrow>
   m \<lparr>br_code = pre @ bs @ post, br_pc = of_nat (length pre)\<rparr> =
   Inr (v, \<lparr>br_code = pre @ bs @ post, br_pc = of_nat (length pre + length bs)\<rparr>)"
  by (simp add: reads_at_def)

lemma reads_at_from: "reads_from m bs v \<Longrightarrow> reads_at p m bs v"
  by (auto simp: reads_at_def reads_from_def)

lemma reads_at_bind:
  assumes "reads_at p m bs x" and "reads_at (p + length bs) (f x) cs y"
  shows "reads_at p (bind m f) (bs @ cs) y"
  unfolding reads_at_def
proof (intro allI impI)
  fix pre post :: bytes assume p: "length pre = p" and len: "length (pre @ (bs @ cs) @ post) < 2 ^ 31"
  then have "m \<lparr>br_code = pre @ bs @ cs @ post, br_pc = of_nat p\<rparr> =
      Inr (x, \<lparr>br_code = pre @ bs @ cs @ post, br_pc = of_nat (p + length bs)\<rparr>)"
    using reads_atD [of pre m bs x "cs @ post"] assms(1) by simp
  moreover have "f x \<lparr>br_code = (pre @ bs) @ cs @ post, br_pc = of_nat (length (pre @ bs))\<rparr> =
      Inr (y, \<lparr>br_code = (pre @ bs) @ cs @ post, br_pc = of_nat (length (pre @ bs) + length cs)\<rparr>)"
    using reads_atD [of "pre @ bs" "f x" cs y post] assms(2) p len by simp
  ultimately show "bind m f \<lparr>br_code = pre @ (bs @ cs) @ post, br_pc = of_nat p\<rparr> =
      Inr (y, \<lparr>br_code = pre @ (bs @ cs) @ post, br_pc = of_nat (p + length (bs @ cs))\<rparr>)"
    using p by (simp add: bind_def add.assoc)
qed

lemma reads_at_ret: "reads_at p (ret x) [] x"
  by (rule reads_at_from) (rule reads_ret)

lemma reads_at_bind_ret:
  assumes "reads_at p m bs x"
  shows "reads_at p (bind m (\<lambda>x. ret (g x))) bs (g x)"
proof -
  have "reads_at p (bind m (\<lambda>x. ret (g x))) (bs @ []) (g x)"
    by (rule reads_at_bind [OF assms]) (rule reads_at_ret)
  then show ?thesis by simp
qed

lemma reads_emit_u2: "reads_from ReadUnsignedInt16 (emit_u2 x) x"
proof -
  have "push_bit 8 (ucast (ucast (drop_bit 8 x) :: u1)) OR ucast (ucast x :: u1) = x"
    by (rule bit_word_eqI) (auto simp: bit_simps less_diff_conv2 not_less dest: bit_imp_le_length)
  with reads_u2 [of "ucast (drop_bit 8 x)" "ucast x"] show ?thesis
    by (simp add: emit_u2_def)
qed

lemma reads_emit_u4: "reads_from readInt32 (emit_u4 x) x"
proof -
  have "push_bit 24 (ucast (ucast (drop_bit 24 x) :: u1)) OR push_bit 16 (ucast (ucast (drop_bit 16 x) :: u1)) OR
      push_bit 8 (ucast (ucast (drop_bit 8 x) :: u1)) OR ucast (ucast x :: u1) = x"
    by (rule bit_word_eqI) (auto simp: bit_simps less_diff_conv2 not_less dest: bit_imp_le_length;
      metis le_add_diff_inverse linorder_not_less)
  with reads_i4 [of "ucast (drop_bit 24 x)" "ucast (drop_bit 16 x)" "ucast (drop_bit 8 x)" "ucast x"] show ?thesis
    by (simp add: emit_u4_def)
qed

lemma reads_table: "reads_at p (repeat_op (length xs) readInt32) (concat (map emit_u4 xs)) xs"
proof (induction xs arbitrary: p)
  case Nil
  show ?case by (simp add: reads_at_ret)
next
  case (Cons x xs)
  have "reads_at (p + length (emit_u4 x)) (bind (repeat_op (length xs) readInt32) (\<lambda>ys. ret (x # ys)))
      (concat (map emit_u4 xs)) (x # xs)"
    by (rule reads_at_bind_ret) (rule Cons.IH)
  from reads_at_bind [OF reads_at_from [OF reads_emit_u4], of p x "\<lambda>x. bind (repeat_op (length xs) readInt32) (\<lambda>ys. ret (x # ys))", OF this]
  show ?case by simp
qed

lemma reads_padding: "reads_at p skipPadding (replicate (padding p) 0) ()"
  unfolding reads_at_def
proof (intro allI impI)
  fix pre post :: bytes
  assume p: "length pre = p" and len: "length (pre @ replicate (padding p) 0 @ post) < 2 ^ 31"
  then have "unat (of_nat p :: 32 word) = p"
    by (intro unat_of_nat31) simp
  with skipPadding_moves [of "\<lparr>br_code = pre @ replicate (padding p) 0 @ post, br_pc = of_nat p\<rparr>"] p len
  show "skipPadding \<lparr>br_code = pre @ replicate (padding p) 0 @ post, br_pc = of_nat p\<rparr> =
      Inr ((), \<lparr>br_code = pre @ replicate (padding p) 0 @ post, br_pc = of_nat (p + length (replicate (padding p) 0))\<rparr>)"
    by (simp add: padding_def)
qed

lemmas reads_u1_at = reads_at_from [OF reads_u1]
lemmas reads_u2_at = reads_at_from [OF reads_emit_u2]
lemmas reads_i4_at = reads_at_from [OF reads_emit_u4]

lemma reads_index8: "small8 n \<Longrightarrow> k n = v \<Longrightarrow> reads_at p (Index8_FetchOperands k) [ucast n] v"
  using reads_at_bind_ret [OF reads_u1_at [of p "ucast n"], where g = "\<lambda>i. k (ucast i)"]
  by (simp add: Index8_FetchOperands_def small8_def)

lemma reads_index16: "small16 n \<Longrightarrow> k n = v \<Longrightarrow> reads_at p (Index16_FetchOperands k) (emit_u2 (ucast n)) v"
  using reads_at_bind_ret [OF reads_u2_at [of p "ucast n"], where g = "\<lambda>i. k (ucast i)"]
  by (simp add: Index16_FetchOperands_def small16_def)

lemma reads_branch: "signed16 n \<Longrightarrow> k n = v \<Longrightarrow> reads_at p (Branch_FetchOperands k) (emit_u2 (ucast n)) v"
  using reads_at_bind_ret [OF reads_u2_at [of p "ucast n"], where g = "\<lambda>i. k (scast i)"]
  by (simp add: Branch_FetchOperands_def ReadInt16_def signed16_def)

lemma reads_push:
  "reads_at p BIPUSH_FetchOperands [v] (ConstI (BIPUSH v))"
  "reads_at p SIPUSH_FetchOperands (emit_u2 w) (ConstI (SIPUSH w))"
  unfolding BIPUSH_FetchOperands_def SIPUSH_FetchOperands_def ReadInt8_def ReadInt16_def
  by (rule reads_at_bind_ret, rule reads_u1_at reads_u2_at)+

lemma reads_iinc:
  assumes "small8 n" and "signed8 c"
  shows "reads_at p IINC_FetchOperands [ucast n, ucast c] (ArithI (IINC n c))"
proof -
  have "reads_at p IINC_FetchOperands ([ucast n] @ [ucast c])
      (ArithI (IINC (ucast (ucast n :: u1)) (scast (ucast c :: 8 word))))"
    unfolding IINC_FetchOperands_def ReadInt8_def
    by (rule reads_at_bind [OF reads_u1_at]) (rule reads_at_bind_ret [OF reads_u1_at])
  with assms show ?thesis
    by (simp add: small8_def signed8_def)
qed

lemma readInt32s_table:
  assumes "int (length xs) = sint n"
  shows "reads_at p (readInt32s n) (concat (map emit_u4 xs)) xs"
proof -
  have "nat (sint n) = length xs"
    using assms by (metis nat_int)
  then show ?thesis
    using reads_table [of p xs] by (simp add: readInt32s_def)
qed

lemma reads_tableswitch:
  assumes "int (length table) = sint (hi - lo + 1)"
  shows "reads_at p TABLE_SWITCH_FetchOperands
    (replicate (padding p) 0 @ emit_u4 d @ emit_u4 lo @ emit_u4 hi @ concat (map emit_u4 table))
    (CtrlI (TABLE_SWITCH d lo hi table))"
  unfolding TABLE_SWITCH_FetchOperands_def andthen_def
  by (rule reads_at_bind [OF reads_padding], (rule reads_at_bind [OF reads_i4_at])+,
      rule reads_at_bind_ret, rule readInt32s_table [OF assms])

lemma reads_lookupswitch:
  assumes "int (length table) = sint (n * 2)"
  shows "reads_at p LOOKUP_SWITCH_FetchOperands
    (replicate (padding p) 0 @ emit_u4 d @ emit_u4 n @ concat (map emit_u4 table))
    (CtrlI (LOOKUP_SWITCH d n table))"
  unfolding LOOKUP_SWITCH_FetchOperands_def andthen_def
  by (rule reads_at_bind [OF reads_padding], (rule reads_at_bind [OF reads_i4_at])+,
      rule reads_at_bind_ret, rule readInt32s_table [OF assms])

lemma reads_misc:
  "reads_at p GOTO_W_FetchOperands (emit_u4 off) (ExtI (GOTO_W off))"
  "reads_at p NEW_ARRAY_FetchOperands [t] (RefI (NEW_ARRAY t))"
  "reads_at p MULTI_ANEW_ARRAY_FetchOperands (emit_u2 n @ [d]) (RefI (MULTI_ANEW_ARRAY n d))"
  unfolding GOTO_W_FetchOperands_def NEW_ARRAY_FetchOperands_def MULTI_ANEW_ARRAY_FetchOperands_def
  by (rule reads_at_bind_ret [OF reads_i4_at], rule reads_at_bind_ret [OF reads_u1_at],
      rule reads_at_bind [OF reads_u2_at], rule reads_at_bind_ret [OF reads_u1_at])

lemma reads_invokeinterface:
  assumes "small16 n"
  shows "reads_at p INVOKE_INTERFACE_FetchOperands (emit_u2 (ucast n) @ [0, 0]) (InvI (INVOKE_INTERFACE n))"
proof -
  have "reads_at p INVOKE_INTERFACE_FetchOperands (emit_u2 (ucast n) @ [0] @ [0])
      (InvI (INVOKE_INTERFACE (ucast (ucast n :: u2))))"
    unfolding INVOKE_INTERFACE_FetchOperands_def andthen_def
    by (rule reads_at_bind [OF reads_u2_at], rule reads_at_bind [OF reads_u1_at])
      (rule reads_at_bind_ret [OF reads_u1_at, where g = "\<lambda>_. InvI (INVOKE_INTERFACE (ucast (ucast n :: u2)))"])
  with assms show ?thesis
    by (simp add: small16_def)
qed

lemma reads_wide_index:
  assumes "small16 n"
    and "ExtI (WIDE (Some (k n))) = v"
  shows "reads_at p (wide_index k) (emit_u2 (ucast n)) v"
  using reads_at_bind_ret [OF reads_u2_at [of p "ucast n"], where g = "\<lambda>i. ExtI (WIDE (Some (k (ucast i))))"] assms
  by (simp add: wide_index_def small16_def)

lemma reads_wide_iinc:
  assumes "small16 n" and "signed16 c"
  shows "reads_at p (bind ReadUnsignedInt16 (\<lambda>i. bind ReadInt16 (\<lambda>c.
      ret (ExtI (WIDE (Some (WideArith (IINC (ucast i) (scast c)))))))))
    (emit_u2 (ucast n) @ emit_u2 (ucast c)) (ExtI (WIDE (Some (WideArith (IINC n c)))))"
proof -
  have "reads_at p (bind ReadUnsignedInt16 (\<lambda>i. bind ReadInt16 (\<lambda>c.
      ret (ExtI (WIDE (Some (WideArith (IINC (ucast i) (scast c)))))))))
    (emit_u2 (ucast n) @ emit_u2 (ucast c))
    (ExtI (WIDE (Some (WideArith (IINC (ucast (ucast n :: u2)) (scast (ucast c :: 16 word)))))))"
    unfolding ReadInt16_def by (rule reads_at_bind [OF reads_u2_at]) (rule reads_at_bind_ret [OF reads_u2_at])
  with assms show ?thesis
    by (simp add: small16_def signed16_def)
qed

lemma reads_wide:
  assumes "wf_wide m"
  shows "reads_at p WIDE_FetchOperands (wide_bytes m) (ExtI (WIDE m))"
proof -
  have *: "reads_at p WIDE_FetchOperands (b # bs) v"
    if "reads_at (Suc p) (if b = 0x15 then wide_index (\<lambda>i. WideLoad (LOAD Int32 i))
       else if b = 0x16 then wide_index (\<lambda>i. WideLoad (LOAD Int64 i))
       else if b = 0x17 then wide_index (\<lambda>i. WideLoad (LOAD Float i))
       else if b = 0x18 then wide_index (\<lambda>i. WideLoad (LOAD Double i))
       else if b = 0x19 then wide_index (\<lambda>i. WideLoad (LOAD VoidPtr i))
       else if b = 0x36 then wide_index (\<lambda>i. WideStore (STORE Int32 i))
       else if b = 0x37 then wide_index (\<lambda>i. WideStore (STORE Int64 i))
       else if b = 0x38 then wide_index (\<lambda>i. WideStore (STORE Float i))
       else if b = 0x39 then wide_index (\<lambda>i. WideStore (STORE Double i))
       else if b = 0x3A then wide_index (\<lambda>i. WideStore (STORE VoidPtr i))
       else if b = 84 then
         bind ReadUnsignedInt16 (\<lambda>i. bind ReadInt16 (\<lambda>c. ret (ExtI (WIDE (Some (WideArith (IINC (ucast i) (scast c))))))))
       else ret (ExtI (WIDE None))) bs v" for b bs v
    using reads_at_bind [OF reads_u1_at, of p b _ bs v] that by (simp add: WIDE_FetchOperands_def)
  show ?thesis
    using assms
    by (cases m rule: wide_bytes.cases)
      (auto intro!: * reads_wide_index reads_wide_iinc reads_at_ret)
qed

lemma reads_operands: "wf_operands i \<Longrightarrow> reads_at p (FetchOperands i) (operand_bytes p i) i"
  by (cases i rule: blank.cases)
    (simp_all add: reads_push reads_iinc reads_tableswitch reads_lookupswitch reads_misc
      reads_invokeinterface reads_wide reads_at_ret reads_index8 reads_index16 reads_branch)

section \<open>Whole instructions and whole methods\<close>

definition opcode_of :: "instruction \<Rightarrow> nat option" where
  "opcode_of i = map_of (map (\<lambda>(k, j). (j, k)) opcode_table) (blank i)"

definition wf_instruction :: "instruction \<Rightarrow> bool" where
  "wf_instruction i \<longleftrightarrow> opcode_of i \<noteq> None \<and> wf_operands i"

definition encode_inst :: "nat \<Rightarrow> instruction \<Rightarrow> bytes" where
  "encode_inst p i = of_nat (the (opcode_of i)) # operand_bytes (Suc p) i"

primrec encode_all :: "nat \<Rightarrow> instruction list \<Rightarrow> bytes" where
  "encode_all p [] = []"
| "encode_all p (i # is) = encode_inst p i @ encode_all (p + length (encode_inst p i)) is"

lemma opcode_of_creates:
  assumes "opcode_of i = Some k"
  shows "CreateInstruction (of_nat k) = Some (blank i)"
proof -
  have mem: "(k, blank i) \<in> set opcode_table"
    using map_of_SomeD [OF assms [unfolded opcode_of_def]] by auto
  then have "unat (of_nat k :: u1) = k"
    using opcode_keys_less [of k] by (simp add: unat_of_nat take_bit_nat_eq_self)
  with mem show ?thesis
    by (simp add: CreateInstruction_iff)
qed

lemma fetch_encode:
  assumes "wf_instruction i"
  shows "reads_at p fetch_instruction (encode_inst p i) i"
proof -
  obtain k where k: "opcode_of i = Some k" and ops: "wf_operands i"
    using assms by (auto simp: wf_instruction_def)
  define f :: "u1 \<Rightarrow> (bytecode_reader, instruction) op" where
    "f = (\<lambda>op. case CreateInstruction op of None \<Rightarrow> raise (Fatal ''Unsupported OpCode'') | Some i \<Rightarrow> FetchOperands i)"
  have "reads_at (p + length [of_nat k :: u1]) (f (of_nat k)) (operand_bytes (Suc p) i) i"
    using reads_operands [OF ops, of "Suc p"] by (simp add: f_def opcode_of_creates [OF k] fetch_blank)
  from reads_at_bind [OF reads_u1_at [of p "of_nat k"], of f, OF this] show ?thesis
    by (simp add: fetch_instruction_def encode_inst_def k f_def)
qed

lemma fetch_encode_all:
  "list_all wf_instruction is \<Longrightarrow>
   reads_at p (repeat_op (length is) fetch_instruction) (encode_all p is) is"
proof (induction "is" arbitrary: p)
  case Nil
  show ?case by (simp add: reads_at_ret)
next
  case (Cons i "is")
  then have "reads_at (p + length (encode_inst p i))
      (bind (repeat_op (length is) fetch_instruction) (\<lambda>js. ret (i # js)))
      (encode_all (p + length (encode_inst p i)) is) (i # is)"
    by (intro reads_at_bind_ret) simp
  from reads_at_bind [OF fetch_encode, of i p "\<lambda>i. bind (repeat_op (length is) fetch_instruction) (\<lambda>js. ret (i # js))", OF _ this]
  show ?case using Cons.prems by simp
qed

text \<open>An opcode without an instruction ends the process.\<close>

lemma fetch_unsupported:
  assumes "unsupported (unat op)" and "length (pre @ op # post) < 2 ^ 31"
  shows "fetch_instruction \<lparr>br_code = pre @ op # post, br_pc = of_nat (length pre)\<rparr> =
    Inl (Fatal ''Unsupported OpCode'')"
  using reads_fromD [OF reads_u1 [of op], of pre post] assms CreateInstruction_None [of op]
  by (simp add: fetch_instruction_def bind_def raise_def)

end
