(* ===== verification/Runtime_Constants.thy ===== *)
theory Runtime_Constants
  imports Class_File
begin

text \<open>
  The run-time constant pool of \<open>src/src/runtime/constant_pool.h\<close> and \<open>constant_pool.cpp\<close>: its
  constants, its construction from the constant pool of the class file, and the decoding of
  modified UTF-8. The resolution of symbolic references needs the classes and is in
  \<open>Class_Resolve\<close>. The pool is shown to have one entry for every entry of the class file
  and the decoder to invert the encoding of the class-file format.
\<close>

type_synonym class_id = nat

section \<open>Constants\<close>

text \<open>
  The members \<open>class_ptr_\<close>, \<open>field_\<close>, \<open>method_\<close> and \<open>interface_method_\<close>, null until the reference is
  resolved, are the optional arguments: a class, or the class and the index of the member in it.
\<close>

type_synonym member_id = "class_id \<times> nat"

datatype rt_constant =
    IntegerConstant "32 word"
  | FloatConstant "32 word"
  | LongConstant "64 word"
  | DoubleConstant "64 word"
  | StringConstant string
  | ClassRefConstant string "class_id option"
  | FieldRefConstant string string string "class_id option" "member_id option"
  | MethodRefConstant string string string "class_id option" "member_id option"
  | InterfaceMethodRefConstant string string string "class_id option" "member_id option"

text \<open>The names of \<open>enum ConstantType\<close> that the run-time constants carry.\<close>

datatype constant_type =
  kConstantUtf8 | kConstantInteger | kConstantFloat | kConstantLong | kConstantDouble
  | kConstantClass | kConstantFieldRef | kConstantMethodRef

fun GetConstantType :: "rt_constant \<Rightarrow> constant_type" where
  "GetConstantType (IntegerConstant _) = kConstantInteger"
| "GetConstantType (FloatConstant _) = kConstantFloat"
| "GetConstantType (LongConstant _) = kConstantLong"
| "GetConstantType (DoubleConstant _) = kConstantDouble"
| "GetConstantType (StringConstant _) = kConstantUtf8"
| "GetConstantType (ClassRefConstant _ _) = kConstantClass"
| "GetConstantType (FieldRefConstant _ _ _ _ _) = kConstantFieldRef"
| "GetConstantType (MethodRefConstant _ _ _ _ _) = kConstantMethodRef"
| "GetConstantType (InterfaceMethodRefConstant _ _ _ _ _) = kConstantMethodRef"

type_synonym rt_pool = "rt_constant option list"

text \<open>An index out of range is logged and gives the null pointer.\<close>

definition GetConstant :: "rt_pool \<Rightarrow> u4 \<Rightarrow> rt_constant option" where
  "GetConstant constants index = (if unat index < length constants then constants ! unat index else None)"

section \<open>Construction\<close>

definition make_member_ref ::
    "constant_pool \<Rightarrow> u2 \<Rightarrow> u2 \<Rightarrow> (string \<Rightarrow> string \<Rightarrow> string \<Rightarrow> rt_constant) \<Rightarrow> rt_constant option res" where
  "make_member_ref cf class_index nt_index k =
     (case GetClassName cf class_index of
        Inl e \<Rightarrow> Inl e
      | Inr class_name \<Rightarrow>
          (case GetNameAndType cf nt_index of
             Inl e \<Rightarrow> Inl e
           | Inr (name, descriptor) \<Rightarrow> Inr (Some (k class_name name descriptor))))"

text \<open>The entry made for one constant of the class file; \<open>None\<close> where the \<open>switch\<close> makes nothing.\<close>

fun make_constant :: "constant_pool \<Rightarrow> constant_info \<Rightarrow> rt_constant option res" where
  "make_constant cf (ConstantIntegerInfo v) = Inr (Some (IntegerConstant v))"
| "make_constant cf (ConstantFloatInfo v) = Inr (Some (FloatConstant v))"
| "make_constant cf (ConstantLongInfo v) = Inr (Some (LongConstant v))"
| "make_constant cf (ConstantDoubleInfo v) = Inr (Some (DoubleConstant v))"
| "make_constant cf (ConstantStringInfo i) =
     (case GetUtf8 cf i of Inl e \<Rightarrow> Inl e | Inr s \<Rightarrow> Inr (Some (StringConstant s)))"
| "make_constant cf (ConstantClassInfo i) =
     (case GetUtf8 cf i of Inl e \<Rightarrow> Inl e | Inr s \<Rightarrow> Inr (Some (ClassRefConstant s None)))"
| "make_constant cf (ConstantFieldRefInfo c nt) =
     make_member_ref cf c nt (\<lambda>a b d. FieldRefConstant a b d None None)"
| "make_constant cf (ConstantMethodRefInfo c nt) =
     make_member_ref cf c nt (\<lambda>a b d. MethodRefConstant a b d None None)"
| "make_constant cf (ConstantInterfaceMethodRefInfo c nt) =
     make_member_ref cf c nt (\<lambda>a b d. InterfaceMethodRefConstant a b d None None)"
| "make_constant cf _ = Inr None"

text \<open>
  The loop of the constructor. For a \<open>long\<close> or \<open>double\<close> it also clears the next entry
  (\<open>constants_[++i] = nullptr\<close>), which is outside the vector when the constant is the last one.
\<close>

function ConstantPool_loop :: "constant_pool \<Rightarrow> nat \<Rightarrow> rt_pool \<Rightarrow> rt_pool res" where
  "ConstantPool_loop cf i constants =
     (if i < unat (cp_count cf) then
        (case GetConstantInfo cf (of_nat i) of
           Inl e \<Rightarrow> Inl e
         | Inr None \<Rightarrow> Inl Null_Dereference
         | Inr (Some c) \<Rightarrow>
             (case make_constant cf c of
                Inl e \<Rightarrow> Inl e
              | Inr k \<Rightarrow>
                  (case vec_set constants i k of
                     Inl e \<Rightarrow> Inl e
                   | Inr constants' \<Rightarrow>
                       if takes_two_entries c then
                         (case vec_set constants' (i + 1) None of
                            Inl e \<Rightarrow> Inl e
                          | Inr constants'' \<Rightarrow> ConstantPool_loop cf (i + 2) constants'')
                       else ConstantPool_loop cf (i + 1) constants')))
      else Inr constants)"
  by pat_completeness auto
termination
  by (relation "measure (\<lambda>(cf, i, constants). unat (cp_count cf) - i)") auto

declare ConstantPool_loop.simps [simp del]

definition ConstantPool_new :: "constant_pool \<Rightarrow> rt_pool res" where
  "ConstantPool_new cf = ConstantPool_loop cf 1 (replicate (unat (cp_count cf)) None)"

section \<open>Modified UTF-8\<close>

text \<open>The first loop of \<open>DecodeMutf8\<close>: the leading run of bytes up to 127.\<close>

fun decode_ascii :: "bytes \<Rightarrow> u2 list \<times> bytes" where
  "decode_ascii [] = ([], [])"
| "decode_ascii (c # cs) =
     (if 127 < c then ([], c # cs)
      else let (us, rest) = decode_ascii cs in (ucast c # us, rest))"

text \<open>
  The second loop; \<open>c >> 4\<close> selects the length of the sequence. A missing continuation byte stops
  the program before it is read.
\<close>

definition partial_char :: "vm_error" where
  "partial_char = Fatal ''malformed input: partial character at end''"

definition malformed :: "vm_error" where
  "malformed = Fatal ''malformed input around byte''"

definition is_cont :: "u1 \<Rightarrow> bool" where
  "is_cont b \<longleftrightarrow> b AND 0xC0 = 0x80"

fun decode_loop :: "bytes \<Rightarrow> u2 list res" where
  "decode_loop [] = Inr []"
| "decode_loop (c # cs) =
     (let hi = unat (drop_bit 4 c) in
      if hi \<le> 7 then map_sum id ((#) (ucast c)) (decode_loop cs)
      else if hi = 12 \<or> hi = 13 then
        (case cs of
           [] \<Rightarrow> Inl partial_char
         | c2 # cs2 \<Rightarrow>
             if \<not> is_cont c2 then Inl malformed
             else map_sum id ((#) (push_bit 6 (ucast (c AND 0x1F)) OR ucast (c2 AND 0x3F)))
               (decode_loop cs2))
      else if hi = 14 then
        (case cs of
           c2 # c3 # cs3 \<Rightarrow>
             if \<not> is_cont c2 \<or> \<not> is_cont c3 then Inl malformed
             else map_sum id
               ((#) (push_bit 12 (ucast (c AND 0x0F)) OR push_bit 6 (ucast (c2 AND 0x3F)) OR
                     ucast (c3 AND 0x3F)))
               (decode_loop cs3)
         | _ \<Rightarrow> Inl partial_char)
      else Inl malformed)"

definition DecodeMutf8 :: "bytes \<Rightarrow> u2 list res" where
  "DecodeMutf8 bs =
     (let (us, rest) = decode_ascii bs in map_sum id ((@) us) (decode_loop rest))"

definition Utf8ToUtf16 :: "string \<Rightarrow> u2 list res" where
  "Utf8ToUtf16 str = DecodeMutf8 (bytes_of_string str)"

text \<open>The encoding of the class-file format: one, two or three bytes for a UTF-16 unit.\<close>

definition encode_unit :: "u2 \<Rightarrow> bytes" where
  "encode_unit u =
     (if 1 \<le> u \<and> u \<le> 0x7F then [ucast u]
      else if u \<le> 0x7FF then
        [0xC0 OR ucast (drop_bit 6 u), 0x80 OR ucast (u AND 0x3F)]
      else
        [0xE0 OR ucast (drop_bit 12 u), 0x80 OR ucast (drop_bit 6 u AND 0x3F),
         0x80 OR ucast (u AND 0x3F)])"

section \<open>Decoding inverts encoding\<close>

text \<open>Facts on single bytes, checked for every payload a byte can carry.\<close>

lemma byte_all: "list_all (\<lambda>n. P (of_nat n)) [0..<k] \<Longrightarrow> unat x < k \<Longrightarrow> P (x :: u1)"
  by (auto simp: list_all_iff dest: bspec [where x = "unat x"])

lemma lead2: "unat x < 32 \<Longrightarrow>
    (unat (drop_bit 4 (0xC0 OR x :: u1)) = 12 \<or> unat (drop_bit 4 (0xC0 OR x)) = 13) \<and> (0xC0 OR x) AND 0x1F = x \<and> 127 < 0xC0 OR x"
  by (rule byte_all [where k = 32]) (code_simp, simp)

lemma lead3: "unat x < 16 \<Longrightarrow> unat (drop_bit 4 (0xE0 OR x :: u1)) = 14 \<and> (0xE0 OR x) AND 0x0F = x \<and> 127 < 0xE0 OR x"
  by (rule byte_all [where k = 16]) (code_simp, simp)

lemma cont: "unat y < 64 \<Longrightarrow> is_cont (0x80 OR y) \<and> (0x80 OR y) AND 0x3F = y"
  unfolding is_cont_def by (rule byte_all [where k = 64]) (code_simp, simp)

lemma lead1: "unat x \<le> 127 \<Longrightarrow> unat (drop_bit 4 (x :: u1)) \<le> 7"
  by (rule byte_all [where k = 128]) (code_simp, simp)

lemma unat_ucast_less: "unat (w :: u2) < 256 \<Longrightarrow> unat (ucast w :: u1) = unat w"
  by (simp add: unsigned_ucast_eq take_bit_eq_mod)

lemma ucast_back: "unat (w :: u2) < 256 \<Longrightarrow> ucast (ucast w :: u1) = w"
  unfolding word_unat_eq_iff by (simp add: unsigned_ucast_eq unsigned_take_bit_eq take_bit_eq_mod [where 'a = nat])

lemma unat_drop_bit_less: "unat u < 2 ^ (n + k) \<Longrightarrow> unat (drop_bit n (u :: u2)) < 2 ^ k"
  unfolding unat_drop_bit_eq drop_bit_eq_div [where 'a = nat]
  by (simp add: less_mult_imp_div_less power_add mult.commute)

lemma mask_6: "(0x3F :: u2) = mask 6"
  by (simp add: mask_eq_exp_minus_1)

lemma unat_and_63: "unat (u AND 0x3F :: u2) < 64"
  unfolding mask_6 take_bit_eq_mask [symmetric]
  by (simp add: unsigned_take_bit_eq take_bit_eq_mod [where 'a = nat])

lemma low6: "ucast (ucast (u AND 0x3F :: u2) :: u1) = u AND (0x3F :: u2)"
  using unat_and_63 [of u] by (intro ucast_back) simp

lemma split6: "push_bit 6 (drop_bit 6 u) OR (u AND 0x3F) = (u :: u2)"
  unfolding mask_6 take_bit_eq_mask [symmetric]
  by (rule bit_word_eqI) (auto simp: bit_simps)

lemma split12: "push_bit 12 (drop_bit 12 u) OR push_bit 6 (drop_bit 6 u AND 0x3F) OR (u AND 0x3F) = (u :: u2)"
  unfolding mask_6 take_bit_eq_mask [symmetric]
proof (rule bit_word_eqI)
  fix n assume "n < LENGTH(16)"
  then show "bit (push_bit 12 (drop_bit 12 u) OR push_bit 6 (take_bit 6 (drop_bit 6 u)) OR take_bit 6 u) n = bit u n"
    by (cases "12 \<le> n"; cases "6 \<le> n") (auto simp: bit_simps)
qed

lemma decode2:
  assumes "unat (drop_bit 4 c) = 12 \<or> unat (drop_bit 4 c) = 13" and "is_cont c2"
  shows "decode_loop (c # c2 # bs) =
    map_sum id ((#) (push_bit 6 (ucast (c AND 0x1F)) OR ucast (c2 AND 0x3F))) (decode_loop bs)"
  using assms by (simp add: Let_def) linarith

lemma decode3:
  assumes "unat (drop_bit 4 c) = 14" and "is_cont c2" and "is_cont c3"
  shows "decode_loop (c # c2 # c3 # bs) =
    map_sum id ((#) (push_bit 12 (ucast (c AND 0x0F)) OR push_bit 6 (ucast (c2 AND 0x3F)) OR
      ucast (c3 AND 0x3F))) (decode_loop bs)"
  using assms by (simp add: Let_def)

declare decode_loop.simps(2) [simp del]

lemma decode_loop_unit: "decode_loop (encode_unit u @ bs) = map_sum id ((#) u) (decode_loop bs)"
proof -
  consider (one) "1 \<le> u" "u \<le> 0x7F" | (two) "\<not> (1 \<le> u \<and> u \<le> 0x7F)" "u \<le> 0x7FF" | (three) "\<not> u \<le> 0x7FF"
    by blast
  then show ?thesis
  proof cases
    case one
    then have small: "unat u \<le> 127"
      by (simp add: word_le_nat_alt)
    then have "unat (ucast u :: u1) \<le> 127"
      by (simp add: unat_ucast_less)
    from lead1 [OF this] ucast_back [of u] small one show ?thesis
      by (simp add: encode_unit_def decode_loop.simps(2))
  next
    case two
    let ?x = "ucast (drop_bit 6 u) :: u1" and ?y = "ucast (u AND 0x3F) :: u1"
    have x: "unat (drop_bit 6 u) < 32"
      using two unat_drop_bit_less [of u 6 5] by (simp add: word_le_nat_alt)
    then have x1: "unat ?x < 32" and y1: "unat ?y < 64"
      using unat_and_63 [of u] by (simp_all add: unat_ucast_less)
    have bk: "ucast ?x = drop_bit 6 u"
      using x by (intro ucast_back) simp
    note l = lead2 [OF x1] and c = cont [OF y1]
    have "encode_unit u = [0xC0 OR ?x, 0x80 OR ?y]"
      using two unfolding encode_unit_def by (simp only: if_False if_True)
    then show ?thesis
      using l c by (simp only: append.simps decode2 bk low6 split6)
  next
    case three
    let ?x = "ucast (drop_bit 12 u) :: u1" and ?y = "ucast (drop_bit 6 u AND 0x3F) :: u1"
      and ?z = "ucast (u AND 0x3F) :: u1"
    have "unat u < 2 ^ 16"
      using unsigned_less [of u] by simp
    then have x: "unat (drop_bit 12 u) < 16"
      using unat_drop_bit_less [of u 12 4] by simp
    then have x1: "unat ?x < 16" and y1: "unat ?y < 64" and z1: "unat ?z < 64"
      using unat_and_63 [of u] unat_and_63 [of "drop_bit 6 u"] by (simp_all add: unat_ucast_less)
    have bk: "ucast ?x = drop_bit 12 u"
      using x by (intro ucast_back) simp
    note l = lead3 [OF x1] and c = cont [OF y1] cont [OF z1]
    have "\<not> (1 \<le> u \<and> u \<le> 0x7F)"
      using three by (auto simp: word_le_nat_alt)
    then have "encode_unit u = [0xE0 OR ?x, 0x80 OR ?y, 0x80 OR ?z]"
      using three unfolding encode_unit_def by (simp only: if_False)
    then show ?thesis
      using l c by (simp only: append.simps decode3 bk low6 split12)
  qed
qed

lemma decode_loop_encode: "decode_loop (concat (map encode_unit us)) = Inr us"
  by (induction us) (simp_all add: decode_loop_unit)

text \<open>The split of the loop in two does not matter.\<close>

lemma DecodeMutf8_loop: "DecodeMutf8 bs = decode_loop bs"
proof (induction bs)
  case (Cons c cs)
  show ?case
  proof (cases "127 < c")
    case False
    then have "unat (drop_bit 4 c) \<le> 7"
      by (intro lead1) (simp add: word_less_nat_alt)
    then have "decode_loop (c # cs) = map_sum id ((#) (ucast c)) (DecodeMutf8 cs)"
      by (simp add: decode_loop.simps(2) Cons)
    with False show ?thesis
      by (cases "decode_loop (snd (decode_ascii cs))") (auto simp: DecodeMutf8_def Let_def case_prod_beta)
  qed (cases "decode_loop (c # cs)"; simp add: DecodeMutf8_def)
qed (simp add: DecodeMutf8_def)

section \<open>The pool has the entries of the class file\<close>

text \<open>
  A pool is well formed when each entry is there, except the one after a \<open>long\<close> or \<open>double\<close>.
\<close>

definition pool_wf :: "constant_pool \<Rightarrow> bool" where
  "pool_wf cf \<longleftrightarrow> length (cp_infos cf) = unat (cp_count cf) \<and>
     (\<forall>j < unat (cp_count cf). \<forall>c. cp_infos cf ! j = Some c \<longrightarrow> takes_two_entries c \<longrightarrow>
        j + 1 < unat (cp_count cf) \<and> cp_infos cf ! (j + 1) = None)"

definition expected :: "constant_pool \<Rightarrow> nat \<Rightarrow> rt_constant option res" where
  "expected cf j = (case cp_infos cf ! j of None \<Rightarrow> Inr None | Some c \<Rightarrow> make_constant cf c)"

lemma GetConstantInfo_at:
  "length (cp_infos cf) = unat (cp_count cf) \<Longrightarrow> 1 \<le> i \<Longrightarrow> i < unat (cp_count cf) \<Longrightarrow>
   GetConstantInfo cf (of_nat i) = Inr (cp_infos cf ! i)"
  using unsigned_less [of "cp_count cf", where ?'a = nat]
  by (simp add: GetConstantInfo_def vec_get_def unat_of_nat)

lemma ConstantPool_loop_entries:
  assumes "pool_wf cf" and "1 \<le> i" and "length ks = unat (cp_count cf)"
    and "ConstantPool_loop cf i ks = Inr p"
    and "\<forall>j. 1 \<le> j \<longrightarrow> j < i \<longrightarrow> j < unat (cp_count cf) \<longrightarrow> expected cf j = Inr (ks ! j)"
  shows "length p = unat (cp_count cf) \<and>
    (\<forall>j. 1 \<le> j \<longrightarrow> j < unat (cp_count cf) \<longrightarrow> expected cf j = Inr (p ! j))"
  using assms
proof (induction cf i ks rule: ConstantPool_loop.induct)
  case (1 cf i ks)
  show ?case
  proof (cases "i < unat (cp_count cf)")
    case True
    have info: "GetConstantInfo cf (of_nat i) = Inr (cp_infos cf ! i)"
      using 1 True by (intro GetConstantInfo_at) (auto simp: pool_wf_def)
    from 1(6) True info obtain c where c: "cp_infos cf ! i = Some c"
      by (subst (asm) ConstantPool_loop.simps) (auto split: option.splits)
    from 1(6) True info c obtain k where k: "make_constant cf c = Inr k"
      by (subst (asm) ConstantPool_loop.simps) (auto split: sum.splits)
    have at: "expected cf i = Inr k"
      using c k by (simp add: expected_def)
    have set: "vec_set ks i k = Inr (ks[i := k])"
      using 1(5) True by (simp add: vec_set_def)
    show ?thesis
    proof (cases "takes_two_entries c")
      case two: True
      then have next_none: "i + 1 < unat (cp_count cf)" "cp_infos cf ! (i + 1) = None"
        using 1(3) True c by (auto simp: pool_wf_def)
      then have set2: "vec_set (ks[i := k]) (i + 1) None = Inr (ks[i := k, i + 1 := None])"
        using 1(5) by (simp add: vec_set_def)
      have "ConstantPool_loop cf (i + 2) (ks[i := k, i + 1 := None]) = Inr p"
        using 1(6) True info c k set set2 two by (subst (asm) ConstantPool_loop.simps) simp
      moreover have "expected cf j = Inr (ks[i := k, i + 1 := None] ! j)"
        if "1 \<le> j" "j < i + 2" "j < unat (cp_count cf)" for j
        using that 1(5,7) at next_none
        by (auto simp: nth_list_update expected_def less_Suc_eq)
      ultimately show ?thesis
        using 1(1) [OF True info _ k set two set2] 1(3,4,5) c by simp
    next
      case False
      have "ConstantPool_loop cf (i + 1) (ks[i := k]) = Inr p"
        using 1(6) True info c k set False by (subst (asm) ConstantPool_loop.simps) simp
      moreover have "expected cf j = Inr (ks[i := k] ! j)" if "1 \<le> j" "j < i + 1" "j < unat (cp_count cf)" for j
        using that 1(5,7) at by (auto simp: nth_list_update less_Suc_eq)
      ultimately show ?thesis
        using 1(2) [OF True info _ k set False] 1(3,4,5) c by simp
    qed
  next
    case False
    then have "p = ks"
      using 1(6) by (simp add: ConstantPool_loop.simps)
    with False 1 show ?thesis by auto
  qed
qed

section \<open>Types of the entries\<close>

text \<open>
  The type that \<open>GetConstantType\<close> gives for the constant made from an entry of the class file: that of the
  entry, but for strings and interface methods.
\<close>

fun rt_type :: "constant_info \<Rightarrow> constant_type option" where
  "rt_type (ConstantIntegerInfo _) = Some kConstantInteger"
| "rt_type (ConstantFloatInfo _) = Some kConstantFloat"
| "rt_type (ConstantLongInfo _) = Some kConstantLong"
| "rt_type (ConstantDoubleInfo _) = Some kConstantDouble"
| "rt_type (ConstantStringInfo _) = Some kConstantUtf8"
| "rt_type (ConstantClassInfo _) = Some kConstantClass"
| "rt_type (ConstantFieldRefInfo _ _) = Some kConstantFieldRef"
| "rt_type (ConstantMethodRefInfo _ _) = Some kConstantMethodRef"
| "rt_type (ConstantInterfaceMethodRefInfo _ _) = Some kConstantMethodRef"
| "rt_type _ = None"

lemma make_constant_type: "make_constant cf c = Inr k \<Longrightarrow> map_option GetConstantType k = rt_type c"
  by (cases c) (auto simp: make_member_ref_def split: sum.splits prod.splits)

end
