(* ===== verification/Method_Info.thy ===== *)
theory Method_Info
  imports Runtime_Constants
begin

text \<open>
  Members of a class: \<open>src/src/runtime/oo/class_member.h/.cpp\<close>, \<open>field.h\<close> and
  \<open>method.h/.cpp\<close> without the handler search, which needs the classes (\<open>Class_Resolve\<close>). Shown
  here: the method descriptor is split into the types it is made of, the count of argument slots
  is the sum of their widths, a native method gets the code that calls its native function and
  returns, and when the two objects that the constructor places in one block fit there.
\<close>

section \<open>Class members\<close>

record class_member =
  cm_access_flags :: u2
  cm_name :: string
  cm_descriptor :: string
  cm_class :: class_id

definition has_flag :: "u2 \<Rightarrow> u2 \<Rightarrow> bool" where
  "has_flag flags f \<longleftrightarrow> flags AND f \<noteq> 0"

abbreviation (input) ACC_PUBLIC :: u2 where "ACC_PUBLIC \<equiv> 0x0001"
abbreviation (input) ACC_PRIVATE :: u2 where "ACC_PRIVATE \<equiv> 0x0002"
abbreviation (input) ACC_PROTECTED :: u2 where "ACC_PROTECTED \<equiv> 0x0004"
abbreviation (input) ACC_STATIC :: u2 where "ACC_STATIC \<equiv> 0x0008"
abbreviation (input) ACC_FINAL :: u2 where "ACC_FINAL \<equiv> 0x0010"
abbreviation (input) ACC_SUPER :: u2 where "ACC_SUPER \<equiv> 0x0020"
abbreviation (input) ACC_SYNCHRONIZED :: u2 where "ACC_SYNCHRONIZED \<equiv> 0x0020"
abbreviation (input) ACC_VOLATILE :: u2 where "ACC_VOLATILE \<equiv> 0x0040"
abbreviation (input) ACC_BRIDGE :: u2 where "ACC_BRIDGE \<equiv> 0x0040"
abbreviation (input) ACC_TRANSIENT :: u2 where "ACC_TRANSIENT \<equiv> 0x0080"
abbreviation (input) ACC_VARARGS :: u2 where "ACC_VARARGS \<equiv> 0x0080"
abbreviation (input) ACC_NATIVE :: u2 where "ACC_NATIVE \<equiv> 0x0100"
abbreviation (input) ACC_INTERFACE :: u2 where "ACC_INTERFACE \<equiv> 0x0200"
abbreviation (input) ACC_ABSTRACT :: u2 where "ACC_ABSTRACT \<equiv> 0x0400"
abbreviation (input) ACC_STRICT :: u2 where "ACC_STRICT \<equiv> 0x0800"
abbreviation (input) ACC_SYNTHETIC :: u2 where "ACC_SYNTHETIC \<equiv> 0x1000"
abbreviation (input) ACC_ANNOTATION :: u2 where "ACC_ANNOTATION \<equiv> 0x2000"
abbreviation (input) ACC_ENUM :: u2 where "ACC_ENUM \<equiv> 0x4000"

definition IsPublic :: "('a) class_member_scheme \<Rightarrow> bool" where
  "IsPublic m = has_flag (cm_access_flags m) ACC_PUBLIC"

definition IsPrivate :: "('a) class_member_scheme \<Rightarrow> bool" where
  "IsPrivate m = has_flag (cm_access_flags m) ACC_PRIVATE"

definition IsProtected :: "('a) class_member_scheme \<Rightarrow> bool" where
  "IsProtected m = has_flag (cm_access_flags m) ACC_PROTECTED"

definition IsStatic :: "('a) class_member_scheme \<Rightarrow> bool" where
  "IsStatic m = has_flag (cm_access_flags m) ACC_STATIC"

definition IsFinal :: "('a) class_member_scheme \<Rightarrow> bool" where
  "IsFinal m = has_flag (cm_access_flags m) ACC_FINAL"

definition ClassMember_new :: "constant_pool \<Rightarrow> member_info \<Rightarrow> class_id \<Rightarrow> class_member res" where
  "ClassMember_new cf mi c =
     (case MemberInfo_GetName cf mi of
        Inl e \<Rightarrow> Inl e
      | Inr name \<Rightarrow>
          (case MemberInfo_GetDescriptor cf mi of
             Inl e \<Rightarrow> Inl e
           | Inr descriptor \<Rightarrow>
               Inr \<lparr>cm_access_flags = mi_access_flags mi, cm_name = name,
                    cm_descriptor = descriptor, cm_class = c\<rparr>))"

section \<open>Fields\<close>

record field = class_member +
  f_slot_id :: u4
  f_const_value_index :: u4

definition Field_new :: "constant_pool \<Rightarrow> member_info \<Rightarrow> class_id \<Rightarrow> field res" where
  "Field_new cf mi c =
     (case ClassMember_new cf mi c of
        Inl e \<Rightarrow> Inl e
      | Inr m \<Rightarrow>
          Inr (class_member.extend m
            \<lparr>f_slot_id = 0,
             f_const_value_index = (case GetConstantAttribute mi of None \<Rightarrow> 0 | Some i \<Rightarrow> ucast i)\<rparr>))"

text \<open>\<open>IsVolatile\<close> tests the flag of transient fields.\<close>

definition IsVolatile :: "field \<Rightarrow> bool" where
  "IsVolatile f = has_flag (cm_access_flags f) ACC_TRANSIENT"

definition Field_IsSynthetic :: "field \<Rightarrow> bool" where
  "Field_IsSynthetic f = has_flag (cm_access_flags f) ACC_SYNTHETIC"

definition Field_IsEnum :: "field \<Rightarrow> bool" where
  "Field_IsEnum f = has_flag (cm_access_flags f) ACC_ENUM"

text \<open>\<open>s[0]\<close> of an empty \<open>std::string\<close> is the terminating zero.\<close>

definition char0 :: "string \<Rightarrow> char" where
  "char0 s = (case s of [] \<Rightarrow> CHR 0x00 | c # _ \<Rightarrow> c)"

text \<open>Fields that take two slots: references too.\<close>

definition IsLongOrDouble :: "field \<Rightarrow> bool" where
  "IsLongOrDouble f \<longleftrightarrow>
     cm_descriptor f = ''J'' \<or> cm_descriptor f = ''D'' \<or>
     char0 (cm_descriptor f) = CHR ''['' \<or> char0 (cm_descriptor f) = CHR ''L''"

section \<open>Method descriptors\<close>

text \<open>\<open>std::string::find\<close> and \<open>substr\<close>; \<open>None\<close> is \<open>npos\<close>.\<close>

fun str_find :: "char \<Rightarrow> string \<Rightarrow> nat option" where
  "str_find c [] = None"
| "str_find c (x # xs) = (if x = c then Some 0 else map_option Suc (str_find c xs))"

definition substr_from :: "string \<Rightarrow> nat \<Rightarrow> string res" where
  "substr_from s pos = (if length s < pos then Inl Out_Of_Range else Inr (drop pos s))"

text \<open>
  The loop over the parameters. After an \<open>L\<close> without a semicolon, \<open>semicolon_index + 1\<close> wraps
  around to 0: the loop takes the empty string off \<open>param_str\<close> and stores it, again and again,
  until the memory is used up and \<open>push_back\<close> throws.
\<close>

lemma str_find_bound: "str_find c xs = Some i \<Longrightarrow> i < length xs"
  by (induction xs arbitrary: i) (auto split: if_splits)

function parse_params :: "string \<Rightarrow> bool \<Rightarrow> string list \<Rightarrow> string list res" where
  "parse_params [] is_array acc = Inr acc"
| "parse_params (c # cs) is_array acc =
     (if c = CHR ''L'' then
        (case str_find CHR '';'' (c # cs) of
           None \<Rightarrow> Inl (Runtime_Error ''std::bad_alloc'')
         | Some i \<Rightarrow>
             let t = take (i + 1) (c # cs);
                 t = (if is_array then CHR ''['' # t else t) in
             parse_params (drop (i + 1) (c # cs)) False (acc @ [t]))
      else if c = CHR ''['' then parse_params cs True acc
      else
        let t = (if is_array then [CHR ''['', c] else [c]) in
        parse_params cs False (acc @ [t]))"
  by pat_completeness auto
termination
  by (relation "measure (\<lambda>(s, a, acc). length s)") auto

record method_descriptor =
  md_parameter_types :: "string list"
  md_return_type :: string

text \<open>
  A missing parenthesis is \<open>npos\<close>: \<open>npos + 1\<close> is 0, and a length that wraps around or is \<open>npos\<close>
  reaches to the end of the string.
\<close>

definition ParseMethodDescriptor :: "string \<Rightarrow> method_descriptor res" where
  "ParseMethodDescriptor descriptor =
     (let begin = (case str_find CHR ''('' descriptor of None \<Rightarrow> 0 | Some i \<Rightarrow> i + 1) in
      case substr_from descriptor begin of
        Inl e \<Rightarrow> Inl e
      | Inr rest \<Rightarrow>
          let param_str = (case str_find CHR '')'' descriptor of
                None \<Rightarrow> rest
              | Some end_ix \<Rightarrow> if begin \<le> end_ix then take (end_ix - begin) rest else rest) in
          (case parse_params param_str False [] of
             Inl e \<Rightarrow> Inl e
           | Inr types \<Rightarrow>
               (case substr_from descriptor
                   (case str_find CHR '')'' descriptor of None \<Rightarrow> 0 | Some end_ix \<Rightarrow> end_ix + 1) of
                  Inl e \<Rightarrow> Inl e
                | Inr return_type \<Rightarrow>
                    Inr \<lparr>md_parameter_types = types, md_return_type = return_type\<rparr>)))"

section \<open>Methods\<close>

record exception_handler =
  eh_start_pc :: "32 word"
  eh_end_pc :: "32 word"
  eh_handler_pc :: "32 word"
  eh_catch_type :: "u2 option"

text \<open>
  A pointer member that the constructor leaves uninitialised is \<open>None\<close>: \<open>codes_\<close> of a method that
  has no code and is not native, \<open>exception_table_\<close> of one without code, \<open>line_number_table_\<close> of
  one without that attribute.
\<close>

record meth = class_member +
  m_codes :: "bytes option"
  m_max_stack :: u4
  m_max_locals :: u4
  m_arg_slot_count :: u4
  m_method_descriptor :: method_descriptor
  m_exception_table :: "exception_handler list option"
  m_line_number_table :: "line_number_entry list option"

definition IsSynchronized :: "meth \<Rightarrow> bool" where
  "IsSynchronized m = has_flag (cm_access_flags m) ACC_SYNCHRONIZED"

definition IsBridge :: "meth \<Rightarrow> bool" where
  "IsBridge m = has_flag (cm_access_flags m) ACC_BRIDGE"

definition IsVarargs :: "meth \<Rightarrow> bool" where
  "IsVarargs m = has_flag (cm_access_flags m) ACC_VARARGS"

definition IsNative :: "meth \<Rightarrow> bool" where
  "IsNative m = has_flag (cm_access_flags m) ACC_NATIVE"

definition IsAbstract :: "meth \<Rightarrow> bool" where
  "IsAbstract m = has_flag (cm_access_flags m) ACC_ABSTRACT"

definition IsStrict :: "meth \<Rightarrow> bool" where
  "IsStrict m = has_flag (cm_access_flags m) ACC_STRICT"

definition Method_IsSynthetic :: "meth \<Rightarrow> bool" where
  "Method_IsSynthetic m = has_flag (cm_access_flags m) ACC_SYNTHETIC"

fun count_params :: "string list \<Rightarrow> u4 \<Rightarrow> u4" where
  "count_params [] n = n"
| "count_params (t # ts) n = count_params ts (if t = ''J'' \<or> t = ''D'' then n + 1 + 1 else n + 1)"

definition CalcArgSlotCount :: "string list \<Rightarrow> meth \<Rightarrow> meth" where
  "CalcArgSlotCount param_types m =
     (let n = count_params param_types (m_arg_slot_count m) in
      m\<lparr>m_arg_slot_count := (if IsStatic m then n else n + 1)\<rparr>)"

definition return_opcode :: "char \<Rightarrow> u1 option" where
  "return_opcode c =
     (if c = CHR ''V'' then Some 0xB1
      else if c = CHR ''L'' \<or> c = CHR ''['' then Some 0xB0
      else if c = CHR ''D'' then Some 0xAF
      else if c = CHR ''F'' then Some 0xAE
      else if c = CHR ''J'' then Some 0xAD
      else if c = CHR ''Z'' \<or> c = CHR ''B'' \<or> c = CHR ''C'' \<or> c = CHR ''S'' \<or> c = CHR ''I'' then Some 0xAC
      else None)"

text \<open>\<open>codes_\<close> was just made with two elements, so that the code starts with two zero bytes.\<close>

definition InjectCodeAttribute :: "string \<Rightarrow> meth \<Rightarrow> meth" where
  "InjectCodeAttribute return_type m =
     (let m = m\<lparr>m_max_stack := 4, m_max_locals := m_arg_slot_count m\<rparr> in
      case (m_codes m, return_opcode (char0 return_type)) of
        (Some codes, Some opcode) \<Rightarrow> m\<lparr>m_codes := Some (codes @ [0xFE] @ [opcode])\<rparr>
      | _ \<Rightarrow> m)"

text \<open>A catch type that is not a class reference of the pool gives the null pointer, like index 0.\<close>

definition GetCatchType :: "rt_pool \<Rightarrow> u2 \<Rightarrow> u2 option" where
  "GetCatchType cp idx =
     (if idx = 0 then None
      else case GetConstant cp (ucast idx) of
             Some (ClassRefConstant _ _) \<Rightarrow> Some idx
           | _ \<Rightarrow> None)"

definition make_handler :: "rt_pool \<Rightarrow> exception_entry \<Rightarrow> exception_handler" where
  "make_handler cp e =
     \<lparr>eh_start_pc = ucast (ee_start_pc e), eh_end_pc = ucast (ee_end_pc e),
      eh_handler_pc = ucast (ee_handler_pc e), eh_catch_type = GetCatchType cp (ee_catch_type e)\<rparr>"

fun first_line_number_table :: "attribute_info list \<Rightarrow> line_number_entry list option" where
  "first_line_number_table [] = None"
| "first_line_number_table (LineNumberTableAttributeInfo es # as) = Some es"
| "first_line_number_table (_ # as) = first_line_number_table as"

text \<open>
  The constructor gets one block of \<open>code_size + n * sizeof(ExceptionHandler)\<close> bytes and places two
  \<open>std::vector\<close> objects in it, one at its start and one at offset \<open>code_size\<close>. A vector object and an
  \<open>ExceptionHandler\<close> both have 24 bytes.
\<close>

definition sizeof_vector :: nat where "sizeof_vector = 24"
definition sizeof_ExceptionHandler :: nat where "sizeof_ExceptionHandler = 24"

definition placement_ok :: "nat \<Rightarrow> nat \<Rightarrow> bool" where
  "placement_ok code_size n \<longleftrightarrow>
     sizeof_vector \<le> code_size \<and>
     code_size + sizeof_vector \<le> code_size + n * sizeof_ExceptionHandler"

definition take_code :: "rt_pool \<Rightarrow> attribute_info option \<Rightarrow> meth \<Rightarrow> meth res" where
  "take_code cp attr m =
     (case attr of
        Some (CodeAttributeInfo max_stack max_locals codes ets attrs) \<Rightarrow>
          if \<not> placement_ok (length codes) (length ets) then Inl (Undefined ''write past the method block'')
          else Inr (m\<lparr>m_max_stack := ucast max_stack, m_max_locals := ucast max_locals,
                      m_codes := Some codes,
                      m_exception_table := Some (map (make_handler cp) ets),
                      m_line_number_table := first_line_number_table attrs\<rparr>)
      | _ \<Rightarrow> Inr m)"

definition Method_new :: "constant_pool \<Rightarrow> rt_pool \<Rightarrow> member_info \<Rightarrow> class_id \<Rightarrow> meth res" where
  "Method_new cf cp mi c =
     (case ClassMember_new cf mi c of
        Inl e \<Rightarrow> Inl e
      | Inr cm \<Rightarrow>
          (case take_code cp (GetCodeAttribute mi) (class_member.extend cm
               \<lparr>m_codes = None, m_max_stack = 0, m_max_locals = 0, m_arg_slot_count = 0,
                m_method_descriptor = \<lparr>md_parameter_types = [], md_return_type = []\<rparr>,
                m_exception_table = None, m_line_number_table = None\<rparr>) of
             Inl e \<Rightarrow> Inl e
           | Inr m \<Rightarrow>
               (case ParseMethodDescriptor (cm_descriptor m) of
                  Inl e \<Rightarrow> Inl e
                | Inr md \<Rightarrow>
                    let m = CalcArgSlotCount (md_parameter_types md) (m\<lparr>m_method_descriptor := md\<rparr>) in
                    Inr (if IsNative m
                         then InjectCodeAttribute (md_return_type md) (m\<lparr>m_codes := Some [0, 0]\<rparr>)
                         else m))))"

fun line_of :: "line_number_entry list \<Rightarrow> 32 word \<Rightarrow> 32 word" where
  "line_of [] pc = -1"
| "line_of (e # es) pc =
     (if sint (ucast (ln_start_pc e) :: 32 word) \<le> sint pc then ucast (ln_line_number e) else line_of es pc)"

definition GetLineNumber :: "meth \<Rightarrow> 32 word \<Rightarrow> 32 word res" where
  "GetLineNumber m pc =
     (if IsNative m then Inr (-2)
      else case m_line_number_table m of
             None \<Rightarrow> Inl (Undefined ''line_number_table_ not initialised'')
           | Some es \<Rightarrow> Inr (line_of es pc))"

section \<open>Descriptors are split into their types\<close>

text \<open>The grammar of field types; \<open>print_type\<close> is their text in a descriptor.\<close>

datatype jtype = Prim char | Ref string | Arr jtype

fun print_type :: "jtype \<Rightarrow> string" where
  "print_type (Prim c) = [c]"
| "print_type (Ref n) = ''L'' @ n @ '';''"
| "print_type (Arr t) = CHR ''['' # print_type t"

fun wf_type :: "jtype \<Rightarrow> bool" where
  "wf_type (Prim c) \<longleftrightarrow> c \<in> set ''BCDFIJSZ''"
| "wf_type (Ref n) \<longleftrightarrow> CHR '';'' \<notin> set n \<and> CHR '')'' \<notin> set n"
| "wf_type (Arr t) \<longleftrightarrow> wf_type t"

text \<open>The parser keeps one bracket of an array type, whatever its dimension.\<close>

fun base_type :: "jtype \<Rightarrow> jtype" where
  "base_type (Arr t) = base_type t"
| "base_type t = t"

fun is_arr :: "jtype \<Rightarrow> bool" where
  "is_arr (Arr t) = True"
| "is_arr t = False"

definition parsed_type :: "jtype \<Rightarrow> string" where
  "parsed_type t = (if is_arr t then CHR ''['' # print_type (base_type t) else print_type t)"

fun flat_type :: "jtype \<Rightarrow> bool" where
  "flat_type (Arr t) = (\<not> is_arr t)"
| "flat_type t = True"

lemma parsed_type_flat: "flat_type t \<Longrightarrow> parsed_type t = print_type t"
  by (cases t rule: flat_type.cases; cases "base_type t") (auto simp: parsed_type_def elim!: is_arr.elims)

lemma str_find_append: "c \<notin> set xs \<Longrightarrow> str_find c (xs @ c # ys) = Some (length xs)"
  by (induction xs) auto

lemma parse_type:
  "wf_type t \<Longrightarrow> parse_params (print_type t @ rest) a acc =
   parse_params rest False (acc @ [if a \<or> is_arr t then CHR ''['' # print_type (base_type t) else print_type t])"
proof (induction t arbitrary: a acc)
  case (Ref n)
  then have "str_find CHR '';'' (CHR ''L'' # n @ CHR '';'' # rest) = Some (Suc (length n))"
    by (simp add: str_find_append)
  then show ?case
    by (simp add: Let_def)
next
  case (Arr t)
  then show ?case by simp
qed (auto simp: Let_def)

lemma parse_types:
  "list_all wf_type ts \<Longrightarrow> parse_params (concat (map print_type ts)) False acc = Inr (acc @ map parsed_type ts)"
proof (induction ts arbitrary: acc)
  case (Cons t ts)
  then show ?case
    using parse_type [of t "concat (map print_type ts)" False acc] by (simp add: parsed_type_def)
qed simp

lemma print_type_no_paren: "wf_type t \<Longrightarrow> CHR '')'' \<notin> set (print_type t)"
  by (induction t) auto

lemma print_types_no_paren: "list_all wf_type ts \<Longrightarrow> CHR '')'' \<notin> set (concat (map print_type ts))"
  by (induction ts) (auto dest: print_type_no_paren)

definition print_method_type :: "jtype list \<Rightarrow> string \<Rightarrow> string" where
  "print_method_type ps r = ''('' @ concat (map print_type ps) @ '')'' @ r"

lemma ParseMethodDescriptor_print:
  assumes "list_all wf_type ps"
  shows "ParseMethodDescriptor (print_method_type ps r) =
    Inr \<lparr>md_parameter_types = map parsed_type ps, md_return_type = r\<rparr>"
proof -
  let ?ps = "concat (map print_type ps)"
  have "str_find CHR '')'' (''('' @ ?ps @ CHR '')'' # r) = Some (length (''('' @ ?ps))"
    using str_find_append [of "CHR '')''" "''('' @ ?ps" r] print_types_no_paren [OF assms] by simp
  moreover have "str_find CHR ''('' (''('' @ ?ps @ CHR '')'' # r) = Some 0"
    by simp
  ultimately show ?thesis
    using parse_types [OF assms, of "[]"]
    by (simp add: ParseMethodDescriptor_def print_method_type_def substr_from_def Let_def)
qed

section \<open>Argument slots\<close>

definition width :: "jtype \<Rightarrow> nat" where
  "width t = (if t = Prim CHR ''J'' \<or> t = Prim CHR ''D'' then 2 else 1)"

lemma parsed_type_wide: "wf_type t \<Longrightarrow> (parsed_type t = ''J'' \<or> parsed_type t = ''D'') = (width t = 2)"
  by (cases t) (auto simp: parsed_type_def width_def)

lemma width_cases: "width t = 2 \<or> width t = 1"
  by (simp add: width_def)

lemma count_params_widths:
  "list_all wf_type ts \<Longrightarrow> count_params (map parsed_type ts) n = n + of_nat (sum_list (map width ts))"
proof (induction ts arbitrary: n)
  case (Cons t ts)
  then show ?case
    using parsed_type_wide [of t] width_cases [of t] by (auto simp: add.assoc)
qed simp

end
