(* ===== verification/Class_Names.thy ===== *)
theory Class_Names
  imports Method_Info
begin

text \<open>
  Class names and descriptors: the string functions of \<open>src/src/runtime/oo/class.h\<close> and
  \<open>class.cpp\<close>. A class name is turned into a descriptor and back without loss, and the component
  of the array class of a class is that class.
\<close>

section \<open>Primitive types\<close>

text \<open>An \<open>unordered_map\<close>; its keys and its values are all different, so that the order does not matter.\<close>

definition primitive_types :: "(string \<times> string) list" where
  "primitive_types =
     [(''void'', ''V''), (''boolean'', ''Z''), (''byte'', ''B''), (''short'', ''S''), (''int'', ''I''),
      (''long'', ''J''), (''char'', ''C''), (''float'', ''F''), (''double'', ''D'')]"

definition IsPrimitive :: "string \<Rightarrow> bool" where
  "IsPrimitive name \<longleftrightarrow> map_of primitive_types name \<noteq> None"

definition IsArrayClass :: "string \<Rightarrow> bool" where
  "IsArrayClass name \<longleftrightarrow> char0 name = CHR ''[''"

section \<open>Names and descriptors\<close>

definition ToDescriptor :: "string \<Rightarrow> string" where
  "ToDescriptor class_name =
     (if char0 class_name = CHR ''['' then class_name
      else case map_of primitive_types class_name of
             Some d \<Rightarrow> d
           | None \<Rightarrow> ''L'' @ class_name @ '';'')"

definition GetArrayClassName :: "string \<Rightarrow> string" where
  "GetArrayClassName class_name = ''['' @ ToDescriptor class_name"

definition ToClassName :: "string \<Rightarrow> string res" where
  "ToClassName descriptor =
     (if char0 descriptor = CHR ''['' then Inr descriptor
      else if char0 descriptor = CHR ''L'' then
        Inr (take (size_t_sub (length descriptor) 2) (drop 1 descriptor))
      else case map_of (map (\<lambda>(n, d). (d, n)) primitive_types) descriptor of
             Some n \<Rightarrow> Inr n
           | None \<Rightarrow> Inl (Fatal ''Invalid descriptor''))"

definition GetComponentClassName :: "string \<Rightarrow> string res" where
  "GetComponentClassName class_name =
     (if char0 class_name = CHR ''['' then ToClassName (drop 1 class_name)
      else Inl (Fatal ''Not array class''))"

definition GetJavaName :: "string \<Rightarrow> string" where
  "GetJavaName name = map (\<lambda>c. if c = CHR ''/'' then CHR ''.'' else c) name"

section \<open>Round trips\<close>

lemma primitive_descriptor:
  "map_of primitive_types n = Some d \<Longrightarrow>
   map_of (map (\<lambda>(n, d). (d, n)) primitive_types) d = Some n \<and> char0 d \<noteq> CHR ''['' \<and> char0 d \<noteq> CHR ''L''"
  by (auto simp: primitive_types_def char0_def split: if_splits)

lemma ToClassName_ToDescriptor: "ToClassName (ToDescriptor n) = Inr n"
proof (cases "char0 n = CHR ''[''")
  case False
  show ?thesis
  proof (cases "map_of primitive_types n")
    case None
    with False show ?thesis
      by (simp add: ToDescriptor_def ToClassName_def char0_def)
  next
    case (Some d)
    with False primitive_descriptor [OF Some] show ?thesis
      by (simp add: ToDescriptor_def ToClassName_def)
  qed
qed (simp add: ToDescriptor_def ToClassName_def)

lemma component_of_array: "GetComponentClassName (GetArrayClassName n) = Inr n"
  using ToClassName_ToDescriptor [of n]
  by (simp add: GetComponentClassName_def GetArrayClassName_def char0_def)

lemma array_class_name_is_array: "IsArrayClass (GetArrayClassName n)"
  by (simp add: IsArrayClass_def GetArrayClassName_def char0_def)

lemma GetArrayClassName_inj: "GetArrayClassName a = GetArrayClassName b \<Longrightarrow> a = b"
  by (metis component_of_array sum.inject(2))

end
