(* ===== verification/Slots.thy ===== *)
theory Slots
  imports Jvm_Prelude
begin

text \<open>
  The slot arrays of \<open>src/src/runtime/slots.h\<close> and the local variables of
  \<open>src/src/runtime/local_vars.h\<close>. A \<open>Slot\<close> is one 32-bit number; a \<open>long\<close>, a \<open>double\<close> and a
  reference take two consecutive slots, the low half first. Floating-point values are their bit
  patterns (the code moves them with \<open>memcpy\<close>), references are 64-bit addresses with 0 for
  \<open>nullptr\<close>. The contract \<open>typed_cell\<close> states what a typed pair of accessors promises; it is
  proved for the five pairs of the code.
\<close>

type_synonym slot = "32 word"
type_synonym slots = "slot list"
type_synonym float32 = "32 word"
type_synonym float64 = "64 word"
type_synonym ref64 = "64 word"

section \<open>Slots\<close>

text \<open>
  The vector is made with \<open>slots_(count)\<close> and never grows, so \<open>capacity()\<close> and \<open>size()\<close> are both
  the length of the list.
\<close>

definition Slots_new :: "16 word \<Rightarrow> slots" where
  "Slots_new count = replicate (unat count) 0"

definition Slots_SetInt :: "16 word \<Rightarrow> 32 word \<Rightarrow> (slots, unit) op" where
  "Slots_SetInt index val = (\<lambda>s.
     if unat index \<ge> length s then Inl (Fatal ''SetInt out of index'')
     else case vec_set s (unat index) val of Inl e \<Rightarrow> Inl e | Inr s' \<Rightarrow> Inr ((), s'))"

definition Slots_GetInt :: "16 word \<Rightarrow> (slots, 32 word) op" where
  "Slots_GetInt index = (\<lambda>s.
     if unat index \<ge> length s then Inl (Fatal ''GetInt out of index'')
     else case vec_get s (unat index) of Inl e \<Rightarrow> Inl e | Inr v \<Rightarrow> Inr (v, s))"

definition Slots_SetFloat :: "16 word \<Rightarrow> float32 \<Rightarrow> (slots, unit) op" where
  "Slots_SetFloat index val = (\<lambda>s.
     if unat index \<ge> length s then Inl (Fatal ''SetFloat out of index'')
     else let tmp = val in
       case vec_set s (unat index) tmp of Inl e \<Rightarrow> Inl e | Inr s' \<Rightarrow> Inr ((), s'))"

definition Slots_GetFloat :: "16 word \<Rightarrow> (slots, float32) op" where
  "Slots_GetFloat index = (\<lambda>s.
     if unat index \<ge> length s then Inl (Fatal ''SetFloat out of index'')
     else case vec_get s (unat index) of Inl e \<Rightarrow> Inl e | Inr tmp \<Rightarrow> Inr (tmp, s))"

definition Slots_SetLong :: "16 word \<Rightarrow> 64 word \<Rightarrow> (slots, unit) op" where
  "Slots_SetLong index val = (\<lambda>s.
     if unat index \<ge> size_t_sub (length s) 1
     then Inl (Fatal ''SetLong out of index, long need two slots'')
     else let low = lo32 val; high = hi32 val in
       case vec_set s (unat index) low of
         Inl e \<Rightarrow> Inl e
       | Inr s' \<Rightarrow>
           (case vec_set s' (unat index + 1) high of Inl e \<Rightarrow> Inl e | Inr s'' \<Rightarrow> Inr ((), s'')))"

definition Slots_GetLong :: "16 word \<Rightarrow> (slots, 64 word) op" where
  "Slots_GetLong index = (\<lambda>s.
     if unat index \<ge> size_t_sub (length s) 1
     then Inl (Fatal ''GetLong out of index, long need two slots'')
     else case vec_get s (unat index) of
         Inl e \<Rightarrow> Inl e
       | Inr low \<Rightarrow>
           (case vec_get s (unat index + 1) of
              Inl e \<Rightarrow> Inl e
            | Inr high \<Rightarrow> Inr (join32 high low, s)))"

definition Slots_SetDouble :: "16 word \<Rightarrow> float64 \<Rightarrow> (slots, unit) op" where
  "Slots_SetDouble index val = (\<lambda>s.
     if unat index \<ge> size_t_sub (length s) 1
     then Inl (Fatal ''SetDouble out of index, double need two slots'')
     else let tmp = val in Slots_SetLong index tmp s)"

definition Slots_GetDouble :: "16 word \<Rightarrow> (slots, float64) op" where
  "Slots_GetDouble index = (\<lambda>s.
     if unat index \<ge> size_t_sub (length s) 1
     then Inl (Fatal ''GetDouble out of index, double need two slots'')
     else Slots_GetLong index s)"

definition Slots_SetRef :: "16 word \<Rightarrow> ref64 \<Rightarrow> (slots, unit) op" where
  "Slots_SetRef index ref = Slots_SetLong index ref"

definition Slots_GetRef :: "16 word \<Rightarrow> (slots, ref64) op" where
  "Slots_GetRef index = Slots_GetLong index"

definition Slots_SetSlot :: "16 word \<Rightarrow> slot \<Rightarrow> (slots, unit) op" where
  "Slots_SetSlot index sl = (\<lambda>s.
     if unat index \<ge> length s then Inl (Fatal ''SetSlot out of index'')
     else case vec_set s (unat index) sl of Inl e \<Rightarrow> Inl e | Inr s' \<Rightarrow> Inr ((), s'))"

text \<open>\<open>GetSlot\<close> reads one slot but tests the bound of a two-slot read.\<close>

definition Slots_GetSlot :: "16 word \<Rightarrow> (slots, slot) op" where
  "Slots_GetSlot index = (\<lambda>s.
     if unat index \<ge> size_t_sub (length s) 1
     then Inl (Fatal ''GetSlot out of index, long need two slots'')
     else case vec_get s (unat index) of Inl e \<Rightarrow> Inl e | Inr v \<Rightarrow> Inr (v, s))"

definition Slots_GetSize :: "slots \<Rightarrow> nat" where
  "Slots_GetSize s = length s"

lemmas slots_defs =
  Slots_SetInt_def Slots_GetInt_def Slots_SetFloat_def Slots_GetFloat_def Slots_SetLong_def
  Slots_GetLong_def Slots_SetDouble_def Slots_GetDouble_def Slots_SetRef_def Slots_GetRef_def
  Slots_SetSlot_def Slots_GetSlot_def Slots_GetSize_def vec_get_def vec_set_def Let_def

section \<open>Local variables\<close>

text \<open>\<open>LocalVars\<close> owns one \<open>Slots\<close> and forwards every access to it.\<close>

definition LocalVars_new :: "16 word \<Rightarrow> slots" where
  "LocalVars_new max_locals = Slots_new max_locals"

definition LocalVars_SetInt :: "16 word \<Rightarrow> 32 word \<Rightarrow> (slots, unit) op" where
  "LocalVars_SetInt index val = Slots_SetInt index val"

definition LocalVars_GetInt :: "16 word \<Rightarrow> (slots, 32 word) op" where
  "LocalVars_GetInt index = Slots_GetInt index"

definition LocalVars_SetFloat :: "16 word \<Rightarrow> float32 \<Rightarrow> (slots, unit) op" where
  "LocalVars_SetFloat index val = Slots_SetFloat index val"

definition LocalVars_GetFloat :: "16 word \<Rightarrow> (slots, float32) op" where
  "LocalVars_GetFloat index = Slots_GetFloat index"

definition LocalVars_SetLong :: "16 word \<Rightarrow> 64 word \<Rightarrow> (slots, unit) op" where
  "LocalVars_SetLong index val = Slots_SetLong index val"

definition LocalVars_GetLong :: "16 word \<Rightarrow> (slots, 64 word) op" where
  "LocalVars_GetLong index = Slots_GetLong index"

definition LocalVars_SetDouble :: "16 word \<Rightarrow> float64 \<Rightarrow> (slots, unit) op" where
  "LocalVars_SetDouble index val = Slots_SetDouble index val"

definition LocalVars_GetDouble :: "16 word \<Rightarrow> (slots, float64) op" where
  "LocalVars_GetDouble index = Slots_GetDouble index"

definition LocalVars_SetRef :: "16 word \<Rightarrow> ref64 \<Rightarrow> (slots, unit) op" where
  "LocalVars_SetRef index ref = Slots_SetRef index ref"

definition LocalVars_GetRef :: "16 word \<Rightarrow> (slots, ref64) op" where
  "LocalVars_GetRef index = Slots_GetRef index"

definition LocalVars_GetThis :: "(slots, ref64) op" where
  "LocalVars_GetThis = LocalVars_GetRef 0"

definition LocalVars_SetSlot :: "16 word \<Rightarrow> slot \<Rightarrow> (slots, unit) op" where
  "LocalVars_SetSlot index sl = Slots_SetSlot index sl"

lemmas local_vars_defs =
  LocalVars_SetInt_def LocalVars_GetInt_def LocalVars_SetFloat_def LocalVars_GetFloat_def
  LocalVars_SetLong_def LocalVars_GetLong_def LocalVars_SetDouble_def LocalVars_GetDouble_def
  LocalVars_SetRef_def LocalVars_GetRef_def LocalVars_GetThis_def LocalVars_SetSlot_def

section \<open>The contract of a typed pair of accessors\<close>

text \<open>
  A value of the type is encoded in \<open>w\<close> consecutive slots; \<open>set\<close> overwrites exactly these, \<open>get\<close>
  decodes them, and both stop, without a value, when the run of slots does not fit.
\<close>

locale typed_cell =
  fixes set :: "16 word \<Rightarrow> 'v \<Rightarrow> (slots, unit) op"
    and get :: "16 word \<Rightarrow> (slots, 'v) op"
    and enc :: "'v \<Rightarrow> slot list"
    and dec :: "slot list \<Rightarrow> 'v"
    and w :: nat
  assumes length_enc: "length (enc v) = w"
    and dec_enc: "dec (enc v) = v"
    and enc_dec: "length xs = w \<Longrightarrow> enc (dec xs) = xs"
    and set_in: "unat i + w \<le> length s \<Longrightarrow> set i v s = Inr ((), splice s (unat i) (enc v))"
    and set_out: "length s < unat i + w \<Longrightarrow> \<exists>e. set i v s = Inl e"
    and get_in: "unat i + w \<le> length s \<Longrightarrow> get i s = Inr (dec (take w (drop (unat i) s)), s)"
    and get_out: "length s < unat i + w \<Longrightarrow> \<exists>e. get i s = Inl e"
begin

lemma get_set_same:
  assumes "unat i + w \<le> length s"
  shows "bind (set i v) (\<lambda>_. get i) s = Inr (v, splice s (unat i) (enc v))"
proof -
  have "unat i + length (enc v) \<le> length s"
    using assms by (simp add: length_enc)
  then have "take w (drop (unat i) (splice s (unat i) (enc v))) = enc v"
    and "length (splice s (unat i) (enc v)) = length s"
    using slice_splice_same [of "unat i" "enc v" s] by (simp_all add: length_enc)
  with assms show ?thesis
    by (simp add: bind_def set_in get_in dec_enc)
qed

lemma get_splice_other:
  assumes "unat j + w \<le> length s" and "i + length ys \<le> length s"
    and "unat j + w \<le> i \<or> i + length ys \<le> unat j"
  shows "get j (splice s i ys) = Inr (dec (take w (drop (unat j) s)), splice s i ys)"
  using assms by (simp add: get_in slice_splice_other)

lemma set_preserves_length: "set i v s = Inr ((), s') \<Longrightarrow> length s' = length s"
  using set_in [of i s v] set_out [of s i v] length_enc [of v]
  by (cases "unat i + w \<le> length s") auto

lemma get_returns_iff: "(\<exists>v. get i s = Inr (v, s)) \<longleftrightarrow> unat i + w \<le> length s"
  using get_in [of i s] get_out [of s i] by (cases "unat i + w \<le> length s") auto

end

text \<open>The encodings: one slot, or the low half followed by the high half.\<close>

definition enc1 :: "32 word \<Rightarrow> slot list" where
  "enc1 v = [v]"

definition dec1 :: "slot list \<Rightarrow> 32 word" where
  "dec1 xs = hd xs"

definition enc2 :: "64 word \<Rightarrow> slot list" where
  "enc2 v = [lo32 v, hi32 v]"

definition dec2 :: "slot list \<Rightarrow> 64 word" where
  "dec2 xs = join32 (hd (tl xs)) (hd xs)"

lemma length_enc1 [simp]: "length (enc1 v) = 1" by (simp add: enc1_def)
lemma length_enc2 [simp]: "length (enc2 v) = 2" by (simp add: enc2_def)
lemma dec1_enc1 [simp]: "dec1 (enc1 v) = v" by (simp add: enc1_def dec1_def)
lemma dec2_enc2 [simp]: "dec2 (enc2 v) = v" by (simp add: enc2_def dec2_def)

lemma enc1_dec1: "length xs = 1 \<Longrightarrow> enc1 (dec1 xs) = xs"
  by (cases xs) (auto simp: enc1_def dec1_def)

lemma enc2_dec2: "length xs = 2 \<Longrightarrow> enc2 (dec2 xs) = xs"
  by (cases xs; cases "tl xs") (auto simp: enc2_def dec2_def)

lemma dec1_slice: "i < length s \<Longrightarrow> dec1 (take (Suc 0) (drop i s)) = s ! i"
  by (simp add: dec1_def hd_drop_conv_nth)

lemma dec2_slice: "Suc i < length s \<Longrightarrow> dec2 (take 2 (drop i s)) = join32 (s ! Suc i) (s ! i)"
  by (simp add: dec2_def hd_drop_conv_nth numeral_2_eq_2 take_Suc drop_Suc nth_tl tl_drop)

lemma splice_enc1: "i < length s \<Longrightarrow> splice s i (enc1 v) = s[i := v]"
  by (simp add: enc1_def splice_one)

lemma SetLong_in:
  "unat i + 2 \<le> length s \<Longrightarrow> Slots_SetLong i v s = Inr ((), splice s (unat i) (enc2 v))"
  by (simp add: slots_defs enc2_def splice_two)

lemma GetLong_in:
  "unat i + 2 \<le> length s \<Longrightarrow> Slots_GetLong i s = Inr (dec2 (take 2 (drop (unat i) s)), s)"
  by (simp add: slots_defs dec2_slice)

lemma SetLong_out: "length s < unat i + 2 \<Longrightarrow> \<exists>e. Slots_SetLong i v s = Inl e"
  by (cases s) (auto simp: slots_defs)

lemma GetLong_out: "length s < unat i + 2 \<Longrightarrow> \<exists>e. Slots_GetLong i s = Inl e"
  by (cases s) (auto simp: slots_defs)

interpretation int_cell: typed_cell Slots_SetInt Slots_GetInt enc1 dec1 1
  by unfold_locales (auto simp: slots_defs enc1_dec1 splice_enc1 dec1_slice)

interpretation float_cell: typed_cell Slots_SetFloat Slots_GetFloat enc1 dec1 1
  by unfold_locales (auto simp: slots_defs enc1_dec1 splice_enc1 dec1_slice)

interpretation long_cell: typed_cell Slots_SetLong Slots_GetLong enc2 dec2 2
  by unfold_locales (auto simp: enc2_dec2 SetLong_in SetLong_out GetLong_in GetLong_out)

lemma SetDouble_eq: "Slots_SetDouble i v s =
  (if unat i \<ge> size_t_sub (length s) 1
   then Inl (Fatal ''SetDouble out of index, double need two slots'') else Slots_SetLong i v s)"
  by (simp add: Slots_SetDouble_def)

lemma GetDouble_eq: "Slots_GetDouble i s =
  (if unat i \<ge> size_t_sub (length s) 1
   then Inl (Fatal ''GetDouble out of index, double need two slots'') else Slots_GetLong i s)"
  by (simp add: Slots_GetDouble_def)

interpretation double_cell: typed_cell Slots_SetDouble Slots_GetDouble enc2 dec2 2
  by unfold_locales
    (auto simp: enc2_dec2 SetDouble_eq GetDouble_eq SetLong_in SetLong_out GetLong_in GetLong_out)

interpretation ref_cell: typed_cell Slots_SetRef Slots_GetRef enc2 dec2 2
  by unfold_locales
    (auto simp: Slots_SetRef_def Slots_GetRef_def enc2_dec2 SetLong_in SetLong_out GetLong_in GetLong_out)

end
