(* ===== verification/Class_Model.thy ===== *)
theory Class_Model
  imports Class_Names Slots
begin

text \<open>
  Run-time classes: \<open>src/src/runtime/oo/class.h\<close> and \<open>class.cpp\<close> without loading and
  initialisation, which are in \<open>Class_Loader\<close> and \<open>Class_Resolve\<close>. A pointer to a class is its position
  in the table of classes, a pointer to a member is the class and the position of the member in it.
  The searches of the code follow pointers without an end of their own; in the model they have a
  bound on their depth, and a search that exceeds it is an endless loop without effects
  or an exhausted stack, to which C++ gives no meaning. On a table whose hierarchy is ranked
  every sufficient bound gives the same result, and the lemmas say which.
\<close>

section \<open>Classes\<close>

text \<open>The three class loaders, registered under the names \<open>""\<close>, \<open>"ext"\<close> and \<open>"base"\<close>.\<close>

datatype loader_id = Boot_Loader | Ext_Loader | Base_Loader

record class_obj =
  c_clinit_started :: bool
  c_access_flags :: u2
  c_name :: string
  c_super_class_name :: string
  c_package_name :: string
  c_interface_names :: "string list"
  c_constant_pool :: "rt_pool option"
  c_fields :: "field list"
  c_methods :: "meth list"
  c_loader :: "loader_id option"
  c_super_class :: "class_id option"
  c_interfaces :: "class_id option list"
  c_instance_slot_count :: u4
  c_static_slot_count :: u4
  c_static_vars :: "slots option"
  c_source_file :: string
  c_loaded :: bool
  c_klass :: "class_id option"

definition Class_new :: class_obj where
  "Class_new =
     \<lparr>c_clinit_started = False, c_access_flags = 0, c_name = [], c_super_class_name = [],
      c_package_name = [], c_interface_names = [], c_constant_pool = None, c_fields = [],
      c_methods = [], c_loader = None, c_super_class = None, c_interfaces = [], c_instance_slot_count = 0,
      c_static_slot_count = 0, c_static_vars = None, c_source_file = [], c_loaded = False,
      c_klass = None\<rparr>"

type_synonym class_table = "class_obj list"

definition Class_IsPublic :: "class_obj \<Rightarrow> bool" where
  "Class_IsPublic c = has_flag (c_access_flags c) ACC_PUBLIC"

definition Class_IsFinal :: "class_obj \<Rightarrow> bool" where
  "Class_IsFinal c = has_flag (c_access_flags c) ACC_FINAL"

definition IsSuper :: "class_obj \<Rightarrow> bool" where
  "IsSuper c = has_flag (c_access_flags c) ACC_SUPER"

definition IsInterface :: "class_obj \<Rightarrow> bool" where
  "IsInterface c = has_flag (c_access_flags c) ACC_INTERFACE"

definition Class_IsAbstract :: "class_obj \<Rightarrow> bool" where
  "Class_IsAbstract c = has_flag (c_access_flags c) ACC_ABSTRACT"

definition Class_IsSynthetic :: "class_obj \<Rightarrow> bool" where
  "Class_IsSynthetic c = has_flag (c_access_flags c) ACC_SYNTHETIC"

definition IsAnnotation :: "class_obj \<Rightarrow> bool" where
  "IsAnnotation c = has_flag (c_access_flags c) ACC_ANNOTATION"

definition Class_IsEnum :: "class_obj \<Rightarrow> bool" where
  "Class_IsEnum c = has_flag (c_access_flags c) ACC_ENUM"

text \<open>Nothing sets \<open>package_name_\<close>, so that it is the same for all classes.\<close>

definition Class_IsAccessibleTo :: "class_obj \<Rightarrow> class_obj \<Rightarrow> bool" where
  "Class_IsAccessibleTo c other \<longleftrightarrow> Class_IsPublic c \<or> c_package_name c = c_package_name other"

definition ObjectSize :: "class_obj \<Rightarrow> nat" where
  "ObjectSize c = unat (c_instance_slot_count c * 4)"

section \<open>Pointers\<close>

definition class_at :: "class_table \<Rightarrow> class_id option \<Rightarrow> class_obj res" where
  "class_at ct p = (case p of
     None \<Rightarrow> Inl Null_Dereference
   | Some c \<Rightarrow> if c < length ct then Inr (ct ! c) else Inl (Undefined ''dangling class pointer''))"

definition method_at :: "class_table \<Rightarrow> member_id \<Rightarrow> meth res" where
  "method_at ct m = (case class_at ct (Some (fst m)) of
     Inl e \<Rightarrow> Inl e
   | Inr c \<Rightarrow> vec_get (c_methods c) (snd m))"

definition field_at :: "class_table \<Rightarrow> member_id \<Rightarrow> field res" where
  "field_at ct m = (case class_at ct (Some (fst m)) of
     Inl e \<Rightarrow> Inl e
   | Inr c \<Rightarrow> vec_get (c_fields c) (snd m))"

definition endless :: "'a res" where
  "endless = Inl (Undefined ''endless search of the class hierarchy'')"

text \<open>The first element that satisfies a condition.\<close>

fun find_index :: "('a \<Rightarrow> bool) \<Rightarrow> 'a list \<Rightarrow> nat option" where
  "find_index p [] = None"
| "find_index p (x # xs) = (if p x then Some 0 else map_option Suc (find_index p xs))"

definition names :: "string \<Rightarrow> string \<Rightarrow> ('a) class_member_scheme \<Rightarrow> bool" where
  "names name descriptor m \<longleftrightarrow> cm_name m = name \<and> cm_descriptor m = descriptor"

section \<open>Lookup of methods\<close>

text \<open>Both searches go up the super classes and take the first method of the first class that has one.\<close>

primrec lookup_up :: "nat \<Rightarrow> class_table \<Rightarrow> (meth \<Rightarrow> bool) \<Rightarrow> class_id option \<Rightarrow> member_id option res" where
  "lookup_up 0 ct p c = endless"
| "lookup_up (Suc k) ct p c =
     (case class_at ct c of
        Inl e \<Rightarrow> Inl e
      | Inr cl \<Rightarrow>
          (case find_index p (c_methods cl) of
             Some i \<Rightarrow> Inr (Some (the c, i))
           | None \<Rightarrow>
               if c_super_class cl \<noteq> None then lookup_up k ct p (c_super_class cl) else Inr None))"

definition search_depth :: "class_table \<Rightarrow> nat" where
  "search_depth ct = Suc (length ct)"

definition GetMethod :: "class_table \<Rightarrow> class_id option \<Rightarrow> string \<Rightarrow> string \<Rightarrow> bool \<Rightarrow> member_id option res" where
  "GetMethod ct c name descriptor is_static =
     lookup_up (search_depth ct) ct (\<lambda>m. names name descriptor m \<and> IsStatic m = is_static) c"

definition LookupMethodInClass :: "class_table \<Rightarrow> class_id option \<Rightarrow> string \<Rightarrow> string \<Rightarrow> member_id option res" where
  "LookupMethodInClass ct c name descriptor = lookup_up (search_depth ct) ct (names name descriptor) c"

text \<open>The loop overwrites its result with every interface: the last one decides.\<close>

fun last_lookup :: "class_table \<Rightarrow> string \<Rightarrow> string \<Rightarrow> class_id option list \<Rightarrow> member_id option \<Rightarrow> member_id option res" where
  "last_lookup ct name descriptor [] method = Inr method"
| "last_lookup ct name descriptor (i # is) method =
     (case LookupMethodInClass ct i name descriptor of
        Inl e \<Rightarrow> Inl e
      | Inr m \<Rightarrow> last_lookup ct name descriptor is m)"

definition LookupMethodInInterfaces :: "class_table \<Rightarrow> class_id option \<Rightarrow> string \<Rightarrow> string \<Rightarrow> member_id option res" where
  "LookupMethodInInterfaces ct c name descriptor =
     (case class_at ct c of
        Inl e \<Rightarrow> Inl e
      | Inr cl \<Rightarrow> last_lookup ct name descriptor (c_interfaces cl) None)"

definition LookupMethod :: "class_table \<Rightarrow> class_id option \<Rightarrow> string \<Rightarrow> string \<Rightarrow> member_id option res" where
  "LookupMethod ct c name descriptor =
     (case LookupMethodInClass ct c name descriptor of
        Inl e \<Rightarrow> Inl e
      | Inr (Some m) \<Rightarrow> Inr (Some m)
      | Inr None \<Rightarrow> LookupMethodInInterfaces ct c name descriptor)"

definition GetMainMethod :: "class_table \<Rightarrow> class_id option \<Rightarrow> member_id option res" where
  "GetMainMethod ct c = GetMethod ct c ''main'' ''([Ljava/lang/String;)V'' True"

definition GetClinitMethod :: "class_table \<Rightarrow> class_id option \<Rightarrow> member_id option res" where
  "GetClinitMethod ct c = GetMethod ct c ''<clinit>'' ''()V'' True"

section \<open>Lookup of fields\<close>

text \<open>The first result of a search over a list of classes that is not null.\<close>

fun first_res :: "('c \<Rightarrow> 'm option res) \<Rightarrow> 'c list \<Rightarrow> 'm option res" where
  "first_res f [] = Inr None"
| "first_res f (x # xs) =
     (case f x of Inl e \<Rightarrow> Inl e | Inr (Some m) \<Rightarrow> Inr (Some m) | Inr None \<Rightarrow> first_res f xs)"

text \<open>The interfaces, then the super class if there is one.\<close>

definition parents :: "class_obj \<Rightarrow> class_id option list" where
  "parents cl = c_interfaces cl @ (if c_super_class cl \<noteq> None then [c_super_class cl] else [])"

primrec lookup_field :: "nat \<Rightarrow> class_table \<Rightarrow> string \<Rightarrow> string \<Rightarrow> class_id option \<Rightarrow> member_id option res" where
  "lookup_field 0 ct name descriptor c = endless"
| "lookup_field (Suc k) ct name descriptor c =
     (case class_at ct c of
        Inl e \<Rightarrow> Inl e
      | Inr cl \<Rightarrow>
          (case find_index (names name descriptor) (c_fields cl) of
             Some i \<Rightarrow> Inr (Some (the c, i))
           | None \<Rightarrow>
               first_res (lookup_field k ct name descriptor) (parents cl)))"

definition LookupField :: "class_table \<Rightarrow> class_id option \<Rightarrow> string \<Rightarrow> string \<Rightarrow> member_id option res" where
  "LookupField ct c name descriptor = lookup_field (search_depth ct) ct name descriptor c"

definition GetField :: "class_table \<Rightarrow> class_id option \<Rightarrow> string \<Rightarrow> string \<Rightarrow> bool \<Rightarrow> member_id res" where
  "GetField ct c name descriptor is_static =
     (case LookupField ct c name descriptor of
        Inl e \<Rightarrow> Inl e
      | Inr None \<Rightarrow> Inl (Fatal ''java.lang.NoSuchFieldError'')
      | Inr (Some m) \<Rightarrow>
          (case field_at ct m of
             Inl e \<Rightarrow> Inl e
           | Inr f \<Rightarrow>
               if is_static \<noteq> IsStatic f then Inl (Fatal ''java.lang.IncompatibleClassChangeError'')
               else Inr m))"

section \<open>Sub- and superclasses\<close>

text \<open>The loop that walks up the super classes of \<open>c\<close> until it meets \<open>t\<close>.\<close>

primrec walk_up :: "nat \<Rightarrow> class_table \<Rightarrow> class_id option \<Rightarrow> class_id option \<Rightarrow> bool res" where
  "walk_up 0 ct t c = endless"
| "walk_up (Suc k) ct t c =
     (if c = None then Inr False
      else if c = t then Inr True
      else case class_at ct c of Inl e \<Rightarrow> Inl e | Inr cl \<Rightarrow> walk_up k ct t (c_super_class cl))"

definition IsSubClassOf :: "class_table \<Rightarrow> class_id option \<Rightarrow> class_id option \<Rightarrow> bool res" where
  "IsSubClassOf ct s t =
     (case class_at ct s of
        Inl e \<Rightarrow> Inl e
      | Inr cl \<Rightarrow> walk_up (search_depth ct) ct t (c_super_class cl))"

definition IsSuperClassOf :: "class_table \<Rightarrow> class_id option \<Rightarrow> class_id option \<Rightarrow> bool res" where
  "IsSuperClassOf ct s t =
     (case class_at ct t of
        Inl e \<Rightarrow> Inl e
      | Inr cl \<Rightarrow> walk_up (search_depth ct) ct s (c_super_class cl))"

fun any_res :: "('a \<Rightarrow> bool res) \<Rightarrow> 'a list \<Rightarrow> bool res" where
  "any_res p [] = Inr False"
| "any_res p (x # xs) =
     (case p x of Inl e \<Rightarrow> Inl e | Inr b \<Rightarrow> if b then Inr True else any_res p xs)"

primrec sub_interface :: "nat \<Rightarrow> class_table \<Rightarrow> class_id option \<Rightarrow> class_id option \<Rightarrow> bool res" where
  "sub_interface 0 ct t s = endless"
| "sub_interface (Suc k) ct t s =
     (case class_at ct s of
        Inl e \<Rightarrow> Inl e
      | Inr cl \<Rightarrow> any_res (\<lambda>i. if i = t then Inr True else sub_interface k ct t i) (c_interfaces cl))"

definition IsSubInterfaceOf :: "class_table \<Rightarrow> class_id option \<Rightarrow> class_id option \<Rightarrow> bool res" where
  "IsSubInterfaceOf ct s t = sub_interface (search_depth ct) ct t s"

definition IsSuperInterfaceOf :: "class_table \<Rightarrow> class_id option \<Rightarrow> class_id option \<Rightarrow> bool res" where
  "IsSuperInterfaceOf ct s t = IsSubInterfaceOf ct t s"

definition IsImplements :: "class_table \<Rightarrow> class_id option \<Rightarrow> class_id option \<Rightarrow> bool res" where
  "IsImplements ct s t =
     (case class_at ct s of
        Inl e \<Rightarrow> Inl e
      | Inr cl \<Rightarrow> any_res (\<lambda>i. if i = t then Inr True else IsSubInterfaceOf ct i t) (c_interfaces cl))"

definition IsJlObject :: "class_obj \<Rightarrow> bool" where
  "IsJlObject c \<longleftrightarrow> c_name c = ''java/lang/Object''"

definition IsJlCloneable :: "class_obj \<Rightarrow> bool" where
  "IsJlCloneable c \<longleftrightarrow> c_name c = ''java/lang/Cloneable''"

definition IsJioSerializable :: "class_obj \<Rightarrow> bool" where
  "IsJioSerializable c \<longleftrightarrow> c_name c = ''java/io/Serializable''"

section \<open>Well-formed tables\<close>

text \<open>
  The edges of the hierarchy. A table is well formed when its pointers lead to classes and no
  class is its own ancestor, which is what the Java language demands of a program.
\<close>

definition extends_rel :: "class_table \<Rightarrow> (class_id \<times> class_id) set" where
  "extends_rel ct = {(c, d). c < length ct \<and> c_super_class (ct ! c) = Some d}"

definition implements_rel :: "class_table \<Rightarrow> (class_id \<times> class_id) set" where
  "implements_rel ct = {(c, d). c < length ct \<and> Some d \<in> set (c_interfaces (ct ! c))}"

definition hierarchy :: "class_table \<Rightarrow> (class_id \<times> class_id) set" where
  "hierarchy ct = extends_rel ct \<union> implements_rel ct"

definition pointers_ok :: "class_table \<Rightarrow> bool" where
  "pointers_ok ct \<longleftrightarrow>
     (\<forall>cl \<in> set ct. (\<forall>d. c_super_class cl = Some d \<longrightarrow> d < length ct) \<and>
        (\<forall>i \<in> set (c_interfaces cl). i \<noteq> None \<and> the i < length ct))"

definition wf_classes :: "class_table \<Rightarrow> bool" where
  "wf_classes ct \<longleftrightarrow> pointers_ok ct \<and> acyclic (hierarchy ct)"

lemma wf_classesI:
  assumes "pointers_ok ct" and "\<And>c d. (c, d) \<in> hierarchy ct \<Longrightarrow> rank d < (rank c :: nat)"
  shows "wf_classes ct"
proof -
  have "hierarchy ct \<subseteq> (measure rank)\<inverse>"
    using assms(2) by auto
  then have "acyclic (hierarchy ct)"
    by (meson acyclic_converse acyclic_subset wf_acyclic wf_measure)
  with assms(1) show ?thesis
    by (simp add: wf_classes_def)
qed

lemma hierarchy_range: "wf_classes ct \<Longrightarrow> (c, d) \<in> hierarchy ct \<Longrightarrow> c < length ct \<and> d < length ct"
  by (fastforce simp: wf_classes_def pointers_ok_def hierarchy_def extends_rel_def implements_rel_def)

text \<open>The number of proper ancestors bounds the depth of every search.\<close>

definition class_rank :: "class_table \<Rightarrow> class_id \<Rightarrow> nat" where
  "class_rank ct c = card ((hierarchy ct)\<^sup>+ `` {c})"

lemma ancestors_range: "wf_classes ct \<Longrightarrow> (hierarchy ct)\<^sup>+ `` {c} \<subseteq> {..<length ct} - {c}"
  using hierarchy_range [of ct] by (auto simp: wf_classes_def acyclic_def elim: trancl.cases)

lemma finite_ancestors: "wf_classes ct \<Longrightarrow> finite ((hierarchy ct)\<^sup>+ `` {c})"
  by (rule finite_subset [OF ancestors_range]) simp_all

lemma class_rank_decreases:
  assumes "wf_classes ct" "(c, d) \<in> hierarchy ct"
  shows "class_rank ct d < class_rank ct c"
  unfolding class_rank_def
proof (rule psubset_card_mono)
  show "finite ((hierarchy ct)\<^sup>+ `` {c})"
    using assms(1) by (rule finite_ancestors)
  have "d \<notin> (hierarchy ct)\<^sup>+ `` {d}"
    using ancestors_range [OF assms(1), of d] by blast
  moreover have "d \<in> (hierarchy ct)\<^sup>+ `` {c}"
    using assms(2) by auto
  moreover have "(hierarchy ct)\<^sup>+ `` {d} \<subseteq> (hierarchy ct)\<^sup>+ `` {c}"
    using assms(2) by (auto intro: trancl_into_trancl2)
  ultimately show "(hierarchy ct)\<^sup>+ `` {d} \<subset> (hierarchy ct)\<^sup>+ `` {c}"
    by blast
qed

lemma hierarchy_step:
  "wf_classes ct \<Longrightarrow> (c, d) \<in> hierarchy ct \<Longrightarrow> class_rank ct c < Suc k \<Longrightarrow>
   d < length ct \<and> class_rank ct d < k"
  using hierarchy_range [of ct c d] class_rank_decreases [of ct c d] by simp

lemma class_rank_bound:
  assumes "wf_classes ct"
  shows "class_rank ct c \<le> length ct"
  using card_mono [OF finite_lessThan, of "(hierarchy ct)\<^sup>+ `` {c}" "length ct"]
    ancestors_range [OF assms, of c]
  by (auto simp: class_rank_def)

lemma class_rank_less:
  assumes "wf_classes ct" "c < length ct"
  shows "class_rank ct c < length ct"
proof -
  have "card ((hierarchy ct)\<^sup>+ `` {c}) \<le> card ({..<length ct} - {c})"
    using ancestors_range [OF assms(1), of c] by (intro card_mono) auto
  then show ?thesis
    using assms(2) by (simp add: class_rank_def)
qed

lemma class_at_Some [simp]: "c < length ct \<Longrightarrow> class_at ct (Some c) = Inr (ct ! c)"
  by (simp add: class_at_def)

lemma class_at_None [simp]: "class_at ct None = Inl Null_Dereference"
  by (simp add: class_at_def)

lemma super_in_hierarchy:
  "c < length ct \<Longrightarrow> c_super_class (ct ! c) = Some d \<Longrightarrow> (c, d) \<in> hierarchy ct"
  by (simp add: hierarchy_def extends_rel_def)

lemma interface_in_hierarchy:
  "c < length ct \<Longrightarrow> Some d \<in> set (c_interfaces (ct ! c)) \<Longrightarrow> (c, d) \<in> hierarchy ct"
  by (simp add: hierarchy_def implements_rel_def)

lemma interface_not_null: "wf_classes ct \<Longrightarrow> c < length ct \<Longrightarrow> None \<notin> set (c_interfaces (ct ! c))"
  by (force simp: wf_classes_def pointers_ok_def)

lemma interface_Some:
  assumes "wf_classes ct" "c < length ct" "i \<in> set (c_interfaces (ct ! c))"
  obtains d where "i = Some d" "d < length ct" "(c, d) \<in> hierarchy ct"
proof (cases i)
  case (Some d)
  then have "(c, d) \<in> hierarchy ct"
    using assms(2,3) by (intro interface_in_hierarchy) auto
  then show thesis
    using that Some hierarchy_range [OF assms(1)] by blast
qed (use interface_not_null [OF assms(1,2)] assms(3) in auto)

section \<open>What the searches find\<close>

lemma find_index_None: "find_index p xs = None \<longleftrightarrow> (\<forall>x \<in> set xs. \<not> p x)"
  by (induction xs) auto

lemma find_index_Some:
  "find_index p xs = Some i \<Longrightarrow> i < length xs \<and> p (xs ! i) \<and> (\<forall>j < i. \<not> p (xs ! j))"
proof (induction xs arbitrary: i)
  case (Cons x xs)
  then show ?case
    by (cases i) (auto simp: less_Suc_eq_0_disj split: if_splits)
qed simp

text \<open>
  The specification of a search: the class itself or the nearest super class that declares a
  method with the property, and the first such method in it.
\<close>

definition declares :: "class_table \<Rightarrow> (meth \<Rightarrow> bool) \<Rightarrow> class_id \<Rightarrow> bool" where
  "declares ct p c \<longleftrightarrow> (\<exists>m \<in> set (c_methods (ct ! c)). p m)"

definition first_method :: "class_table \<Rightarrow> (meth \<Rightarrow> bool) \<Rightarrow> class_id \<Rightarrow> nat \<Rightarrow> bool" where
  "first_method ct p c i \<longleftrightarrow>
     i < length (c_methods (ct ! c)) \<and> p (c_methods (ct ! c) ! i) \<and>
     (\<forall>j < i. \<not> p (c_methods (ct ! c) ! j))"

definition nearest_method :: "class_table \<Rightarrow> (meth \<Rightarrow> bool) \<Rightarrow> class_id \<Rightarrow> member_id option \<Rightarrow> bool" where
  "nearest_method ct p c r = (case r of
     None \<Rightarrow> \<forall>d. (c, d) \<in> (extends_rel ct)\<^sup>* \<longrightarrow> \<not> declares ct p d
   | Some (k, i) \<Rightarrow>
       (c, k) \<in> (extends_rel ct)\<^sup>* \<and> first_method ct p k i \<and>
       (\<forall>d. (c, d) \<in> (extends_rel ct)\<^sup>* \<and> (d, k) \<in> (extends_rel ct)\<^sup>+ \<longrightarrow> \<not> declares ct p d))"

lemma extends_from:
  assumes "c_super_class (ct ! c) = Some s" "c < length ct" "(c, d) \<in> (extends_rel ct)\<^sup>*"
  shows "d = c \<or> (s, d) \<in> (extends_rel ct)\<^sup>*"
  using assms(3) by (rule converse_rtranclE) (use assms(1,2) in \<open>auto simp: extends_rel_def\<close>)

lemma extends_none:
  assumes "c_super_class (ct ! c) = None" "(c, d) \<in> (extends_rel ct)\<^sup>*"
  shows "d = c"
  using assms(2) by (rule converse_rtranclE) (use assms(1) in \<open>auto simp: extends_rel_def\<close>)

lemma extends_subset: "(extends_rel ct)\<^sup>+ \<subseteq> (hierarchy ct)\<^sup>+"
  by (rule subsetI, erule trancl_mono) (simp add: hierarchy_def)

lemma no_cycle: "wf_classes ct \<Longrightarrow> (c, c) \<notin> (extends_rel ct)\<^sup>+"
  using extends_subset [of ct] by (auto simp: wf_classes_def acyclic_def)

lemma nearest_method_here:
  assumes "wf_classes ct" "find_index p (c_methods (ct ! c)) = Some i"
  shows "nearest_method ct p c (Some (c, i))"
proof -
  have "\<not> ((c, d) \<in> (extends_rel ct)\<^sup>* \<and> (d, c) \<in> (extends_rel ct)\<^sup>+)" for d
    using no_cycle [OF assms(1)] by (meson rtrancl_trancl_trancl)
  then show ?thesis
    using find_index_Some [OF assms(2)] by (auto simp: nearest_method_def first_method_def)
qed

lemma nearest_method_up:
  assumes "find_index p (c_methods (ct ! c)) = None" "c < length ct"
    "c_super_class (ct ! c) = Some s" "nearest_method ct p s r"
  shows "nearest_method ct p c r"
proof -
  have here: "\<not> declares ct p c"
    using assms(1) by (simp add: find_index_None declares_def)
  have up: "(c, s) \<in> extends_rel ct"
    using assms(2,3) by (simp add: extends_rel_def)
  show ?thesis
    using assms(4) here extends_from [OF assms(3,2)] converse_rtrancl_into_rtrancl [OF up]
    by (auto simp: nearest_method_def split: option.splits prod.splits)
qed

lemma nearest_method_none:
  assumes "find_index p (c_methods (ct ! c)) = None" "c_super_class (ct ! c) = None"
  shows "nearest_method ct p c None"
  using assms(1) extends_none [OF assms(2)]
  by (auto simp: nearest_method_def find_index_None declares_def)

lemma lookup_up_nearest:
  assumes "wf_classes ct" "c < length ct" "class_rank ct c < k"
  shows "\<exists>r. lookup_up k ct p (Some c) = Inr r \<and> nearest_method ct p c r"
  using assms(2,3)
proof (induction k arbitrary: c)
  case (Suc k)
  show ?case
  proof (cases "find_index p (c_methods (ct ! c))")
    case None
    show ?thesis
    proof (cases "c_super_class (ct ! c)")
      case None
      then show ?thesis
        using \<open>find_index p (c_methods (ct ! c)) = None\<close> Suc.prems(1) nearest_method_none by simp
    next
      case (Some s)
      have edge: "(c, s) \<in> hierarchy ct"
        using Suc.prems(1) Some by (rule super_in_hierarchy)
      have "s < length ct" "class_rank ct s < k"
        using hierarchy_step [OF assms(1) edge Suc.prems(2)] by simp_all
      from Suc.IH [OF this] obtain r where
        "lookup_up k ct p (Some s) = Inr r" "nearest_method ct p s r" by blast
      then show ?thesis
        using None Some Suc.prems(1) nearest_method_up [OF None Suc.prems(1) Some] by simp
    qed
  next
    case (Some i)
    then show ?thesis
      using Suc.prems(1) nearest_method_here [OF assms(1) Some] by simp
  qed
qed simp

lemma search_depth_enough: "wf_classes ct \<Longrightarrow> class_rank ct c < search_depth ct"
  using class_rank_bound [of ct c] by (simp add: search_depth_def)

lemma LookupMethodInClass_nearest:
  "wf_classes ct \<Longrightarrow> c < length ct \<Longrightarrow>
   \<exists>r. LookupMethodInClass ct (Some c) n d = Inr r \<and> nearest_method ct (names n d) c r"
  unfolding LookupMethodInClass_def by (rule lookup_up_nearest [OF _ _ search_depth_enough])

lemma GetMethod_nearest:
  "wf_classes ct \<Longrightarrow> c < length ct \<Longrightarrow>
   \<exists>r. GetMethod ct (Some c) n d st = Inr r \<and>
       nearest_method ct (\<lambda>m. names n d m \<and> IsStatic m = st) c r"
  unfolding GetMethod_def by (rule lookup_up_nearest [OF _ _ search_depth_enough])

text \<open>
  The search for a field goes through interfaces and super classes: it finds a field of an ancestor
  when there is one, and a class's own field before an inherited one.
\<close>

definition has_field :: "class_table \<Rightarrow> string \<Rightarrow> string \<Rightarrow> class_id \<Rightarrow> bool" where
  "has_field ct n d c \<longleftrightarrow> (\<exists>f \<in> set (c_fields (ct ! c)). names n d f)"

definition field_of_ancestor :: "class_table \<Rightarrow> string \<Rightarrow> string \<Rightarrow> class_id \<Rightarrow> member_id option \<Rightarrow> bool" where
  "field_of_ancestor ct n d c r = (case r of
     None \<Rightarrow> \<forall>k. (c, k) \<in> (hierarchy ct)\<^sup>* \<longrightarrow> \<not> has_field ct n d k
   | Some (k, i) \<Rightarrow>
       (c, k) \<in> (hierarchy ct)\<^sup>* \<and> i < length (c_fields (ct ! k)) \<and> names n d (c_fields (ct ! k) ! i) \<and>
       (has_field ct n d c \<longrightarrow> k = c))"

lemma first_res_cases:
  assumes "\<forall>x \<in> set xs. \<exists>r. f x = Inr r"
  shows "(first_res f xs = Inr None \<and> (\<forall>x \<in> set xs. f x = Inr None)) \<or>
         (\<exists>x \<in> set xs. \<exists>m. f x = Inr (Some m) \<and> first_res f xs = Inr (Some m))"
  using assms
proof (induction xs)
  case (Cons x xs)
  from Cons.prems obtain r where r: "f x = Inr r" by fastforce
  have "\<forall>y \<in> set xs. \<exists>r. f y = Inr r"
    using Cons.prems by simp
  from Cons.IH [OF this] r show ?case
    by (cases r) auto
qed simp

lemma set_parents:
  assumes "wf_classes ct" "c < length ct"
  shows "set (parents (ct ! c)) = Some ` (hierarchy ct `` {c})"
proof (rule set_eqI)
  fix i
  show "i \<in> set (parents (ct ! c)) \<longleftrightarrow> i \<in> Some ` (hierarchy ct `` {c})"
    using interface_not_null [OF assms] assms(2)
    by (cases i) (auto simp: parents_def hierarchy_def extends_rel_def implements_rel_def)
qed

lemma parents_Some:
  assumes "wf_classes ct" "c < length ct" "i \<in> set (parents (ct ! c))"
  obtains b where "i = Some b" "(c, b) \<in> hierarchy ct"
  using assms(3) that unfolding set_parents [OF assms(1,2)] by auto

lemma field_of_ancestor_up:
  assumes "\<not> has_field ct n d c" "(c, b) \<in> hierarchy ct" "field_of_ancestor ct n d b (Some m)"
  shows "field_of_ancestor ct n d c (Some m)"
  using assms by (auto simp: field_of_ancestor_def intro: converse_rtrancl_into_rtrancl split: prod.splits)

lemma field_of_ancestor_none:
  assumes "\<not> has_field ct n d c" "\<And>b. (c, b) \<in> hierarchy ct \<Longrightarrow> field_of_ancestor ct n d b None"
  shows "field_of_ancestor ct n d c None"
proof -
  have "\<not> has_field ct n d k" if "(c, k) \<in> (hierarchy ct)\<^sup>*" for k
    using that
  proof (cases rule: converse_rtranclE)
    case (step b)
    then show ?thesis
      using assms(2) [of b] by (simp add: field_of_ancestor_def)
  qed (use assms(1) in simp)
  then show ?thesis
    by (simp add: field_of_ancestor_def)
qed

lemma lookup_field_found:
  assumes "wf_classes ct" "c < length ct" "class_rank ct c < k"
  shows "\<exists>r. lookup_field k ct n d (Some c) = Inr r \<and> field_of_ancestor ct n d c r"
  using assms(2,3)
proof (induction k arbitrary: c)
  case (Suc k)
  define ps where "ps = parents (ct ! c)"
  show ?case
  proof (cases "find_index (names n d) (c_fields (ct ! c))")
    case None
    have found: "\<exists>r. lookup_field k ct n d (Some b) = Inr r \<and> field_of_ancestor ct n d b r"
      if "(c, b) \<in> hierarchy ct" for b
      using Suc.IH hierarchy_step [OF assms(1) that Suc.prems(2)] by blast
    have in_ps: "(c, b) \<in> hierarchy ct \<Longrightarrow> Some b \<in> set ps" for b
      using set_parents [OF assms(1) Suc.prems(1)] by (simp add: ps_def)
    have not_here: "\<not> has_field ct n d c"
      using None by (simp add: find_index_None has_field_def)
    have step: "lookup_field (Suc k) ct n d (Some c) = first_res (lookup_field k ct n d) ps"
      using None Suc.prems(1) by (simp add: ps_def)
    have "\<forall>i \<in> set ps. \<exists>r. lookup_field k ct n d i = Inr r"
      using found parents_Some [OF assms(1) Suc.prems(1)] unfolding ps_def by metis
    from first_res_cases [OF this] show ?thesis
    proof (elim disjE conjE bexE exE)
      assume none: "\<forall>x \<in> set ps. lookup_field k ct n d x = Inr None"
        and res: "first_res (lookup_field k ct n d) ps = Inr None"
      have "field_of_ancestor ct n d b None" if "(c, b) \<in> hierarchy ct" for b
        using found [OF that] none in_ps [OF that] by auto
      then have "field_of_ancestor ct n d c None"
        by (rule field_of_ancestor_none [OF not_here])
      with res step show ?thesis by simp
    next
      fix x m
      assume x: "x \<in> set ps" and m: "lookup_field k ct n d x = Inr (Some m)"
        and res: "first_res (lookup_field k ct n d) ps = Inr (Some m)"
      obtain b where b: "x = Some b" "(c, b) \<in> hierarchy ct"
        using x unfolding ps_def by (rule parents_Some [OF assms(1) Suc.prems(1)])
      with found [OF b(2)] m have "field_of_ancestor ct n d b (Some m)" by auto
      from field_of_ancestor_up [OF not_here b(2) this] res step show ?thesis by simp
    qed
  next
    case (Some i)
    then show ?thesis
      using Suc.prems(1) find_index_Some [OF Some] by (auto simp: field_of_ancestor_def)
  qed
qed simp

lemma LookupField_found:
  "wf_classes ct \<Longrightarrow> c < length ct \<Longrightarrow>
   \<exists>r. LookupField ct (Some c) n d = Inr r \<and> field_of_ancestor ct n d c r"
  unfolding LookupField_def by (rule lookup_field_found [OF _ _ search_depth_enough])

text \<open>
  The search in the interfaces overwrites its result: only what the last interface answers counts.
\<close>

lemma last_lookup_last:
  assumes "wf_classes ct" "\<And>i. i \<in> set is \<Longrightarrow> \<exists>c < length ct. i = Some c"
  shows "last_lookup ct n d is m = (if is = [] then Inr m else LookupMethodInClass ct (last is) n d)"
  using assms(2)
proof (induction "is" arbitrary: m)
  case (Cons i rest)
  obtain c where "c < length ct" "i = Some c"
    using Cons.prems [of i] by auto
  then obtain r where r: "LookupMethodInClass ct i n d = Inr r"
    using LookupMethodInClass_nearest [OF assms(1)] by blast
  have "last_lookup ct n d rest r = (if rest = [] then Inr r else LookupMethodInClass ct (last rest) n d)"
    using Cons.prems by (intro Cons.IH) simp
  with r show ?case by simp
qed simp

lemma LookupMethodInInterfaces_last:
  assumes "wf_classes ct" "c < length ct"
  shows "LookupMethodInInterfaces ct (Some c) n d =
    (if c_interfaces (ct ! c) = [] then Inr None
     else LookupMethodInClass ct (last (c_interfaces (ct ! c))) n d)"
proof -
  have "\<exists>k < length ct. i = Some k" if "i \<in> set (c_interfaces (ct ! c))" for i
    using that by (rule interface_Some [OF assms]) auto
  from last_lookup_last [OF assms(1) this] assms(2) show ?thesis
    by (simp add: LookupMethodInInterfaces_def)
qed

section \<open>What the subtype tests decide\<close>

lemma walk_up_ancestor:
  assumes "wf_classes ct" "c < length ct" "Suc (class_rank ct c) < k"
  shows "walk_up k ct (Some t) (Some c) = Inr ((c, t) \<in> (extends_rel ct)\<^sup>*)"
  using assms(2,3)
proof (induction k arbitrary: c)
  case (Suc k)
  show ?case
  proof (cases "c = t \<or> c_super_class (ct ! c) = None")
    case True
    moreover have "walk_up k ct (Some t) None = Inr False"
      using Suc.prems(2) by (cases k) auto
    ultimately show ?thesis
      using Suc.prems(1) extends_none [of ct c t] by auto
  next
    case False
    then obtain s where s: "c_super_class (ct ! c) = Some s" by auto
    have edge: "(c, s) \<in> hierarchy ct"
      using Suc.prems(1) s by (rule super_in_hierarchy)
    have "(c, s) \<in> extends_rel ct"
      using Suc.prems(1) s by (simp add: extends_rel_def)
    then have "(c, t) \<in> (extends_rel ct)\<^sup>* \<longleftrightarrow> (s, t) \<in> (extends_rel ct)\<^sup>*"
      using False extends_from [OF s Suc.prems(1)] by (auto intro: converse_rtrancl_into_rtrancl)
    then show ?thesis
      using False s Suc.prems Suc.IH hierarchy_range [OF assms(1) edge]
        class_rank_decreases [OF assms(1) edge] by simp
  qed
qed simp

lemma walk_up_super:
  assumes "wf_classes ct" "c < length ct"
  shows "walk_up (search_depth ct) ct (Some t) (c_super_class (ct ! c)) =
         Inr ((c, t) \<in> (extends_rel ct)\<^sup>+)"
proof (cases "c_super_class (ct ! c)")
  case None
  then have "(c, t) \<notin> (extends_rel ct)\<^sup>+"
    by (auto simp: extends_rel_def dest: tranclD)
  with None show ?thesis
    by (simp add: search_depth_def)
next
  case (Some s)
  have "(c, t) \<in> (extends_rel ct)\<^sup>+ \<longleftrightarrow> (s, t) \<in> (extends_rel ct)\<^sup>*"
    using Some assms(2) by (auto simp: extends_rel_def dest: tranclD intro: rtrancl_into_trancl2)
  moreover have "s < length ct"
    using hierarchy_range [OF assms(1) super_in_hierarchy [OF assms(2) Some]] by simp
  ultimately show ?thesis
    using Some walk_up_ancestor [OF assms(1), of s "search_depth ct" t]
      class_rank_less [OF assms(1), of s] by (simp add: search_depth_def)
qed

lemma IsSubClassOf_trancl:
  "wf_classes ct \<Longrightarrow> s < length ct \<Longrightarrow>
   IsSubClassOf ct (Some s) (Some t) = Inr ((s, t) \<in> (extends_rel ct)\<^sup>+)"
  by (simp add: IsSubClassOf_def walk_up_super)

lemma IsSuperClassOf_trancl:
  "wf_classes ct \<Longrightarrow> t < length ct \<Longrightarrow>
   IsSuperClassOf ct (Some s) (Some t) = Inr ((t, s) \<in> (extends_rel ct)\<^sup>+)"
  by (simp add: IsSuperClassOf_def walk_up_super)

lemma any_res_total:
  "(\<And>x. x \<in> set xs \<Longrightarrow> p x = Inr (q x)) \<Longrightarrow> any_res p xs = Inr (\<exists>x \<in> set xs. q x)"
  by (induction xs) auto

lemma implements_step:
  assumes "wf_classes ct" "c < length ct"
  shows "(c, t) \<in> (implements_rel ct)\<^sup>+ \<longleftrightarrow>
         (\<exists>i \<in> set (c_interfaces (ct ! c)). i = Some t \<or> (the i, t) \<in> (implements_rel ct)\<^sup>+)"
    (is "_ \<longleftrightarrow> ?r")
proof
  assume "(c, t) \<in> (implements_rel ct)\<^sup>+"
  then obtain d where d: "(c, d) \<in> implements_rel ct" "(d, t) \<in> (implements_rel ct)\<^sup>*"
    by (blast dest: tranclD)
  have "Some d \<in> set (c_interfaces (ct ! c))"
    using d(1) by (simp add: implements_rel_def)
  moreover have "Some d = Some t \<or> (the (Some d), t) \<in> (implements_rel ct)\<^sup>+"
    using rtranclD [OF d(2)] by auto
  ultimately show ?r
    by blast
next
  assume ?r
  then obtain i where i: "i \<in> set (c_interfaces (ct ! c))"
    "i = Some t \<or> (the i, t) \<in> (implements_rel ct)\<^sup>+" by blast
  moreover from i(1) obtain d where "i = Some d"
    by (rule interface_Some [OF assms])
  ultimately show "(c, t) \<in> (implements_rel ct)\<^sup>+"
    using assms(2) by (auto simp: implements_rel_def intro: trancl_into_trancl2)
qed

lemma sub_interface_trancl:
  assumes "wf_classes ct" "c < length ct" "class_rank ct c < k"
  shows "sub_interface k ct (Some t) (Some c) = Inr ((c, t) \<in> (implements_rel ct)\<^sup>+)"
  using assms(2,3)
proof (induction k arbitrary: c)
  case (Suc k)
  have "(if i = Some t then Inr True else sub_interface k ct (Some t) i) =
        Inr (i = Some t \<or> (the i, t) \<in> (implements_rel ct)\<^sup>+)"
    if i: "i \<in> set (c_interfaces (ct ! c))" for i
  proof -
    obtain d where d: "i = Some d" "(c, d) \<in> hierarchy ct"
      using i by (rule interface_Some [OF assms(1) Suc.prems(1)])
    then show ?thesis
      using Suc.IH hierarchy_step [OF assms(1) d(2) Suc.prems(2)] by simp
  qed
  then show ?case
    using Suc.prems(1) implements_step [OF assms(1) Suc.prems(1)] by (simp add: any_res_total)
qed simp

lemma IsSubInterfaceOf_trancl:
  "wf_classes ct \<Longrightarrow> s < length ct \<Longrightarrow>
   IsSubInterfaceOf ct (Some s) (Some t) = Inr ((s, t) \<in> (implements_rel ct)\<^sup>+)"
  unfolding IsSubInterfaceOf_def by (rule sub_interface_trancl [OF _ _ search_depth_enough])

lemma IsImplements_trancl:
  assumes "wf_classes ct" "s < length ct"
  shows "IsImplements ct (Some s) (Some t) = Inr ((s, t) \<in> (implements_rel ct)\<^sup>+)"
proof -
  have "(if i = Some t then Inr True else IsSubInterfaceOf ct i (Some t)) =
        Inr (i = Some t \<or> (the i, t) \<in> (implements_rel ct)\<^sup>+)"
    if i: "i \<in> set (c_interfaces (ct ! s))" for i
  proof -
    obtain d where "i = Some d" "d < length ct"
      using i by (rule interface_Some [OF assms])
    then show ?thesis
      using IsSubInterfaceOf_trancl [OF assms(1)] by simp
  qed
  then show ?thesis
    using assms(2) implements_step [OF assms] by (simp add: IsImplements_def any_res_total)
qed

end
