(* ===== verification/Class_Layout.thy ===== *)
theory Class_Layout
  imports Class_Model
begin

text \<open>
  The layout of fields: \<open>CalcInstanceFieldSlotIds\<close> and \<open>CalcStaticFieldSlotIds\<close> of
  \<open>src/src/runtime/class_loader.cpp\<close>. The fields of one kind get consecutive ranges of slots, in the
  order of their declaration, instance fields behind those of the super class. Shown: the ranges of
  two fields do not overlap and all lie between the first and the last slot of the class.
\<close>

section \<open>Slot numbers\<close>

text \<open>
  The loop of both functions: fields of the other kind are left as they are. The counter for static
  fields is a signed \<open>int\<close>; the 16-bit number of fields of a class file keeps both counters far from
  their ends.
\<close>

fun assign_slots :: "(field \<Rightarrow> bool) \<Rightarrow> u4 \<Rightarrow> field list \<Rightarrow> u4 \<times> field list" where
  "assign_slots sel slot_id [] = (slot_id, [])"
| "assign_slots sel slot_id (f # fs) =
     (if sel f then
        (case assign_slots sel (if IsLongOrDouble f then slot_id + 1 + 1 else slot_id + 1) fs of
           (end_id, fs') \<Rightarrow> (end_id, f\<lparr>f_slot_id := slot_id\<rparr> # fs'))
      else
        (case assign_slots sel slot_id fs of (end_id, fs') \<Rightarrow> (end_id, f # fs')))"

definition with_class :: "class_id option \<Rightarrow> (class_obj \<Rightarrow> class_obj res) \<Rightarrow> (class_table, unit) op" where
  "with_class c g ct = (case class_at ct c of
     Inl e \<Rightarrow> Inl e
   | Inr cl \<Rightarrow> (case g cl of Inl e \<Rightarrow> Inl e | Inr cl' \<Rightarrow> Inr ((), ct[the c := cl'])))"

definition first_slot :: "class_table \<Rightarrow> class_obj \<Rightarrow> u4 res" where
  "first_slot ct cl = (case c_super_class cl of
     None \<Rightarrow> Inr 0
   | Some d \<Rightarrow> (case class_at ct (Some d) of Inl e \<Rightarrow> Inl e | Inr sc \<Rightarrow> Inr (c_instance_slot_count sc)))"

definition CalcInstanceFieldSlotIds :: "class_id option \<Rightarrow> (class_table, unit) op" where
  "CalcInstanceFieldSlotIds c ct =
     with_class c (\<lambda>cl.
       case first_slot ct cl of
         Inl e \<Rightarrow> Inl e
       | Inr slot_id \<Rightarrow>
           (case assign_slots (\<lambda>f. \<not> IsStatic f) slot_id (c_fields cl) of
              (end_id, fs) \<Rightarrow> Inr (cl\<lparr>c_fields := fs, c_instance_slot_count := end_id\<rparr>))) ct"

definition CalcStaticFieldSlotIds :: "class_id option \<Rightarrow> (class_table, unit) op" where
  "CalcStaticFieldSlotIds c =
     with_class c (\<lambda>cl.
       case assign_slots IsStatic 0 (c_fields cl) of
         (end_id, fs) \<Rightarrow> Inr (cl\<lparr>c_fields := fs, c_static_slot_count := end_id\<rparr>))"

section \<open>Ranges\<close>

definition field_width :: "field \<Rightarrow> nat" where
  "field_width f = (if IsLongOrDouble f then 2 else 1)"

text \<open>The slots of a field.\<close>

definition field_range :: "field \<Rightarrow> nat set" where
  "field_range f = {unat (f_slot_id f) ..< unat (f_slot_id f) + field_width f}"

text \<open>\<open>laid_out sel a fs b\<close>: the selected fields fill the slots from \<open>a\<close> to \<open>b\<close>, one after the other.\<close>

fun laid_out :: "(field \<Rightarrow> bool) \<Rightarrow> nat \<Rightarrow> field list \<Rightarrow> nat \<Rightarrow> bool" where
  "laid_out sel a [] b \<longleftrightarrow> a = b"
| "laid_out sel a (f # fs) b \<longleftrightarrow>
     (if sel f then unat (f_slot_id f) = a \<and> laid_out sel (a + field_width f) fs b
      else laid_out sel a fs b)"

definition slot_total :: "(field \<Rightarrow> bool) \<Rightarrow> field list \<Rightarrow> nat" where
  "slot_total sel fs = sum_list (map field_width (filter sel fs))"

text \<open>Numbering a field changes none of the data that the selections read.\<close>

lemma slot_id_irrelevant [simp]:
  "IsStatic (f\<lparr>f_slot_id := i\<rparr>) = IsStatic f" "field_width (f\<lparr>f_slot_id := i\<rparr>) = field_width f"
  "IsLongOrDouble (f\<lparr>f_slot_id := i\<rparr>) = IsLongOrDouble f"
  by (simp_all add: IsStatic_def field_width_def IsLongOrDouble_def)

lemma assign_slots_laid_out:
  assumes "\<And>f i. sel (f\<lparr>f_slot_id := i\<rparr>) = sel f"
    and "unat a + slot_total sel fs < 2 ^ 32" and "assign_slots sel a fs = (b, fs')"
  shows "laid_out sel (unat a) fs' (unat b) \<and> unat b = unat a + slot_total sel fs"
  using assms(2,3)
proof (induction fs arbitrary: a fs')
  case (Cons f fs)
  show ?case
  proof (cases "sel f")
    case True
    define a' where "a' = (if IsLongOrDouble f then a + 1 + 1 else a + 1)"
    obtain fs'' where rec: "assign_slots sel a' fs = (b, fs'')" and fs': "fs' = f\<lparr>f_slot_id := a\<rparr> # fs''"
      using Cons.prems(2) True by (auto simp: a'_def split: prod.splits)
    have a': "unat a' = unat a + field_width f"
      using Cons.prems(1) True
      by (auto simp: a'_def field_width_def slot_total_def unat_word_ariths)
    have "laid_out sel (unat a') fs'' (unat b) \<and> unat b = unat a' + slot_total sel fs"
      using Cons.prems(1) True a' rec by (intro Cons.IH) (auto simp: slot_total_def)
    then show ?thesis
      using True fs' a' by (auto simp: assms(1) slot_total_def)
  next
    case False
    obtain fs'' where rec: "assign_slots sel a fs = (b, fs'')" and fs': "fs' = f # fs''"
      using Cons.prems(2) False by (auto split: prod.splits)
    have "laid_out sel (unat a) fs'' (unat b) \<and> unat b = unat a + slot_total sel fs"
      using Cons.prems(1) False rec by (intro Cons.IH) (auto simp: slot_total_def)
    then show ?thesis
      using False fs' by (auto simp: slot_total_def)
  qed
qed (simp add: slot_total_def)

text \<open>What the layout gives: ranges inside the bounds and apart from each other.\<close>

lemma laid_out_le: "laid_out sel a fs b \<Longrightarrow> a \<le> b"
  by (induction fs arbitrary: a) (fastforce split: if_splits)+

lemma laid_out_range:
  "laid_out sel a fs b \<Longrightarrow> f \<in> set fs \<Longrightarrow> sel f \<Longrightarrow> field_range f \<subseteq> {a..<b}"
proof (induction fs arbitrary: a)
  case (Cons g fs)
  show ?case
  proof (cases "f = g \<and> sel g")
    case True
    then show ?thesis
      using Cons.prems(1) laid_out_le [of sel "a + field_width g" fs b] by (auto simp: field_range_def)
  next
    case False
    then have "f \<in> set fs"
      using Cons.prems(2,3) by auto
    then show ?thesis
      using Cons.prems(1,3) Cons.IH [of a] Cons.IH [of "a + field_width g"] by (fastforce split: if_splits)
  qed
qed simp

lemma laid_out_disjoint:
  "laid_out sel a fs b \<Longrightarrow> i < j \<Longrightarrow> j < length fs \<Longrightarrow> sel (fs ! i) \<Longrightarrow> sel (fs ! j) \<Longrightarrow>
   field_range (fs ! i) \<inter> field_range (fs ! j) = {}"
proof (induction fs arbitrary: a i j)
  case (Cons g fs)
  then obtain k where j: "j = Suc k"
    by (cases j) auto
  show ?case
  proof (cases i)
    case 0
    then have "laid_out sel (a + field_width g) fs b" "unat (f_slot_id g) = a"
      using Cons.prems(1,4) by auto
    moreover have "field_range (fs ! k) \<subseteq> {a + field_width g..<b}"
      using Cons.prems(3,5) j calculation(1) by (intro laid_out_range [of sel _ fs]) auto
    ultimately show ?thesis
      using 0 j by (auto simp: field_range_def)
  next
    case (Suc m)
    then show ?thesis
      using Cons.prems j Cons.IH [of a m k] Cons.IH [of "a + field_width g" m k]
      by (fastforce split: if_splits)
  qed
qed simp

text \<open>The second numbering does not touch the fields of the first.\<close>

lemma assign_slots_other:
  "assign_slots sel a fs = (b, fs') \<Longrightarrow> (\<And>f i. other (f\<lparr>f_slot_id := i\<rparr>) = other f) \<Longrightarrow>
   (\<And>f. other f \<Longrightarrow> \<not> sel f) \<Longrightarrow> laid_out other x fs y \<Longrightarrow> laid_out other x fs' y"
  by (induction fs arbitrary: a x fs') (auto split: if_splits prod.splits)

lemma assign_slots_length: "assign_slots sel a fs = (b, fs') \<Longrightarrow> length fs' = length fs"
  by (induction fs arbitrary: a fs') (auto split: if_splits prod.splits)

lemma slot_total_bound: "slot_total sel fs \<le> 2 * length fs"
  by (induction fs) (auto simp: slot_total_def field_width_def)

text \<open>
  What the layout means for the accesses: fields of one kind share no slot and lie within the bounds of their kind.
\<close>

definition slots_apart :: "nat \<Rightarrow> class_obj \<Rightarrow> bool" where
  "slots_apart first cl \<longleftrightarrow>
     (let fs = c_fields cl in
      (\<forall>i j. i < j \<and> j < length fs \<and> IsStatic (fs ! i) = IsStatic (fs ! j) \<longrightarrow>
         field_range (fs ! i) \<inter> field_range (fs ! j) = {}) \<and>
      (\<forall>f \<in> set fs. field_range f \<subseteq>
         (if IsStatic f then {0..<unat (c_static_slot_count cl)} else {first..<unat (c_instance_slot_count cl)})))"

lemma laid_out_apart:
  assumes inst: "laid_out (\<lambda>f. \<not> IsStatic f) a (c_fields cl) (unat (c_instance_slot_count cl))"
    and stat: "laid_out IsStatic 0 (c_fields cl) (unat (c_static_slot_count cl))"
  shows "slots_apart a cl"
  unfolding slots_apart_def Let_def
proof (intro conjI allI impI ballI; (elim conjE)?)
  fix i j
  assume "i < j" "j < length (c_fields cl)" "IsStatic (c_fields cl ! i) = IsStatic (c_fields cl ! j)"
  then show "field_range (c_fields cl ! i) \<inter> field_range (c_fields cl ! j) = {}"
    using laid_out_disjoint [OF inst, of i j] laid_out_disjoint [OF stat, of i j] by blast
next
  fix f
  assume "f \<in> set (c_fields cl)"
  then show "field_range f \<subseteq>
      (if IsStatic f then {0..<unat (c_static_slot_count cl)} else {a..<unat (c_instance_slot_count cl)})"
    using laid_out_range [OF inst, of f] laid_out_range [OF stat, of f] by simp
qed

section \<open>Both numberings\<close>

text \<open>
  After the two functions have run on a class, its instance fields lie behind the slots of the super
  class and its static fields in the slots of the static variables.
\<close>

definition laid_out_class :: "class_table \<Rightarrow> class_obj \<Rightarrow> bool" where
  "laid_out_class ct cl \<longleftrightarrow>
     (\<exists>a. first_slot ct cl = Inr a \<and>
        laid_out (\<lambda>f. \<not> IsStatic f) (unat a) (c_fields cl) (unat (c_instance_slot_count cl))) \<and>
     laid_out IsStatic 0 (c_fields cl) (unat (c_static_slot_count cl))"

lemma layout_class:
  assumes "c < length ct" "first_slot ct (ct ! c) = Inr a" "c_super_class (ct ! c) \<noteq> Some c"
    and "unat a + 2 * length (c_fields (ct ! c)) < 2 ^ 32"
  shows "\<exists>ct'. andthen (CalcInstanceFieldSlotIds (Some c)) (CalcStaticFieldSlotIds (Some c)) ct = Inr ((), ct') \<and>
    length ct' = length ct \<and> laid_out_class ct' (ct' ! c) \<and> slots_apart (unat a) (ct' ! c) \<and>
    length (c_fields (ct' ! c)) = length (c_fields (ct ! c))"
proof -
  define fs where "fs = c_fields (ct ! c)"
  obtain b fs1 where i: "assign_slots (\<lambda>f. \<not> IsStatic f) a fs = (b, fs1)"
    by (cases "assign_slots (\<lambda>f. \<not> IsStatic f) a fs")
  obtain e fs2 where st: "assign_slots IsStatic 0 fs1 = (e, fs2)"
    by (cases "assign_slots IsStatic 0 fs1")
  define cl where "cl = (ct ! c)\<lparr>c_instance_slot_count := b, c_fields := fs2, c_static_slot_count := e\<rparr>"
  have len: "length fs1 = length fs" "length fs2 = length fs"
    using assign_slots_length [OF i] assign_slots_length [OF st] by simp_all
  have "unat a + slot_total (\<lambda>f. \<not> IsStatic f) fs < 2 ^ 32"
    using assms(4) slot_total_bound [of "\<lambda>f. \<not> IsStatic f" fs] by (simp add: fs_def)
  then have "laid_out (\<lambda>f. \<not> IsStatic f) (unat a) fs1 (unat b)"
    using assign_slots_laid_out [OF _ _ i] by auto
  then have inst: "laid_out (\<lambda>f. \<not> IsStatic f) (unat a) fs2 (unat b)"
    by (rule assign_slots_other [OF st, rotated -1]) simp_all
  have "unat (0::u4) + slot_total IsStatic fs1 < 2 ^ 32"
    using assms(4) slot_total_bound [of IsStatic fs1] len by (simp add: fs_def)
  then have stat: "laid_out IsStatic 0 fs2 (unat e)"
    using assign_slots_laid_out [OF _ _ st] by auto
  have ct': "andthen (CalcInstanceFieldSlotIds (Some c)) (CalcStaticFieldSlotIds (Some c)) ct =
             Inr ((), ct[c := cl])"
    using assms(1,2) i st
    by (simp add: op_simps CalcInstanceFieldSlotIds_def CalcStaticFieldSlotIds_def with_class_def
        fs_def cl_def)
  have "first_slot (ct[c := cl]) cl = first_slot ct (ct ! c)"
    using assms(3) by (auto simp: first_slot_def cl_def class_at_def split: option.splits)
  then have "laid_out_class (ct[c := cl]) cl"
    using inst stat assms(2) by (simp add: laid_out_class_def cl_def)
  moreover have "slots_apart (unat a) cl"
    using inst stat by (intro laid_out_apart) (simp_all add: cl_def)
  ultimately show ?thesis
    using ct' assms(1) len by (simp add: cl_def fs_def)
qed

end
