(* ===== verification/Class_Path.thy ===== *)
theory Class_Path
  imports Class_File
begin

text \<open>
  The class path: \<open>src/src/classpath/class_reader.h\<close>, \<open>class_reader.cpp\<close>, \<open>class_path_parser.h\<close> and
  \<open>class_path_parser.cpp\<close>. The file system, the environment and the archives (a vendored library) are
  the record \<open>world\<close>, an argument of what reads them. Shown: a class path is split into its
  entries, the entries are searched in order, and a class name without the suffix \<open>.class\<close> is
  found by no reader.
\<close>

section \<open>The world outside\<close>

text \<open>
  What a stream on a file gives: it cannot be opened, the bytes that \<open>lstat\<close> promised cannot be read, or
  the content. \<open>w_zip\<close> is the list of entries of an archive with their contents, \<open>None\<close> where the
  decompression fails, or the exception that \<open>ZipFile::Open\<close> throws.
\<close>

datatype file_result = Cannot_Open | Cannot_Read | Content bytes

record world =
  w_is_dir :: "string \<Rightarrow> bool"
  w_readdir :: "string \<Rightarrow> string list option"
  w_file :: "string \<Rightarrow> file_result"
  w_zip :: "string \<Rightarrow> (string \<times> bytes option) list res"
  w_getenv :: "string \<Rightarrow> string option"
  w_getcwd :: "string option"

section \<open>Class data\<close>

datatype read_errno =
  kSucceed | kNotClassFile | kOpenClassFailed | kReadClassStreamFailed | kReadClassFailed | kUnknown

record class_data =
  cd_data :: "bytes option"
  cd_read_errno :: read_errno

definition ClassData_new :: class_data where
  "ClassData_new = \<lparr>cd_data = None, cd_read_errno = kUnknown\<rparr>"

definition SetData :: "bytes \<Rightarrow> class_data \<Rightarrow> class_data res" where
  "SetData bs d = (if cd_data d \<noteq> None then Inl (Fatal ''Attempt to override class data'')
                   else Inr (d\<lparr>cd_data := Some bs\<rparr>))"

definition SetReadErrno :: "read_errno \<Rightarrow> class_data \<Rightarrow> class_data" where
  "SetReadErrno e d = d\<lparr>cd_read_errno := e\<rparr>"

section \<open>Strings\<close>

text \<open>\<open>find\<close> and \<open>find_last_of\<close> of one character; \<open>None\<close> is \<open>npos\<close>.\<close>

fun prefix_at :: "string \<Rightarrow> string \<Rightarrow> bool" where
  "prefix_at [] s = True"
| "prefix_at (c # cs) [] = False"
| "prefix_at (c # cs) (x # xs) = (c = x \<and> prefix_at cs xs)"

fun find_sub :: "string \<Rightarrow> string \<Rightarrow> nat option" where
  "find_sub w [] = (if w = [] then Some 0 else None)"
| "find_sub w (x # xs) = (if prefix_at w (x # xs) then Some 0 else map_option Suc (find_sub w xs))"

fun find_last :: "char \<Rightarrow> string \<Rightarrow> nat option" where
  "find_last c [] = None"
| "find_last c (x # xs) =
     (case find_last c xs of Some i \<Rightarrow> Some (Suc i) | None \<Rightarrow> if x = c then Some 0 else None)"

lemma find_sub_bound: "find_sub w s = Some i \<Longrightarrow> i \<le> length s"
  by (induction s arbitrary: i) (auto split: if_splits)

text \<open>The part after the last dot; \<open>npos + 1\<close> is 0, so that a string without a dot is its own suffix.\<close>

definition suffix_of :: "string \<Rightarrow> string" where
  "suffix_of s = (case find_last CHR ''.'' s of None \<Rightarrow> s | Some i \<Rightarrow> drop (i + 1) s)"

function split_loop :: "string \<Rightarrow> string \<Rightarrow> string list \<Rightarrow> string list res" where
  "split_loop split strs acc =
     (case find_sub split strs of
        None \<Rightarrow> Inr acc
      | Some pos \<Rightarrow>
          if length strs < pos + 1 then Inl Out_Of_Range
          else split_loop split (drop (pos + 1) strs) (acc @ [take pos strs]))"
  by pat_completeness auto
termination
  by (relation "measure (\<lambda>(split, strs, acc). length strs)") auto

declare split_loop.simps [simp del]

definition splitString :: "string \<Rightarrow> string \<Rightarrow> string list res" where
  "splitString src split = (if src = [] then Inr [] else split_loop split (src @ split) [])"

text \<open>
  \<open>ReplaceString\<close> goes on behind each replacement. An empty pattern is found again and again, until
  the string cannot grow any more; when nothing is put in, the loop has no end and no effect, to which
  C++ gives no meaning.
\<close>

function replace_from :: "string \<Rightarrow> string \<Rightarrow> string \<Rightarrow> string" where
  "replace_from w with [] = []"
| "replace_from w with (x # xs) =
     (if w \<noteq> [] \<and> prefix_at w (x # xs) then with @ replace_from w with (drop (length w) (x # xs))
      else x # replace_from w with xs)"
  by pat_completeness auto
termination
  by (relation "measure (\<lambda>(w, with, s). length s)") auto

definition ReplaceString :: "string \<Rightarrow> string \<Rightarrow> string \<Rightarrow> string res" where
  "ReplaceString inout what with =
     (if what = [] then
        (if with = [] then Inl (Undefined ''endless loop'') else Inl (Runtime_Error ''std::length_error''))
      else Inr (replace_from what with inout))"

definition ClassNameToClassPath :: "string \<Rightarrow> string res" where
  "ClassNameToClassPath class_name =
     (case ReplaceString class_name ''.'' ''/'' of Inl e \<Rightarrow> Inl e | Inr s \<Rightarrow> Inr (s @ ''.class''))"

section \<open>Readers\<close>

text \<open>\<open>WildcardClassReader\<close> is a \<open>CompositeClassReader\<close> whose constructor adds the readers.\<close>

datatype reader =
    DirClassReader string
  | ZipClassReader string
  | CompositeClassReader string "reader list"

definition GetFiles :: "world \<Rightarrow> string \<Rightarrow> string list \<Rightarrow> string list" where
  "GetFiles w path exds =
     (if \<not> w_is_dir w path then []
      else case w_readdir w path of
             None \<Rightarrow> []
           | Some ns \<Rightarrow>
               map (\<lambda>n. path @ ''/'' @ n)
                 (filter (\<lambda>n. n \<noteq> ''.'' \<and> n \<noteq> ''..'' \<and> suffix_of n \<in> set exds) ns))"

definition WildcardClassReader_new :: "world \<Rightarrow> string \<Rightarrow> reader" where
  "WildcardClassReader_new w wildcard_path =
     (let composite_path = (case find_last CHR ''*'' wildcard_path of
                              None \<Rightarrow> wildcard_path | Some i \<Rightarrow> take i wildcard_path) in
      CompositeClassReader composite_path
        (DirClassReader composite_path #
         map ZipClassReader (GetFiles w composite_path [''jar'', ''zip'', ''JAR''])))"

text \<open>\<open>path.length() - 1\<close> is \<open>npos\<close> for the empty path, which therefore counts as a wildcard.\<close>

definition npos :: nat where "npos = 2 ^ 64 - 1"

definition is_wildcard :: "string \<Rightarrow> bool" where
  "is_wildcard path \<longleftrightarrow>
     (case find_last CHR ''*'' path of None \<Rightarrow> npos | Some i \<Rightarrow> i) = size_t_sub (length path) 1"

definition entry_reader :: "world \<Rightarrow> string \<Rightarrow> reader" where
  "entry_reader w path =
     (if is_wildcard path then WildcardClassReader_new w path
      else if suffix_of path \<in> {''zip'', ''jar'', ''JAR''} then ZipClassReader path
      else DirClassReader path)"

text \<open>The entries of a path with separators contain none, so that the recursion is one level deep.\<close>

definition CreateClassReader :: "world \<Rightarrow> string \<Rightarrow> reader res" where
  "CreateClassReader w path =
     (if find_sub '':'' path \<noteq> None then
        (case splitString path '':'' of
           Inl e \<Rightarrow> Inl e
         | Inr paths \<Rightarrow> Inr (CompositeClassReader path (map (entry_reader w) paths)))
      else Inr (entry_reader w path))"

section \<open>Reading classes\<close>

definition CheckClassPathValid :: "string \<Rightarrow> bool" where
  "CheckClassPathValid class_path \<longleftrightarrow> suffix_of class_path = ''class''"

definition not_class_file :: class_data where
  "not_class_file = SetReadErrno kNotClassFile ClassData_new"

definition succeed :: "bytes \<Rightarrow> class_data \<Rightarrow> class_data res" where
  "succeed bs d = (case SetData bs d of Inl e \<Rightarrow> Inl e | Inr d' \<Rightarrow> Inr (SetReadErrno kSucceed d'))"

definition DirClassReader_ReadClass :: "world \<Rightarrow> string \<Rightarrow> string \<Rightarrow> class_data res" where
  "DirClassReader_ReadClass w abs_dir class_name =
     (if \<not> CheckClassPathValid class_name then Inr not_class_file
      else case w_file w (abs_dir @ ''/'' @ class_name) of
             Cannot_Open \<Rightarrow> Inr (SetReadErrno kOpenClassFailed ClassData_new)
           | Cannot_Read \<Rightarrow> Inr (SetReadErrno kReadClassStreamFailed ClassData_new)
           | Content bs \<Rightarrow> succeed bs ClassData_new)"

text \<open>The first entry with the name is taken; without one the error number stays as it is.\<close>

definition ZipClassReader_ReadClass :: "world \<Rightarrow> string \<Rightarrow> string \<Rightarrow> class_data res" where
  "ZipClassReader_ReadClass w abs_path class_name =
     (if \<not> CheckClassPathValid class_name then Inr not_class_file
      else case w_zip w abs_path of
             Inl e \<Rightarrow> Inl e
           | Inr entries \<Rightarrow>
               (case map_of entries class_name of
                  None \<Rightarrow> Inr ClassData_new
                | Some None \<Rightarrow> Inr (SetReadErrno kReadClassStreamFailed ClassData_new)
                | Some (Some bs) \<Rightarrow> succeed bs ClassData_new))"

fun first_success :: "class_data res list \<Rightarrow> class_data \<Rightarrow> class_data res" where
  "first_success [] d = Inr (SetReadErrno kReadClassFailed d)"
| "first_success (r # rs) d =
     (case r of
        Inl e \<Rightarrow> Inl e
      | Inr d' \<Rightarrow> if cd_read_errno d' = kSucceed then Inr d' else first_success rs d')"

primrec ReadClass :: "world \<Rightarrow> string \<Rightarrow> reader \<Rightarrow> class_data res" where
  "ReadClass w class_name (DirClassReader abs_dir) = DirClassReader_ReadClass w abs_dir class_name"
| "ReadClass w class_name (ZipClassReader abs_path) = ZipClassReader_ReadClass w abs_path class_name"
| "ReadClass w class_name (CompositeClassReader composite_path readers) =
     (if \<not> CheckClassPathValid class_name then Inr not_class_file
      else first_success (map (ReadClass w class_name) readers) ClassData_new)"

primrec Reader_String :: "reader \<Rightarrow> string" where
  "Reader_String (DirClassReader abs_dir) = abs_dir"
| "Reader_String (ZipClassReader abs_path) = abs_path"
| "Reader_String (CompositeClassReader composite_path readers) =
     composite_path @ '' '' @ concat (map Reader_String readers)"

section \<open>The class path of the machine\<close>

record class_path_parser =
  cpp_boot :: reader
  cpp_ext :: reader
  cpp_app :: reader

definition GetJreDir :: "world \<Rightarrow> string \<Rightarrow> string res" where
  "GetJreDir w jre_option =
     (if jre_option \<noteq> [] \<and> w_is_dir w jre_option then Inr jre_option
      else if w_is_dir w ''./jre'' then Inr ''./jre''
      else case w_getenv w ''JAVA_HOME'' of
             Some java_home \<Rightarrow> Inr (java_home @ ''/jre'')
           | None \<Rightarrow> Inl (Fatal ''Can not find jre folder!''))"

definition ParseBootAndExtClassPath :: "world \<Rightarrow> string \<Rightarrow> (reader \<times> reader) res" where
  "ParseBootAndExtClassPath w jre_path =
     (case GetJreDir w jre_path of
        Inl e \<Rightarrow> Inl e
      | Inr jre_dir \<Rightarrow>
          Inr (WildcardClassReader_new w (jre_dir @ ''/lib/*''),
               WildcardClassReader_new w (jre_dir @ ''/lib/ext/*'')))"

definition ParseUserClassPath :: "world \<Rightarrow> string \<Rightarrow> reader res" where
  "ParseUserClassPath w cp_option =
     (if cp_option = [] then
        (case w_getcwd w of
           None \<Rightarrow> Inl (Fatal ''getcwd error'')
         | Some cwd \<Rightarrow> CreateClassReader w cwd)
      else CreateClassReader w cp_option)"

definition ClassPathParser_new :: "world \<Rightarrow> string \<Rightarrow> string \<Rightarrow> class_path_parser res" where
  "ClassPathParser_new w jre_path_option app_class_path_option =
     (case ParseBootAndExtClassPath w jre_path_option of
        Inl e \<Rightarrow> Inl e
      | Inr (boot, ext) \<Rightarrow>
          (case ParseUserClassPath w app_class_path_option of
             Inl e \<Rightarrow> Inl e
           | Inr app \<Rightarrow> Inr \<lparr>cpp_boot = boot, cpp_ext = ext, cpp_app = app\<rparr>))"

fun first_class :: "world \<Rightarrow> string \<Rightarrow> reader list \<Rightarrow> class_data res" where
  "first_class w class_path [] = Inl (Fatal ''ClassNotFoundException'')"
| "first_class w class_path (r # rs) =
     (case ReadClass w class_path r of
        Inl e \<Rightarrow> Inl e
      | Inr d \<Rightarrow> if cd_read_errno d = kSucceed then Inr d else first_class w class_path rs)"

definition ClassPathParser_ReadClass :: "world \<Rightarrow> class_path_parser \<Rightarrow> string \<Rightarrow> class_data res" where
  "ClassPathParser_ReadClass w p class_name =
     (case ClassNameToClassPath class_name of
        Inl e \<Rightarrow> Inl e
      | Inr class_path \<Rightarrow> first_class w class_path [cpp_boot p, cpp_ext p, cpp_app p])"

section \<open>Splitting\<close>

text \<open>A class path as a list of entries, each followed by a separator.\<close>

definition entries :: "string list \<Rightarrow> string" where
  "entries ps = concat (map (\<lambda>p. p @ '':'') ps)"

definition plain :: "string list \<Rightarrow> bool" where
  "plain ps \<longleftrightarrow> (\<forall>p \<in> set ps. CHR '':'' \<notin> set p)"

lemma find_sub_separator:
  "CHR '':'' \<notin> set p \<Longrightarrow> find_sub '':'' (p @ CHR '':'' # s) = Some (length p)"
  by (induction p) auto

lemma find_sub_none: "find_sub '':'' s = None \<longleftrightarrow> CHR '':'' \<notin> set s"
  by (induction s) auto

lemma split_loop_entries: "plain ps \<Longrightarrow> split_loop '':'' (entries ps) acc = Inr (acc @ ps)"
proof (induction ps arbitrary: acc)
  case Nil
  then show ?case
    by (simp add: split_loop.simps entries_def)
next
  case (Cons p ps)
  have "find_sub '':'' (entries (p # ps)) = Some (length p)"
    using Cons.prems find_sub_separator [of p "entries ps"] by (simp add: plain_def entries_def)
  then have "split_loop '':'' (entries (p # ps)) acc = split_loop '':'' (entries ps) (acc @ [p])"
    by (subst split_loop.simps) (simp add: entries_def)
  then show ?case
    using Cons by (simp add: plain_def)
qed

lemma entries_exist: "\<exists>ps. s @ '':'' = entries ps \<and> plain ps \<and> ps \<noteq> []"
proof (induction s)
  case Nil
  show ?case
    by (rule exI [of _ "[[]]"]) (simp add: entries_def plain_def)
next
  case (Cons c s)
  then obtain p ps where ps: "s @ '':'' = entries (p # ps)" "plain (p # ps)"
    by (metis list.exhaust)
  show ?case
  proof (cases "c = CHR '':''")
    case True
    with ps show ?thesis
      by (intro exI [of _ "[] # p # ps"]) (simp add: entries_def plain_def)
  next
    case False
    with ps show ?thesis
      by (intro exI [of _ "(c # p) # ps"]) (simp add: entries_def plain_def)
  qed
qed

lemma splitString_entries:
  assumes "src \<noteq> []"
  shows "\<exists>ps. splitString src '':'' = Inr ps \<and> src @ '':'' = entries ps \<and> plain ps"
proof -
  obtain ps where ps: "src @ '':'' = entries ps" "plain ps"
    using entries_exist by blast
  then have "splitString src '':'' = Inr ps"
    using assms split_loop_entries [OF ps(2), of "[]"] by (simp add: splitString_def)
  with ps show ?thesis
    by blast
qed

text \<open>The recursion of \<open>CreateClassReader\<close>: every entry is made by the function itself.\<close>

lemma CreateClassReader_entry:
  assumes "splitString path '':'' = Inr paths" "p \<in> set paths"
  shows "CreateClassReader w p = Inr (entry_reader w p)"
proof -
  have "path \<noteq> []"
    using assms by (auto simp: splitString_def)
  then have "plain paths"
    using splitString_entries assms(1) by fastforce
  then show ?thesis
    using assms(2) by (simp add: plain_def CreateClassReader_def find_sub_none)
qed

section \<open>The search\<close>

lemma first_success_found:
  assumes "\<forall>r \<in> set rs. \<exists>d. r = Inr d \<and> cd_read_errno d \<noteq> kSucceed" "cd_read_errno d' = kSucceed"
  shows "first_success (rs @ Inr d' # rs') d = Inr d'"
  using assms by (induction rs arbitrary: d) auto

lemma ReadClass_not_class: "\<not> CheckClassPathValid n \<Longrightarrow> ReadClass w n r = Inr not_class_file"
  by (cases r) (simp_all add: DirClassReader_ReadClass_def ZipClassReader_ReadClass_def)

text \<open>There are data exactly when the error number says so.\<close>

definition consistent :: "class_data \<Rightarrow> bool" where
  "consistent d \<longleftrightarrow> (cd_read_errno d = kSucceed \<longleftrightarrow> cd_data d \<noteq> None)"

lemma first_success_consistent:
  "\<forall>r \<in> set rs. \<forall>d. r = Inr d \<longrightarrow> consistent d \<Longrightarrow> consistent d \<Longrightarrow> cd_read_errno d \<noteq> kSucceed \<Longrightarrow>
   first_success rs d = Inr d' \<Longrightarrow> consistent d'"
  by (induction rs arbitrary: d)
    (auto simp: consistent_def SetReadErrno_def split: sum.splits if_splits)

lemma ReadClass_consistent: "ReadClass w n r = Inr d \<Longrightarrow> consistent d"
proof (induction r arbitrary: d)
  case (CompositeClassReader p rs)
  show ?case
  proof (cases "CheckClassPathValid n")
    case True
    moreover have "\<forall>r \<in> set (map (ReadClass w n) rs). \<forall>d. r = Inr d \<longrightarrow> consistent d"
      using CompositeClassReader.IH by auto
    ultimately show ?thesis
      using CompositeClassReader.prems first_success_consistent [of "map (ReadClass w n) rs" ClassData_new d]
      by (simp add: ClassData_new_def consistent_def)
  qed (use CompositeClassReader.prems in
      \<open>auto simp: not_class_file_def consistent_def SetReadErrno_def ClassData_new_def\<close>)
qed (auto simp: DirClassReader_ReadClass_def ZipClassReader_ReadClass_def succeed_def SetData_def not_class_file_def
    consistent_def SetReadErrno_def ClassData_new_def split: if_splits file_result.splits sum.splits option.splits)

text \<open>A path with several entries: the first entry that has the class gives it.\<close>

lemma CreateClassReader_entries:
  assumes "path @ '':'' = entries ps" "plain ps" "CHR '':'' \<in> set path"
  shows "CreateClassReader w path = Inr (CompositeClassReader path (map (entry_reader w) ps))"
proof -
  have "path \<noteq> []"
    using assms(3) by auto
  then have "splitString path '':'' = Inr ps"
    using split_loop_entries [OF assms(2), of "[]"] assms(1) by (simp add: splitString_def)
  then show ?thesis
    using assms(3) find_sub_none [of path] by (simp add: CreateClassReader_def)
qed

lemma composite_first:
  assumes "CheckClassPathValid n" "\<forall>r \<in> set qs. \<exists>d. ReadClass w n r = Inr d \<and> cd_read_errno d \<noteq> kSucceed"
    and "ReadClass w n r = Inr d" "cd_read_errno d = kSucceed"
  shows "ReadClass w n (CompositeClassReader path (qs @ r # rs)) = Inr d"
proof -
  have "first_success (map (ReadClass w n) qs @ Inr d # map (ReadClass w n) rs) ClassData_new = Inr d"
    by (rule first_success_found) (use assms in auto)
  then show ?thesis
    using assms(1,3) by simp
qed

end
