(* ===== verification/Heap_Alloc.thy ===== *)
theory Heap_Alloc
  imports Jvm_Prelude
begin

text \<open>
  The heap of \<open>src/src/runtime/alloc\<close>: rounding (\<open>heap_util.h\<close>), the division of the block into a
  fresh space, two survivor spaces and the old space, and the allocation of objects
  (\<open>heap.h\<close>, \<open>heap.cpp\<close>). \<open>calloc\<close> and \<open>realloc\<close> belong to the C library: the address that \<open>calloc\<close>
  returns and the function from the arguments of \<open>realloc\<close> to its result are parameters. Shown:
  rounding gives the next multiple of the alignment, the four spaces lie in the block and do not
  overlap, allocation keeps the position inside the fresh space, and every allocation after the
  first one passes a pointer to \<open>realloc\<close> that no allocation function has returned.
\<close>

section \<open>Rounding\<close>

type_synonym size_t = "64 word"
type_synonym uptr = "64 word"

text \<open>\<open>x & -n\<close>, on \<open>size_t\<close> and, with the same bits, on \<open>intptr_t\<close>.\<close>

definition RoundDown :: "size_t \<Rightarrow> size_t \<Rightarrow> size_t" where
  "RoundDown x n = x AND - n"

definition RoundUp :: "size_t \<Rightarrow> size_t \<Rightarrow> size_t" where
  "RoundUp x n = RoundDown (x + n - 1) n"

definition AlignDown :: "uptr \<Rightarrow> size_t \<Rightarrow> uptr" where
  "AlignDown x n = RoundDown x n"

definition AlignUp :: "uptr \<Rightarrow> size_t \<Rightarrow> uptr" where
  "AlignUp x n = RoundUp x n"

lemma RoundDown_exp: "RoundDown x (2 ^ k) = x div 2 ^ k * 2 ^ k"
proof -
  have "- (2 ^ k) = (NOT (mask k) :: size_t)"
    by (simp add: minus_eq_not_minus_1 mask_eq_exp_minus_1)
  then have "RoundDown x (2 ^ k) = push_bit k (drop_bit k x)"
    unfolding RoundDown_def by (intro bit_word_eqI) (auto simp: bit_simps)
  then show ?thesis
    by (simp add: push_bit_eq_mult drop_bit_eq_div)
qed

lemma unat_exp64: "k < 64 \<Longrightarrow> unat (2 ^ k :: size_t) = 2 ^ k"
  using unat_of_nat [of "2 ^ k", where 'a = 64] power_strict_increasing [of k 64 "2::nat"] by simp

lemma unat_div_mult:
  assumes "k < 64"
  shows "unat (x div 2 ^ k * 2 ^ k :: size_t) = unat x div 2 ^ k * 2 ^ k"
proof -
  have "x mod 2 ^ k \<le> x"
    by (simp add: word_le_nat_alt unat_mod)
  then have "unat (x - x mod 2 ^ k) = unat x - unat x mod 2 ^ k"
    using assms by (simp add: unat_sub unat_mod unat_exp64)
  then show ?thesis
    by (simp add: minus_mod_eq_div_mult)
qed

lemma unat_RoundDown: "k < 64 \<Longrightarrow> unat (RoundDown x (2 ^ k)) = unat x div 2 ^ k * 2 ^ k"
  by (simp add: RoundDown_exp unat_div_mult)

lemma unat_add_small: "unat x + unat y < 2 ^ 64 \<Longrightarrow> unat (x + y :: size_t) = unat x + unat y"
  by (simp add: unat_word_ariths)

lemma unat_RoundUp:
  assumes "k < 64" and "unat x + 2 ^ k \<le> 2 ^ 64"
  shows "unat (RoundUp x (2 ^ k)) = (unat x + 2 ^ k - 1) div 2 ^ k * 2 ^ k"
proof -
  have "(1::size_t) \<le> 2 ^ k"
    using assms(1) by (simp add: word_le_nat_alt unat_exp64)
  then have last: "unat (2 ^ k - 1 :: size_t) = 2 ^ k - 1"
    using assms(1) by (simp add: unat_sub unat_exp64)
  moreover have "(0::nat) < 2 ^ k"
    by simp
  ultimately have "unat (x + (2 ^ k - 1)) = unat x + (2 ^ k - 1)"
    using assms(2) by (subst unat_add_small) auto
  then show ?thesis
    using assms(1) by (simp add: RoundUp_def unat_RoundDown add_diff_eq)
qed

text \<open>Rounding up gives the least multiple that is not below the argument.\<close>

lemma round_up_nat:
  assumes "0 < (n::nat)"
  shows "x \<le> (x + n - 1) div n * n \<and> (x + n - 1) div n * n < x + n \<and> n dvd (x + n - 1) div n * n"
proof -
  define q where "q = (x + n - 1) div n * n"
  define r where "r = (x + n - 1) mod n"
  have "r < n" "q + r = x + n - 1"
    using assms unfolding q_def r_def by simp_all
  then have "x \<le> q" "q < x + n"
    using assms by linarith+
  then show ?thesis
    unfolding q_def by simp
qed

lemma RoundUp_8:
  assumes "unat x + 8 \<le> 2 ^ 64"
  shows "unat x \<le> unat (RoundUp x 8) \<and> unat (RoundUp x 8) < unat x + 8 \<and> 8 dvd unat (RoundUp x 8)"
  using unat_RoundUp [of 3 x] round_up_nat [of 8 "unat x"] assms by simp

lemma RoundDown_8: "unat (RoundDown x 8) = unat x div 8 * 8"
  using unat_RoundDown [of 3 x] by simp

section \<open>The heap\<close>

text \<open>
  \<open>h_live\<close> is not a member of the class: it lists the addresses that \<open>calloc\<close> and \<open>realloc\<close> have
  returned for the heap and that are not released, the only ones that may be given to \<open>realloc\<close>.
  \<open>old_pos_\<close> is the null pointer and nothing changes it.
\<close>

record heap =
  h_absolute_max_size :: size_t
  h_bytes_allocated :: size_t
  h_objects_allocated :: size_t
  h_heap_base :: uptr
  h_fresh_start :: uptr
  h_fresh_pos :: uptr
  h_fresh_size :: size_t
  h_from_ptr :: uptr
  h_to_ptr :: uptr
  h_survivor_size :: size_t
  h_old_start :: uptr
  h_old_pos :: uptr
  h_live :: "uptr list"

definition kMinHeapSize :: size_t where "kMinHeapSize = 4096"
definition kObjectAlignment :: size_t where "kObjectAlignment = 8"

text \<open>\<open>block\<close> is what \<open>calloc\<close> returns; the constructor does not test it.\<close>

definition Heap_new :: "uptr \<Rightarrow> size_t \<Rightarrow> heap" where
  "Heap_new block maxSize =
     (let absolute_max_size = max kMinHeapSize (RoundUp maxSize kObjectAlignment);
          heap_base = RoundUp block kObjectAlignment;
          survivor_size = RoundDown (drop_bit 2 absolute_max_size div 10) kObjectAlignment;
          fresh_size = RoundDown (push_bit 3 survivor_size) kObjectAlignment;
          from_ptr = heap_base + fresh_size;
          to_ptr = from_ptr + survivor_size in
      \<lparr>h_absolute_max_size = absolute_max_size, h_bytes_allocated = 0, h_objects_allocated = 0,
       h_heap_base = heap_base, h_fresh_start = heap_base, h_fresh_pos = heap_base,
       h_fresh_size = fresh_size, h_from_ptr = from_ptr, h_to_ptr = to_ptr,
       h_survivor_size = survivor_size, h_old_start = to_ptr + survivor_size, h_old_pos = 0,
       h_live = [block]\<rparr>)"

text \<open>
  The members that \<open>AllocObject\<close> sets end 24 bytes after the start of the object: the table pointer
  of the virtual functions, three bytes for the age and two flags, padding, the class pointer.
\<close>

definition header_bytes :: nat where "header_bytes = 24"

text \<open>
  \<open>None\<close> is the null pointer that the caller gets when the fresh space has no room. An address
  beyond the last one, a pointer that is not allocated, and a block too small for the members
  written are outside of what C++ defines. A result of \<open>realloc\<close> is used without a test.
\<close>

definition AllocObject :: "(uptr \<Rightarrow> size_t \<Rightarrow> uptr) \<Rightarrow> size_t \<Rightarrow> (heap, uptr option) op" where
  "AllocObject realloc obj_size h =
     (let obj_size = RoundUp obj_size kObjectAlignment in
      if 2 ^ 64 \<le> unat (h_fresh_pos h) + unat obj_size then Inl (Undefined ''pointer arithmetic'')
      else if h_fresh_pos h + obj_size > h_fresh_start h + h_fresh_size h then Inr (None, h)
      else if h_fresh_pos h \<notin> set (h_live h) then Inl (Undefined ''realloc of a pointer that is not allocated'')
      else
        let obj = realloc (h_fresh_pos h) obj_size in
        if obj = 0 then Inl Null_Dereference
        else if unat obj_size < header_bytes then Inl (Undefined ''write past the allocated object'')
        else Inr (Some obj,
          h\<lparr>h_fresh_pos := h_fresh_pos h + obj_size,
            h_bytes_allocated := h_bytes_allocated h + obj_size,
            h_objects_allocated := h_objects_allocated h + 1,
            h_live := obj # removeAll (h_fresh_pos h) (h_live h)\<rparr>))"

section \<open>Accessors\<close>

definition GetAbsoluteMaxSize :: "heap \<Rightarrow> size_t" where "GetAbsoluteMaxSize h = h_absolute_max_size h"
definition SetAbsoluteMaxSize :: "size_t \<Rightarrow> heap \<Rightarrow> heap" where "SetAbsoluteMaxSize n h = h\<lparr>h_absolute_max_size := n\<rparr>"
definition GetBytesAllocated :: "heap \<Rightarrow> size_t" where "GetBytesAllocated h = h_bytes_allocated h"
definition SetBytesAllocated :: "size_t \<Rightarrow> heap \<Rightarrow> heap" where "SetBytesAllocated n h = h\<lparr>h_bytes_allocated := n\<rparr>"
definition GetObjectsAllocated :: "heap \<Rightarrow> size_t" where "GetObjectsAllocated h = h_objects_allocated h"
definition SetObjectsAllocated :: "size_t \<Rightarrow> heap \<Rightarrow> heap" where "SetObjectsAllocated n h = h\<lparr>h_objects_allocated := n\<rparr>"
definition GetHeapBase :: "heap \<Rightarrow> uptr" where "GetHeapBase h = h_heap_base h"
definition SetHeapBase :: "uptr \<Rightarrow> heap \<Rightarrow> heap" where "SetHeapBase p h = h\<lparr>h_heap_base := p\<rparr>"
definition GetFreshStart :: "heap \<Rightarrow> uptr" where "GetFreshStart h = h_fresh_start h"
definition SetFreshStart :: "uptr \<Rightarrow> heap \<Rightarrow> heap" where "SetFreshStart p h = h\<lparr>h_fresh_start := p\<rparr>"
definition GetFreshPos :: "heap \<Rightarrow> uptr" where "GetFreshPos h = h_fresh_pos h"
definition SetFreshPos :: "uptr \<Rightarrow> heap \<Rightarrow> heap" where "SetFreshPos p h = h\<lparr>h_fresh_pos := p\<rparr>"
definition GetFreshSize :: "heap \<Rightarrow> size_t" where "GetFreshSize h = h_fresh_size h"
definition SetFreshSize :: "size_t \<Rightarrow> heap \<Rightarrow> heap" where "SetFreshSize n h = h\<lparr>h_fresh_size := n\<rparr>"
definition GetFromPtr :: "heap \<Rightarrow> uptr" where "GetFromPtr h = h_from_ptr h"
definition SetFromPtr :: "uptr \<Rightarrow> heap \<Rightarrow> heap" where "SetFromPtr p h = h\<lparr>h_from_ptr := p\<rparr>"
definition GetToPtr :: "heap \<Rightarrow> uptr" where "GetToPtr h = h_to_ptr h"
definition SetToPtr :: "uptr \<Rightarrow> heap \<Rightarrow> heap" where "SetToPtr p h = h\<lparr>h_to_ptr := p\<rparr>"
definition GetSurvivorSize :: "heap \<Rightarrow> size_t" where "GetSurvivorSize h = h_survivor_size h"
definition SetSurvivorSize :: "size_t \<Rightarrow> heap \<Rightarrow> heap" where "SetSurvivorSize n h = h\<lparr>h_survivor_size := n\<rparr>"
definition GetOldStart :: "heap \<Rightarrow> uptr" where "GetOldStart h = h_old_start h"
definition SetOldStart :: "uptr \<Rightarrow> heap \<Rightarrow> heap" where "SetOldStart p h = h\<lparr>h_old_start := p\<rparr>"
definition GetOldPos :: "heap \<Rightarrow> uptr" where "GetOldPos h = h_old_pos h"
definition SetOldPos :: "uptr \<Rightarrow> heap \<Rightarrow> heap" where "SetOldPos p h = h\<lparr>h_old_pos := p\<rparr>"

section \<open>The spaces\<close>

text \<open>
  A well-formed heap: the fresh space, the two survivor spaces and the start of the old space follow
  each other without wrapping around, everything is aligned, and the position of the next object lies
  in the fresh space, as far from its start as the number of bytes handed out.
\<close>

definition heap_wf :: "heap \<Rightarrow> bool" where
  "heap_wf h \<longleftrightarrow>
     8 dvd unat (h_fresh_start h) \<and> 8 dvd unat (h_fresh_pos h) \<and>
     8 dvd unat (h_fresh_size h) \<and> 8 dvd unat (h_survivor_size h) \<and>
     unat (h_fresh_start h) \<le> unat (h_fresh_pos h) \<and>
     unat (h_fresh_pos h) \<le> unat (h_fresh_start h) + unat (h_fresh_size h) \<and>
     unat (h_fresh_start h) + unat (h_fresh_size h) = unat (h_from_ptr h) \<and>
     unat (h_from_ptr h) + unat (h_survivor_size h) = unat (h_to_ptr h) \<and>
     unat (h_to_ptr h) + unat (h_survivor_size h) = unat (h_old_start h) \<and>
     h_bytes_allocated h = h_fresh_pos h - h_fresh_start h"

lemma RoundUp_aligned:
  assumes "8 dvd unat x"
  shows "RoundUp x 8 = x"
proof -
  obtain q where q: "unat x = 8 * q"
    using assms by (auto elim: dvdE)
  moreover have "unat x < 2 ^ 64"
    using unsigned_less [of x, where ?'a = nat] by simp
  ultimately have "unat x + 8 \<le> 2 ^ 64"
    by simp
  then have "unat x \<le> unat (RoundUp x 8)" "unat (RoundUp x 8) < unat x + 8" "8 dvd unat (RoundUp x 8)"
    using RoundUp_8 by blast+
  then have "unat (RoundUp x 8) = unat x"
    using q by (auto elim!: dvdE)
  then show ?thesis
    by (rule unsigned_word_eqI)
qed

text \<open>The space that the constructor divides is a quarter of the block; the old space starts there.\<close>

lemma Heap_new_wf:
  assumes "8 dvd unat block" and "unat maxSize + 8 \<le> 2 ^ 64"
    and "unat block + unat (h_absolute_max_size (Heap_new block maxSize)) < 2 ^ 64"
  shows "heap_wf (Heap_new block maxSize) \<and>
    h_fresh_start (Heap_new block maxSize) = block \<and>
    unat (h_old_start (Heap_new block maxSize)) \<le>
      unat block + unat (h_absolute_max_size (Heap_new block maxSize)) div 4"
proof -
  define m where "m = max kMinHeapSize (RoundUp maxSize kObjectAlignment)"
  define sv where "sv = RoundDown (drop_bit 2 m div 10) kObjectAlignment"
  define fr where "fr = RoundDown (push_bit 3 sv) kObjectAlignment"
  have base: "RoundUp block kObjectAlignment = block"
    using assms(1) by (simp add: kObjectAlignment_def RoundUp_aligned)
  have m: "unat block + unat m < 2 ^ 64"
    using assms(3) by (simp add: Heap_new_def Let_def m_def)
  have "unat (drop_bit 2 m div 10) = unat m div 4 div 10"
    by (simp add: unat_div drop_bit_eq_div)
  then have sv: "unat sv = unat m div 40 div 8 * 8"
    by (simp add: sv_def kObjectAlignment_def RoundDown_8 div_mult2_eq [symmetric])
  then have small: "10 * unat sv \<le> unat m div 4"
    by linarith
  have "unat sv * 8 < 2 ^ 64"
    using small m by linarith
  then have "unat (push_bit 3 sv) = unat sv * 8"
    by (simp add: push_bit_eq_mult unat_word_ariths)
  then have fr: "unat fr = 8 * unat sv"
    by (simp add: fr_def kObjectAlignment_def RoundDown_8)
  have "unat (block + fr) = unat block + unat fr"
    using small m fr by (intro unat_add_small) linarith
  moreover from this have "unat (block + fr + sv) = unat block + unat fr + unat sv"
    using small m fr by (subst unat_add_small) linarith+
  moreover from this have "unat (block + fr + sv + sv) = unat block + unat fr + unat sv + unat sv"
    using small m fr by (subst unat_add_small) linarith+
  moreover have "8 dvd unat sv"
    by (simp add: sv)
  ultimately show ?thesis
    using assms(1) fr small
    by (simp add: Heap_new_def Let_def heap_wf_def base m_def [symmetric] sv_def [symmetric]
        fr_def [symmetric])
qed

text \<open>What a call of \<open>AllocObject\<close> that returns has done.\<close>

lemma AllocObject_cases:
  assumes "AllocObject r n h = Inr (p, h')"
  shows "(p = None \<and> h' = h) \<or>
    (\<exists>obj. p = Some obj \<and> obj = r (h_fresh_pos h) (RoundUp n 8) \<and> h_fresh_pos h \<in> set (h_live h) \<and>
       unat (h_fresh_pos h) + unat (RoundUp n 8) < 2 ^ 64 \<and>
       header_bytes \<le> unat (RoundUp n 8) \<and>
       h_fresh_pos h + RoundUp n 8 \<le> h_fresh_start h + h_fresh_size h \<and>
       h' = h\<lparr>h_fresh_pos := h_fresh_pos h + RoundUp n 8,
              h_bytes_allocated := h_bytes_allocated h + RoundUp n 8,
              h_objects_allocated := h_objects_allocated h + 1,
              h_live := obj # removeAll (h_fresh_pos h) (h_live h)\<rparr>)"
  using assms by (auto simp: AllocObject_def Let_def kObjectAlignment_def split: if_splits)

lemma AllocObject_wf:
  assumes "heap_wf h" and "AllocObject r n h = Inr (p, h')"
  shows "heap_wf h'"
  using AllocObject_cases [OF assms(2)]
proof (elim disjE exE conjE)
  fix obj
  assume small: "unat (h_fresh_pos h) + unat (RoundUp n 8) < 2 ^ 64"
    and room: "h_fresh_pos h + RoundUp n 8 \<le> h_fresh_start h + h_fresh_size h"
    and h': "h' = h\<lparr>h_fresh_pos := h_fresh_pos h + RoundUp n 8,
              h_bytes_allocated := h_bytes_allocated h + RoundUp n 8,
              h_objects_allocated := h_objects_allocated h + 1,
              h_live := obj # removeAll (h_fresh_pos h) (h_live h)\<rparr>"
  have pos: "unat (h_fresh_pos h + RoundUp n 8) = unat (h_fresh_pos h) + unat (RoundUp n 8)"
    using small by (rule unat_add_small)
  have "unat (h_fresh_start h) + unat (h_fresh_size h) < 2 ^ 64"
    using assms(1) unsigned_less [of "h_from_ptr h", where ?'a = nat] by (simp add: heap_wf_def)
  then have "unat (h_fresh_start h + h_fresh_size h) = unat (h_fresh_start h) + unat (h_fresh_size h)"
    by (rule unat_add_small)
  then have "unat (h_fresh_pos h + RoundUp n 8) \<le> unat (h_fresh_start h) + unat (h_fresh_size h)"
    using room by (simp add: word_le_nat_alt)
  moreover have "8 dvd unat (RoundUp n 8)"
    using unat_RoundDown [of 3 "n + 8 - 1"] by (simp add: RoundUp_def)
  ultimately show ?thesis
    using assms(1) pos by (simp add: h' heap_wf_def)
qed (use assms(1) in simp)

text \<open>
  Once the block of the heap has been given to \<open>realloc\<close>, the position is inside an object or in
  released memory, and no further object is ever allocated.
\<close>

lemma AllocObject_once:
  assumes "h_live h = [h_fresh_pos h]" "AllocObject r n h = Inr (Some p, h')"
    and "r (h_fresh_pos h) (RoundUp n 8) \<noteq> h_fresh_pos h + RoundUp n 8"
  shows "AllocObject r k h' \<noteq> Inr (Some q, h'')"
proof
  assume again: "AllocObject r k h' = Inr (Some q, h'')"
  have "h_fresh_pos h' \<in> set (h_live h')"
    using AllocObject_cases [OF again] by auto
  then show False
    using AllocObject_cases [OF assms(2)] assms(1,3) by auto
qed

text \<open>Any number of allocations after each other.\<close>

primrec run_allocs :: "(uptr \<Rightarrow> size_t \<Rightarrow> uptr) \<Rightarrow> size_t list \<Rightarrow> (heap, uptr option list) op" where
  "run_allocs r [] = ret []"
| "run_allocs r (n # ns) = bind (AllocObject r n) (\<lambda>p. bind (run_allocs r ns) (\<lambda>ps. ret (p # ps)))"

lemma AllocObject_spaces:
  assumes "AllocObject r n h = Inr (p, h')"
  shows "h_fresh_start h' = h_fresh_start h \<and> h_fresh_size h' = h_fresh_size h \<and> h_from_ptr h' = h_from_ptr h \<and>
    h_to_ptr h' = h_to_ptr h \<and> h_survivor_size h' = h_survivor_size h \<and> h_old_start h' = h_old_start h"
  using AllocObject_cases [OF assms] by auto

lemma run_allocs_wf:
  "heap_wf h \<Longrightarrow> run_allocs r ns h = Inr (ps, h') \<Longrightarrow>
   heap_wf h' \<and> h_fresh_start h' = h_fresh_start h \<and> h_old_start h' = h_old_start h"
proof (induction ns arbitrary: h ps)
  case (Cons n ns)
  then obtain p h1 qs where "AllocObject r n h = Inr (p, h1)" "run_allocs r ns h1 = Inr (qs, h')"
    by (auto elim!: bind_InrE simp: ret_def)
  then show ?case
    using Cons.IH [OF AllocObject_wf] Cons.prems(1) AllocObject_spaces by metis
qed (simp add: ret_def)

end
