(* ===== verification/Objects.thy ===== *)
theory Objects
  imports Heap_Alloc Slots
begin

text \<open>
  Objects, arrays and strings: \<open>src/src/runtime/oo/object.h\<close>, \<open>object.cpp\<close>, \<open>array.h\<close> and
  \<open>runtime/string_pool.h\<close>, \<open>string_pool.cpp\<close>. An object is its header and the slots that its allocation
  has behind the header. Shown: which slot a field is kept in, when a field access stays inside
  the object, the round trips of the accessors, and that the two-slot readers lose the upper half when
  the lower one is negative.
\<close>

section \<open>Objects\<close>

record jobject =
  o_age :: "8 word"
  o_forwarded :: bool
  o_remembered :: bool
  o_klass :: "nat option"
  o_lock :: "32 word"
  o_data :: "slot list"

definition SetAge :: "8 word \<Rightarrow> jobject \<Rightarrow> jobject" where "SetAge age ob = ob\<lparr>o_age := age\<rparr>"
definition SetForwarded :: "bool \<Rightarrow> jobject \<Rightarrow> jobject" where "SetForwarded b ob = ob\<lparr>o_forwarded := b\<rparr>"
definition SetRemembered :: "bool \<Rightarrow> jobject \<Rightarrow> jobject" where "SetRemembered b ob = ob\<lparr>o_remembered := b\<rparr>"
definition SetClass :: "nat option \<Rightarrow> jobject \<Rightarrow> jobject" where "SetClass c ob = ob\<lparr>o_klass := c\<rparr>"

text \<open>\<open>new Object()\<close> has no constructor of its own: all members are zero, the class pointer is null.\<close>

definition Object_new :: jobject where
  "Object_new = \<lparr>o_age = 0, o_forwarded = False, o_remembered = False, o_klass = None, o_lock = 0,
                 o_data = []\<rparr>"

text \<open>
  An object of the heap: the members that \<open>AllocObject\<close> sets, and as many slots as fit between the
  end of the header, 28 bytes after the start, and the end of the allocation. The memory of the heap
  was zeroed.
\<close>

definition data_offset :: nat where "data_offset = 28"

definition heap_object :: "nat option \<Rightarrow> nat \<Rightarrow> jobject" where
  "heap_object klass obj_size =
     SetClass klass (SetRemembered False (SetForwarded False (SetAge 0
       \<lparr>o_age = 0, o_forwarded = False, o_remembered = False, o_klass = None, o_lock = 0,
        o_data = replicate ((obj_size - data_offset) div 4) 0\<rparr>)))"

section \<open>Fields\<close>

text \<open>
  \<open>data_ + slot_id * sizeof(Slot)\<close> is pointer arithmetic in units of a slot: the field with number \<open>i\<close>
  is slot \<open>4 * i\<close>. A slot number comes from the layout of the class and is not negative. An access
  behind the allocation has no meaning in C++.
\<close>

definition data_index :: "32 word \<Rightarrow> nat" where
  "data_index slot_id = unat slot_id * 4"

definition data_get :: "nat \<Rightarrow> (jobject, slot) op" where
  "data_get i ob = (if i < length (o_data ob) then Inr (o_data ob ! i, ob)
                    else Inl (Undefined ''field outside of the object''))"

definition data_set :: "nat \<Rightarrow> slot \<Rightarrow> (jobject, unit) op" where
  "data_set i v ob = (if i < length (o_data ob) then Inr ((), ob\<lparr>o_data := (o_data ob)[i := v]\<rparr>)
                      else Inl (Undefined ''field outside of the object''))"

definition GetField_slot :: "32 word \<Rightarrow> (jobject, slot) op" where
  "GetField_slot slot_id = data_get (data_index slot_id)"

definition SetField_slot :: "32 word \<Rightarrow> slot \<Rightarrow> (jobject, unit) op" where
  "SetField_slot slot_id v = data_set (data_index slot_id) v"

definition GetIntField :: "32 word \<Rightarrow> (jobject, 32 word) op" where
  "GetIntField slot_id = GetField_slot slot_id"

definition SetIntField :: "32 word \<Rightarrow> 32 word \<Rightarrow> (jobject, unit) op" where
  "SetIntField slot_id v = data_set (data_index slot_id) v"

text \<open>\<open>((int64_t)high->num << 32) | low->num\<close>: the lower half is extended with its sign first.\<close>

definition join_signed :: "32 word \<Rightarrow> 32 word \<Rightarrow> 64 word" where
  "join_signed high low = push_bit 32 (scast high) OR scast low"

definition GetLongField :: "32 word \<Rightarrow> (jobject, 64 word) op" where
  "GetLongField slot_id =
     bind (data_get (data_index slot_id + 1)) (\<lambda>high.
     bind (data_get (data_index slot_id)) (\<lambda>low. ret (join_signed high low)))"

definition SetLongField :: "32 word \<Rightarrow> 64 word \<Rightarrow> (jobject, unit) op" where
  "SetLongField slot_id v =
     andthen (data_set (data_index slot_id) (ucast v))
       (data_set (data_index slot_id + 1) (ucast (signed_drop_bit 32 v)))"

text \<open>Floating-point values and references travel as their bits.\<close>

definition GetFloatField :: "32 word \<Rightarrow> (jobject, float32) op" where
  "GetFloatField slot_id = data_get (data_index slot_id)"

definition SetFloatField :: "32 word \<Rightarrow> float32 \<Rightarrow> (jobject, unit) op" where
  "SetFloatField slot_id v = data_set (data_index slot_id) v"

definition GetDoubleField :: "32 word \<Rightarrow> (jobject, float64) op" where
  "GetDoubleField slot_id = GetLongField slot_id"

definition SetDoubleField :: "32 word \<Rightarrow> float64 \<Rightarrow> (jobject, unit) op" where
  "SetDoubleField slot_id v = SetLongField slot_id v"

definition GetRefField :: "32 word \<Rightarrow> (jobject, ref64) op" where
  "GetRefField slot_id = GetLongField slot_id"

definition SetRefField :: "32 word \<Rightarrow> ref64 \<Rightarrow> (jobject, unit) op" where
  "SetRefField slot_id v = SetLongField slot_id v"

text \<open>Functions that do nothing yet.\<close>

definition GetRefVar :: "string \<Rightarrow> string \<Rightarrow> jobject \<Rightarrow> ref64" where
  "GetRefVar name descriptor ob = 0"

definition Object_Clone :: "jobject \<Rightarrow> ref64" where
  "Object_Clone ob = 0"

section \<open>Arrays\<close>

text \<open>\<open>length_\<close> follows the header of 28 bytes, \<open>first_element_\<close> is at offset 32.\<close>

definition Array_RoundUp :: "size_t \<Rightarrow> size_t \<Rightarrow> size_t" where
  "Array_RoundUp x n = (x + n - 1) AND - n"

definition DataOffset :: "size_t \<Rightarrow> size_t" where
  "DataOffset elementSize = Array_RoundUp 32 elementSize"

definition GetRawData :: "uptr \<Rightarrow> size_t \<Rightarrow> 32 word \<Rightarrow> uptr" where
  "GetRawData this elementSize index = this + scast (ucast (DataOffset elementSize) :: 32 word) + scast index * elementSize"

text \<open>The size that \<open>PrimitiveArray<T>::Alloc\<close> asks for; \<open>sizeof(PrimitiveArray<T>)\<close> is 32.\<close>

definition array_bytes :: "size_t \<Rightarrow> 32 word \<Rightarrow> size_t" where
  "array_bytes elementSize len = 32 + scast len * elementSize"

text \<open>The length is the first number behind the header.\<close>

definition GetArrayLength :: "(jobject, 32 word) op" where
  "GetArrayLength = data_get 0"

definition SetArrayLength :: "32 word \<Rightarrow> (jobject, unit) op" where
  "SetArrayLength len = data_set 0 len"

section \<open>Strings\<close>

text \<open>The members of \<open>StringObject\<close>; the characters are in the array that \<open>value_\<close> points to.\<close>

record string_object = jobject +
  so_count :: "32 word"
  so_hash_code :: "32 word"
  so_value :: ref64

definition StringObject_GetValue :: "string_object \<Rightarrow> ref64" where
  "StringObject_GetValue ob = so_value ob"

definition StringObject_setValue :: "ref64 \<Rightarrow> string_object \<Rightarrow> string_object" where
  "StringObject_setValue v ob = ob\<lparr>so_value := v\<rparr>"

section \<open>The string pool\<close>

type_synonym string_pool = "(string \<times> ref64) list"

text \<open>The characters of the string object are not looked at.\<close>

definition javaStringToString :: "ref64 \<Rightarrow> string" where
  "javaStringToString jStr = ''hello''"

definition internString :: "ref64 \<Rightarrow> (string_pool, ref64) op" where
  "internString jStr pool =
     (let str = javaStringToString jStr in
      case map_of pool str of
        Some r \<Rightarrow> Inr (r, pool)
      | None \<Rightarrow> Inr (jStr, (str, jStr) # pool))"

section \<open>Properties of the accessors\<close>

lemma data_get_set:
  "i < length (o_data ob) \<Longrightarrow> \<exists>ob'. data_set i v ob = Inr ((), ob') \<and> data_get i ob' = Inr (v, ob')"
  by (simp add: data_set_def data_get_def)

text \<open>The reader joins the halves that the writer stored, but fills the upper half with the sign of the lower.\<close>

lemma join_signed_bit:
  "bit (join_signed h l) n \<longleftrightarrow> (if n < 32 then bit l n else n < 64 \<and> (bit h (n - 32) \<or> bit l 31))"
proof -
  have "bit (scast w :: 64 word) n \<longleftrightarrow> n < 64 \<and> bit w (min 31 n)" for w :: "32 word" and n
    by (simp add: bit_simps min_def)
  then show ?thesis
    by (auto simp: join_signed_def bit_or_iff bit_push_bit_iff min_def not_less not_le
        dest: bit_imp_le_length le_antisym)
qed

lemma join_signed_split:
  "join_signed (ucast (signed_drop_bit 32 v)) (ucast v) = (v :: 64 word) \<longleftrightarrow>
   \<not> bit v 31 \<or> (\<forall>n. 32 \<le> n \<and> n < 64 \<longrightarrow> bit v n)"
proof -
  have "bit (join_signed (ucast (signed_drop_bit 32 v)) (ucast v)) n \<longleftrightarrow>
        bit v n \<or> (32 \<le> n \<and> n < 64 \<and> bit v 31)" for n
    by (auto simp: join_signed_bit bit_simps min_def not_less dest: bit_imp_le_length)
  then show ?thesis
    by (auto simp: bit_eq_iff)
qed

lemma SetLong_GetLong:
  assumes "data_index i + 1 < length (o_data ob)"
  shows "\<exists>ob'. bind (SetLongField i v) (\<lambda>_. GetLongField i) ob =
    Inr (join_signed (ucast (signed_drop_bit 32 v)) (ucast v), ob')"
  using assms by (simp add: SetLongField_def GetLongField_def op_simps data_set_def data_get_def)

end
