(* ===== verification/Operand_Stack.thy ===== *)
theory Operand_Stack
  imports Slots
begin

text \<open>
  The operand stack of \<open>src/src/runtime/operand_stack.h\<close> and \<open>operand_stack.cpp\<close>: a slot array with a
  16-bit index \<open>top_\<close> of the first free slot. The abstract stack is the list \<open>view\<close> of the slots in
  use, the top of the stack at the end of the list. The contract \<open>typed_stack\<close> says what the
  typed \<open>Push\<close> and \<open>Pop\<close> operations promise over that list; it is proved for the five pairs of the
  code. \<open>PushSlot\<close> and \<open>PopSlot\<close> do not satisfy it: \<open>PopSlot\<close> stops on a full stack.
\<close>

record operand_stack =
  os_top :: "16 word"
  os_slots :: slots

section \<open>Operations\<close>

definition OperandStack_new :: "16 word \<Rightarrow> operand_stack" where
  "OperandStack_new max_size = \<lparr>os_top = 0, os_slots = Slots_new max_size\<rparr>"

definition Clear :: "operand_stack \<Rightarrow> operand_stack" where
  "Clear s = s\<lparr>os_top := 0\<rparr>"

definition IsEmpty :: "operand_stack \<Rightarrow> bool" where
  "IsEmpty s \<longleftrightarrow> unat (os_top s) \<le> 0"

definition IsFull :: "operand_stack \<Rightarrow> bool" where
  "IsFull s \<longleftrightarrow> unat (os_top s) \<ge> Slots_GetSize (os_slots s)"

definition IsLongEmpty :: "operand_stack \<Rightarrow> bool" where
  "IsLongEmpty s \<longleftrightarrow> unat (os_top s) \<le> 1"

definition IsLongFull :: "operand_stack \<Rightarrow> bool" where
  "IsLongFull s \<longleftrightarrow> unat (os_top s) \<ge> size_t_sub (Slots_GetSize (os_slots s)) 1"

text \<open>An access to the slots of the stack at its current top.\<close>

definition on_slots :: "(slots, 'a) op \<Rightarrow> (operand_stack, 'a) op" where
  "on_slots = zoom os_slots (\<lambda>t s. s\<lparr>os_slots := t\<rparr>)"

definition move_top :: "16 word \<Rightarrow> (operand_stack, unit) op" where
  "move_top d = modifies (\<lambda>s. s\<lparr>os_top := os_top s + d\<rparr>)"

definition PushInt :: "32 word \<Rightarrow> (operand_stack, unit) op" where
  "PushInt val = (\<lambda>s.
     if IsFull s then Inl (Fatal ''PushInt operand_stack_ overflow'')
     else andthen (on_slots (Slots_SetInt (os_top s) val)) (move_top 1) s)"

definition PopInt :: "(operand_stack, 32 word) op" where
  "PopInt = (\<lambda>s.
     if IsEmpty s then Inl (Fatal ''PopInt operand_stack_ empty'')
     else let s = s\<lparr>os_top := os_top s - 1\<rparr> in on_slots (Slots_GetInt (os_top s)) s)"

definition PushFloat :: "float32 \<Rightarrow> (operand_stack, unit) op" where
  "PushFloat val = (\<lambda>s.
     if IsFull s then Inl (Fatal ''PushFloat operand_stack_ overflow'')
     else andthen (on_slots (Slots_SetFloat (os_top s) val)) (move_top 1) s)"

definition PopFloat :: "(operand_stack, float32) op" where
  "PopFloat = (\<lambda>s.
     if IsEmpty s then Inl (Fatal ''PopFloat operand_stack_ empty'')
     else let s = s\<lparr>os_top := os_top s - 1\<rparr> in on_slots (Slots_GetFloat (os_top s)) s)"

definition PushLong :: "64 word \<Rightarrow> (operand_stack, unit) op" where
  "PushLong val = (\<lambda>s.
     if IsLongFull s then Inl (Fatal ''PushLong operand_stack_ overflow'')
     else andthen (on_slots (Slots_SetLong (os_top s) val)) (move_top 2) s)"

definition PopLong :: "(operand_stack, 64 word) op" where
  "PopLong = (\<lambda>s.
     if IsLongEmpty s then Inl (Fatal ''PopLong operand_stack_ empty'')
     else let s = s\<lparr>os_top := os_top s - 2\<rparr> in on_slots (Slots_GetLong (os_top s)) s)"

definition PushDouble :: "float64 \<Rightarrow> (operand_stack, unit) op" where
  "PushDouble val = (\<lambda>s.
     if IsLongFull s then Inl (Fatal ''PushDouble operand_stack_ overflow'')
     else andthen (on_slots (Slots_SetDouble (os_top s) val)) (move_top 2) s)"

definition PopDouble :: "(operand_stack, float64) op" where
  "PopDouble = (\<lambda>s.
     if IsLongEmpty s then Inl (Fatal ''PopDouble operand_stack_ empty'')
     else let s = s\<lparr>os_top := os_top s - 2\<rparr> in on_slots (Slots_GetDouble (os_top s)) s)"

definition PushRef :: "ref64 \<Rightarrow> (operand_stack, unit) op" where
  "PushRef ref = (\<lambda>s.
     if IsLongFull s then Inl (Fatal ''PushRef operand_stack_ overflow'')
     else andthen (on_slots (Slots_SetRef (os_top s) ref)) (move_top 2) s)"

definition PopRef :: "(operand_stack, ref64) op" where
  "PopRef = (\<lambda>s.
     if IsLongEmpty s then Inl (Fatal ''PopRef operand_stack_ empty'')
     else let s = s\<lparr>os_top := os_top s - 2\<rparr> in on_slots (Slots_GetRef (os_top s)) s)"

text \<open>
  \<open>index\<close> is a \<open>uint32_t\<close>: \<open>index + 2\<close> and \<open>top_ - index - 2\<close> are computed in 32 bits, and the
  latter is truncated to the 16-bit parameter of \<open>GetRef\<close>.
\<close>

definition GetRefFromTop :: "32 word \<Rightarrow> (operand_stack, ref64) op" where
  "GetRefFromTop index = (\<lambda>s.
     if ucast (os_top s) \<le> index + 2
     then Inl (Fatal ''GetRefFromTop operand_stack_ size less than'')
     else on_slots (Slots_GetRef (ucast (ucast (os_top s) - index - 2))) s)"

definition PushSlot :: "slot \<Rightarrow> (operand_stack, unit) op" where
  "PushSlot sl = (\<lambda>s.
     if IsFull s then Inl (Fatal ''PushSlot operand_stack_ overflow'')
     else andthen (on_slots (Slots_SetSlot (os_top s) sl)) (move_top 1) s)"

definition PopSlot :: "(operand_stack, slot) op" where
  "PopSlot = (\<lambda>s.
     if IsEmpty s then Inl (Fatal ''PopSlot operand_stack_ empty'')
     else let s = s\<lparr>os_top := os_top s - 1\<rparr> in on_slots (Slots_GetSlot (os_top s)) s)"

section \<open>The abstract stack\<close>

text \<open>
  A stack is well formed when \<open>top_\<close> does not pass the end of the slots and the slots were made
  with a 16-bit count.
\<close>

definition os_wf :: "operand_stack \<Rightarrow> bool" where
  "os_wf s \<longleftrightarrow> unat (os_top s) \<le> length (os_slots s) \<and> length (os_slots s) < 2 ^ 16"

definition view :: "operand_stack \<Rightarrow> slot list" where
  "view s = take (unat (os_top s)) (os_slots s)"

text \<open>\<open>stk xs c s\<close>: \<open>s\<close> is a well-formed stack of capacity \<open>c\<close> that holds the slots \<open>xs\<close>.\<close>

definition stk :: "slot list \<Rightarrow> nat \<Rightarrow> operand_stack \<Rightarrow> bool" where
  "stk xs c s \<longleftrightarrow> os_wf s \<and> view s = xs \<and> length (os_slots s) = c"

lemma stk_iff:
  "stk xs c s \<longleftrightarrow> length (os_slots s) = c \<and> c < 2 ^ 16 \<and> length xs \<le> c \<and>
     unat (os_top s) = length xs \<and> take (length xs) (os_slots s) = xs"
  unfolding stk_def os_wf_def view_def by (auto simp: min_def split: if_splits)

lemma stk_wf: "os_wf s \<Longrightarrow> stk (view s) (length (os_slots s)) s"
  by (simp add: stk_def)

lemma stk_new: "stk [] (unat n) (OperandStack_new n)"
  using unsigned_less [of n] by (simp add: stk_iff OperandStack_new_def Slots_new_def)

lemma stk_Clear: "stk xs c s \<Longrightarrow> stk [] c (Clear s)"
  by (simp add: stk_iff Clear_def)

lemma stk_bound: "stk xs c s \<Longrightarrow> length xs \<le> c \<and> c < 2 ^ 16"
  by (simp add: stk_iff)

lemma top_add:
  assumes "stk xs c s" and "length xs + n \<le> c"
  shows "unat (os_top s + of_nat n) = length xs + n"
proof -
  have top: "unat (os_top s) = length xs" and "c < 2 ^ 16"
    using assms(1) by (auto simp: stk_iff)
  with assms(2) have n: "n < 2 ^ 16"
    by simp
  then have "unat (of_nat n :: 16 word) = n"
    by (simp add: unat_of_nat)
  with top assms(2) \<open>c < 2 ^ 16\<close> show ?thesis
    by (subst unat_add_lem [THEN iffD1]) auto
qed

lemma top_sub:
  assumes "stk xs c s" and "n \<le> length xs"
  shows "unat (os_top s - of_nat n) = length xs - n"
proof -
  have top: "unat (os_top s) = length xs" and "length xs < 2 ^ 16"
    using assms(1) by (auto simp: stk_iff)
  with assms(2) have "unat (of_nat n :: 16 word) = n"
    by (simp add: unat_of_nat)
  with top assms(2) show ?thesis
    by (subst unat_sub) (auto simp: word_le_nat_alt)
qed

lemma top_sub_1: "stk xs c s \<Longrightarrow> 1 \<le> length xs \<Longrightarrow> unat (os_top s - 1) = length xs - 1"
  using top_sub [of xs c s 1] by simp

lemma top_sub_2: "stk xs c s \<Longrightarrow> 2 \<le> length xs \<Longrightarrow> unat (os_top s - 2) = length xs - 2"
  using top_sub [of xs c s 2] by simp

section \<open>The contract of a typed push and pop\<close>

locale typed_stack =
  fixes push :: "'v \<Rightarrow> (operand_stack, unit) op"
    and pop :: "(operand_stack, 'v) op"
    and enc :: "'v \<Rightarrow> slot list"
    and w :: nat
  assumes length_enc: "length (enc v) = w"
    and push_room: "length xs + w \<le> c \<Longrightarrow> valid (stk xs c) (push v) (\<lambda>_. stk (xs @ enc v) c)"
    and push_full: "c < length xs + w \<Longrightarrow> stops (stk xs c) (push v) (\<lambda>_. True)"
    and pop_top: "valid (stk (xs @ enc v) c) pop (\<lambda>r t. r = v \<and> stk xs c t)"
    and pop_short: "length xs < w \<Longrightarrow> stops (stk xs c) pop (\<lambda>_. True)"
begin

lemma push_pop:
  assumes "length xs + w \<le> c"
  shows "valid (stk xs c) (bind (push v) (\<lambda>_. pop)) (\<lambda>r t. r = v \<and> stk xs c t)"
  by (rule valid_bind [OF push_room [OF assms]]) (rule pop_top)

lemma pop_then:
  assumes "valid (stk xs c) (f v) Q"
  shows "valid (stk (xs @ enc v) c) (bind pop f) Q"
  by (rule valid_bind [OF pop_top]) (use assms in \<open>auto simp: valid_def\<close>)

lemma pop_then_stops:
  assumes "stops (stk xs c) (f v) E"
  shows "stops (stk (xs @ enc v) c) (bind pop f) E"
  by (rule stops_bind_then [OF pop_top]) (use assms in \<open>auto simp: stops_def\<close>)

lemma pop2_then:
  assumes "valid (stk xs c) (f v1 v2) Q"
  shows "valid (stk (xs @ enc v2 @ enc v1) c) (bind pop (\<lambda>a. bind pop (f a))) Q"
  using pop_then [of "xs @ enc v2" c "\<lambda>a. bind pop (f a)" v1 Q] pop_then [of xs c "f v1" v2 Q, OF assms] by simp

lemma pop2_then_stops:
  assumes "stops (stk xs c) (f v1 v2) E"
  shows "stops (stk (xs @ enc v2 @ enc v1) c) (bind pop (\<lambda>a. bind pop (f a))) E"
  using pop_then_stops [of "xs @ enc v2" c "\<lambda>a. bind pop (f a)" v1 E] pop_then_stops [of xs c "f v1" v2 E, OF assms]
  by simp

text \<open>A binary operator in postfix position: the right operand is on top.\<close>

lemma binary:
  assumes "length xs + 2 * w \<le> c"
  shows "valid (stk (xs @ enc v2 @ enc v1) c)
     (bind pop (\<lambda>a. bind pop (\<lambda>b. push (g b a)))) (\<lambda>_. stk (xs @ enc (g v2 v1)) c)"
  by (rule pop2_then) (rule push_room, use assms in simp)

lemma unary:
  assumes "length xs + w \<le> c"
  shows "valid (stk (xs @ enc v) c) (bind pop (\<lambda>a. push (g a))) (\<lambda>_. stk (xs @ enc (g v)) c)"
  by (rule pop_then) (rule push_room [OF assms])

end

lemmas push_pop_defs =
  PushInt_def PopInt_def PushFloat_def PopFloat_def PushLong_def PopLong_def PushDouble_def
  PopDouble_def PushRef_def PopRef_def

lemmas top_tests = IsEmpty_def IsFull_def IsLongEmpty_def IsLongFull_def Slots_GetSize_def

text \<open>
  Every typed push sets the slots at \<open>top_\<close> and moves \<open>top_\<close>; every typed pop moves \<open>top_\<close> back and
  reads there. These two lemmas carry all the interpretations.
\<close>

lemma set_at_top:
  assumes cell: "typed_cell put get enc dec w" and s: "stk xs c s" and room: "length xs + w \<le> c"
  shows "\<exists>t. andthen (on_slots (put (os_top s) v)) (move_top (of_nat w)) s = Inr ((), t)
           \<and> stk (xs @ enc v) c t"
proof -
  have top: "unat (os_top s) = length xs" and len: "length (os_slots s) = c"
    and tk: "take (length xs) (os_slots s) = xs"
    using s by (auto simp: stk_iff)
  have w: "length (enc v) = w"
    using cell by (rule typed_cell.length_enc)
  have "put (os_top s) v (os_slots s) = Inr ((), splice (os_slots s) (length xs) (enc v))"
    using typed_cell.set_in [OF cell, of "os_top s" "os_slots s" v] top len room by simp
  then have "andthen (on_slots (put (os_top s) v)) (move_top (of_nat w)) s =
      Inr ((), s\<lparr>os_slots := splice (os_slots s) (length xs) (enc v), os_top := os_top s + of_nat w\<rparr>)"
    by (simp add: andthen_def bind_def on_slots_def zoom_def move_top_def modifies_def)
  moreover have "take (length xs + w) (splice (os_slots s) (length xs) (enc v)) = xs @ enc v"
    using take_splice_end [of "length xs" "enc v" "os_slots s"] len room w tk by simp
  ultimately show ?thesis
    using top_add [OF s room] len room w s by (auto simp: stk_iff)
qed

lemma get_at_top:
  assumes cell: "typed_cell put get enc dec w" and s: "stk (xs @ enc v) c s"
  shows "\<exists>t. on_slots (get (os_top s - of_nat w)) (s\<lparr>os_top := os_top s - of_nat w\<rparr>) = Inr (v, t)
           \<and> stk xs c t"
proof -
  have w: "length (enc v) = w"
    using cell by (rule typed_cell.length_enc)
  have len: "length (os_slots s) = c" and c: "length xs + w \<le> c"
    and tk: "take (length xs + w) (os_slots s) = xs @ enc v"
    using s w by (auto simp: stk_iff)
  have top: "unat (os_top s - of_nat w) = length xs"
    using top_sub [OF s, of w] w by simp
  have "take w (drop (length xs) (os_slots s)) = drop (length xs) (take (length xs + w) (os_slots s))"
    by (simp add: drop_take)
  then have "take w (drop (length xs) (os_slots s)) = enc v"
    by (simp add: tk)
  then have "get (os_top s - of_nat w) (os_slots s) = Inr (v, os_slots s)"
    using typed_cell.get_in [OF cell, of "os_top s - of_nat w" "os_slots s"] top len c
    by (simp add: typed_cell.dec_enc [OF cell])
  moreover have "take (length xs) (os_slots s) = xs"
    using arg_cong [OF tk, of "take (length xs)"] by simp
  ultimately show ?thesis
    using top len c s by (auto simp: on_slots_def zoom_def stk_iff)
qed

lemma stk_top: "stk xs c s \<Longrightarrow> unat (os_top s) = length xs"
  by (simp add: stk_iff)

lemma stk_cap: "stk xs c s \<Longrightarrow> length (os_slots s) = c"
  by (simp add: stk_iff)

lemma stk_full1: "stk xs c s \<Longrightarrow> IsFull s \<longleftrightarrow> c < length xs + 1"
  by (simp add: top_tests stk_top stk_cap less_Suc_eq_le)

lemma stk_full2: "stk xs c s \<Longrightarrow> 0 < c \<Longrightarrow> IsLongFull s \<longleftrightarrow> c < length xs + 2"
  by (simp add: top_tests stk_top stk_cap) linarith

lemma stk_empty1: "stk xs c s \<Longrightarrow> IsEmpty s \<longleftrightarrow> length xs < 1"
  by (simp add: top_tests stk_top stk_cap less_Suc_eq_le)

lemma stk_empty2: "stk xs c s \<Longrightarrow> IsLongEmpty s \<longleftrightarrow> length xs < 2"
  by (simp add: top_tests stk_top stk_cap) linarith

text \<open>With no slots at all, \<open>IsLongFull\<close> wraps around and the write itself goes out of range.\<close>

lemma set_at_top_none:
  assumes cell: "typed_cell put get enc dec w" and s: "stk xs 0 s" and w: "0 < w"
  shows "\<exists>e. andthen (on_slots (put (os_top s) v)) k s = Inl e"
proof -
  obtain e where "put (os_top s) v (os_slots s) = Inl e"
    using typed_cell.set_out [OF cell, of "os_slots s" "os_top s" v] s w by (auto simp: stk_iff)
  then show ?thesis
    by (simp add: andthen_def bind_def on_slots_def zoom_def)
qed

lemma typed_stack_1:
  assumes cell: "typed_cell put get enc dec 1"
    and push: "\<And>v s. push v s = (if IsFull s then Inl (Fatal m)
      else andthen (on_slots (put (os_top s) v)) (move_top 1) s)"
    and pop: "\<And>s. pop s = (if IsEmpty s then Inl (Fatal n)
      else let s = s\<lparr>os_top := os_top s - 1\<rparr> in on_slots (get (os_top s)) s)"
  shows "typed_stack push pop enc 1"
proof
  show "length (enc v) = 1" for v
    using cell by (rule typed_cell.length_enc)
  show "valid (stk xs c) (push v) (\<lambda>_. stk (xs @ enc v) c)" if "length xs + 1 \<le> c" for xs c v
    using set_at_top [OF cell _ that] that by (auto intro!: validI simp: push stk_full1)
  show "stops (stk xs c) (push v) (\<lambda>_. True)" if "c < length xs + 1" for xs c v
    using that by (auto intro!: stopsI simp: push stk_full1)
  show "valid (stk (xs @ enc v) c) pop (\<lambda>r t. r = v \<and> stk xs c t)" for xs v c
    using get_at_top [OF cell] typed_cell.length_enc [OF cell]
    by (auto intro!: validI simp: pop stk_empty1 Let_def)
  show "stops (stk xs c) pop (\<lambda>_. True)" if "length xs < 1" for xs c
    using that by (auto intro!: stopsI simp: pop stk_empty1)
qed

lemma typed_stack_2:
  assumes cell: "typed_cell put get enc dec 2"
    and push: "\<And>v s. push v s = (if IsLongFull s then Inl (Fatal m)
      else andthen (on_slots (put (os_top s) v)) (move_top 2) s)"
    and pop: "\<And>s. pop s = (if IsLongEmpty s then Inl (Fatal n)
      else let s = s\<lparr>os_top := os_top s - 2\<rparr> in on_slots (get (os_top s)) s)"
  shows "typed_stack push pop enc 2"
proof
  show "length (enc v) = 2" for v
    using cell by (rule typed_cell.length_enc)
  show "valid (stk xs c) (push v) (\<lambda>_. stk (xs @ enc v) c)" if "length xs + 2 \<le> c" for xs c v
    using set_at_top [OF cell _ that] that by (auto intro!: validI simp: push stk_full2)
  show "stops (stk xs c) (push v) (\<lambda>_. True)" if "c < length xs + 2" for xs c v
  proof (rule stopsI)
    fix s assume s: "stk xs c s"
    show "\<exists>e. push v s = Inl e \<and> True"
    proof (cases "c = 0")
      case True
      with s set_at_top_none [OF cell, of xs s] show ?thesis
        by (auto simp: push)
    next
      case False
      with s that show ?thesis
        by (simp add: push stk_full2)
    qed
  qed
  show "valid (stk (xs @ enc v) c) pop (\<lambda>r t. r = v \<and> stk xs c t)" for xs v c
    using get_at_top [OF cell] typed_cell.length_enc [OF cell]
    by (auto intro!: validI simp: pop stk_empty2 Let_def)
  show "stops (stk xs c) pop (\<lambda>_. True)" if "length xs < 2" for xs c
    using that by (auto intro!: stopsI simp: pop stk_empty2)
qed

interpretation int_stack: typed_stack PushInt PopInt enc1 1
  by (rule typed_stack_1 [OF int_cell.typed_cell_axioms]) (simp_all only: PushInt_def PopInt_def)

interpretation float_stack: typed_stack PushFloat PopFloat enc1 1
  by (rule typed_stack_1 [OF float_cell.typed_cell_axioms]) (simp_all only: PushFloat_def PopFloat_def)

interpretation long_stack: typed_stack PushLong PopLong enc2 2
  by (rule typed_stack_2 [OF long_cell.typed_cell_axioms]) (simp_all only: PushLong_def PopLong_def)

interpretation double_stack: typed_stack PushDouble PopDouble enc2 2
  by (rule typed_stack_2 [OF double_cell.typed_cell_axioms]) (simp_all only: PushDouble_def PopDouble_def)

interpretation ref_stack: typed_stack PushRef PopRef enc2 2
  by (rule typed_stack_2 [OF ref_cell.typed_cell_axioms]) (simp_all only: PushRef_def PopRef_def)

end
