(* ===== verification/Frame_Stack.thy ===== *)
theory Frame_Stack
  imports Operand_Stack Method_Info
begin

text \<open>
  Frames and the stack of a thread: \<open>src/src/runtime/frame.h/.cpp\<close>, \<open>stack.h/.cpp\<close> and
  \<open>thread.h/.cpp\<close>. The stack is a block of memory from \<open>base_\<close> on; a frame is placed at the
  stack pointer and points to the frame below it. The abstract stack is the list of frames, the
  current one first (\<open>stack_repr\<close>). The contract \<open>lifo\<close> says what \<open>CreateFrame\<close> and
  \<open>PopFrame\<close> promise over that list; the interpretation at the end proves it for the code, as
  long as the frames fit in the block, and the lemmas after it say when they do not.
\<close>

section \<open>Frames\<close>

type_synonym addr = nat

record frame =
  fr_prev_fp :: "addr option"
  fr_local_vars :: slots
  fr_operand_stack :: operand_stack
  fr_method :: meth
  fr_next_pc :: "32 word"

text \<open>The counts of the method are 32 bits wide, those of the slot arrays 16.\<close>

definition Frame_new :: "meth \<Rightarrow> addr option \<Rightarrow> frame" where
  "Frame_new method prev_fp =
     \<lparr>fr_prev_fp = prev_fp,
      fr_local_vars = LocalVars_new (ucast (m_max_locals method)),
      fr_operand_stack = OperandStack_new (ucast (m_max_stack method)),
      fr_method = method,
      fr_next_pc = 0\<rparr>"

definition NextPc :: "frame \<Rightarrow> 32 word" where
  "NextPc f = fr_next_pc f"

definition SetNextPc :: "32 word \<Rightarrow> frame \<Rightarrow> frame" where
  "SetNextPc pc f = f\<lparr>fr_next_pc := pc\<rparr>"

text \<open>\<open>GetHeaderSize\<close> adds the sizes of two pointers and of an \<open>int32_t\<close>; the object has 80 bytes.\<close>

definition GetHeaderSize :: u4 where "GetHeaderSize = 8 + 8 + 4"
definition sizeof_Frame :: nat where "sizeof_Frame = 80"

section \<open>The stack\<close>

record vm_stack =
  st_base :: addr
  st_sp :: addr
  st_fp :: "addr option"
  st_max_size :: nat
  st_mem :: "addr \<rightharpoonup> frame"

text \<open>\<open>base\<close> is the address that \<open>malloc\<close> returns.\<close>

definition Stack_new :: "addr \<Rightarrow> nat \<Rightarrow> vm_stack" where
  "Stack_new base max_size =
     \<lparr>st_base = base, st_sp = base, st_fp = None, st_max_size = max_size, st_mem = Map.empty\<rparr>"

definition CheckStackOverflow :: "u4 \<Rightarrow> (vm_stack, unit) op" where
  "CheckStackOverflow need = (\<lambda>s.
     if st_sp s - st_base s + unat need > st_max_size s then Inl (Fatal ''java.lang.StackOverflowError'')
     else Inr ((), s))"

definition Stack_IsEmpty :: "vm_stack \<Rightarrow> bool" where
  "Stack_IsEmpty s \<longleftrightarrow> st_fp s = None"

definition Stack_Clear :: "vm_stack \<Rightarrow> vm_stack" where
  "Stack_Clear s = s\<lparr>st_fp := None, st_sp := st_base s\<rparr>"

definition Stack_PushFrame :: "addr \<Rightarrow> vm_stack \<Rightarrow> vm_stack" where
  "Stack_PushFrame frame s = s\<lparr>st_sp := st_sp s + sizeof_Frame, st_fp := Some frame\<rparr>"

text \<open>The object a pointer points to.\<close>

definition deref :: "addr option \<Rightarrow> vm_stack \<Rightarrow> frame res" where
  "deref p s = (case p of
     None \<Rightarrow> Inl Null_Dereference
   | Some a \<Rightarrow> (case st_mem s a of None \<Rightarrow> Inl (Undefined ''no frame at address'') | Some f \<Rightarrow> Inr f))"

definition Stack_PopFrame :: "(vm_stack, addr) op" where
  "Stack_PopFrame = (\<lambda>s.
     case deref (st_fp s) s of
       Inl e \<Rightarrow> Inl e
     | Inr f \<Rightarrow> Inr (the (st_fp s), s\<lparr>st_sp := the (st_fp s), st_fp := fr_prev_fp f\<rparr>))"

section \<open>Threads\<close>

record thread =
  th_is_started :: bool
  th_pc :: "32 word"
  th_stack :: vm_stack

definition Thread_new :: "addr \<Rightarrow> thread" where
  "Thread_new base = \<lparr>th_is_started = False, th_pc = 0, th_stack = Stack_new base 1024\<rparr>"

text \<open>
  \<open>Thread::Create\<close>. The results of the three pthread calls are arguments: the return codes of
  \<open>pthread_key_create\<close> and \<open>pthread_setspecific\<close>, and whether \<open>pthread_getspecific\<close> gives a null
  pointer. The thread becomes the value of \<open>self_tls_\<close>.
\<close>

definition Thread_Create :: "int \<Rightarrow> bool \<Rightarrow> int \<Rightarrow> addr \<Rightarrow> thread res" where
  "Thread_Create rc_key_create getspecific_null rc_setspecific base =
     (if rc_key_create \<noteq> 0 then Inl (Fatal ''pthread_key_create failed'')
      else if \<not> getspecific_null then Inl (Fatal ''Newly-created pthread TLS slot is not nullptr'')
      else if rc_setspecific \<noteq> 0 then Inl (Fatal ''pthread_setspecific failed'')
      else Inr ((Thread_new base)\<lparr>th_is_started := True\<rparr>))"

definition Thread_Current :: "thread option \<Rightarrow> thread option" where
  "Thread_Current self_tls =
     (case self_tls of None \<Rightarrow> None | Some t \<Rightarrow> if th_is_started t then Some t else None)"

definition GetPc :: "thread \<Rightarrow> 32 word" where
  "GetPc t = th_pc t"

definition SetPc :: "32 word \<Rightarrow> thread \<Rightarrow> thread" where
  "SetPc pc t = t\<lparr>th_pc := pc\<rparr>"

definition on_stack :: "(vm_stack, 'a) op \<Rightarrow> (thread, 'a) op" where
  "on_stack = zoom th_stack (\<lambda>s t. t\<lparr>th_stack := s\<rparr>)"

definition PopFrame :: "(thread, addr) op" where
  "PopFrame = on_stack Stack_PopFrame"

definition CurrentFrame :: "thread \<Rightarrow> addr option" where
  "CurrentFrame t = st_fp (th_stack t)"

definition IsStackEmpty :: "thread \<Rightarrow> bool" where
  "IsStackEmpty t = Stack_IsEmpty (th_stack t)"

definition ClearStack :: "thread \<Rightarrow> thread" where
  "ClearStack t = t\<lparr>th_stack := Stack_Clear (th_stack t)\<rparr>"

text \<open>Placement \<open>new\<close>: the object must lie in the block.\<close>

definition place_frame :: "addr \<Rightarrow> frame \<Rightarrow> (vm_stack, unit) op" where
  "place_frame a f = (\<lambda>s.
     if st_base s + st_max_size s < a + sizeof_Frame then Inl (Undefined ''frame written past the stack block'')
     else Inr ((), s\<lparr>st_mem := (st_mem s)(a \<mapsto> f)\<rparr>))"

definition frame_need :: "meth \<Rightarrow> u4" where
  "frame_need method = m_max_stack method + m_max_locals method + GetHeaderSize"

definition Stack_CreateFrame :: "meth \<Rightarrow> (vm_stack, addr) op" where
  "Stack_CreateFrame method =
     bind (reads st_sp) (\<lambda>sp.
     andthen (CheckStackOverflow (frame_need method)) (
     bind (reads st_fp) (\<lambda>fp.
     andthen (place_frame sp (Frame_new method fp)) (
     andthen (modifies (Stack_PushFrame sp))
     (ret sp)))))"

definition CreateFrame :: "meth \<Rightarrow> (thread, addr) op" where
  "CreateFrame method = on_stack (Stack_CreateFrame method)"

text \<open>\<open>RevertNextPc\<close> reads the thread, the other operations of a frame read the frame only.\<close>

definition RevertNextPc :: "thread \<Rightarrow> frame \<Rightarrow> frame" where
  "RevertNextPc t f = f\<lparr>fr_next_pc := GetPc t\<rparr>"

text \<open>Running an operation on the frame at an address.\<close>

definition on_frame :: "addr option \<Rightarrow> (frame, 'a) op \<Rightarrow> (thread, 'a) op" where
  "on_frame p m = (\<lambda>t.
     case deref p (th_stack t) of
       Inl e \<Rightarrow> Inl e
     | Inr f \<Rightarrow>
         (case m f of
            Inl e \<Rightarrow> Inl e
          | Inr (x, f') \<Rightarrow>
              Inr (x, t\<lparr>th_stack := (th_stack t)\<lparr>st_mem := (st_mem (th_stack t))(the p \<mapsto> f')\<rparr>\<rparr>)))"

section \<open>The list of frames\<close>

text \<open>
  \<open>stack_repr s fs\<close>: the block holds the frames \<open>fs\<close>, the current one first, one after the other
  from the base on, each pointing to the one below it.
\<close>

fun frames_at :: "vm_stack \<Rightarrow> frame list \<Rightarrow> bool" where
  "frames_at s [] \<longleftrightarrow> True"
| "frames_at s (f # fs) \<longleftrightarrow>
     st_mem s (st_base s + length fs * sizeof_Frame) = Some f \<and>
     fr_prev_fp f = (if fs = [] then None else Some (st_base s + (length fs - 1) * sizeof_Frame)) \<and>
     frames_at s fs"

definition stack_repr :: "vm_stack \<Rightarrow> frame list \<Rightarrow> bool" where
  "stack_repr s fs \<longleftrightarrow>
     st_sp s = st_base s + length fs * sizeof_Frame \<and>
     st_fp s = (if fs = [] then None else Some (st_base s + (length fs - 1) * sizeof_Frame)) \<and>
     length fs * sizeof_Frame \<le> st_max_size s \<and> frames_at s fs"

lemma frames_at_other:
  "frames_at s fs \<Longrightarrow> st_base s' = st_base s \<Longrightarrow>
   (\<And>i. i < length fs \<Longrightarrow> st_mem s' (st_base s + i * sizeof_Frame) = st_mem s (st_base s + i * sizeof_Frame)) \<Longrightarrow>
   frames_at s' fs"
  by (induction fs) auto

lemma stack_repr_new: "stack_repr (Stack_new base n) []"
  by (simp add: stack_repr_def Stack_new_def)

lemma stack_repr_clear: "stack_repr s fs \<Longrightarrow> stack_repr (Stack_Clear s) []"
  by (simp add: stack_repr_def Stack_Clear_def)

lemma stack_repr_empty: "stack_repr s fs \<Longrightarrow> Stack_IsEmpty s \<longleftrightarrow> fs = []"
  by (auto simp: stack_repr_def Stack_IsEmpty_def)

section \<open>The contract of a stack of frames\<close>

text \<open>
  \<open>repr s xs\<close>: the state holds the elements \<open>xs\<close>, the top one first. \<open>push\<close> makes the element
  \<open>new m\<close> from its argument, as long as there is room at that depth.
\<close>

locale lifo =
  fixes push :: "'m \<Rightarrow> ('s, 'p) op"
    and pop :: "('s, 'p) op"
    and repr :: "'s \<Rightarrow> 'f list \<Rightarrow> bool"
    and new :: "'m \<Rightarrow> 'f"
    and room :: "'m \<Rightarrow> nat \<Rightarrow> bool"
  assumes push_room: "repr s xs \<Longrightarrow> room m (length xs) \<Longrightarrow> \<exists>p s'. push m s = Inr (p, s') \<and> repr s' (new m # xs)"
    and push_full: "repr s xs \<Longrightarrow> \<not> room m (length xs) \<Longrightarrow> \<exists>e. push m s = Inl e"
    and pop_top: "repr s (x # xs) \<Longrightarrow> \<exists>p s'. pop s = Inr (p, s') \<and> repr s' xs"
    and pop_empty: "repr s [] \<Longrightarrow> \<exists>e. pop s = Inl e"
begin

lemma push_pop:
  assumes "repr s xs" and "room m (length xs)"
  shows "\<exists>p s'. bind (push m) (\<lambda>_. pop) s = Inr (p, s') \<and> repr s' xs"
  using push_room [OF assms] pop_top by (fastforce simp: bind_def)

text \<open>Taking off a prefix leaves the rest; unwinding is this lemma.\<close>

lemma pop_prefix:
  "repr s (xs @ ys) \<Longrightarrow> \<exists>ps s'. repeat_op (length xs) pop s = Inr (ps, s') \<and> repr s' ys"
proof (induction xs arbitrary: s)
  case Nil
  then show ?case by (auto simp: ret_def)
next
  case (Cons x xs)
  then obtain p s1 where "pop s = Inr (p, s1)" and "repr s1 (xs @ ys)"
    using pop_top [of s x "xs @ ys"] by auto
  moreover obtain ps s2 where "repeat_op (length xs) pop s1 = Inr (ps, s2)" and "repr s2 ys"
    using Cons.IH [OF \<open>repr s1 (xs @ ys)\<close>] by blast
  ultimately show ?case
    by (auto simp: bind_def ret_def)
qed

lemma pop_more_than_held:
  assumes "repr s xs"
  shows "\<exists>e. repeat_op (Suc (length xs)) pop s = Inl e"
  using assms
proof (induction xs arbitrary: s)
  case Nil
  then show ?case using pop_empty [of s] by (auto simp: bind_def)
next
  case (Cons x xs)
  then obtain p s1 where "pop s = Inr (p, s1)" and "repr s1 xs"
    using pop_top by blast
  with Cons.IH show ?case
    by (fastforce simp: bind_def)
qed

end

text \<open>
  A frame without its link. \<open>frames_repr\<close> is \<open>stack_repr\<close> for the block of a given size with the
  links left out; the depth at which a frame of a method still fits is \<open>fits\<close>.
\<close>

definition core :: "frame \<Rightarrow> frame" where
  "core f = f\<lparr>fr_prev_fp := None\<rparr>"

definition frames_repr :: "nat \<Rightarrow> vm_stack \<Rightarrow> frame list \<Rightarrow> bool" where
  "frames_repr bytes s cs \<longleftrightarrow> st_max_size s = bytes \<and> (\<exists>fs. stack_repr s fs \<and> cs = map core fs)"

definition fits :: "nat \<Rightarrow> meth \<Rightarrow> nat \<Rightarrow> bool" where
  "fits bytes m n \<longleftrightarrow>
     n * sizeof_Frame + unat (frame_need m) \<le> bytes \<and> Suc n * sizeof_Frame \<le> bytes"

lemma core_Frame_new [simp]: "core (Frame_new m p) = Frame_new m None"
  by (simp add: core_def Frame_new_def)

lemma prev_Frame_new [simp]: "fr_prev_fp (Frame_new m p) = p"
  by (simp add: Frame_new_def)

lemma sizeof_Frame_pos: "0 < sizeof_Frame"
  by (simp add: sizeof_Frame_def)

lemma CreateFrame_unfold:
  "Stack_CreateFrame m s =
     (if st_sp s - st_base s + unat (frame_need m) > st_max_size s
      then Inl (Fatal ''java.lang.StackOverflowError'')
      else if st_base s + st_max_size s < st_sp s + sizeof_Frame
      then Inl (Undefined ''frame written past the stack block'')
      else Inr (st_sp s, s\<lparr>st_mem := (st_mem s)(st_sp s \<mapsto> Frame_new m (st_fp s)),
                          st_sp := st_sp s + sizeof_Frame, st_fp := Some (st_sp s)\<rparr>))"
  by (simp add: Stack_CreateFrame_def CheckStackOverflow_def place_frame_def Stack_PushFrame_def op_simps)

lemma CreateFrame_room:
  assumes repr: "stack_repr s fs" and room: "fits (st_max_size s) m (length fs)"
  shows "\<exists>p s'. Stack_CreateFrame m s = Inr (p, s') \<and> stack_repr s' (Frame_new m (st_fp s) # fs) \<and>
    st_max_size s' = st_max_size s"
proof -
  let ?a = "st_base s + length fs * sizeof_Frame"
  let ?s = "s\<lparr>st_mem := (st_mem s)(?a \<mapsto> Frame_new m (st_fp s)), st_sp := ?a + sizeof_Frame, st_fp := Some ?a\<rparr>"
  have "Stack_CreateFrame m s = Inr (?a, ?s)"
    using repr room by (simp add: CreateFrame_unfold stack_repr_def fits_def)
  moreover have "frames_at ?s fs"
    by (rule frames_at_other [of s]) (use repr sizeof_Frame_pos in \<open>auto simp: stack_repr_def\<close>)
  ultimately show ?thesis
    using repr room by (auto simp: stack_repr_def fits_def)
qed

lemma CreateFrame_full:
  assumes "stack_repr s fs" and "\<not> fits (st_max_size s) m (length fs)"
  shows "\<exists>e. Stack_CreateFrame m s = Inl e"
  using assms by (auto simp: CreateFrame_unfold stack_repr_def fits_def)

lemma PopFrame_top:
  assumes "stack_repr s (f # fs)"
  shows "\<exists>p s'. Stack_PopFrame s = Inr (p, s') \<and> st_fp s = Some p \<and> stack_repr s' fs \<and>
    st_max_size s' = st_max_size s \<and> st_mem s' = st_mem s"
proof -
  let ?p = "st_base s + length fs * sizeof_Frame"
  let ?s = "s\<lparr>st_sp := ?p, st_fp := fr_prev_fp f\<rparr>"
  have "Stack_PopFrame s = Inr (?p, ?s)"
    using assms by (simp add: Stack_PopFrame_def deref_def stack_repr_def)
  moreover have "frames_at ?s fs"
    by (rule frames_at_other [of s]) (use assms in \<open>auto simp: stack_repr_def\<close>)
  ultimately show ?thesis
    using assms by (auto simp: stack_repr_def)
qed

lemma PopFrame_empty: "stack_repr s [] \<Longrightarrow> Stack_PopFrame s = Inl Null_Dereference"
  by (simp add: Stack_PopFrame_def deref_def stack_repr_def)

interpretation frame_lifo: lifo Stack_CreateFrame Stack_PopFrame "frames_repr bytes" "\<lambda>m. Frame_new m None" "fits bytes"
  for bytes
proof
  show "\<exists>p s'. Stack_CreateFrame m s = Inr (p, s') \<and> frames_repr bytes s' (Frame_new m None # xs)"
    if "frames_repr bytes s xs" "fits bytes m (length xs)" for s xs m
  proof -
    obtain fs where "stack_repr s fs" "xs = map core fs" "st_max_size s = bytes"
      using \<open>frames_repr bytes s xs\<close> by (auto simp: frames_repr_def)
    with CreateFrame_room [of s fs m] \<open>fits bytes m (length xs)\<close> show ?thesis
      by (fastforce simp: frames_repr_def)
  qed
  show "\<exists>e. Stack_CreateFrame m s = Inl e"
    if "frames_repr bytes s xs" "\<not> fits bytes m (length xs)" for s xs m
    using that CreateFrame_full by (auto simp: frames_repr_def)
  show "\<exists>p s'. Stack_PopFrame s = Inr (p, s') \<and> frames_repr bytes s' xs"
    if "frames_repr bytes s (x # xs)" for s x xs
    using that by (auto simp: frames_repr_def dest!: PopFrame_top)
  show "\<exists>e. Stack_PopFrame s = Inl e" if "frames_repr bytes s []" for s
    using that PopFrame_empty by (auto simp: frames_repr_def)
qed

section \<open>When a frame does not fit\<close>

text \<open>
  The check of \<open>CreateFrame\<close> counts the header and the slots of the new frame, 20 bytes and one
  byte for each slot, while the object placed in the block has 80 bytes.
\<close>

lemma CreateFrame_overrun:
  assumes "stack_repr s fs" and "length fs * sizeof_Frame + unat (frame_need m) \<le> st_max_size s"
    and "st_max_size s < Suc (length fs) * sizeof_Frame"
  shows "Stack_CreateFrame m s = Inl (Undefined ''frame written past the stack block'')"
  using assms by (simp add: CreateFrame_unfold stack_repr_def)

end
