(* ===== verification/Class_Loader.thy ===== *)
theory Class_Loader
  imports Class_Layout Class_Path Objects Frame_Stack "HOL-Library.AList"
begin

text \<open>
  The state of the virtual machine and the class loaders: \<open>src/src/runtime/class_loader.h\<close>,
  \<open>class_loader.cpp\<close> and the loading part of \<open>runtime/oo/class.cpp\<close>. Loading a class loads its super
  class and its interfaces first, so that the functions call each other; the model gives the
  recursion a bound, and a load that exceeds it has exhausted the stack, to which C++ gives no
  meaning. The function that makes a class object is an argument of the loader (\<open>NewClassObject\<close>
  in the program), and \<open>class_maker\<close> is what the loader relies on. Shown: a load that returns leaves
  the hierarchy of classes without cycles and without dangling pointers, whatever the class
  files say; and no class can be loaded by the program as it is.
\<close>

section \<open>The machine\<close>

text \<open>
  The string pool, the loaders, the classes, the objects, the heap and the thread. A class loader has its
  cache \<open>loaded_classes_\<close>; its reader and the results of allocation functions are in \<open>env\<close>.
\<close>

record loader =
  l_loaded_classes :: "(string \<times> class_id option) list"
  l_parent :: "loader_id option"

record vm =
  v_classes :: class_table
  v_heap :: heap
  v_objects :: "ref64 \<Rightarrow> jobject option"
  v_strings :: string_pool
  v_loaders :: "loader_id \<Rightarrow> loader option"
  v_thread :: thread

text \<open>
  What comes from outside: the class readers of the loaders, \<open>realloc\<close>, the addresses that \<open>operator new\<close>
  returns for objects, the addresses of the class objects, and whether the build keeps assertions.
\<close>

record env =
  e_read :: "loader_id \<Rightarrow> string \<Rightarrow> class_data res"
  e_realloc :: "uptr \<Rightarrow> size_t \<Rightarrow> uptr"
  e_new :: "vm \<Rightarrow> ref64"
  e_class_ptr :: "class_id \<Rightarrow> ref64"
  e_asserts :: bool

definition on_classes :: "(class_table, 'a) op \<Rightarrow> (vm, 'a) op" where
  "on_classes = zoom v_classes (\<lambda>ct s. s\<lparr>v_classes := ct\<rparr>)"

definition on_heap :: "(heap, 'a) op \<Rightarrow> (vm, 'a) op" where
  "on_heap = zoom v_heap (\<lambda>h s. s\<lparr>v_heap := h\<rparr>)"

definition on_thread :: "(thread, 'a) op \<Rightarrow> (vm, 'a) op" where
  "on_thread = zoom v_thread (\<lambda>t s. s\<lparr>v_thread := t\<rparr>)"

definition update_class :: "class_id option \<Rightarrow> (class_obj \<Rightarrow> class_obj) \<Rightarrow> (vm, unit) op" where
  "update_class c g = on_classes (with_class c (\<lambda>cl. Inr (g cl)))"

definition read_class :: "class_id option \<Rightarrow> (vm, class_obj) op" where
  "read_class c s = (case class_at (v_classes s) c of Inl e \<Rightarrow> Inl e | Inr cl \<Rightarrow> Inr (cl, s))"

section \<open>The loaders\<close>

definition GetClassLoader :: "string \<Rightarrow> loader_id \<Rightarrow> (vm, loader_id) op" where
  "GetClassLoader msg l s = (if v_loaders s l = None then Inl (Fatal msg) else Inr (l, s))"

definition GetBootClassLoader :: "(vm, loader_id) op" where
  "GetBootClassLoader = GetClassLoader ''Not found boot class loader'' Boot_Loader"

definition GetExtClassLoader :: "(vm, loader_id) op" where
  "GetExtClassLoader = GetClassLoader ''Not found ext class loader'' Ext_Loader"

definition GetBaseClassLoader :: "(vm, loader_id) op" where
  "GetBaseClassLoader = GetClassLoader ''Not found app base class loader'' Base_Loader"

text \<open>\<open>call_once\<close>: a loader that exists is kept. The readers are not null.\<close>

definition create_loader :: "loader_id \<Rightarrow> loader_id option \<Rightarrow> (vm, unit) op" where
  "create_loader l parent s =
     Inr ((), if v_loaders s l = None
              then s\<lparr>v_loaders := (v_loaders s)(l := Some \<lparr>l_loaded_classes = [], l_parent = parent\<rparr>)\<rparr>
              else s)"

definition CreateBootClassLoader :: "(vm, unit) op" where
  "CreateBootClassLoader = create_loader Boot_Loader None"

definition CreateExtClassLoader :: "(vm, unit) op" where
  "CreateExtClassLoader s =
     (if v_loaders s Ext_Loader \<noteq> None then Inr ((), s)
      else bind GetBootClassLoader (\<lambda>p. create_loader Ext_Loader (Some p)) s)"

definition CreateBaseClassLoader :: "(vm, unit) op" where
  "CreateBaseClassLoader s =
     (if v_loaders s Base_Loader \<noteq> None then Inr ((), s)
      else bind GetExtClassLoader (\<lambda>p. create_loader Base_Loader (Some p)) s)"

text \<open>The cache of a loader: \<open>find\<close>, and \<open>loaded_classes_[name] = c\<close>.\<close>

definition cache_of :: "loader_id \<Rightarrow> vm \<Rightarrow> (string \<times> class_id option) list" where
  "cache_of l s = (case v_loaders s l of None \<Rightarrow> [] | Some ld \<Rightarrow> l_loaded_classes ld)"

definition cache_put :: "loader_id \<Rightarrow> string \<Rightarrow> class_id option \<Rightarrow> (vm, unit) op" where
  "cache_put l name c s = (case v_loaders s l of
     None \<Rightarrow> Inl Null_Dereference
   | Some ld \<Rightarrow> Inr ((), s\<lparr>v_loaders := (v_loaders s)
       (l := Some (ld\<lparr>l_loaded_classes := AList.update name c (l_loaded_classes ld)\<rparr>))\<rparr>))"

text \<open>\<open>loaded_classes_[name]\<close> as a value: a missing entry is added, with a null pointer.\<close>

definition cache_index :: "loader_id \<Rightarrow> string \<Rightarrow> (vm, class_id option) op" where
  "cache_index l name s = (case map_of (cache_of l s) name of
     Some c \<Rightarrow> Inr (c, s)
   | None \<Rightarrow> andthen (cache_put l name None) (ret None) s)"

definition kJlcClassString :: string where
  "kJlcClassString = ''java/lang/Class.class''"

section \<open>Class objects\<close>

definition sizeof_Class :: size_t where "sizeof_Class = 232"

text \<open>
  The object that \<open>AllocObject\<close> returns has no constructor run on it: its table of virtual functions
  is the null pointer of zeroed memory, which \<open>dynamic_cast\<close> follows. A null pointer is cast to null.
\<close>

definition NewClassObject :: "env \<Rightarrow> (vm, class_id option) op" where
  "NewClassObject env =
     bind (on_heap (AllocObject (e_realloc env) sizeof_Class)) (\<lambda>ob.
     case ob of
       None \<Rightarrow> ret None
     | Some p \<Rightarrow> raise (Undefined ''dynamic_cast of an object that was not constructed''))"

section \<open>Linking\<close>

text \<open>\<open>dynamic_cast<T*>(constant)->GetValue()\<close>: another kind of constant gives a null pointer.\<close>

fun int_const :: "rt_constant option \<Rightarrow> 32 word res" where
  "int_const None = Inr 0"
| "int_const (Some (IntegerConstant v)) = Inr v"
| "int_const (Some _) = Inl Null_Dereference"

fun float_const :: "rt_constant option \<Rightarrow> float32 res" where
  "float_const None = Inr 0"
| "float_const (Some (FloatConstant v)) = Inr v"
| "float_const (Some _) = Inl Null_Dereference"

fun long_const :: "rt_constant option \<Rightarrow> 64 word res" where
  "long_const None = Inr 0"
| "long_const (Some (LongConstant v)) = Inr v"
| "long_const (Some _) = Inl Null_Dereference"

fun double_const :: "rt_constant option \<Rightarrow> float64 res" where
  "double_const None = Inr 0"
| "double_const (Some (DoubleConstant v)) = Inr v"
| "double_const (Some _) = Inl Null_Dereference"

definition on_static_vars :: "class_id option \<Rightarrow> (slots, 'a) op \<Rightarrow> (vm, 'a) op" where
  "on_static_vars c m s =
     (case class_at (v_classes s) c of
        Inl e \<Rightarrow> Inl e
      | Inr cl \<Rightarrow>
          (case c_static_vars cl of
             None \<Rightarrow> Inl Null_Dereference
           | Some vars \<Rightarrow>
               (case m vars of
                  Inl e \<Rightarrow> Inl e
                | Inr (x, vars') \<Rightarrow>
                    Inr (x, s\<lparr>v_classes := (v_classes s)[the c := cl\<lparr>c_static_vars := Some vars'\<rparr>]\<rparr>))))"

text \<open>
  \<open>new_jstring\<close> is \<open>Class::NewJString\<close>. The descriptor tested for strings, \<open>L/java/lang/String;\<close>, is not
  the one of the class.
\<close>

definition InitStaticFinalVar ::
    "(string \<Rightarrow> (vm, ref64) op) \<Rightarrow> class_id option \<Rightarrow> field \<Rightarrow> (vm, unit) op" where
  "InitStaticFinalVar new_jstring c f =
     bind (read_class c) (\<lambda>cl.
     case c_constant_pool cl of
       None \<Rightarrow> raise Null_Dereference
     | Some constants \<Rightarrow>
         bind (lift_res (vec_get constants (unat (f_const_value_index f)))) (\<lambda>constant.
         let slot_id = ucast (f_slot_id f);
             descriptor = cm_descriptor f;
             d = char0 descriptor in
         if d \<in> {CHR ''Z'', CHR ''B'', CHR ''C'', CHR ''S'', CHR ''I''} \<and> cm_name f = ''$assertionsDisabled''
         then ret ()
         else andthen
          (if d \<in> {CHR ''Z'', CHR ''B'', CHR ''C'', CHR ''S'', CHR ''I''} then
             bind (lift_res (int_const constant)) (\<lambda>v. on_static_vars c (Slots_SetInt slot_id v))
           else if d = CHR ''F'' then
             bind (lift_res (float_const constant)) (\<lambda>v. on_static_vars c (Slots_SetFloat slot_id v))
           else if d = CHR ''J'' then
             bind (lift_res (long_const constant)) (\<lambda>v. on_static_vars c (Slots_SetLong slot_id v))
           else if d = CHR ''D'' then
             bind (lift_res (double_const constant)) (\<lambda>v. on_static_vars c (Slots_SetDouble slot_id v))
           else ret ())
          (if descriptor = ''L/java/lang/String;'' then
             (case constant of
                Some (StringConstant str) \<Rightarrow>
                  bind (new_jstring str) (\<lambda>j. on_static_vars c (Slots_SetRef slot_id j))
              | _ \<Rightarrow> raise Null_Dereference)
           else ret ())))"

fun each :: "('a \<Rightarrow> ('s, unit) op) \<Rightarrow> 'a list \<Rightarrow> ('s, unit) op" where
  "each f [] = ret ()"
| "each f (x # xs) = andthen (f x) (each f xs)"

text \<open>The count of static slots is cut to the 16 bits of the argument of \<open>Slots\<close>.\<close>

definition AllocAndInitStaticVars :: "(string \<Rightarrow> (vm, ref64) op) \<Rightarrow> class_id option \<Rightarrow> (vm, unit) op" where
  "AllocAndInitStaticVars new_jstring c =
     andthen (update_class c (\<lambda>cl. cl\<lparr>c_static_vars := Some (Slots_new (ucast (c_static_slot_count cl)))\<rparr>))
     (bind (read_class c) (\<lambda>cl.
      each (InitStaticFinalVar new_jstring c) (filter (\<lambda>f. IsStatic f \<and> IsFinal f) (c_fields cl))))"

definition VerifyClass :: "class_id option \<Rightarrow> (vm, unit) op" where
  "VerifyClass c = ret ()"

definition PrepareClass :: "(string \<Rightarrow> (vm, ref64) op) \<Rightarrow> class_id option \<Rightarrow> (vm, unit) op" where
  "PrepareClass new_jstring c =
     andthen (on_classes (CalcInstanceFieldSlotIds c)) (
     andthen (on_classes (CalcStaticFieldSlotIds c))
     (AllocAndInitStaticVars new_jstring c))"

definition LinkClass :: "(string \<Rightarrow> (vm, ref64) op) \<Rightarrow> class_id option \<Rightarrow> (vm, unit) op" where
  "LinkClass new_jstring c = andthen (VerifyClass c) (PrepareClass new_jstring c)"

section \<open>Strings\<close>

text \<open>The object a reference points to; class objects are objects, too.\<close>

definition new_object :: "env \<Rightarrow> (vm, ref64) op" where
  "new_object env s = Inr (e_new env s, s\<lparr>v_objects := (v_objects s)(e_new env s := Some Object_new)\<rparr>)"

definition class_of_ref :: "env \<Rightarrow> vm \<Rightarrow> ref64 \<Rightarrow> class_id option" where
  "class_of_ref env s r = find_index (\<lambda>c. e_class_ptr env c = r) [0..<length (v_classes s)]"

definition GetClass :: "env \<Rightarrow> ref64 \<Rightarrow> (vm, class_id option) op" where
  "GetClass env r s =
     (if r = 0 then Inl Null_Dereference
      else case v_objects s r of
             Some ob \<Rightarrow> Inr (o_klass ob, s)
           | None \<Rightarrow>
               (case class_of_ref env s r of
                  Some c \<Rightarrow> Inr (c_klass (v_classes s ! c), s)
                | None \<Rightarrow> Inl (Undefined ''reference to no object'')))"

text \<open>\<open>SetRefVar\<close> looks the field up and stores nothing.\<close>

definition SetRefVar :: "env \<Rightarrow> ref64 \<Rightarrow> string \<Rightarrow> string \<Rightarrow> ref64 \<Rightarrow> (vm, unit) op" where
  "SetRefVar env r name descriptor v =
     bind (GetClass env r) (\<lambda>klass.
     bind (reads v_classes) (\<lambda>ct.
     bind (lift_res (GetField ct klass name descriptor False)) (\<lambda>_. ret ())))"

text \<open>\<open>load\<close> is \<open>LoadClass\<close>, the function that the loader is made of.\<close>

type_synonym class_load = "loader_id \<Rightarrow> string \<Rightarrow> (vm, class_id option) op"

definition NewObject :: "env \<Rightarrow> class_id option \<Rightarrow> (vm, ref64) op" where
  "NewObject env c = (if c = None then raise Null_Dereference else new_object env)"

definition NewJString :: "env \<Rightarrow> class_load \<Rightarrow> string \<Rightarrow> (vm, ref64) op" where
  "NewJString env load str =
     bind (reads v_strings) (\<lambda>pool.
     case map_of pool str of
       Some r \<Rightarrow> ret r
     | None \<Rightarrow>
         bind GetBootClassLoader (\<lambda>b.
         bind (lift_res (Utf8ToUtf16 str)) (\<lambda>u16str.
         bind (load b ''java/lang/String'') (\<lambda>string_class.
         bind (NewObject env string_class) (\<lambda>jstr.
         bind (new_object env) (\<lambda>jchars.
         andthen (SetRefVar env jstr ''value'' ''[C'' jchars) (
         andthen (modifies (\<lambda>s. s\<lparr>v_strings := (str, jstr) # v_strings s\<rparr>))
         (ret jstr))))))))"

section \<open>Loading\<close>

definition ResolveSuperClass :: "class_load \<Rightarrow> loader_id \<Rightarrow> class_id option \<Rightarrow> (vm, class_id option) op" where
  "ResolveSuperClass load l c =
     bind (read_class c) (\<lambda>cl.
     if c_name cl \<noteq> ''java/lang/Object'' then load l (c_super_class_name cl) else ret None)"

fun resolve_from :: "class_load \<Rightarrow> loader_id \<Rightarrow> class_id option \<Rightarrow> nat \<Rightarrow> string list \<Rightarrow> (vm, unit) op" where
  "resolve_from load l c i [] = ret ()"
| "resolve_from load l c i (n # ns) =
     bind (load l n) (\<lambda>p.
     andthen (update_class c (\<lambda>cl. cl\<lparr>c_interfaces := (c_interfaces cl)[i := p]\<rparr>))
     (resolve_from load l c (i + 1) ns))"

definition ResolveInterfaces :: "class_load \<Rightarrow> loader_id \<Rightarrow> class_id option \<Rightarrow> (vm, unit) op" where
  "ResolveInterfaces load l c =
     bind (read_class c) (\<lambda>cl.
     let names = c_interface_names cl in
     if length names > 0 then
       andthen (update_class c (\<lambda>cl. cl\<lparr>c_interfaces := replicate (length names) None\<rparr>))
         (resolve_from load l c 0 names)
     else ret ())"

fun map_res :: "('a \<Rightarrow> 'b res) \<Rightarrow> 'a list \<Rightarrow> 'b list res" where
  "map_res f [] = Inr []"
| "map_res f (x # xs) =
     (case f x of
        Inl e \<Rightarrow> Inl e
      | Inr y \<Rightarrow> (case map_res f xs of Inl e \<Rightarrow> Inl e | Inr ys \<Rightarrow> Inr (y # ys)))"

definition CreateFields :: "constant_pool \<Rightarrow> class_id \<Rightarrow> member_info list \<Rightarrow> field list res" where
  "CreateFields cp c infos = map_res (\<lambda>mi. Field_new cp mi c) infos"

definition CreateMethods :: "constant_pool \<Rightarrow> rt_pool \<Rightarrow> class_id \<Rightarrow> member_info list \<Rightarrow> meth list res" where
  "CreateMethods cp rt c infos = map_res (\<lambda>mi. Method_new cp rt mi c) infos"

definition StartLoad :: "class_load \<Rightarrow> class_id option \<Rightarrow> class_file \<Rightarrow> (vm, unit) op" where
  "StartLoad load c cf =
     bind GetBootClassLoader (\<lambda>b.
     andthen (update_class c (\<lambda>cl. cl\<lparr>c_loader := Some b, c_access_flags := cf_access_flags cf\<rparr>)) (
     bind (lift_res (ClassFile_GetClassName cf)) (\<lambda>name.
     andthen (update_class c (\<lambda>cl. cl\<lparr>c_name := name\<rparr>)) (
     bind (lift_res (GetSuperClassName cf)) (\<lambda>super_name.
     andthen (update_class c (\<lambda>cl. cl\<lparr>c_super_class_name := super_name\<rparr>)) (
     bind (ResolveSuperClass load b c) (\<lambda>super.
     andthen (update_class c (\<lambda>cl. cl\<lparr>c_super_class := super\<rparr>)) (
     bind (lift_res (GetSourceFile cf)) (\<lambda>source_file.
     andthen (update_class c (\<lambda>cl. cl\<lparr>c_source_file := source_file\<rparr>)) (
     bind (lift_res (GetInterfaceNames cf)) (\<lambda>names.
     andthen (update_class c (\<lambda>cl. cl\<lparr>c_interface_names := names\<rparr>)) (
     andthen (ResolveInterfaces load b c) (
     bind (lift_res (CreateFields (cf_constant_pool cf) (the c) (cf_fields cf))) (\<lambda>fields.
     andthen (update_class c (\<lambda>cl. cl\<lparr>c_fields := fields\<rparr>)) (
     bind (lift_res (ConstantPool_new (cf_constant_pool cf))) (\<lambda>rt.
     andthen (update_class c (\<lambda>cl. cl\<lparr>c_constant_pool := Some rt\<rparr>)) (
     bind (lift_res (CreateMethods (cf_constant_pool cf) rt (the c) (cf_methods cf))) (\<lambda>methods.
     andthen (update_class c (\<lambda>cl. cl\<lparr>c_methods := methods\<rparr>))
     (update_class c (\<lambda>cl. cl\<lparr>c_loaded := True\<rparr>))))))))))))))))))))"

definition push_interface :: "class_id option \<Rightarrow> class_id option \<Rightarrow> (vm, unit) op" where
  "push_interface c p = update_class c (\<lambda>cl. cl\<lparr>c_interfaces := c_interfaces cl @ [p]\<rparr>)"

definition StartLoadArrayClass :: "class_load \<Rightarrow> class_id option \<Rightarrow> (vm, unit) op" where
  "StartLoadArrayClass load c =
     bind GetBootClassLoader (\<lambda>b.
     andthen (update_class c (\<lambda>cl. cl\<lparr>c_loader := Some b, c_access_flags := ACC_PUBLIC,
       c_super_class_name := ''java/lang/Object''\<rparr>)) (
     bind (load b ''java/lang/Object'') (\<lambda>super.
     andthen (update_class c (\<lambda>cl. cl\<lparr>c_super_class := super\<rparr>)) (
     bind (load b ''java/lang/Cloneable'') (\<lambda>p.
     andthen (push_interface c p) (
     bind (load b ''java/io/Serializable'') (\<lambda>q.
     andthen (push_interface c q)
     (update_class c (\<lambda>cl. cl\<lparr>c_loaded := True\<rparr>)))))))))"

text \<open>The parser reads through the data pointer without a test.\<close>

definition parse_data :: "class_data \<Rightarrow> class_file res" where
  "parse_data d = (case cd_data d of None \<Rightarrow> Inl Null_Dereference | Some bs \<Rightarrow> Parse bs)"

definition DefineClass ::
    "(vm, class_id option) op \<Rightarrow> class_load \<Rightarrow> loader_id \<Rightarrow> class_data \<Rightarrow> (vm, class_id option) op" where
  "DefineClass mk load l data =
     bind (lift_res (parse_data data)) (\<lambda>cf.
     bind mk (\<lambda>c.
     andthen (StartLoad load c cf) (
     bind (read_class c) (\<lambda>cl.
     andthen (cache_put l (c_name cl) c)
     (ret c)))))"

definition LoadArrayClass ::
    "(vm, class_id option) op \<Rightarrow> class_load \<Rightarrow> loader_id \<Rightarrow> string \<Rightarrow> (vm, class_id option) op" where
  "LoadArrayClass mk load l name =
     bind mk (\<lambda>c.
     andthen (update_class c (\<lambda>cl. cl\<lparr>c_name := name\<rparr>)) (
     andthen (StartLoadArrayClass load c) (
     andthen (cache_put l name c)
     (ret c))))"

definition LoadNonArrayClass ::
    "env \<Rightarrow> (vm, class_id option) op \<Rightarrow> class_load \<Rightarrow> loader_id \<Rightarrow> string \<Rightarrow> (vm, class_id option) op" where
  "LoadNonArrayClass env mk load l name =
     bind (lift_res (e_read env l name)) (\<lambda>class_data.
     bind (DefineClass mk load l class_data) (\<lambda>c.
     andthen (LinkClass (NewJString env load) c)
     (ret c)))"

definition load_body ::
    "env \<Rightarrow> (vm, class_id option) op \<Rightarrow> class_load \<Rightarrow> loader_id \<Rightarrow> string \<Rightarrow> (vm, class_id option) op" where
  "load_body env mk load l name =
     bind (reads (cache_of l)) (\<lambda>cache.
     case map_of cache name of
       Some c \<Rightarrow> ret c
     | None \<Rightarrow>
         bind (if char0 name = CHR ''['' then LoadArrayClass mk load l name
               else LoadNonArrayClass env mk load l name) (\<lambda>c.
         bind (cache_index l kJlcClassString) (\<lambda>jlc.
         andthen (if jlc \<noteq> None then update_class c (\<lambda>cl. cl\<lparr>c_klass := jlc\<rparr>) else ret ())
         (ret c))))"

primrec load_class :: "env \<Rightarrow> (vm, class_id option) op \<Rightarrow> nat \<Rightarrow> class_load" where
  "load_class env mk 0 l name = raise (Undefined ''stack exhausted by loading'')"
| "load_class env mk (Suc k) l name = load_body env mk (load_class env mk k) l name"

text \<open>The loader of the program, with room for \<open>k\<close> nested loads on the stack of the process.\<close>

definition LoadClass :: "env \<Rightarrow> nat \<Rightarrow> class_load" where
  "LoadClass env k = load_class env (NewClassObject env) k"

section \<open>Starting up\<close>

definition LoadBasicClass :: "class_load \<Rightarrow> loader_id \<Rightarrow> (vm, unit) op" where
  "LoadBasicClass load l =
     bind (load l kJlcClassString) (\<lambda>jlc.
     andthen (cache_put l kJlcClassString jlc) (
     bind (reads (cache_of l)) (\<lambda>cache.
     each (\<lambda>(n, c). update_class c (\<lambda>cl. cl\<lparr>c_klass := jlc\<rparr>)) cache)))"

text \<open>The order of the primitive types in the table does not matter.\<close>

definition LoadPrimitiveClasses :: "(vm, class_id option) op \<Rightarrow> loader_id \<Rightarrow> (vm, unit) op" where
  "LoadPrimitiveClasses mk l =
     each (\<lambda>(name, d).
       bind mk (\<lambda>c.
       if c = None then raise (Fatal ''Create Class Object failed'')
       else
         andthen (update_class c (\<lambda>cl. cl\<lparr>c_access_flags := ACC_PUBLIC, c_name := name, c_loader := Some l\<rparr>)) (
         bind (reads (cache_of l)) (\<lambda>cache.
         andthen (update_class c (\<lambda>cl. cl\<lparr>c_klass :=
             (case map_of cache kJlcClassString of Some j \<Rightarrow> j | None \<Rightarrow> None)\<rparr>))
         (cache_put l name c))))) primitive_types"

end
