(* ===== verification/Class_Resolve.thy ===== *)
theory Class_Resolve
  imports Class_Loader
begin

text \<open>
  The use of classes at run time: resolution of symbolic references
  (\<open>src/src/runtime/constant_pool.cpp\<close>), access checks (\<open>oo/class_member.cpp\<close>), assignability,
  array classes and initialisation of classes (\<open>oo/class.cpp\<close>), and the search for exception handlers
  (\<open>oo/method.cpp\<close>). A pointer to a constant is the class that owns the pool and the index. All
  functions get the loader as an argument (\<open>load\<close>).
\<close>

section \<open>Constants\<close>

definition get_constant :: "class_id \<Rightarrow> u4 \<Rightarrow> (vm, rt_constant option) op" where
  "get_constant c i =
     bind (read_class (Some c)) (\<lambda>cl.
     case c_constant_pool cl of
       None \<Rightarrow> raise Null_Dereference
     | Some pool \<Rightarrow> ret (GetConstant pool i))"

definition put_constant :: "class_id \<Rightarrow> u4 \<Rightarrow> rt_constant \<Rightarrow> (vm, unit) op" where
  "put_constant c i k =
     update_class (Some c) (\<lambda>cl. cl\<lparr>c_constant_pool :=
       map_option (\<lambda>pool. pool[unat i := Some k]) (c_constant_pool cl)\<rparr>)"

text \<open>The members \<open>class_name_\<close> and \<open>class_ptr_\<close> of \<open>SymRefConstant\<close>.\<close>

fun sym_ref :: "rt_constant \<Rightarrow> (string \<times> class_id option) option" where
  "sym_ref (ClassRefConstant cn c) = Some (cn, c)"
| "sym_ref (FieldRefConstant cn n d c f) = Some (cn, c)"
| "sym_ref (MethodRefConstant cn n d c m) = Some (cn, c)"
| "sym_ref (InterfaceMethodRefConstant cn n d c m) = Some (cn, c)"
| "sym_ref _ = None"

fun set_class_ptr :: "class_id option \<Rightarrow> rt_constant \<Rightarrow> rt_constant" where
  "set_class_ptr p (ClassRefConstant cn c) = ClassRefConstant cn p"
| "set_class_ptr p (FieldRefConstant cn n d c f) = FieldRefConstant cn n d p f"
| "set_class_ptr p (MethodRefConstant cn n d c m) = MethodRefConstant cn n d p m"
| "set_class_ptr p (InterfaceMethodRefConstant cn n d c m) = InterfaceMethodRefConstant cn n d p m"
| "set_class_ptr p k = k"

text \<open>The name, the descriptor and the resolved member of a member reference.\<close>

fun member_ref :: "rt_constant \<Rightarrow> (string \<times> string \<times> member_id option) option" where
  "member_ref (FieldRefConstant cn n d c f) = Some (n, d, f)"
| "member_ref (MethodRefConstant cn n d c m) = Some (n, d, m)"
| "member_ref (InterfaceMethodRefConstant cn n d c m) = Some (n, d, m)"
| "member_ref _ = None"

fun set_member :: "member_id option \<Rightarrow> rt_constant \<Rightarrow> rt_constant" where
  "set_member p (FieldRefConstant cn n d c f) = FieldRefConstant cn n d c p"
| "set_member p (MethodRefConstant cn n d c m) = MethodRefConstant cn n d c p"
| "set_member p (InterfaceMethodRefConstant cn n d c m) = InterfaceMethodRefConstant cn n d c p"
| "set_member p k = k"

section \<open>Access\<close>

text \<open>
  The package of the class of the member is compared with itself. The test for a subclass comes first and
  may stop the program, its result does not matter.
\<close>

definition IsAccessibleTo :: "class_table \<Rightarrow> ('a) class_member_scheme \<Rightarrow> class_id option \<Rightarrow> bool res" where
  "IsAccessibleTo ct m class_ptr =
     (if IsPublic m then Inr True
      else if IsProtected m then
        (case IsSubClassOf ct (Some (cm_class m)) class_ptr of
           Inl e \<Rightarrow> Inl e
         | Inr b \<Rightarrow>
             (case class_at ct (Some (cm_class m)) of
                Inl e \<Rightarrow> Inl e
              | Inr cl \<Rightarrow> Inr (b \<or> c_package_name cl = c_package_name cl)))
      else if \<not> IsPrivate m then
        (case class_at ct (Some (cm_class m)) of
           Inl e \<Rightarrow> Inl e
         | Inr cl \<Rightarrow> Inr (c_package_name cl = c_package_name cl))
      else Inr (Some (cm_class m) = class_ptr))"

section \<open>Resolution\<close>

definition load_with :: "class_load \<Rightarrow> class_id option \<Rightarrow> string \<Rightarrow> (vm, class_id option) op" where
  "load_with load c name =
     bind (read_class c) (\<lambda>cl.
     case c_loader cl of
       None \<Rightarrow> raise Null_Dereference
     | Some l \<Rightarrow> load l name)"

definition ResolveClass :: "class_load \<Rightarrow> class_id \<Rightarrow> u4 \<Rightarrow> (vm, class_id option) op" where
  "ResolveClass load owner i =
     bind (get_constant owner i) (\<lambda>k.
     case Option.bind k sym_ref of
       None \<Rightarrow> raise Null_Dereference
     | Some (class_name, class_ptr) \<Rightarrow>
         bind (if class_ptr = None then
                 bind (load_with load (Some owner) class_name) (\<lambda>p.
                 andthen (put_constant owner i (set_class_ptr p (the k))) (ret p))
               else ret class_ptr) (\<lambda>p.
         bind (read_class p) (\<lambda>cl.
         bind (read_class (Some owner)) (\<lambda>other.
         if \<not> Class_IsAccessibleTo cl other then raise (Fatal ''java.lang.IllegalAccessError'')
         else ret p))))"

definition check_access :: "('a) class_member_scheme res \<Rightarrow> class_id \<Rightarrow> (vm, unit) op" where
  "check_access m owner =
     bind (lift_res m) (\<lambda>m.
     bind (reads v_classes) (\<lambda>ct.
     bind (lift_res (IsAccessibleTo ct m (Some owner))) (\<lambda>ok.
     if \<not> ok then raise (Fatal ''java.lang.IllegalAccessError'') else ret ())))"

definition ResolveField :: "class_load \<Rightarrow> class_id \<Rightarrow> u4 \<Rightarrow> (vm, member_id) op" where
  "ResolveField load owner i =
     bind (get_constant owner i) (\<lambda>k.
     case k of
       Some (FieldRefConstant cn name descriptor cp resolved) \<Rightarrow>
         bind (case resolved of
                 Some f \<Rightarrow> ret f
               | None \<Rightarrow>
                   bind (ResolveClass load owner i) (\<lambda>d.
                   bind (reads v_classes) (\<lambda>ct.
                   bind (lift_res (LookupField ct d name descriptor)) (\<lambda>f.
                   case f of
                     None \<Rightarrow> raise (Fatal ''java.lang.NoSuchFieldError'')
                   | Some f \<Rightarrow>
                       bind (get_constant owner i) (\<lambda>k.
                       andthen (put_constant owner i (set_member (Some f) (the k))) (ret f)))))) (\<lambda>f.
         bind (reads v_classes) (\<lambda>ct.
         andthen (check_access (field_at ct f) owner) (ret f)))
     | _ \<Rightarrow> raise Null_Dereference)"

text \<open>
  \<open>ResolveMethod\<close> and \<open>ResolveInterfaceMethod\<close> differ in the kind of class they demand. A method that was
  resolved before is returned without a check.
\<close>

definition resolve_method :: "bool \<Rightarrow> class_load \<Rightarrow> class_id \<Rightarrow> u4 \<Rightarrow> (vm, member_id) op" where
  "resolve_method of_interface load owner i =
     bind (get_constant owner i) (\<lambda>k.
     case Option.bind k member_ref of
       None \<Rightarrow> raise Null_Dereference
     | Some (name, descriptor, Some m) \<Rightarrow> ret m
     | Some (name, descriptor, None) \<Rightarrow>
         bind (ResolveClass load owner i) (\<lambda>d.
         bind (read_class d) (\<lambda>dc.
         if IsInterface dc \<noteq> of_interface then raise (Fatal ''java.lang.IncompatibleClassChangeError'')
         else
           bind (reads v_classes) (\<lambda>ct.
           bind (lift_res (LookupMethod ct d name descriptor)) (\<lambda>m.
           case m of
             None \<Rightarrow> raise (Fatal ''java.lang.NoSuchMethodError'')
           | Some m \<Rightarrow>
               andthen (check_access (method_at ct m) owner) (
               bind (get_constant owner i) (\<lambda>k.
               andthen (put_constant owner i (set_member (Some m) (the k))) (ret m))))))))"

definition ResolveMethod :: "class_load \<Rightarrow> class_id \<Rightarrow> u4 \<Rightarrow> (vm, member_id) op" where
  "ResolveMethod load owner i =
     bind (get_constant owner i) (\<lambda>k.
     case k of
       Some (MethodRefConstant _ _ _ _ _) \<Rightarrow> resolve_method False load owner i
     | _ \<Rightarrow> raise Null_Dereference)"

definition ResolveInterfaceMethod :: "class_load \<Rightarrow> class_id \<Rightarrow> u4 \<Rightarrow> (vm, member_id) op" where
  "ResolveInterfaceMethod load owner i =
     bind (get_constant owner i) (\<lambda>k.
     case k of
       Some (InterfaceMethodRefConstant _ _ _ _ _) \<Rightarrow> resolve_method True load owner i
     | _ \<Rightarrow> raise Null_Dereference)"

section \<open>Assignability\<close>

definition GetComponentClass :: "class_load \<Rightarrow> class_id option \<Rightarrow> (vm, class_id option) op" where
  "GetComponentClass load c =
     bind (read_class c) (\<lambda>cl.
     bind (lift_res (GetComponentClassName (c_name cl))) (\<lambda>n.
     load_with load c n))"

definition GetArrayClass :: "class_load \<Rightarrow> class_id option \<Rightarrow> (vm, class_id option) op" where
  "GetArrayClass load c =
     bind (read_class c) (\<lambda>cl. load_with load c (GetArrayClassName (c_name cl)))"

text \<open>The bound counts the nested array types.\<close>

primrec assignable :: "nat \<Rightarrow> class_load \<Rightarrow> class_id option \<Rightarrow> class_id option \<Rightarrow> (vm, bool) op" where
  "assignable 0 load s t = raise (Undefined ''endless search of the class hierarchy'')"
| "assignable (Suc k) load s t =
     (if t = None then ret False
      else if s = t then ret True
      else
        bind (reads v_classes) (\<lambda>ct.
        bind (read_class t) (\<lambda>tc.
        bind (read_class s) (\<lambda>sc.
        if \<not> IsArrayClass (c_name tc) then
          if \<not> IsInterface tc then
            if \<not> IsInterface sc then lift_res (IsSubClassOf ct s t) else lift_res (IsImplements ct s t)
          else
            if \<not> IsInterface sc then ret (IsJlObject sc) else lift_res (IsSuperInterfaceOf ct s t)
        else
          if \<not> IsArrayClass (c_name sc) then
            if \<not> IsInterface sc then ret (IsJlObject sc) else ret (IsJlCloneable sc \<or> IsJioSerializable sc)
          else
            bind (GetComponentClass load s) (\<lambda>s'.
            bind (GetComponentClass load t) (\<lambda>t'.
            assignable k load s' t'))))))"

definition IsAssignableFrom :: "class_load \<Rightarrow> class_id option \<Rightarrow> class_id option \<Rightarrow> (vm, bool) op" where
  "IsAssignableFrom load s t =
     bind (reads v_classes) (\<lambda>ct.
     assignable (case class_at ct s of Inl e \<Rightarrow> 2 | Inr cl \<Rightarrow> length (c_name cl) + 2) load s t)"

definition IsInstanceOf :: "env \<Rightarrow> class_load \<Rightarrow> ref64 \<Rightarrow> class_id option \<Rightarrow> (vm, bool) op" where
  "IsInstanceOf env load r clazz = bind (GetClass env r) (\<lambda>klass. IsAssignableFrom load clazz klass)"

section \<open>Arrays\<close>

text \<open>Whatever the element type, the array is a plain object without a class or elements.\<close>

definition NewArray :: "env \<Rightarrow> class_id option \<Rightarrow> (vm, ref64) op" where
  "NewArray env c =
     bind (read_class c) (\<lambda>cl.
     if \<not> IsArrayClass (c_name cl) then raise (Fatal ''Not array class'') else new_object env)"

definition primitive_array_name :: "u1 \<Rightarrow> string option" where
  "primitive_array_name arr_type = map_of
     [(4, ''[Z''), (8, ''[B''), (5, ''[C''), (9, ''[S''), (10, ''[I''), (11, ''[J''), (6, ''[F''), (7, ''[D'')]
     (unat arr_type)"

definition GetPrimitiveArrayClass :: "class_load \<Rightarrow> u1 \<Rightarrow> (vm, class_id option) op" where
  "GetPrimitiveArrayClass load arr_type =
     bind GetBootClassLoader (\<lambda>b.
     case primitive_array_name arr_type of
       None \<Rightarrow> raise (Fatal ''Invalid atype'')
     | Some n \<Rightarrow> load b n)"

section \<open>Initialisation\<close>

definition StartClinit :: "class_id option \<Rightarrow> (vm, unit) op" where
  "StartClinit c = update_class c (\<lambda>cl. cl\<lparr>c_clinit_started := True\<rparr>)"

definition ScheduleClinit :: "class_id option \<Rightarrow> (vm, unit) op" where
  "ScheduleClinit c =
     bind (reads v_classes) (\<lambda>ct.
     bind (lift_res (GetClinitMethod ct c)) (\<lambda>m.
     case m of
       None \<Rightarrow> ret ()
     | Some m \<Rightarrow>
         bind (lift_res (method_at ct m)) (\<lambda>method.
         if Some (cm_class method) = c then
           bind (on_thread (CreateFrame method)) (\<lambda>_. ret ())
         else ret ())))"

primrec init_class :: "nat \<Rightarrow> class_id option \<Rightarrow> (vm, unit) op" where
  "init_class 0 c = raise (Undefined ''endless search of the class hierarchy'')"
| "init_class (Suc k) c =
     andthen (StartClinit c) (
     andthen (ScheduleClinit c) (
     bind (read_class c) (\<lambda>cl.
     if \<not> IsInterface cl \<and> c_super_class cl \<noteq> None then
       bind (read_class (c_super_class cl)) (\<lambda>sc.
       if \<not> c_clinit_started sc then init_class k (c_super_class cl) else ret ())
     else ret ())))"

text \<open>Every round marks a class that was not marked, so that there are no more rounds than classes.\<close>

definition InitClass :: "class_id option \<Rightarrow> (vm, unit) op" where
  "InitClass c s = init_class (search_depth (v_classes s)) c s"

section \<open>Exception handlers\<close>

text \<open>The catch type is an index into the pool of the class of the method.\<close>

fun find_handler :: "class_load \<Rightarrow> class_id \<Rightarrow> exception_handler list \<Rightarrow> class_id option \<Rightarrow> 32 word \<Rightarrow> (vm, 32 word) op" where
  "find_handler load owner [] ex_class pc = ret (- 1)"
| "find_handler load owner (h # hs) ex_class pc =
     (if eh_start_pc h \<le>s pc \<and> pc <s eh_end_pc h then
        (case eh_catch_type h of
           None \<Rightarrow> ret (eh_handler_pc h)
         | Some i \<Rightarrow>
             bind (ResolveClass load owner (ucast i)) (\<lambda>catch_class.
             if catch_class = ex_class then ret (eh_handler_pc h)
             else
               bind (reads v_classes) (\<lambda>ct.
               bind (lift_res (IsSuperClassOf ct catch_class ex_class)) (\<lambda>b.
               if b then ret (eh_handler_pc h) else find_handler load owner hs ex_class pc))))
      else find_handler load owner hs ex_class pc)"

definition FindExceptionHandler :: "class_load \<Rightarrow> meth \<Rightarrow> class_id option \<Rightarrow> 32 word \<Rightarrow> (vm, 32 word) op" where
  "FindExceptionHandler load m ex_class pc =
     (case m_exception_table m of
        None \<Rightarrow> raise (Undefined ''exception table not initialised'')
      | Some hs \<Rightarrow> find_handler load (cm_class m) hs ex_class pc)"

end
