(* ===== verification/Ieee_Float.thy ===== *)
theory Ieee_Float
  imports Jvm_Prelude
begin

text \<open>
  The floating-point arithmetic of the language, as the instruction templates use it on \<open>float\<close>
  and \<open>double\<close>: IEEE 754 binary32 and binary64 values as bit patterns, with the default rounding
  (to nearest, ties to even). An operation decodes its operands to exact dyadic numbers, computes
  exactly on integers, and rounds once. A result that is not a number is the canonical quiet NaN:
  the C++ standard leaves its payload open.
\<close>

section \<open>Formats, decoding, rounding\<close>

record format =
  mbits :: nat
  ebits :: nat

definition single :: format where
  "single = \<lparr>mbits = 23, ebits = 8\<rparr>"

definition double :: format where
  "double = \<lparr>mbits = 52, ebits = 11\<rparr>"

text \<open>\<open>Fin s m e\<close> is the number \<open>m * 2 ^ e\<close>, negated when \<open>s\<close>.\<close>

datatype fl = NaN | Inf bool | Fin bool int int

definition bias :: "format \<Rightarrow> int" where
  "bias f = 2 ^ (ebits f - 1) - 1"

definition emin :: "format \<Rightarrow> int" where
  "emin f = 1 - bias f - int (mbits f)"

definition inf_bits :: "format \<Rightarrow> int" where
  "inf_bits f = (2 ^ ebits f - 1) * 2 ^ mbits f"

definition nan_bits :: "format \<Rightarrow> int" where
  "nan_bits f = inf_bits f + 2 ^ (mbits f - 1)"

definition sign_bits :: "format \<Rightarrow> bool \<Rightarrow> int" where
  "sign_bits f s = (if s then 2 ^ (mbits f + ebits f) else 0)"

definition decode :: "format \<Rightarrow> int \<Rightarrow> fl" where
  "decode f b =
     (let s = odd (b div 2 ^ (mbits f + ebits f));
          ex = b div 2 ^ mbits f mod 2 ^ ebits f;
          frac = b mod 2 ^ mbits f
      in if ex = 2 ^ ebits f - 1 then (if frac = 0 then Inf s else NaN)
         else if ex = 0 then Fin s frac (emin f)
         else Fin s (frac + 2 ^ mbits f) (emin f + ex - 1))"

fun bit_len :: "int \<Rightarrow> int" where
  "bit_len n = (if n \<le> 0 then 0 else 1 + bit_len (n div 2))"

declare bit_len.simps [simp del]

text \<open>\<open>ratio_scale n d k\<close> is the fraction \<open>n / d / 2 ^ k\<close> with integer numerator and denominator.\<close>

definition ratio_scale :: "int \<Rightarrow> int \<Rightarrow> int \<Rightarrow> int \<times> int" where
  "ratio_scale n d k = (if 0 \<le> k then (n, d * 2 ^ nat k) else (n * 2 ^ nat (- k), d))"

definition ratio_exp :: "int \<Rightarrow> int \<Rightarrow> int" where
  "ratio_exp n d =
     (let k = bit_len n - bit_len d; (a, b) = ratio_scale n d k
      in if b \<le> a then k else k - 1)"

definition round_half_even :: "int \<Rightarrow> int \<Rightarrow> int" where
  "round_half_even a b =
     (let q = a div b; r = a mod b
      in if 2 * r < b then q else if b < 2 * r then q + 1 else if even q then q else q + 1)"

text \<open>The bit pattern of \<open>n / d\<close> rounded, for \<open>0 \<le> n\<close> and \<open>0 < d\<close>.\<close>

definition round_ratio :: "format \<Rightarrow> bool \<Rightarrow> int \<Rightarrow> int \<Rightarrow> int" where
  "round_ratio f s n d =
     (if n = 0 then sign_bits f s
      else let k = max (ratio_exp n d - int (mbits f)) (emin f);
               (a, b) = ratio_scale n d k;
               q = round_half_even a b
           in sign_bits f s + min ((k - emin f) * 2 ^ mbits f + q) (inf_bits f))"

definition round_dyadic :: "format \<Rightarrow> bool \<Rightarrow> int \<Rightarrow> int \<Rightarrow> int" where
  "round_dyadic f s m e =
     (if 0 \<le> e then round_ratio f s (m * 2 ^ nat e) 1 else round_ratio f s m (2 ^ nat (- e)))"

definition encode :: "format \<Rightarrow> fl \<Rightarrow> int" where
  "encode f x = (case x of
     NaN \<Rightarrow> nan_bits f
   | Inf s \<Rightarrow> sign_bits f s + inf_bits f
   | Fin s m e \<Rightarrow> round_dyadic f s m e)"

section \<open>Exact operations on decoded values\<close>

text \<open>The signed integer that a finite value is of the unit \<open>2 ^ e\<close>, for \<open>e\<close> not above its exponent.\<close>

definition in_units :: "bool \<Rightarrow> int \<Rightarrow> int \<Rightarrow> int \<Rightarrow> int" where
  "in_units s m x e = (if s then - 1 else 1) * (m * 2 ^ nat (x - e))"

fun fl_add :: "fl \<Rightarrow> fl \<Rightarrow> fl" where
  "fl_add NaN _ = NaN"
| "fl_add _ NaN = NaN"
| "fl_add (Inf s) (Inf t) = (if s = t then Inf s else NaN)"
| "fl_add (Inf s) (Fin _ _ _) = Inf s"
| "fl_add (Fin _ _ _) (Inf t) = Inf t"
| "fl_add (Fin s m x) (Fin t n y) =
     (let e = min x y; z = in_units s m x e + in_units t n y e
      in if z = 0 then Fin (s \<and> t) 0 e else Fin (z < 0) \<bar>z\<bar> e)"

fun fl_minus :: "fl \<Rightarrow> fl" where
  "fl_minus NaN = NaN"
| "fl_minus (Inf s) = Inf (\<not> s)"
| "fl_minus (Fin s m x) = Fin (\<not> s) m x"

fun fl_mul :: "fl \<Rightarrow> fl \<Rightarrow> fl" where
  "fl_mul NaN _ = NaN"
| "fl_mul _ NaN = NaN"
| "fl_mul (Inf s) (Inf t) = Inf (s \<noteq> t)"
| "fl_mul (Inf s) (Fin t n _) = (if n = 0 then NaN else Inf (s \<noteq> t))"
| "fl_mul (Fin s m _) (Inf t) = (if m = 0 then NaN else Inf (s \<noteq> t))"
| "fl_mul (Fin s m x) (Fin t n y) = Fin (s \<noteq> t) (m * n) (x + y)"

text \<open>A quotient is not dyadic: division gives the rounded bit pattern at once.\<close>

fun fl_div_bits :: "format \<Rightarrow> fl \<Rightarrow> fl \<Rightarrow> int" where
  "fl_div_bits f NaN _ = nan_bits f"
| "fl_div_bits f _ NaN = nan_bits f"
| "fl_div_bits f (Inf s) (Inf t) = nan_bits f"
| "fl_div_bits f (Inf s) (Fin t _ _) = sign_bits f (s \<noteq> t) + inf_bits f"
| "fl_div_bits f (Fin s _ _) (Inf t) = sign_bits f (s \<noteq> t)"
| "fl_div_bits f (Fin s m x) (Fin t n y) =
     (if n = 0 then (if m = 0 then nan_bits f else sign_bits f (s \<noteq> t) + inf_bits f)
      else let (a, b) = ratio_scale m n (y - x) in round_ratio f (s \<noteq> t) a b)"

text \<open>\<open>std::fmod\<close>: the remainder has the sign of the dividend.\<close>

fun fl_fmod :: "fl \<Rightarrow> fl \<Rightarrow> fl" where
  "fl_fmod NaN _ = NaN"
| "fl_fmod _ NaN = NaN"
| "fl_fmod (Inf _) _ = NaN"
| "fl_fmod (Fin s m x) (Inf _) = Fin s m x"
| "fl_fmod (Fin s m x) (Fin t n y) =
     (if n = 0 then NaN
      else let e = min x y
           in Fin s (m * 2 ^ nat (x - e) mod (n * 2 ^ nat (y - e))) e)"

fun fl_less :: "fl \<Rightarrow> fl \<Rightarrow> bool" where
  "fl_less NaN _ = False"
| "fl_less _ NaN = False"
| "fl_less (Inf s) (Inf t) = (s \<and> \<not> t)"
| "fl_less (Inf s) (Fin _ _ _) = s"
| "fl_less (Fin _ _ _) (Inf t) = (\<not> t)"
| "fl_less (Fin s m x) (Fin t n y) =
     (let e = min x y in in_units s m x e < in_units t n y e)"

fun fl_equal :: "fl \<Rightarrow> fl \<Rightarrow> bool" where
  "fl_equal NaN _ = False"
| "fl_equal _ NaN = False"
| "fl_equal (Inf s) (Inf t) = (s = t)"
| "fl_equal (Fin s m x) (Fin t n y) =
     (let e = min x y in in_units s m x e = in_units t n y e)"
| "fl_equal _ _ = False"

text \<open>Truncation towards zero, \<open>None\<close> for infinities and NaN.\<close>

fun fl_trunc :: "fl \<Rightarrow> int option" where
  "fl_trunc (Fin s m x) =
     Some ((if s then - 1 else 1) *
           (if 0 \<le> x then m * 2 ^ nat x else m div 2 ^ nat (- x)))"
| "fl_trunc _ = None"

section \<open>Operations on bit patterns\<close>

text \<open>
  \<open>format_op f g a b\<close> applies an exact operation to two bit patterns of width \<open>'w\<close> and rounds. The
  width of the words and the format go together: \<open>single\<close> with 32 bits, \<open>double\<close> with 64.
\<close>

definition fl_of :: "format \<Rightarrow> 'w::len word \<Rightarrow> fl" where
  "fl_of f a = decode f (uint a)"

definition bits_of :: "format \<Rightarrow> fl \<Rightarrow> 'w::len word" where
  "bits_of f x = of_int (encode f x)"

definition format_op :: "format \<Rightarrow> (fl \<Rightarrow> fl \<Rightarrow> fl) \<Rightarrow> 'w::len word \<Rightarrow> 'w word \<Rightarrow> 'w word" where
  "format_op f g a b = bits_of f (g (fl_of f a) (fl_of f b))"

definition format_div :: "format \<Rightarrow> 'w::len word \<Rightarrow> 'w word \<Rightarrow> 'w word" where
  "format_div f a b = of_int (fl_div_bits f (fl_of f a) (fl_of f b))"

text \<open>Negation flips the sign bit, of a NaN too.\<close>

definition format_neg :: "format \<Rightarrow> 'w::len word \<Rightarrow> 'w word" where
  "format_neg f a = a XOR of_int (2 ^ (mbits f + ebits f))"

definition isnan :: "format \<Rightarrow> 'w::len word \<Rightarrow> bool" where
  "isnan f a \<longleftrightarrow> fl_of f a = NaN"

definition of_int_bits :: "format \<Rightarrow> int \<Rightarrow> 'w::len word" where
  "of_int_bits f i = of_int (round_ratio f (i < 0) \<bar>i\<bar> 1)"

section \<open>Facts about the format operations\<close>

lemma fl_add_commute: "fl_add a b = fl_add b a"
  by (cases a; cases b) (auto simp: Let_def min.commute add.commute)

lemma fl_mul_commute: "fl_mul a b = fl_mul b a"
  by (cases a; cases b) (auto simp: mult.commute)

lemma fl_less_irrefl: "\<not> fl_less a a"
  by (cases a) auto

lemma fl_less_asym: "fl_less a b \<Longrightarrow> \<not> fl_less b a"
  by (cases a; cases b) (auto simp: Let_def min.commute)

lemma fl_trichotomy: "a \<noteq> NaN \<Longrightarrow> b \<noteq> NaN \<Longrightarrow> fl_less a b \<or> fl_equal a b \<or> fl_less b a"
  by (cases a; cases b) (auto simp: Let_def min.commute)

lemma fl_less_not_equal: "fl_less a b \<Longrightarrow> \<not> fl_equal a b \<and> \<not> fl_equal b a"
  by (cases a; cases b) (auto simp: Let_def min.commute)

lemma fl_NaN_unordered:
  "a = NaN \<or> b = NaN \<Longrightarrow> \<not> fl_less a b \<and> \<not> fl_equal a b \<and> \<not> fl_less b a"
  by (cases a; cases b) auto

lemma fl_equal_commute: "fl_equal a b = fl_equal b a"
  by (cases a; cases b) (auto simp: Let_def min.commute)

lemma fl_equal_zero_iff: "fl_equal (Fin s 0 x) (Fin t n y) \<longleftrightarrow> n = 0"
  by (auto simp: Let_def in_units_def)

end
