(* ===== verification/Frame_Insts.thy ===== *)
theory Frame_Insts
  imports Ieee_Float Instruction Frame_Stack
begin

text \<open>
  The \<open>Execute\<close> members of the instructions that work on the current frame alone:
  \<open>const_insts.h\<close>, \<open>load_insts.h\<close>, \<open>store_insts.h\<close>, \<open>stack_insts.h\<close>, \<open>arithmetic_insts.h\<close>,
  \<open>conversion_insts.h\<close>, \<open>compare_insts.h\<close>, \<open>control_insts.h/.cpp\<close> and \<open>extend_insts.h/.cpp\<close> of
  \<open>src/src/instructions\<close>. A branch also reads the program counter of the thread, which is the
  argument \<open>pc\<close>. What they compute is shown in \<open>Frame_Insts_Spec\<close>.
\<close>

section \<open>Access to the frame\<close>

definition on_operands :: "(operand_stack, 'a) op \<Rightarrow> (frame, 'a) op" where
  "on_operands = zoom fr_operand_stack (\<lambda>s f. f\<lparr>fr_operand_stack := s\<rparr>)"

definition on_locals :: "(slots, 'a) op \<Rightarrow> (frame, 'a) op" where
  "on_locals = zoom fr_local_vars (\<lambda>s f. f\<lparr>fr_local_vars := s\<rparr>)"

section \<open>Typed values\<close>

text \<open>A value of the template type \<open>T\<close> in \<open>PopOperandStack<T>\<close> and \<open>PushOperandStack<T>\<close>.\<close>

datatype val = VInt "32 word" | VLong "64 word" | VFloat float32 | VDouble float64

text \<open>For any other type the value returned is an uninitialised variable.\<close>

definition PopOperandStack :: "ctype \<Rightarrow> (operand_stack, val) op" where
  "PopOperandStack t =
     (if t = Int32 then bind PopInt (\<lambda>v. ret (VInt v))
      else if t = Int64 then bind PopLong (\<lambda>v. ret (VLong v))
      else if t = Float then bind PopFloat (\<lambda>v. ret (VFloat v))
      else if t = Double then bind PopDouble (\<lambda>v. ret (VDouble v))
      else raise (Undefined ''PopOperandStack T not match int/long/float/double''))"

fun PushOperandStack :: "val \<Rightarrow> (operand_stack, unit) op" where
  "PushOperandStack (VInt v) = PushInt v"
| "PushOperandStack (VLong v) = PushLong v"
| "PushOperandStack (VFloat v) = PushFloat v"
| "PushOperandStack (VDouble v) = PushDouble v"

section \<open>Branches\<close>

text \<open>\<open>BranchInstruction::Branch\<close>.\<close>

definition Branch :: "32 word \<Rightarrow> 32 word \<Rightarrow> (frame, unit) op" where
  "Branch pc offset = modifies (SetNextPc (pc + offset))"

section \<open>Constants\<close>

text \<open>The bit patterns of 1.0 and 2.0.\<close>

fun exec_const :: "const_inst \<Rightarrow> (operand_stack, unit) op" where
  "exec_const ACONST_NULL = PushRef 0"
| "exec_const DCONST_0 = PushDouble 0"
| "exec_const DCONST_1 = PushDouble 0x3FF0000000000000"
| "exec_const FCONST_0 = PushFloat 0"
| "exec_const FCONST_1 = PushFloat 0x3F800000"
| "exec_const FCONST_2 = PushFloat 0x40000000"
| "exec_const ICONST_M1 = PushInt (-1)"
| "exec_const ICONST_0 = PushInt 0"
| "exec_const ICONST_1 = PushInt 1"
| "exec_const ICONST_2 = PushInt 2"
| "exec_const ICONST_3 = PushInt 3"
| "exec_const ICONST_4 = PushInt 4"
| "exec_const ICONST_5 = PushInt 5"
| "exec_const LCONST_0 = PushLong 0"
| "exec_const LCONST_1 = PushLong 1"
| "exec_const (BIPUSH v) = PushInt (scast v)"
| "exec_const (SIPUSH v) = PushInt (scast v)"

section \<open>Loads\<close>

text \<open>A type that none of the cases names makes \<open>Load\<close> do nothing.\<close>

definition Load :: "ctype \<Rightarrow> 16 word \<Rightarrow> (frame, unit) op" where
  "Load t index =
     (if t = Int32 then bind (on_locals (LocalVars_GetInt index)) (\<lambda>v. on_operands (PushInt v))
      else if t = Int64 then bind (on_locals (LocalVars_GetLong index)) (\<lambda>v. on_operands (PushLong v))
      else if t = Float then bind (on_locals (LocalVars_GetFloat index)) (\<lambda>v. on_operands (PushFloat v))
      else if t = Double then bind (on_locals (LocalVars_GetDouble index)) (\<lambda>v. on_operands (PushDouble v))
      else if t = ObjectPtr then bind (on_locals (LocalVars_GetRef index)) (\<lambda>v. on_operands (PushRef v))
      else ret ())"

text \<open>The element is not read: the code that would is commented out, and nothing is pushed.\<close>

definition ArrayLoad :: "ctype \<Rightarrow> (frame, unit) op" where
  "ArrayLoad t =
     bind (on_operands PopInt) (\<lambda>index.
     bind (on_operands PopRef) (\<lambda>arr_ref.
     if arr_ref = 0 then raise (Runtime_Error ''java.lang.NullPointerException'')
     else if sint index < 0 then raise (Runtime_Error ''ArrayIndexOutOfBoundsException'')
     else ret ()))"

fun exec_load :: "load_inst \<Rightarrow> (frame, unit) op" where
  "exec_load (LOAD t index) = Load t (ucast index)"
| "exec_load (LOAD_0 t) = Load t 0"
| "exec_load (LOAD_1 t) = Load t 1"
| "exec_load (LOAD_2 t) = Load t 2"
| "exec_load (LOAD_3 t) = Load t 3"
| "exec_load (ALOAD t) = ArrayLoad t"

section \<open>Stores\<close>

definition Store :: "ctype \<Rightarrow> 16 word \<Rightarrow> (frame, unit) op" where
  "Store t index =
     (if t = Int32 then bind (on_operands PopInt) (\<lambda>v. on_locals (LocalVars_SetInt index v))
      else if t = Int64 then bind (on_operands PopLong) (\<lambda>v. on_locals (LocalVars_SetLong index v))
      else if t = Float then bind (on_operands PopFloat) (\<lambda>v. on_locals (LocalVars_SetFloat index v))
      else if t = Double then bind (on_operands PopDouble) (\<lambda>v. on_locals (LocalVars_SetDouble index v))
      else if t = ObjectPtr then bind (on_operands PopRef) (\<lambda>v. on_locals (LocalVars_SetRef index v))
      else ret ())"

text \<open>The element is not written; a null array is only logged.\<close>

definition SetElement :: "(operand_stack, unit) op" where
  "SetElement =
     bind PopInt (\<lambda>index.
     bind PopRef (\<lambda>arr_ref.
     if arr_ref = 0 then ret ()
     else if sint index < 0 then raise (Fatal ''ArrayIndexOutOfBoundsException'')
     else ret ()))"

definition ArrayStore :: "ctype \<Rightarrow> (operand_stack, unit) op" where
  "ArrayStore t =
     (if t \<in> {Int8, Char16, Int16, Int32} then bind PopInt (\<lambda>_. SetElement)
      else if t = Int64 then bind PopLong (\<lambda>_. SetElement)
      else if t = Float then bind PopFloat (\<lambda>_. SetElement)
      else if t = Double then bind PopDouble (\<lambda>_. SetElement)
      else if t = ObjectPtr then bind PopRef (\<lambda>_. SetElement)
      else ret ())"

fun exec_store :: "store_inst \<Rightarrow> (frame, unit) op" where
  "exec_store (STORE t index) = Store t (ucast index)"
| "exec_store (STORE_0 t) = Store t 0"
| "exec_store (STORE_1 t) = Store t 1"
| "exec_store (STORE_2 t) = Store t 2"
| "exec_store (STORE_3 t) = Store t 3"
| "exec_store (ASTORE t) = on_operands (ArrayStore t)"

section \<open>Stack manipulation\<close>

fun exec_stack :: "stack_inst \<Rightarrow> (operand_stack, unit) op" where
  "exec_stack POP = bind PopSlot (\<lambda>_. ret ())"
| "exec_stack POP2 = bind PopSlot (\<lambda>_. bind PopSlot (\<lambda>_. ret ()))"
| "exec_stack DUP = bind PopSlot (\<lambda>s. andthen (PushSlot s) (PushSlot s))"
| "exec_stack DUP_X1 =
     bind PopSlot (\<lambda>s. bind PopSlot (\<lambda>x1.
     andthen (PushSlot s) (andthen (PushSlot x1) (PushSlot s))))"
| "exec_stack DUP_X2 =
     bind PopSlot (\<lambda>s. bind PopSlot (\<lambda>x1. bind PopSlot (\<lambda>x2.
     andthen (PushSlot s) (andthen (PushSlot x2) (andthen (PushSlot x1) (PushSlot s))))))"
| "exec_stack DUP2 =
     bind PopSlot (\<lambda>s1. bind PopSlot (\<lambda>s2.
     andthen (PushSlot s2) (andthen (PushSlot s1) (andthen (PushSlot s2) (PushSlot s1)))))"
| "exec_stack DUP2_X1 =
     bind PopSlot (\<lambda>s1. bind PopSlot (\<lambda>s2. bind PopSlot (\<lambda>x1.
     andthen (PushSlot s2) (andthen (PushSlot s1) (andthen (PushSlot x1)
     (andthen (PushSlot s2) (PushSlot s1)))))))"
| "exec_stack DUP2_X2 =
     bind PopSlot (\<lambda>s1. bind PopSlot (\<lambda>s2. bind PopSlot (\<lambda>x1. bind PopSlot (\<lambda>x2.
     andthen (PushSlot s2) (andthen (PushSlot s1) (andthen (PushSlot x2) (andthen (PushSlot x1)
     (andthen (PushSlot s2) (PushSlot s1)))))))))"
| "exec_stack SWAP =
     bind PopSlot (\<lambda>s1. bind PopSlot (\<lambda>s2. andthen (PushSlot s1) (PushSlot s2)))"

section \<open>Arithmetic\<close>

text \<open>
  Two operands of one type are popped, the right one first, and the result is pushed. The
  operation is given on values; operands of two types cannot occur (\<open>mixed\<close>).
\<close>

definition binary_op :: "ctype \<Rightarrow> (val \<Rightarrow> val \<Rightarrow> val res) \<Rightarrow> (operand_stack, unit) op" where
  "binary_op t f =
     bind (PopOperandStack t) (\<lambda>value1. bind (PopOperandStack t) (\<lambda>value2.
     bind (lift_res (f value2 value1)) PushOperandStack))"

definition mixed :: "'a res" where
  "mixed = Inl (Undefined ''operands of two types'')"

text \<open>
  Additions, subtractions, multiplications and negations of signed numbers have no meaning when the
  result is not a number of the type.
\<close>

definition signed_result :: "int \<Rightarrow> 'w::len word res" where
  "signed_result r =
     (if - (2 ^ (LENGTH('w) - 1)) \<le> r \<and> r < 2 ^ (LENGTH('w) - 1) then Inr (of_int r)
      else Inl (Undefined ''signed overflow''))"

fun val_add :: "val \<Rightarrow> val \<Rightarrow> val res" where
  "val_add (VInt a) (VInt b) = map_sum id VInt (signed_result (sint a + sint b))"
| "val_add (VLong a) (VLong b) = map_sum id VLong (signed_result (sint a + sint b))"
| "val_add (VFloat a) (VFloat b) = Inr (VFloat (format_op single fl_add a b))"
| "val_add (VDouble a) (VDouble b) = Inr (VDouble (format_op double fl_add a b))"
| "val_add _ _ = mixed"

fun val_sub :: "val \<Rightarrow> val \<Rightarrow> val res" where
  "val_sub (VInt a) (VInt b) = map_sum id VInt (signed_result (sint a - sint b))"
| "val_sub (VLong a) (VLong b) = map_sum id VLong (signed_result (sint a - sint b))"
| "val_sub (VFloat a) (VFloat b) = Inr (VFloat (format_op single (\<lambda>x y. fl_add x (fl_minus y)) a b))"
| "val_sub (VDouble a) (VDouble b) = Inr (VDouble (format_op double (\<lambda>x y. fl_add x (fl_minus y)) a b))"
| "val_sub _ _ = mixed"

fun val_mul :: "val \<Rightarrow> val \<Rightarrow> val res" where
  "val_mul (VInt a) (VInt b) = map_sum id VInt (signed_result (sint a * sint b))"
| "val_mul (VLong a) (VLong b) = map_sum id VLong (signed_result (sint a * sint b))"
| "val_mul (VFloat a) (VFloat b) = Inr (VFloat (format_op single fl_mul a b))"
| "val_mul (VDouble a) (VDouble b) = Inr (VDouble (format_op double fl_mul a b))"
| "val_mul _ _ = mixed"

text \<open>
  Integer division truncates. The quotient of the least number and -1 is not representable, which
  leaves the expression without a meaning; so does the remainder.
\<close>

definition trunc_div :: "int \<Rightarrow> int \<Rightarrow> int" where
  "trunc_div a b = sgn a * sgn b * (\<bar>a\<bar> div \<bar>b\<bar>)"

definition trunc_mod :: "int \<Rightarrow> int \<Rightarrow> int" where
  "trunc_mod a b = a - trunc_div a b * b"

definition word_div :: "'w::len word \<Rightarrow> 'w word \<Rightarrow> 'w word res" where
  "word_div a b =
     (if b = 0 then Inl (Fatal ''ArithmeticException'')
      else if sint a = - (2 ^ (LENGTH('w) - 1)) \<and> sint b = -1 then Inl (Undefined ''signed overflow'')
      else Inr (of_int (trunc_div (sint a) (sint b))))"

definition word_rem :: "'w::len word \<Rightarrow> 'w word \<Rightarrow> 'w word res" where
  "word_rem a b =
     (if b = 0 then Inl (Fatal ''ArithmeticException'')
      else if sint a = - (2 ^ (LENGTH('w) - 1)) \<and> sint b = -1 then Inl (Undefined ''signed overflow'')
      else Inr (of_int (trunc_mod (sint a) (sint b))))"

text \<open>\<open>value1 == 0\<close> holds for both floating-point zeros.\<close>

definition is_zero :: "format \<Rightarrow> 'w::len word \<Rightarrow> bool" where
  "is_zero f a = fl_equal (fl_of f a) (Fin False 0 0)"

definition float_div :: "format \<Rightarrow> 'w::len word \<Rightarrow> 'w word \<Rightarrow> 'w word res" where
  "float_div f a b =
     (if is_zero f b then Inl (Fatal ''ArithmeticException'') else Inr (format_div f a b))"

definition float_rem :: "format \<Rightarrow> 'w::len word \<Rightarrow> 'w word \<Rightarrow> 'w word res" where
  "float_rem f a b =
     (if is_zero f b then Inl (Fatal ''ArithmeticException'') else Inr (format_op f fl_fmod a b))"

fun val_div :: "val \<Rightarrow> val \<Rightarrow> val res" where
  "val_div (VInt a) (VInt b) = map_sum id VInt (word_div a b)"
| "val_div (VLong a) (VLong b) = map_sum id VLong (word_div a b)"
| "val_div (VFloat a) (VFloat b) = map_sum id VFloat (float_div single a b)"
| "val_div (VDouble a) (VDouble b) = map_sum id VDouble (float_div double a b)"
| "val_div _ _ = mixed"

fun val_irem :: "val \<Rightarrow> val \<Rightarrow> val res" where
  "val_irem (VInt a) (VInt b) = map_sum id VInt (word_rem a b)"
| "val_irem (VLong a) (VLong b) = map_sum id VLong (word_rem a b)"
| "val_irem _ _ = mixed"

fun val_frem :: "val \<Rightarrow> val \<Rightarrow> val res" where
  "val_frem (VFloat a) (VFloat b) = map_sum id VFloat (float_rem single a b)"
| "val_frem (VDouble a) (VDouble b) = map_sum id VDouble (float_rem double a b)"
| "val_frem _ _ = mixed"

fun val_neg :: "val \<Rightarrow> val res" where
  "val_neg (VInt a) = map_sum id VInt (signed_result (- sint a))"
| "val_neg (VLong a) = map_sum id VLong (signed_result (- sint a))"
| "val_neg (VFloat a) = Inr (VFloat (format_neg single a))"
| "val_neg (VDouble a) = Inr (VDouble (format_neg double a))"

text \<open>
  Shifts: the count is the \<open>int\<close> on top, read as unsigned and not reduced. A count of the width of
  the type or more has no meaning in C++.
\<close>

definition shift_op :: "(nat \<Rightarrow> 'w::len word \<Rightarrow> 'w word) \<Rightarrow> 'w word \<Rightarrow> 32 word \<Rightarrow> 'w word res" where
  "shift_op f v shift =
     (if unat shift < LENGTH('w) then Inr (f (unat shift) v) else Inl (Undefined ''shift count''))"

fun val_shl :: "val \<Rightarrow> 32 word \<Rightarrow> val res" where
  "val_shl (VInt v) k = map_sum id VInt (shift_op push_bit v k)"
| "val_shl (VLong v) k = map_sum id VLong (shift_op push_bit v k)"
| "val_shl _ k = mixed"

fun val_shr :: "val \<Rightarrow> 32 word \<Rightarrow> val res" where
  "val_shr (VInt v) k = map_sum id VInt (shift_op signed_drop_bit v k)"
| "val_shr (VLong v) k = map_sum id VLong (shift_op signed_drop_bit v k)"
| "val_shr _ k = mixed"

fun val_ushr :: "val \<Rightarrow> 32 word \<Rightarrow> val res" where
  "val_ushr (VInt v) k = map_sum id VInt (shift_op drop_bit v k)"
| "val_ushr (VLong v) k = map_sum id VLong (shift_op drop_bit v k)"
| "val_ushr _ k = Inl (Fatal ''kUnknown type to ushr'')"

definition shift_inst :: "ctype \<Rightarrow> (val \<Rightarrow> 32 word \<Rightarrow> val res) \<Rightarrow> (operand_stack, unit) op" where
  "shift_inst t f =
     bind PopInt (\<lambda>value1. bind (PopOperandStack t) (\<lambda>value2.
     bind (lift_res (f value2 value1)) PushOperandStack))"

fun val_and :: "val \<Rightarrow> val \<Rightarrow> val res" where
  "val_and (VInt a) (VInt b) = Inr (VInt (a AND b))"
| "val_and (VLong a) (VLong b) = Inr (VLong (a AND b))"
| "val_and _ _ = mixed"

fun val_or :: "val \<Rightarrow> val \<Rightarrow> val res" where
  "val_or (VInt a) (VInt b) = Inr (VInt (a OR b))"
| "val_or (VLong a) (VLong b) = Inr (VLong (a OR b))"
| "val_or _ _ = mixed"

fun val_xor :: "val \<Rightarrow> val \<Rightarrow> val res" where
  "val_xor (VInt a) (VInt b) = Inr (VInt (a XOR b))"
| "val_xor (VLong a) (VLong b) = Inr (VLong (a XOR b))"
| "val_xor _ _ = mixed"

definition exec_iinc :: "u4 \<Rightarrow> 32 word \<Rightarrow> (slots, unit) op" where
  "exec_iinc index const =
     bind (LocalVars_GetInt (ucast index)) (\<lambda>v.
     bind (lift_res (signed_result (sint v + sint const))) (LocalVars_SetInt (ucast index)))"

fun exec_arithmetic :: "arithmetic_inst \<Rightarrow> (frame, unit) op" where
  "exec_arithmetic (ADD t) = on_operands (binary_op t val_add)"
| "exec_arithmetic (SUB t) = on_operands (binary_op t val_sub)"
| "exec_arithmetic (MUL t) = on_operands (binary_op t val_mul)"
| "exec_arithmetic (DIV t) = on_operands (binary_op t val_div)"
| "exec_arithmetic (IREM t) = on_operands (binary_op t val_irem)"
| "exec_arithmetic (FREM t) = on_operands (binary_op t val_frem)"
| "exec_arithmetic (NEG t) = on_operands (bind (PopOperandStack t) (\<lambda>v. bind (lift_res (val_neg v)) PushOperandStack))"
| "exec_arithmetic (SHL t) = on_operands (shift_inst t val_shl)"
| "exec_arithmetic (SHR t) = on_operands (shift_inst t val_shr)"
| "exec_arithmetic (USHR t) = on_operands (shift_inst t val_ushr)"
| "exec_arithmetic (AND_T t) = on_operands (binary_op t val_and)"
| "exec_arithmetic (OR_T t) = on_operands (binary_op t val_or)"
| "exec_arithmetic (XOR_T t) = on_operands (binary_op t val_xor)"
| "exec_arithmetic (IINC index c) = on_locals (exec_iinc index c)"

section \<open>Conversions\<close>

text \<open>
  \<open>static_cast\<close>. From floating point to an integer the value is truncated; a value that does not
  fit, an infinity or a NaN has no meaning.
\<close>

definition float_to_int :: "format \<Rightarrow> 'v::len word \<Rightarrow> 'w::len word res" where
  "float_to_int f a = (case fl_trunc (fl_of f a) of
     None \<Rightarrow> Inl (Undefined ''conversion of a value out of range'')
   | Some i \<Rightarrow>
       if - (2 ^ (LENGTH('w) - 1)) \<le> i \<and> i < 2 ^ (LENGTH('w) - 1) then Inr (of_int i)
       else Inl (Undefined ''conversion of a value out of range''))"

fun convert :: "val \<Rightarrow> ctype \<Rightarrow> val res" where
  "convert (VInt a) Int64 = Inr (VLong (scast a))"
| "convert (VInt a) Float = Inr (VFloat (of_int_bits single (sint a)))"
| "convert (VInt a) Double = Inr (VDouble (of_int_bits double (sint a)))"
| "convert (VLong a) Int32 = Inr (VInt (ucast a))"
| "convert (VLong a) Float = Inr (VFloat (of_int_bits single (sint a)))"
| "convert (VLong a) Double = Inr (VDouble (of_int_bits double (sint a)))"
| "convert (VFloat a) Int32 = map_sum id VInt (float_to_int single a)"
| "convert (VFloat a) Int64 = map_sum id VLong (float_to_int single a)"
| "convert (VFloat a) Double = Inr (VDouble (bits_of double (fl_of single a)))"
| "convert (VDouble a) Int32 = map_sum id VInt (float_to_int double a)"
| "convert (VDouble a) Int64 = map_sum id VLong (float_to_int double a)"
| "convert (VDouble a) Float = Inr (VFloat (bits_of single (fl_of double a)))"
| "convert v _ = mixed"

definition narrow :: "ctype \<Rightarrow> 32 word \<Rightarrow> 32 word res" where
  "narrow r v =
     (if r = Int8 then Inr (scast (ucast v :: 8 word))
      else if r = Char16 then Inr (ucast (ucast v :: 16 word))
      else if r = Int16 then Inr (scast (ucast v :: 16 word))
      else mixed)"

fun exec_conversion :: "conversion_inst \<Rightarrow> (operand_stack, unit) op" where
  "exec_conversion (T2R t r) =
     bind (PopOperandStack t) (\<lambda>v. bind (lift_res (convert v r)) PushOperandStack)"
| "exec_conversion (I2R r) = bind PopInt (\<lambda>v. bind (lift_res (narrow r v)) PushInt)"

section \<open>Comparisons and conditional branches\<close>

fun val_less :: "val \<Rightarrow> val \<Rightarrow> bool" where
  "val_less (VInt a) (VInt b) = (a <s b)"
| "val_less (VLong a) (VLong b) = (a <s b)"
| "val_less (VFloat a) (VFloat b) = fl_less (fl_of single a) (fl_of single b)"
| "val_less (VDouble a) (VDouble b) = fl_less (fl_of double a) (fl_of double b)"
| "val_less _ _ = False"

fun val_eq :: "val \<Rightarrow> val \<Rightarrow> bool" where
  "val_eq (VInt a) (VInt b) = (a = b)"
| "val_eq (VLong a) (VLong b) = (a = b)"
| "val_eq (VFloat a) (VFloat b) = fl_equal (fl_of single a) (fl_of single b)"
| "val_eq (VDouble a) (VDouble b) = fl_equal (fl_of double a) (fl_of double b)"
| "val_eq _ _ = False"

fun val_isnan :: "val \<Rightarrow> bool" where
  "val_isnan (VFloat a) = isnan single a"
| "val_isnan (VDouble a) = isnan double a"
| "val_isnan _ = False"

text \<open>
  \<open>_cmp\<close>. After the push for a NaN there is no \<open>return\<close>: the three-way comparison, which a NaN
  takes to its last branch, pushes a second number.
\<close>

definition cmp3 :: "val \<Rightarrow> val \<Rightarrow> 32 word" where
  "cmp3 v2 v1 = (if val_less v1 v2 then 1 else if val_eq v2 v1 then 0 else -1)"

definition exec_cmp :: "ctype \<Rightarrow> bool \<Rightarrow> (operand_stack, unit) op" where
  "exec_cmp t gFlag =
     bind (PopOperandStack t) (\<lambda>v1. bind (PopOperandStack t) (\<lambda>v2.
     andthen
       (if val_isnan v1 \<or> val_isnan v2 then PushInt (if gFlag then 1 else -1) else ret ())
       (PushInt (cmp3 v2 v1))))"

definition if_int :: "(32 word \<Rightarrow> bool) \<Rightarrow> 32 word \<Rightarrow> 32 word \<Rightarrow> (frame, unit) op" where
  "if_int test pc offset =
     bind (on_operands PopInt) (\<lambda>v. if test v then Branch pc offset else ret ())"

definition if_icmp :: "(32 word \<Rightarrow> 32 word \<Rightarrow> bool) \<Rightarrow> 32 word \<Rightarrow> 32 word \<Rightarrow> (frame, unit) op" where
  "if_icmp test pc offset =
     bind (on_operands PopInt) (\<lambda>val1. bind (on_operands PopInt) (\<lambda>val2.
     if test val2 val1 then Branch pc offset else ret ()))"

definition if_acmp :: "(ref64 \<Rightarrow> ref64 \<Rightarrow> bool) \<Rightarrow> 32 word \<Rightarrow> 32 word \<Rightarrow> (frame, unit) op" where
  "if_acmp test pc offset =
     bind (on_operands PopRef) (\<lambda>ref1. bind (on_operands PopRef) (\<lambda>ref2.
     if test ref2 ref1 then Branch pc offset else ret ()))"

text \<open>\<open>LCMP\<close> calls \<open>_cmp<int32_t>\<close>.\<close>

fun exec_compare :: "32 word \<Rightarrow> compare_inst \<Rightarrow> (frame, unit) op" where
  "exec_compare pc LCMP = on_operands (exec_cmp Int32 False)"
| "exec_compare pc (FCMPG t) = on_operands (exec_cmp t True)"
| "exec_compare pc (FCMPL t) = on_operands (exec_cmp t False)"
| "exec_compare pc (IFEQ off) = if_int (\<lambda>v. v = 0) pc off"
| "exec_compare pc (IFNE off) = if_int (\<lambda>v. v \<noteq> 0) pc off"
| "exec_compare pc (IFLT off) = if_int (\<lambda>v. v <s 0) pc off"
| "exec_compare pc (IFLE off) = if_int (\<lambda>v. v \<le>s 0) pc off"
| "exec_compare pc (IFGT off) = if_int (\<lambda>v. 0 <s v) pc off"
| "exec_compare pc (IFGE off) = if_int (\<lambda>v. 0 \<le>s v) pc off"
| "exec_compare pc (IF_ICMPEQ off) = if_icmp (=) pc off"
| "exec_compare pc (IF_ICMPNE off) = if_icmp (\<noteq>) pc off"
| "exec_compare pc (IF_ICMPLT off) = if_icmp (<s) pc off"
| "exec_compare pc (IF_ICMPLE off) = if_icmp (\<le>s) pc off"
| "exec_compare pc (IF_ICMPGT off) = if_icmp (\<lambda>a b. b <s a) pc off"
| "exec_compare pc (IF_ICMPGE off) = if_icmp (\<lambda>a b. b \<le>s a) pc off"
| "exec_compare pc (IF_ACMPEQ off) = if_acmp (=) pc off"
| "exec_compare pc (IF_ACMPNE off) = if_acmp (\<noteq>) pc off"

section \<open>Control\<close>

text \<open>
  The two switches store the offset they find in a local variable and call \<open>Branch\<close>, which adds the
  member \<open>offset_\<close>; the constructor set it to 0 and nothing changes it.
\<close>

definition exec_tableswitch ::
    "32 word \<Rightarrow> 32 word \<Rightarrow> 32 word \<Rightarrow> 32 word \<Rightarrow> 32 word list \<Rightarrow> (frame, unit) op" where
  "exec_tableswitch pc default_offset low high offset_table =
     bind (on_operands PopInt) (\<lambda>index.
     bind (lift_res (if low \<le>s index \<and> index \<le>s high
                     then vec_get offset_table (unat (index - low)) else Inr default_offset)) (\<lambda>offset.
     Branch pc 0))"

fun lookup_offset :: "nat \<Rightarrow> nat \<Rightarrow> 32 word list \<Rightarrow> 32 word \<Rightarrow> 32 word \<Rightarrow> 32 word res" where
  "lookup_offset 0 i table default_offset key = Inr default_offset"
| "lookup_offset (Suc n) i table default_offset key =
     (case vec_get table i of
        Inl e \<Rightarrow> Inl e
      | Inr k \<Rightarrow> if k = key then vec_get table (i + 1) else lookup_offset n (i + 2) table default_offset key)"

text \<open>\<open>for (int i = 0; i < npairs_ * 2; i += 2)\<close>.\<close>

definition exec_lookupswitch :: "32 word \<Rightarrow> 32 word \<Rightarrow> 32 word \<Rightarrow> 32 word list \<Rightarrow> (frame, unit) op" where
  "exec_lookupswitch pc default_offset npairs offset_table =
     bind (on_operands PopInt) (\<lambda>key.
     bind (lift_res (lookup_offset (nat (sint (npairs * 2) div 2)) 0 offset_table default_offset key)) (\<lambda>offset.
     Branch pc 0))"

fun exec_control :: "32 word \<Rightarrow> control_inst \<Rightarrow> (frame, unit) op" where
  "exec_control pc (GOTO off) = Branch pc off"
| "exec_control pc (TABLE_SWITCH d low high table) = exec_tableswitch pc d low high table"
| "exec_control pc (LOOKUP_SWITCH d npairs table) = exec_lookupswitch pc d npairs table"

section \<open>Extensions\<close>

fun exec_modified :: "modified_inst \<Rightarrow> (frame, unit) op" where
  "exec_modified (WideLoad i) = exec_load i"
| "exec_modified (WideStore i) = exec_store i"
| "exec_modified (WideArith i) = exec_arithmetic i"

definition if_null :: "(ref64 \<Rightarrow> bool) \<Rightarrow> 32 word \<Rightarrow> 32 word \<Rightarrow> (frame, unit) op" where
  "if_null test pc offset =
     bind (on_operands PopRef) (\<lambda>ref. if test ref then Branch pc offset else ret ())"

fun exec_extend :: "32 word \<Rightarrow> extend_inst \<Rightarrow> (frame, unit) op" where
  "exec_extend pc (WIDE None) = raise Null_Dereference"
| "exec_extend pc (WIDE (Some i)) = exec_modified i"
| "exec_extend pc (IFNULL off) = if_null (\<lambda>r. r = 0) pc off"
| "exec_extend pc (IFNONNULL off) = if_null (\<lambda>r. r \<noteq> 0) pc off"
| "exec_extend pc (GOTO_W off) = Branch pc off"

section \<open>The instructions of one frame\<close>

text \<open>
  The virtual call \<open>inst->Execute(frame)\<close> for the instructions above; \<open>None\<close> for those that also
  reach the heap, the classes or other frames.
\<close>

fun exec_frame_inst :: "32 word \<Rightarrow> instruction \<Rightarrow> (frame, unit) op option" where
  "exec_frame_inst pc NOP = Some (ret ())"
| "exec_frame_inst pc (ConstI i) = Some (on_operands (exec_const i))"
| "exec_frame_inst pc (LoadI i) = Some (exec_load i)"
| "exec_frame_inst pc (StoreI i) = Some (exec_store i)"
| "exec_frame_inst pc (StackI i) = Some (on_operands (exec_stack i))"
| "exec_frame_inst pc (ArithI i) = Some (exec_arithmetic i)"
| "exec_frame_inst pc (ConvI i) = Some (on_operands (exec_conversion i))"
| "exec_frame_inst pc (CmpI i) = Some (exec_compare pc i)"
| "exec_frame_inst pc (CtrlI i) = Some (exec_control pc i)"
| "exec_frame_inst pc (ExtI i) = Some (exec_extend pc i)"
| "exec_frame_inst pc _ = None"

end
