(* ===== verification/Vm_Frames.thy ===== *)
theory Vm_Frames
  imports Class_Resolve Frame_Insts
begin

text \<open>
  Calls and returns: \<open>src/src/instructions/return_insts.h\<close> and the part of \<open>invoke_insts.cpp\<close> that every
  invocation shares. A new frame is created first; the arguments then move, the last one first, from
  the operand stack of the caller to the local variables of the new frame. A return pops the frame
  and moves the result to the frame below.
\<close>

section \<open>Access to frames\<close>

definition in_frame :: "addr option \<Rightarrow> (frame, 'a) op \<Rightarrow> (vm, 'a) op" where
  "in_frame p m = on_thread (on_frame p m)"

definition operands :: "addr option \<Rightarrow> (operand_stack, 'a) op \<Rightarrow> (vm, 'a) op" where
  "operands p m = in_frame p (on_operands m)"

definition locals :: "addr option \<Rightarrow> (slots, 'a) op \<Rightarrow> (vm, 'a) op" where
  "locals p m = in_frame p (on_locals m)"

definition frame_method :: "addr option \<Rightarrow> (vm, meth) op" where
  "frame_method p = in_frame p (reads fr_method)"

definition current_frame :: "vm \<Rightarrow> addr option" where
  "current_frame s = CurrentFrame (v_thread s)"

definition revert_next_pc :: "addr option \<Rightarrow> (vm, unit) op" where
  "revert_next_pc p = bind (reads v_thread) (\<lambda>t. in_frame p (modifies (RevertNextPc t)))"

section \<open>Returns\<close>

text \<open>
  \<open>Return<T>\<close>; \<open>None\<close> stands for \<open>void\<close>. The popped frame stays in memory until it is overwritten. When the
  stack is empty afterwards, a value is pushed through a null pointer.
\<close>

definition Return :: "ctype option \<Rightarrow> (vm, unit) op" where
  "Return T =
     bind (on_thread PopFrame) (\<lambda>popped.
     if T = None then ret ()
     else
       bind (reads current_frame) (\<lambda>invoker.
       if T = Some Int32 then
         bind (operands (Some popped) PopInt) (\<lambda>v. operands invoker (PushInt v))
       else if T = Some Int64 then
         bind (operands (Some popped) PopLong) (\<lambda>v. operands invoker (PushLong v))
       else if T = Some Float then
         bind (operands (Some popped) PopFloat) (\<lambda>v. operands invoker (PushFloat v))
       else if T = Some Double then
         bind (operands (Some popped) PopDouble) (\<lambda>v. operands invoker (PushDouble v))
       else if T = Some ObjectPtr then
         bind (operands (Some popped) PopRef) (\<lambda>v. operands invoker (PushRef v))
       else ret ()))"

fun exec_return :: "return_inst \<Rightarrow> (vm, unit) op" where
  "exec_return RETURN = Return None"
| "exec_return IRETURN = Return (Some Int32)"
| "exec_return LRETURN = Return (Some Int64)"
| "exec_return FRETURN = Return (Some Float)"
| "exec_return DRETURN = Return (Some Double)"
| "exec_return ARETURN = Return (Some ObjectPtr)"

section \<open>Invocation\<close>

text \<open>The loop counts a signed 32-bit number down to zero.\<close>

primrec pass_args :: "addr option \<Rightarrow> addr option \<Rightarrow> nat \<Rightarrow> (vm, unit) op" where
  "pass_args caller callee 0 = ret ()"
| "pass_args caller callee (Suc i) =
     bind (operands caller PopSlot) (\<lambda>sl.
     andthen (locals callee (LocalVars_SetSlot (of_nat i) sl))
     (pass_args caller callee i))"

definition InvokeMethod :: "addr option \<Rightarrow> meth \<Rightarrow> (vm, unit) op" where
  "InvokeMethod frame method =
     bind (on_thread (CreateFrame method)) (\<lambda>new_frame.
     pass_args frame (Some new_frame) (nat (sint (m_arg_slot_count method - 1) + 1)))"

section \<open>Printing\<close>

text \<open>
  \<open>HackPrintln\<close> writes to the log, which is not modelled, nor is the conversion of a character for it
  (the library rejects surrogates). \<open>descriptor[1]\<close> of a string with one character is
  its terminating zero.
\<close>

definition char1 :: "string \<Rightarrow> char res" where
  "char1 s = (case s of
     [] \<Rightarrow> Inl (Undefined ''string index'')
   | [c] \<Rightarrow> Inr (CHR 0x00)
   | c # d # _ \<Rightarrow> Inr d)"

definition discard :: "('s, 'a) op \<Rightarrow> ('s, unit) op" where
  "discard m = bind m (\<lambda>_. ret ())"

definition HackPrintln :: "('a) class_member_scheme \<Rightarrow> addr option \<Rightarrow> (vm, unit) op" where
  "HackPrintln method frame =
     (let descriptor = cm_descriptor method;
          pop_this = (if \<not> IsStatic method then discard (operands frame PopRef) else ret ()) in
      if descriptor = ''(Ljava/lang/String;)V'' then
        andthen (discard (operands frame PopRef)) pop_this
      else
        bind (lift_res (char1 descriptor)) (\<lambda>d.
        andthen
         (if d \<in> {CHR ''Z'', CHR ''B'', CHR ''C'', CHR ''S'', CHR ''I''} then discard (operands frame PopInt)
          else if d = CHR ''F'' then discard (operands frame PopFloat)
          else if d = CHR ''J'' then discard (operands frame PopLong)
          else if d = CHR ''D'' then discard (operands frame PopDouble)
          else if d = CHR ''L'' \<or> d = CHR ''['' then discard (operands frame PopRef)
          else raise (Fatal ''hack println''))
         pop_this))"

end
