(* ===== verification/Frame_Insts_Spec.thy ===== *)
theory Frame_Insts_Spec
  imports Frame_Insts
begin

text \<open>
  What the instructions on one frame compute, over the abstract operand stack of
  \<open>Operand_Stack\<close>: the stack instructions permute the slots as the list function
  \<open>stack_effect\<close> says; the typed instructions take their operands off the stack and leave the
  result of the value operation; conditional branches move the program counter exactly when their
  condition holds; every instruction keeps the frame well formed.
\<close>

section \<open>Single slots\<close>

lemma PushSlot_room:
  "length xs + 1 \<le> c \<Longrightarrow> valid (stk xs c) (PushSlot v) (\<lambda>_. stk (xs @ [v]) c)"
proof -
  assume room: "length xs + 1 \<le> c"
  have "PushSlot v s = PushInt v s" if "stk xs c s" for s
    using that room by (auto simp: PushSlot_def PushInt_def Slots_SetSlot_def Slots_SetInt_def stk_full1
      stk_top stk_cap andthen_def bind_def on_slots_def zoom_def split: sum.splits)
  with int_stack.push_room [OF room, of v] show ?thesis
    by (simp add: valid_def enc1_def)
qed

text \<open>\<open>PopSlot\<close> does not work on a full stack.\<close>

lemma PopSlot_not_full:
  "length xs + 1 < c \<Longrightarrow> valid (stk (xs @ [v]) c) PopSlot (\<lambda>r t. r = v \<and> stk xs c t)"
proof -
  assume room: "length xs + 1 < c"
  have "PopSlot s = PopInt s" if s: "stk (xs @ [v]) c s" for s
  proof -
    have "unat (os_top s - 1) = length xs"
      using top_sub_1 [OF s] by simp
    with s room show ?thesis
      by (auto simp: PopSlot_def PopInt_def Slots_GetSlot_def Slots_GetInt_def stk_empty1 stk_cap
        on_slots_def zoom_def Let_def split: sum.splits)
  qed
  with int_stack.pop_top [of xs v c] show ?thesis
    by (simp add: valid_def enc1_def)
qed

lemma PopSlot_full:
  "length xs + 1 = c \<Longrightarrow> stops (stk (xs @ [v]) c) PopSlot (\<lambda>e. \<exists>m. e = Fatal m)"
proof (rule stopsI)
  fix s assume c: "length xs + 1 = c" and s: "stk (xs @ [v]) c s"
  have "unat (os_top s - 1) = length xs"
    using top_sub_1 [OF s] by simp
  with s c show "\<exists>e. PopSlot s = Inl e \<and> (\<exists>m. e = Fatal m)"
    by (auto simp: PopSlot_def Slots_GetSlot_def stk_empty1 stk_cap on_slots_def zoom_def)
qed

lemma PopSlot_empty: "stops (stk [] c) PopSlot (\<lambda>e. \<exists>m. e = Fatal m)"
  by (rule stopsI) (auto simp: PopSlot_def stk_empty1)

text \<open>The stack with its top first.\<close>

definition tstk :: "slot list \<Rightarrow> nat \<Rightarrow> operand_stack \<Rightarrow> bool" where
  "tstk ys c s \<longleftrightarrow> stk (rev ys) c s"

lemma tstk_rev: "tstk ys c = stk (rev ys) c"
  by (rule ext) (simp add: tstk_def)

lemma PopSlot_then:
  "length ys + 1 < c \<Longrightarrow> valid (tstk ys c) (f v) Q \<Longrightarrow> valid (tstk (v # ys) c) (bind PopSlot f) Q"
  unfolding tstk_rev rev.simps
  by (rule valid_bind [OF PopSlot_not_full]) (auto simp: valid_def)

lemma PushSlot_then:
  "length ys + 1 \<le> c \<Longrightarrow> valid (tstk (v # ys) c) k Q \<Longrightarrow> valid (tstk ys c) (andthen (PushSlot v) k) Q"
  unfolding tstk_rev rev.simps
  by (rule valid_andthen [OF PushSlot_room]) simp_all

lemma PushSlot_last: "length ys + 1 \<le> c \<Longrightarrow> valid (tstk ys c) (PushSlot v) (\<lambda>_. tstk (v # ys) c)"
  unfolding tstk_rev rev.simps by (rule PushSlot_room) simp

lemma PopSlot_none: "stops (tstk [] c) (bind PopSlot f) (\<lambda>e. \<exists>m. e = Fatal m)"
  unfolding tstk_rev by (rule stops_bind_first) (simp add: PopSlot_empty)

lemma PopSlot_step_stops:
  "length ys + 1 < c \<Longrightarrow> stops (tstk ys c) (f v) E \<Longrightarrow> stops (tstk (v # ys) c) (bind PopSlot f) E"
  unfolding tstk_rev rev.simps
  by (rule stops_bind_then [OF PopSlot_not_full]) (auto simp: stops_def)

section \<open>Stack manipulation\<close>

text \<open>The effect of the stack instructions on the list of slots, the top of the stack first.\<close>

fun stack_effect :: "stack_inst \<Rightarrow> slot list \<Rightarrow> slot list option" where
  "stack_effect POP (a # r) = Some r"
| "stack_effect POP2 (a # b # r) = Some r"
| "stack_effect DUP (a # r) = Some (a # a # r)"
| "stack_effect DUP_X1 (a # b # r) = Some (a # b # a # r)"
| "stack_effect DUP_X2 (a # b # c # r) = Some (a # b # c # a # r)"
| "stack_effect DUP2 (a # b # r) = Some (a # b # a # b # r)"
| "stack_effect DUP2_X1 (a # b # c # r) = Some (a # b # c # a # b # r)"
| "stack_effect DUP2_X2 (a # b # c # d # r) = Some (a # b # c # d # a # b # r)"
| "stack_effect SWAP (a # b # r) = Some (b # a # r)"
| "stack_effect _ _ = None"

lemma exec_stack_effect:
  assumes "stack_effect i ys = Some zs" and "length ys < c" and "length zs \<le> c"
  shows "valid (tstk ys c) (exec_stack i) (\<lambda>_. tstk zs c)"
  using assms
  by (cases "(i, ys)" rule: stack_effect.cases)
    (auto intro!: PopSlot_then PushSlot_then PushSlot_last valid_ret)

lemma exec_stack_underflow:
  assumes "stack_effect i ys = None" and "length ys < c"
  shows "stops (tstk ys c) (exec_stack i) (\<lambda>e. \<exists>m. e = Fatal m)"
  using assms
  by (cases "(i, ys)" rule: stack_effect.cases; cases i) (auto intro!: PopSlot_none PopSlot_step_stops)

text \<open>On a full stack every stack instruction stops, also those that would fit.\<close>

lemma exec_stack_full:
  assumes "length ys = c"
  shows "stops (tstk ys c) (exec_stack i) (\<lambda>e. \<exists>m. e = Fatal m)"
proof -
  have "stops (tstk ys c) (bind PopSlot f) (\<lambda>e. \<exists>m. e = Fatal m)" for f :: "slot \<Rightarrow> (operand_stack, unit) op"
    using assms PopSlot_full [of "rev (tl ys)" c "hd ys"] PopSlot_none [of c f]
    by (cases ys) (auto simp: tstk_rev intro: stops_bind_first)
  then show ?thesis
    by (cases i) simp_all
qed

section \<open>Typed values on the stack\<close>

fun vtype :: "val \<Rightarrow> ctype" where
  "vtype (VInt _) = Int32"
| "vtype (VLong _) = Int64"
| "vtype (VFloat _) = Float"
| "vtype (VDouble _) = Double"

fun enc_val :: "val \<Rightarrow> slot list" where
  "enc_val (VInt v) = enc1 v"
| "enc_val (VLong v) = enc2 v"
| "enc_val (VFloat v) = enc1 v"
| "enc_val (VDouble v) = enc2 v"

fun twidth :: "ctype \<Rightarrow> nat" where
  "twidth Int64 = 2"
| "twidth Double = 2"
| "twidth ObjectPtr = 2"
| "twidth _ = 1"

lemma length_enc_val: "length (enc_val v) = twidth (vtype v)"
  by (cases v) simp_all

lemma push_val:
  "length xs + twidth (vtype v) \<le> c \<Longrightarrow>
   valid (stk xs c) (PushOperandStack v) (\<lambda>_. stk (xs @ enc_val v) c)"
  by (cases v) (auto intro!: int_stack.push_room long_stack.push_room float_stack.push_room double_stack.push_room)

lemma push_val_full:
  "c < length xs + twidth (vtype v) \<Longrightarrow> stops (stk xs c) (PushOperandStack v) (\<lambda>_. True)"
  by (cases v) (auto intro!: int_stack.push_full long_stack.push_full float_stack.push_full double_stack.push_full)

lemma pop_val_then:
  assumes "valid (stk xs c) (f v) Q"
  shows "valid (stk (xs @ enc_val v) c) (bind (PopOperandStack (vtype v)) f) Q"
  using assms
  by (cases v) (simp_all add: PopOperandStack_def bind_assoc int_stack.pop_then long_stack.pop_then
    float_stack.pop_then double_stack.pop_then)

lemma pop_val_then_stops:
  assumes "stops (stk xs c) (f v) E"
  shows "stops (stk (xs @ enc_val v) c) (bind (PopOperandStack (vtype v)) f) E"
  using assms
  by (cases v) (simp_all add: PopOperandStack_def bind_assoc int_stack.pop_then_stops long_stack.pop_then_stops
    float_stack.pop_then_stops double_stack.pop_then_stops)

section \<open>Arithmetic, conversion, comparison\<close>

lemma push_res:
  assumes "r = Inr v" and "length xs + twidth (vtype v) \<le> c"
  shows "valid (stk xs c) (bind (lift_res r) PushOperandStack) (\<lambda>_. stk (xs @ enc_val v) c)"
  using push_val [OF assms(2)] assms(1) by (simp add: valid_def bind_def lift_res_def)

lemma push_res_stops:
  assumes "r = Inl e"
  shows "stops P (bind (lift_res r) PushOperandStack) (\<lambda>x. x = e)"
  using assms by (simp add: stops_def bind_def lift_res_def)

text \<open>The stack before a binary instruction holds the left operand below the right one.\<close>

lemma binary_op_result:
  assumes "f a b = Inr v" and "vtype a = t" and "vtype b = t" and "length xs + twidth (vtype v) \<le> c"
  shows "valid (stk (xs @ enc_val a @ enc_val b) c) (binary_op t f) (\<lambda>_. stk (xs @ enc_val v) c)"
proof -
  have "valid (stk (xs @ enc_val a) c)
      (bind (PopOperandStack (vtype a)) (\<lambda>x. bind (lift_res (f x b)) PushOperandStack))
      (\<lambda>_. stk (xs @ enc_val v) c)"
    by (rule pop_val_then) (rule push_res [OF assms(1,4)])
  then have "valid (stk ((xs @ enc_val a) @ enc_val b) c)
      (bind (PopOperandStack (vtype b)) (\<lambda>y. bind (PopOperandStack t) (\<lambda>x. bind (lift_res (f x y)) PushOperandStack)))
      (\<lambda>_. stk (xs @ enc_val v) c)"
    using assms(2) by (intro pop_val_then) simp
  then show ?thesis
    using assms(3) by (simp add: binary_op_def)
qed

lemma binary_op_stops:
  assumes "f a b = Inl e" and "vtype a = t" and "vtype b = t"
  shows "stops (stk (xs @ enc_val a @ enc_val b) c) (binary_op t f) (\<lambda>x. x = e)"
proof -
  have "stops (stk (xs @ enc_val a) c)
      (bind (PopOperandStack (vtype a)) (\<lambda>x. bind (lift_res (f x b)) PushOperandStack)) (\<lambda>x. x = e)"
    by (rule pop_val_then_stops) (rule push_res_stops [OF assms(1)])
  then have "stops (stk ((xs @ enc_val a) @ enc_val b) c)
      (bind (PopOperandStack (vtype b)) (\<lambda>y. bind (PopOperandStack t) (\<lambda>x. bind (lift_res (f x y)) PushOperandStack)))
      (\<lambda>x. x = e)"
    using assms(2) by (intro pop_val_then_stops) simp
  then show ?thesis
    using assms(3) by (simp add: binary_op_def)
qed

lemma shift_inst_result:
  assumes "f a k = Inr v" and "vtype a = t" and "length xs + twidth (vtype v) \<le> c"
  shows "valid (stk (xs @ enc_val a @ enc1 k) c) (shift_inst t f) (\<lambda>_. stk (xs @ enc_val v) c)"
proof -
  have "valid (stk (xs @ enc_val a) c)
      (bind (PopOperandStack (vtype a)) (\<lambda>x. bind (lift_res (f x k)) PushOperandStack))
      (\<lambda>_. stk (xs @ enc_val v) c)"
    by (rule pop_val_then) (rule push_res [OF assms(1,3)])
  then have "valid (stk ((xs @ enc_val a) @ enc1 k) c)
      (bind PopInt (\<lambda>y. bind (PopOperandStack t) (\<lambda>x. bind (lift_res (f x y)) PushOperandStack)))
      (\<lambda>_. stk (xs @ enc_val v) c)"
    using assms(2) by (intro int_stack.pop_then) simp
  then show ?thesis
    by (simp add: shift_inst_def)
qed

lemma conversion_result:
  assumes "convert a r = Inr v" and "length xs + twidth (vtype v) \<le> c"
  shows "valid (stk (xs @ enc_val a) c) (exec_conversion (T2R (vtype a) r)) (\<lambda>_. stk (xs @ enc_val v) c)"
  unfolding exec_conversion.simps by (rule pop_val_then) (rule push_res [OF assms])

text \<open>The value operation of each binary arithmetic instruction.\<close>

fun arith_op :: "arithmetic_inst \<Rightarrow> (ctype \<times> (val \<Rightarrow> val \<Rightarrow> val res)) option" where
  "arith_op (ADD t) = Some (t, val_add)"
| "arith_op (SUB t) = Some (t, val_sub)"
| "arith_op (MUL t) = Some (t, val_mul)"
| "arith_op (DIV t) = Some (t, val_div)"
| "arith_op (IREM t) = Some (t, val_irem)"
| "arith_op (FREM t) = Some (t, val_frem)"
| "arith_op (AND_T t) = Some (t, val_and)"
| "arith_op (OR_T t) = Some (t, val_or)"
| "arith_op (XOR_T t) = Some (t, val_xor)"
| "arith_op _ = None"

text \<open>A frame whose operand stack is as given, the other parts those of \<open>f\<close>.\<close>

definition frame_stk :: "frame \<Rightarrow> slot list \<Rightarrow> nat \<Rightarrow> frame \<Rightarrow> bool" where
  "frame_stk f xs c g \<longleftrightarrow> stk xs c (fr_operand_stack g) \<and> (\<exists>s. g = f\<lparr>fr_operand_stack := s\<rparr>)"

lemma frame_stk_self: "stk xs c (fr_operand_stack f) \<Longrightarrow> frame_stk f xs c f"
  by (auto simp: frame_stk_def intro: exI [of _ "fr_operand_stack f"])

lemma on_operands_valid:
  assumes "valid (stk xs c) m (\<lambda>r. stk (ys r) c)"
  shows "valid (frame_stk f xs c) (on_operands m) (\<lambda>r. frame_stk f (ys r) c)"
proof (rule validI)
  fix g assume "frame_stk f xs c g"
  then obtain r t s where "m (fr_operand_stack g) = Inr (r, t)" "stk (ys r) c t" "g = f\<lparr>fr_operand_stack := s\<rparr>"
    using assms by (fastforce simp: frame_stk_def valid_def)
  then show "\<exists>x t. on_operands m g = Inr (x, t) \<and> frame_stk f (ys x) c t"
    by (auto simp: on_operands_def zoom_def frame_stk_def)
qed

lemma on_operands_stops:
  "stops (stk xs c) m E \<Longrightarrow> stops (frame_stk f xs c) (on_operands m) E"
  by (fastforce simp: stops_def frame_stk_def on_operands_def zoom_def)

lemma exec_arith_result:
  assumes "arith_op i = Some (t, op)" and "vtype a = t" and "vtype b = t" and "op a b = Inr v"
    and "length xs + twidth (vtype v) \<le> c"
  shows "valid (frame_stk f (xs @ enc_val a @ enc_val b) c) (exec_arithmetic i)
    (\<lambda>_. frame_stk f (xs @ enc_val v) c)"
  using assms
  by (cases i) (auto intro!: on_operands_valid [where ys = "\<lambda>_. xs @ enc_val v"] binary_op_result)

lemma exec_arith_stops:
  assumes "arith_op i = Some (t, op)" and "vtype a = t" and "vtype b = t" and "op a b = Inl e"
  shows "stops (frame_stk f (xs @ enc_val a @ enc_val b) c) (exec_arithmetic i) (\<lambda>x. x = e)"
  using assms
  by (cases i) (auto intro!: on_operands_stops binary_op_stops)

section \<open>Every instruction keeps the frame well formed\<close>

text \<open>The operand stack keeps its capacity and \<open>top_\<close> stays within it.\<close>

definition os_inv :: "nat \<Rightarrow> operand_stack \<Rightarrow> bool" where
  "os_inv c s \<longleftrightarrow> os_wf s \<and> length (os_slots s) = c"

lemma slots_set_in:
  "Slots_SetInt i v s = Inr (u, t) \<Longrightarrow> length t = length s \<and> unat i + 1 \<le> length s"
  "Slots_SetFloat i v s = Inr (u, t) \<Longrightarrow> length t = length s \<and> unat i + 1 \<le> length s"
  "Slots_SetSlot i v s = Inr (u, t) \<Longrightarrow> length t = length s \<and> unat i + 1 \<le> length s"
  "Slots_SetLong i w s = Inr (u, t) \<Longrightarrow> length t = length s \<and> unat i + 2 \<le> length s"
  "Slots_SetDouble i w s = Inr (u, t) \<Longrightarrow> length t = length s \<and> unat i + 2 \<le> length s"
  "Slots_SetRef i w s = Inr (u, t) \<Longrightarrow> length t = length s \<and> unat i + 2 \<le> length s"
  by (auto simp: slots_defs split: if_splits)

lemma slots_get_same:
  "Slots_GetInt i s = Inr (v, t) \<Longrightarrow> t = s"
  "Slots_GetFloat i s = Inr (v, t) \<Longrightarrow> t = s"
  "Slots_GetSlot i s = Inr (v, t) \<Longrightarrow> t = s"
  "Slots_GetLong i s = Inr (w, t) \<Longrightarrow> t = s"
  "Slots_GetDouble i s = Inr (w, t) \<Longrightarrow> t = s"
  "Slots_GetRef i s = Inr (w, t) \<Longrightarrow> t = s"
  by (auto simp: slots_defs split: if_splits)

lemma os_inv_stk: "os_inv c s \<Longrightarrow> stk (view s) c s"
  by (simp add: os_inv_def stk_def)

text \<open>A push writes at \<open>top_\<close> and moves it up; a pop moves \<open>top_\<close> down and reads there.\<close>

lemma keeps_push:
  assumes push: "\<And>s. push s = (if full s then Inl e
      else andthen (on_slots (put (os_top s))) (move_top (of_nat n)) s)"
    and put: "\<And>i s u t. put i s = Inr (u, t) \<Longrightarrow> length t = length s \<and> unat i + n \<le> length s"
  shows "keeps (os_inv c) push"
  unfolding keeps_def
proof (intro allI impI)
  fix s x t assume inv: "os_inv c s" and "push s = Inr (x, t)"
  then obtain u sl where sl: "put (os_top s) (os_slots s) = Inr (u, sl)"
    and t: "t = s\<lparr>os_slots := sl, os_top := os_top s + of_nat n\<rparr>"
    by (auto simp: push andthen_def bind_def on_slots_def zoom_def move_top_def modifies_def
      split: if_splits sum.splits)
  have "length (view s) = unat (os_top s)"
    using stk_top [OF os_inv_stk [OF inv]] by simp
  then have "unat (os_top s + of_nat n) = unat (os_top s) + n"
    using top_add [OF os_inv_stk [OF inv], of n] put [OF sl] inv by (simp add: os_inv_def)
  with put [OF sl] inv show "os_inv c t"
    by (simp add: t os_inv_def os_wf_def)
qed

lemma keeps_pop:
  assumes pop: "\<And>s. pop s = (if lacks s then Inl e
      else let s = s\<lparr>os_top := os_top s - of_nat n\<rparr> in on_slots (get (os_top s)) s)"
    and get: "\<And>i s x t. get i s = Inr (x, t) \<Longrightarrow> t = s"
    and lacks: "\<And>s. \<not> lacks s \<Longrightarrow> n \<le> unat (os_top s)"
  shows "keeps (os_inv c) pop"
  unfolding keeps_def
proof (intro allI impI)
  fix s x t assume inv: "os_inv c s" and "pop s = Inr (x, t)"
  then obtain sl where ne: "\<not> lacks s" and sl: "get (os_top s - of_nat n) (os_slots s) = Inr (x, sl)"
    and t: "t = s\<lparr>os_top := os_top s - of_nat n, os_slots := sl\<rparr>"
    by (auto simp: pop Let_def on_slots_def zoom_def split: if_splits sum.splits)
  have "length (view s) = unat (os_top s)"
    using stk_top [OF os_inv_stk [OF inv]] by simp
  then have "unat (os_top s - of_nat n) = unat (os_top s) - n"
    using top_sub [OF os_inv_stk [OF inv], of n] lacks [OF ne] by simp
  with get [OF sl] inv show "os_inv c t"
    by (auto simp: t os_inv_def os_wf_def)
qed

lemma keeps_push1 [keeps_rules]:
  "keeps (os_inv c) (PushInt v)" "keeps (os_inv c) (PushFloat v)" "keeps (os_inv c) (PushSlot v)"
  by (rule keeps_push [where n = 1], simp only: PushInt_def PushFloat_def PushSlot_def of_nat_1,
      erule slots_set_in)+

lemma keeps_push2 [keeps_rules]:
  "keeps (os_inv c) (PushLong w)" "keeps (os_inv c) (PushDouble w)" "keeps (os_inv c) (PushRef w)"
  by (rule keeps_push [where n = 2], simp only: PushLong_def PushDouble_def PushRef_def of_nat_numeral,
      erule slots_set_in)+

lemma keeps_pop1 [keeps_rules]:
  "keeps (os_inv c) PopInt" "keeps (os_inv c) PopFloat" "keeps (os_inv c) PopSlot"
  by (rule keeps_pop [where n = 1 and lacks = IsEmpty], simp only: PopInt_def PopFloat_def PopSlot_def of_nat_1,
      erule slots_get_same, simp add: IsEmpty_def)+

lemma keeps_pop2 [keeps_rules]:
  "keeps (os_inv c) PopLong" "keeps (os_inv c) PopDouble" "keeps (os_inv c) PopRef"
  by (rule keeps_pop [where n = 2 and lacks = IsLongEmpty],
      simp only: PopLong_def PopDouble_def PopRef_def of_nat_numeral,
      erule slots_get_same, simp add: IsLongEmpty_def)+

lemma keeps_PopOperandStack [keeps_rules]: "keeps (os_inv c) (PopOperandStack t)"
  unfolding PopOperandStack_def by (intro keeps_rules)

lemma keeps_PushOperandStack [keeps_rules]: "keeps (os_inv c) (PushOperandStack v)"
  by (cases v) (simp_all add: keeps_rules)

lemma keeps_exec_const: "keeps (os_inv c) (exec_const i)"
  by (cases i) (simp_all add: keeps_rules)

lemma keeps_exec_stack: "keeps (os_inv c) (exec_stack i)"
  by (cases i) (simp, intro keeps_rules)+

lemma keeps_ArrayStore: "keeps (os_inv c) (ArrayStore t)"
  unfolding ArrayStore_def SetElement_def by (intro keeps_rules)

lemma keeps_exec_conversion: "keeps (os_inv c) (exec_conversion i)"
  by (cases i) (simp, intro keeps_rules)+

lemma keeps_exec_cmp: "keeps (os_inv c) (exec_cmp t g)"
  unfolding exec_cmp_def by (intro keeps_rules)

lemma keeps_operand_insts [keeps_rules]:
  "keeps (os_inv c) (binary_op t f)" "keeps (os_inv c) (shift_inst t g)"
  unfolding binary_op_def shift_inst_def by (intro keeps_rules)+

text \<open>The invariant of a frame: the two slot arrays have the sizes given by its method.\<close>

definition frame_wf :: "frame \<Rightarrow> bool" where
  "frame_wf f \<longleftrightarrow>
     os_inv (unat (ucast (m_max_stack (fr_method f)) :: 16 word)) (fr_operand_stack f) \<and>
     length (fr_local_vars f) = unat (ucast (m_max_locals (fr_method f)) :: 16 word)"

lemma frame_wf_new: "frame_wf (Frame_new m p)"
  using stk_new [of "ucast (m_max_stack m)"]
  by (simp add: frame_wf_def Frame_new_def os_inv_def stk_def LocalVars_new_def Slots_new_def)

text \<open>The frames of the same invocation as \<open>g\<close>: same method, same link to the frame below.\<close>

definition frame_of :: "frame \<Rightarrow> frame \<Rightarrow> bool" where
  "frame_of g f \<longleftrightarrow> frame_wf f \<and> fr_method f = fr_method g \<and> fr_prev_fp f = fr_prev_fp g"

lemma frame_of_self [simp]: "frame_of f f \<longleftrightarrow> frame_wf f"
  by (simp add: frame_of_def)

lemma frame_ofD: "frame_of g f \<Longrightarrow> frame_wf f"
  by (simp add: frame_of_def)

lemma keeps_on_operands:
  assumes "\<And>c. keeps (os_inv c) m"
  shows "keeps (frame_of g) (on_operands m)"
  unfolding keeps_def on_operands_def zoom_def
  by (auto simp: frame_wf_def frame_of_def split: sum.splits intro: keepsD [OF assms])

lemma keeps_on_locals:
  assumes "\<And>s x t. m s = Inr (x, t) \<Longrightarrow> length t = length s"
  shows "keeps (frame_of g) (on_locals m)"
  unfolding keeps_def on_locals_def zoom_def
  by (auto simp: frame_wf_def frame_of_def split: sum.splits dest: assms)

lemma local_gets_length:
  "LocalVars_GetInt i s = Inr (v, t) \<Longrightarrow> length t = length s"
  "LocalVars_GetFloat i s = Inr (v, t) \<Longrightarrow> length t = length s"
  "LocalVars_GetLong i s = Inr (w, t) \<Longrightarrow> length t = length s"
  "LocalVars_GetDouble i s = Inr (w, t) \<Longrightarrow> length t = length s"
  "LocalVars_GetRef i s = Inr (w, t) \<Longrightarrow> length t = length s"
  by (auto simp: local_vars_defs dest: slots_get_same)

lemma local_sets_length:
  "LocalVars_SetInt i v s = Inr (u, t) \<Longrightarrow> length t = length s"
  "LocalVars_SetFloat i v s = Inr (u, t) \<Longrightarrow> length t = length s"
  "LocalVars_SetLong i w s = Inr (u, t) \<Longrightarrow> length t = length s"
  "LocalVars_SetDouble i w s = Inr (u, t) \<Longrightarrow> length t = length s"
  "LocalVars_SetRef i w s = Inr (u, t) \<Longrightarrow> length t = length s"
  by (auto simp: local_vars_defs dest: slots_set_in)

lemma exec_iinc_length: "exec_iinc i k s = Inr (x, t) \<Longrightarrow> length t = length s"
  unfolding exec_iinc_def lift_res_def
  by (elim bind_InrE) (auto split: sum.splits dest!: local_gets_length(1) local_sets_length(1))

lemma keeps_locals [keeps_rules]:
  "keeps (frame_of g) (on_locals (LocalVars_GetInt i))" "keeps (frame_of g) (on_locals (LocalVars_GetFloat i))"
  "keeps (frame_of g) (on_locals (LocalVars_GetLong i))" "keeps (frame_of g) (on_locals (LocalVars_GetDouble i))"
  "keeps (frame_of g) (on_locals (LocalVars_GetRef i))"
  "keeps (frame_of g) (on_locals (LocalVars_SetInt i v))" "keeps (frame_of g) (on_locals (LocalVars_SetFloat i v))"
  "keeps (frame_of g) (on_locals (LocalVars_SetLong i w))" "keeps (frame_of g) (on_locals (LocalVars_SetDouble i w))"
  "keeps (frame_of g) (on_locals (LocalVars_SetRef i w))" "keeps (frame_of g) (on_locals (exec_iinc j k))"
  by (rule keeps_on_locals, erule local_gets_length local_sets_length exec_iinc_length)+

lemma keeps_Branch [keeps_rules]: "keeps (frame_of g) (Branch pc off)"
  by (auto simp: keeps_def Branch_def modifies_def SetNextPc_def frame_wf_def frame_of_def)

lemma keeps_Load [keeps_rules]: "keeps (frame_of g) (Load t i)" "keeps (frame_of g) (ArrayLoad t)"
  unfolding Load_def ArrayLoad_def by (intro keeps_rules keeps_on_operands)+

lemma keeps_Store [keeps_rules]: "keeps (frame_of g) (Store t i)"
  unfolding Store_def by (intro keeps_rules keeps_on_operands)

lemma keeps_load_store: "keeps (frame_of g) (exec_load i)" "keeps (frame_of g) (exec_store j)"
  by (cases i; simp add: keeps_rules) (cases j; simp add: keeps_rules keeps_on_operands keeps_ArrayStore)

lemma keeps_exec_arithmetic: "keeps (frame_of g) (exec_arithmetic i)"
  by (cases i) (simp, intro keeps_rules keeps_on_operands)+

lemma keeps_branches:
  "keeps (frame_of g) (if_int p pc off)" "keeps (frame_of g) (if_icmp q pc off)" "keeps (frame_of g) (if_acmp r pc off)"
  "keeps (frame_of g) (if_null a pc off)" "keeps (frame_of g) (exec_tableswitch pc off lo hi table)"
  "keeps (frame_of g) (exec_lookupswitch pc off n table)"
  unfolding if_int_def if_icmp_def if_acmp_def if_null_def exec_tableswitch_def exec_lookupswitch_def
  by (intro keeps_rules keeps_on_operands)+

lemma keeps_exec_compare: "keeps (frame_of g) (exec_compare pc i)"
  by (cases i) (simp_all add: keeps_branches keeps_on_operands keeps_exec_cmp)

lemma keeps_exec_control: "keeps (frame_of g) (exec_control pc i)"
  by (cases i) (simp_all add: keeps_branches keeps_rules)

lemma keeps_exec_modified: "keeps (frame_of g) (exec_modified i)"
  by (cases i) (simp_all add: keeps_load_store keeps_exec_arithmetic)

lemma keeps_exec_extend: "keeps (frame_of g) (exec_extend pc i)"
  by (cases "(pc, i)" rule: exec_extend.cases) (simp_all add: keeps_branches keeps_rules keeps_exec_modified)

lemma keeps_exec_frame_inst: "exec_frame_inst pc i = Some m \<Longrightarrow> keeps (frame_of g) m"
  by (cases i) (auto simp: keeps_ret keeps_load_store keeps_exec_arithmetic keeps_exec_compare
    keeps_exec_control keeps_exec_extend
    intro!: keeps_on_operands keeps_exec_const keeps_exec_stack keeps_exec_conversion)

section \<open>Loads and stores move slots\<close>

text \<open>
  A load pushes the slots of the local variable as they are, a store writes the slots on top of the
  stack back; both are proved once, from the contracts of the accessors and of the stack.
\<close>

lemma load_slots:
  assumes cell: "typed_cell put get enc dec w" and stack: "typed_stack push pop enc w"
    and index: "unat i + w \<le> length (fr_local_vars f)" and room: "length xs + w \<le> c"
  shows "valid (frame_stk f xs c) (bind (on_locals (get i)) (\<lambda>v. on_operands (push v)))
    (\<lambda>_. frame_stk f (xs @ take w (drop (unat i) (fr_local_vars f))) c)"
proof -
  let ?ys = "take w (drop (unat i) (fr_local_vars f))"
  have enc: "enc (dec ?ys) = ?ys"
    using index by (intro typed_cell.enc_dec [OF cell]) simp
  have push: "valid (frame_stk f xs c) (on_operands (push (dec ?ys))) (\<lambda>_. frame_stk f (xs @ ?ys) c)"
    using typed_stack.push_room [OF stack room, of "dec ?ys"]
    by (intro on_operands_valid [where ys = "\<lambda>_. xs @ ?ys"]) (simp only: enc)
  show ?thesis
  proof (rule validI)
    fix g assume g: "frame_stk f xs c g"
    then have "get i (fr_local_vars g) = Inr (dec ?ys, fr_local_vars g)"
      using index by (auto simp: frame_stk_def typed_cell.get_in [OF cell])
    then have "on_locals (get i) g = Inr (dec ?ys, g)"
      by (simp add: on_locals_def zoom_def)
    with push g show "\<exists>x t. bind (on_locals (get i)) (\<lambda>v. on_operands (push v)) g = Inr (x, t) \<and>
        frame_stk f (xs @ ?ys) c t"
      by (simp add: bind_def valid_def)
  qed
qed

lemma store_slots:
  assumes cell: "typed_cell put get enc dec w" and stack: "typed_stack push pop enc w"
    and index: "unat i + w \<le> length (fr_local_vars f)" and len: "length ys = w"
  shows "valid (frame_stk f (xs @ ys) c) (bind (on_operands pop) (\<lambda>v. on_locals (put i v)))
    (\<lambda>_. frame_stk (f\<lparr>fr_local_vars := splice (fr_local_vars f) (unat i) ys\<rparr>) xs c)"
proof (rule validI)
  fix g assume g: "frame_stk f (xs @ ys) c g"
  have enc: "enc (dec ys) = ys"
    using len by (rule typed_cell.enc_dec [OF cell])
  then have "stk (xs @ enc (dec ys)) c (fr_operand_stack g)"
    using g by (simp add: frame_stk_def)
  with typed_stack.pop_top [OF stack, of xs "dec ys" c] obtain t
    where "pop (fr_operand_stack g) = Inr (dec ys, t)" and t: "stk xs c t"
    by (auto simp: valid_def)
  then have "on_operands pop g = Inr (dec ys, g\<lparr>fr_operand_stack := t\<rparr>)"
    by (simp add: on_operands_def zoom_def)
  moreover have "put i (dec ys) (fr_local_vars g) = Inr ((), splice (fr_local_vars f) (unat i) ys)"
    using g index typed_cell.set_in [OF cell, of i "fr_local_vars f" "dec ys"] by (auto simp: frame_stk_def enc)
  ultimately show "\<exists>x t. bind (on_operands pop) (\<lambda>v. on_locals (put i v)) g = Inr (x, t) \<and>
      frame_stk (f\<lparr>fr_local_vars := splice (fr_local_vars f) (unat i) ys\<rparr>) xs c t"
    using g t by (auto simp: bind_def on_locals_def zoom_def frame_stk_def intro!: exI [of _ t])
qed

definition slot_type :: "ctype \<Rightarrow> bool" where
  "slot_type t \<longleftrightarrow> t \<in> {Int32, Int64, Float, Double, ObjectPtr}"

lemmas cell_facts = int_cell.typed_cell_axioms float_cell.typed_cell_axioms long_cell.typed_cell_axioms
  double_cell.typed_cell_axioms ref_cell.typed_cell_axioms

lemmas stack_facts = int_stack.typed_stack_axioms float_stack.typed_stack_axioms long_stack.typed_stack_axioms
  double_stack.typed_stack_axioms ref_stack.typed_stack_axioms

lemma Load_slots:
  assumes "slot_type t" and "unat i + twidth t \<le> length (fr_local_vars f)" and "length xs + twidth t \<le> c"
  shows "valid (frame_stk f xs c) (Load t i)
    (\<lambda>_. frame_stk f (xs @ take (twidth t) (drop (unat i) (fr_local_vars f))) c)"
  using assms unfolding slot_type_def Load_def local_vars_defs
  by (auto simp del: One_nat_def
    intro!: load_slots [OF int_cell.typed_cell_axioms int_stack.typed_stack_axioms]
      load_slots [OF float_cell.typed_cell_axioms float_stack.typed_stack_axioms]
      load_slots [OF long_cell.typed_cell_axioms long_stack.typed_stack_axioms]
      load_slots [OF double_cell.typed_cell_axioms double_stack.typed_stack_axioms]
      load_slots [OF ref_cell.typed_cell_axioms ref_stack.typed_stack_axioms])

lemma Store_slots:
  assumes "slot_type t" and "unat i + twidth t \<le> length (fr_local_vars f)" and "length ys = twidth t"
  shows "valid (frame_stk f (xs @ ys) c) (Store t i)
    (\<lambda>_. frame_stk (f\<lparr>fr_local_vars := splice (fr_local_vars f) (unat i) ys\<rparr>) xs c)"
  using assms unfolding slot_type_def Store_def local_vars_defs
  by (auto simp del: One_nat_def
    intro!: store_slots [OF int_cell.typed_cell_axioms int_stack.typed_stack_axioms]
      store_slots [OF float_cell.typed_cell_axioms float_stack.typed_stack_axioms]
      store_slots [OF long_cell.typed_cell_axioms long_stack.typed_stack_axioms]
      store_slots [OF double_cell.typed_cell_axioms double_stack.typed_stack_axioms]
      store_slots [OF ref_cell.typed_cell_axioms ref_stack.typed_stack_axioms])

text \<open>Storing the top of the stack and loading it again restores the stack.\<close>

lemma Store_Load:
  assumes t: "slot_type t" and i: "unat i + twidth t \<le> length (fr_local_vars f)" and ys: "length ys = twidth t"
    and c: "length xs + twidth t \<le> c"
  shows "valid (frame_stk f (xs @ ys) c) (bind (Store t i) (\<lambda>_. Load t i))
    (\<lambda>_. frame_stk (f\<lparr>fr_local_vars := splice (fr_local_vars f) (unat i) ys\<rparr>) (xs @ ys) c)"
proof (rule valid_bind [OF Store_slots [OF t i ys]])
  let ?f = "f\<lparr>fr_local_vars := splice (fr_local_vars f) (unat i) ys\<rparr>"
  have "take (twidth t) (drop (unat i) (fr_local_vars ?f)) = ys"
    using slice_splice_same [of "unat i" ys "fr_local_vars f"] i ys by simp
  moreover have "unat i + twidth t \<le> length (fr_local_vars ?f)"
    using i ys by simp
  ultimately show "valid (frame_stk ?f xs c) (Load t i) (\<lambda>_. frame_stk ?f (xs @ ys) c)"
    using Load_slots [OF t _ c, of i ?f] by simp
qed

section \<open>Branches are taken when their condition holds\<close>

definition after_branch :: "bool \<Rightarrow> 32 word \<Rightarrow> 32 word \<Rightarrow> frame \<Rightarrow> frame" where
  "after_branch b pc off f = (if b then SetNextPc (pc + off) f else f)"

context typed_stack
begin

lemma frame_pop_then:
  assumes "valid (frame_stk f xs c) (k v) Q"
  shows "valid (frame_stk f (xs @ enc v) c) (bind (on_operands pop) k) Q"
proof (rule validI)
  fix g assume g: "frame_stk f (xs @ enc v) c g"
  then obtain t where "pop (fr_operand_stack g) = Inr (v, t)" and "stk xs c t"
    using pop_top [of xs v c] by (auto simp: valid_def frame_stk_def)
  moreover from this have "frame_stk f xs c (g\<lparr>fr_operand_stack := t\<rparr>)"
    using g by (auto simp: frame_stk_def)
  ultimately show "\<exists>x t. bind (on_operands pop) k g = Inr (x, t) \<and> Q x t"
    using assms by (auto simp: bind_def on_operands_def zoom_def valid_def)
qed

end

lemma branch_if:
  "valid (frame_stk f xs c) (if b then Branch pc off else ret ())
    (\<lambda>_. frame_stk (after_branch b pc off f) xs c)"
proof (rule validI)
  fix g assume "frame_stk f xs c g"
  then obtain s where "stk xs c s" and g: "g = f\<lparr>fr_operand_stack := s\<rparr>"
    by (auto simp: frame_stk_def)
  then have "frame_stk (SetNextPc p f) xs c (SetNextPc p g)" for p
    by (auto simp: frame_stk_def SetNextPc_def intro!: exI [of _ s])
  with \<open>frame_stk f xs c g\<close> show "\<exists>x t. (if b then Branch pc off else ret ()) g = Inr (x, t) \<and>
      frame_stk (after_branch b pc off f) xs c t"
    by (simp add: Branch_def modifies_def ret_def after_branch_def)
qed

lemma if_int_result:
  "valid (frame_stk f (xs @ enc1 v) c) (if_int test pc off)
    (\<lambda>_. frame_stk (after_branch (test v) pc off f) xs c)"
  unfolding if_int_def by (rule int_stack.frame_pop_then) (rule branch_if)

lemma if_icmp_result:
  "valid (frame_stk f (xs @ enc1 v2 @ enc1 v1) c) (if_icmp test pc off)
    (\<lambda>_. frame_stk (after_branch (test v2 v1) pc off f) xs c)"
proof -
  have "valid (frame_stk f (xs @ enc1 v2) c)
      (bind (on_operands PopInt) (\<lambda>v2. if test v2 v1 then Branch pc off else ret ()))
      (\<lambda>_. frame_stk (after_branch (test v2 v1) pc off f) xs c)"
    by (rule int_stack.frame_pop_then) (rule branch_if)
  from int_stack.frame_pop_then [of f "xs @ enc1 v2" c
      "\<lambda>v1. bind (on_operands PopInt) (\<lambda>v2. if test v2 v1 then Branch pc off else ret ())" v1, OF this]
  show ?thesis by (simp add: if_icmp_def)
qed

lemma if_acmp_result:
  "valid (frame_stk f (xs @ enc2 r2 @ enc2 r1) c) (if_acmp test pc off)
    (\<lambda>_. frame_stk (after_branch (test r2 r1) pc off f) xs c)"
proof -
  have "valid (frame_stk f (xs @ enc2 r2) c)
      (bind (on_operands PopRef) (\<lambda>r2. if test r2 r1 then Branch pc off else ret ()))
      (\<lambda>_. frame_stk (after_branch (test r2 r1) pc off f) xs c)"
    by (rule ref_stack.frame_pop_then) (rule branch_if)
  from ref_stack.frame_pop_then [of f "xs @ enc2 r2" c
      "\<lambda>r1. bind (on_operands PopRef) (\<lambda>r2. if test r2 r1 then Branch pc off else ret ())" r1, OF this]
  show ?thesis by (simp add: if_acmp_def)
qed

lemma if_null_result:
  "valid (frame_stk f (xs @ enc2 r) c) (if_null test pc off)
    (\<lambda>_. frame_stk (after_branch (test r) pc off f) xs c)"
  unfolding if_null_def by (rule ref_stack.frame_pop_then) (rule branch_if)

text \<open>
  The conditions as the instruction set gives them: comparisons of signed integers. \<open>cond1\<close> is the
  condition on the popped number, \<open>cond2\<close> the one on the two popped numbers, the upper one second.
\<close>

fun cond1 :: "compare_inst \<Rightarrow> (32 word \<times> (int \<Rightarrow> bool)) option" where
  "cond1 (IFEQ off) = Some (off, \<lambda>v. v = 0)"
| "cond1 (IFNE off) = Some (off, \<lambda>v. v \<noteq> 0)"
| "cond1 (IFLT off) = Some (off, \<lambda>v. v < 0)"
| "cond1 (IFLE off) = Some (off, \<lambda>v. v \<le> 0)"
| "cond1 (IFGT off) = Some (off, \<lambda>v. v > 0)"
| "cond1 (IFGE off) = Some (off, \<lambda>v. v \<ge> 0)"
| "cond1 _ = None"

fun cond2 :: "compare_inst \<Rightarrow> (32 word \<times> (int \<Rightarrow> int \<Rightarrow> bool)) option" where
  "cond2 (IF_ICMPEQ off) = Some (off, (=))"
| "cond2 (IF_ICMPNE off) = Some (off, (\<noteq>))"
| "cond2 (IF_ICMPLT off) = Some (off, (<))"
| "cond2 (IF_ICMPLE off) = Some (off, (\<le>))"
| "cond2 (IF_ICMPGT off) = Some (off, (>))"
| "cond2 (IF_ICMPGE off) = Some (off, (\<ge>))"
| "cond2 _ = None"

lemma sint_eq: "sint a = sint b \<longleftrightarrow> a = b" "sint a = 0 \<longleftrightarrow> a = 0"
  using signed_word_eqI [of a b] signed_word_eqI [of a 0] by auto

lemmas sint_conds = word_sless_alt word_sle_eq sint_eq

lemma if_int_rule:
  "test v = b \<Longrightarrow> valid (frame_stk f (xs @ enc1 v) c) (if_int test pc off)
    (\<lambda>_. frame_stk (after_branch b pc off f) xs c)"
  using if_int_result by blast

lemma if_icmp_rule:
  "test v2 v1 = b \<Longrightarrow> valid (frame_stk f (xs @ enc1 v2 @ enc1 v1) c) (if_icmp test pc off)
    (\<lambda>_. frame_stk (after_branch b pc off f) xs c)"
  using if_icmp_result by blast

lemma exec_cond1:
  assumes "cond1 i = Some (off, p)"
  shows "valid (frame_stk f (xs @ enc1 v) c) (exec_compare pc i)
    (\<lambda>_. frame_stk (after_branch (p (sint v)) pc off f) xs c)"
  using assms by (cases i) (auto intro!: if_int_rule simp: sint_conds)

lemma exec_cond2:
  assumes "cond2 i = Some (off, p)"
  shows "valid (frame_stk f (xs @ enc1 a @ enc1 b) c) (exec_compare pc i)
    (\<lambda>_. frame_stk (after_branch (p (sint a) (sint b)) pc off f) xs c)"
  using assms by (cases i) (auto intro!: if_icmp_rule simp: sint_conds)

section \<open>Comparison instructions\<close>

lemma exec_cmp_ordered:
  assumes "vtype a = t" and "vtype b = t" and "\<not> val_isnan a" and "\<not> val_isnan b" and "length xs + 1 \<le> c"
  shows "valid (stk (xs @ enc_val a @ enc_val b) c) (exec_cmp t g) (\<lambda>_. stk (xs @ enc1 (cmp3 a b)) c)"
proof -
  have "valid (stk (xs @ enc_val a) c)
      (bind (PopOperandStack (vtype a)) (\<lambda>v2. andthen
         (if val_isnan b \<or> val_isnan v2 then PushInt (if g then 1 else -1) else ret ()) (PushInt (cmp3 v2 b))))
      (\<lambda>_. stk (xs @ enc1 (cmp3 a b)) c)"
    by (rule pop_val_then) (use assms int_stack.push_room [of xs c] in \<open>simp add: andthen_def\<close>)
  then have "valid (stk ((xs @ enc_val a) @ enc_val b) c)
      (bind (PopOperandStack (vtype b)) (\<lambda>v1. bind (PopOperandStack t) (\<lambda>v2. andthen
         (if val_isnan v1 \<or> val_isnan v2 then PushInt (if g then 1 else -1) else ret ()) (PushInt (cmp3 v2 v1)))))
      (\<lambda>_. stk (xs @ enc1 (cmp3 a b)) c)"
    using assms(1) by (intro pop_val_then) simp
  then show ?thesis
    using assms(2) by (simp add: exec_cmp_def)
qed

text \<open>With a NaN two numbers are pushed; the upper one is -1 for both instructions.\<close>

lemma cmp3_nan: "val_isnan a \<or> val_isnan b \<Longrightarrow> vtype a = vtype b \<Longrightarrow> cmp3 a b = -1"
  by (cases a; cases b) (auto simp: cmp3_def isnan_def fl_NaN_unordered)

lemma exec_cmp_nan:
  assumes "vtype a = t" and "vtype b = t" and nan: "val_isnan a \<or> val_isnan b" and "length xs + 2 \<le> c"
  shows "valid (stk (xs @ enc_val a @ enc_val b) c) (exec_cmp t g)
    (\<lambda>_. stk (xs @ [if g then 1 else -1, -1]) c)"
proof -
  have cmp: "cmp3 a b = -1"
    using nan assms(1,2) by (intro cmp3_nan) auto
  have "valid (stk xs c) (andthen (PushInt (if g then 1 else -1)) (PushInt (-1)))
      (\<lambda>_. stk (xs @ [if g then 1 else -1, -1]) c)"
    using int_stack.push_room [of xs c] int_stack.push_room [of "xs @ [if g then 1 else -1]" c "-1"] assms(4)
    by (intro valid_andthen [where R = "stk (xs @ [if g then 1 else -1]) c"]) (simp_all add: enc1_def)
  then have "valid (stk (xs @ enc_val a) c)
      (bind (PopOperandStack (vtype a)) (\<lambda>v2. andthen
         (if val_isnan b \<or> val_isnan v2 then PushInt (if g then 1 else -1) else ret ()) (PushInt (cmp3 v2 b))))
      (\<lambda>_. stk (xs @ [if g then 1 else -1, -1]) c)"
    using nan cmp by (intro pop_val_then) auto
  then have "valid (stk ((xs @ enc_val a) @ enc_val b) c)
      (bind (PopOperandStack (vtype b)) (\<lambda>v1. bind (PopOperandStack t) (\<lambda>v2. andthen
         (if val_isnan v1 \<or> val_isnan v2 then PushInt (if g then 1 else -1) else ret ()) (PushInt (cmp3 v2 v1)))))
      (\<lambda>_. stk (xs @ [if g then 1 else -1, -1]) c)"
    using assms(1) by (intro pop_val_then) simp
  then show ?thesis
    using assms(2) by (simp add: exec_cmp_def)
qed

text \<open>\<open>LCMP\<close> compares the two halves of the upper \<open>long\<close> and leaves the lower one.\<close>

lemma lcmp_result:
  assumes "length xs + 4 \<le> c"
  shows "valid (frame_stk f (xs @ enc2 a @ enc2 b) c) (exec_compare pc LCMP)
    (\<lambda>_. frame_stk f (xs @ enc2 a @ enc1 (cmp3 (VInt (lo32 b)) (VInt (hi32 b)))) c)"
  unfolding exec_compare.simps
  by (rule on_operands_valid)
    (use exec_cmp_ordered [of "VInt (lo32 b)" Int32 "VInt (hi32 b)" "xs @ enc2 a" c False] assms
      in \<open>simp add: enc1_def enc2_def\<close>)

lemma cmp3_int:
  "cmp3 (VInt a) (VInt b) = (if sint b < sint a then 1 else if sint a = sint b then 0 else -1)"
  by (auto simp: cmp3_def sint_conds signed_word_eqI word_sless_alt)

section \<open>Integer division\<close>

text \<open>The quotient and remainder are those of truncating division.\<close>

lemma trunc_mod_bounds:
  assumes "b \<noteq> 0"
  shows "\<bar>trunc_mod a b\<bar> < \<bar>b\<bar> \<and> (trunc_mod a b = 0 \<or> sgn (trunc_mod a b) = sgn a)"
proof -
  have abs: "\<bar>a\<bar> = \<bar>b\<bar> * (\<bar>a\<bar> div \<bar>b\<bar>) + \<bar>a\<bar> mod \<bar>b\<bar>"
    by simp
  have "trunc_mod a b = sgn a * (\<bar>a\<bar> - \<bar>b\<bar> * (\<bar>a\<bar> div \<bar>b\<bar>))"
    by (cases "a \<ge> 0"; cases "b > 0") (use assms in \<open>auto simp: trunc_mod_def trunc_div_def sgn_if\<close>)
  then have "trunc_mod a b = sgn a * (\<bar>a\<bar> mod \<bar>b\<bar>)"
    using abs by (metis add_diff_cancel_left')
  moreover have "0 \<le> \<bar>a\<bar> mod \<bar>b\<bar>" and "\<bar>a\<bar> mod \<bar>b\<bar> < \<bar>b\<bar>"
    using assms by simp_all
  ultimately obtain r where "trunc_mod a b = sgn a * r" "0 \<le> r" "r < \<bar>b\<bar>"
    by blast
  then show ?thesis
    using assms by (auto simp: sgn_if)
qed

lemma sint_of_int_in: "- (2 ^ (LENGTH('w) - 1)) \<le> i \<Longrightarrow> i < 2 ^ (LENGTH('w) - 1) \<Longrightarrow> sint (of_int i :: 'w::len word) = i"
  by (simp add: signed_of_int signed_take_bit_int_eq_self)

lemma sint_bounds: "- (2 ^ (LENGTH('w) - 1)) \<le> sint (a :: 'w::len word)" "sint (a :: 'w::len word) < 2 ^ (LENGTH('w) - 1)"
  using sint_greater_eq [of a] sint_less [of a] by simp_all

lemma trunc_div_abs: "\<bar>trunc_div a b\<bar> \<le> \<bar>a\<bar>"
proof (cases "b = 0")
  case False
  then have "\<bar>a\<bar> div \<bar>b\<bar> \<le> \<bar>a\<bar>" and "0 \<le> \<bar>a\<bar> div \<bar>b\<bar>"
    using zdiv_mono2 [of "\<bar>a\<bar>" 1 "\<bar>b\<bar>"] by (simp_all add: pos_imp_zdiv_nonneg_iff)
  then show ?thesis
    by (auto simp: trunc_div_def abs_mult sgn_if)
qed (simp add: trunc_div_def)

lemma trunc_div_max:
  assumes "b \<noteq> 0" and "\<not> (a < 0 \<and> b = -1)"
  shows "a < 0 \<Longrightarrow> trunc_div a b < - a"
proof -
  assume "a < 0"
  show ?thesis
  proof (cases "b < 0")
    case True
    then have "- a div - b < - a"
      using assms \<open>a < 0\<close> int_div_less_self [of "- a" "- b"] by auto
    with True \<open>a < 0\<close> show ?thesis
      by (simp add: trunc_div_def sgn_if)
  next
    case False
    have "0 \<le> - a div b"
      using False \<open>a < 0\<close> assms by (simp add: pos_imp_zdiv_nonneg_iff)
    with False \<open>a < 0\<close> assms show ?thesis
      by (simp add: trunc_div_def sgn_if)
  qed
qed

lemma word_div_rem:
  fixes a b :: "'w::len word"
  assumes "b \<noteq> 0" and "\<not> (sint a = - (2 ^ (LENGTH('w) - 1)) \<and> sint b = -1)"
  shows "\<exists>q r. word_div a b = Inr q \<and> word_rem a b = Inr r \<and>
    sint q * sint b + sint r = sint a \<and> \<bar>sint r\<bar> < \<bar>sint b\<bar> \<and> (sint r = 0 \<or> sgn (sint r) = sgn (sint a))"
proof -
  let ?a = "sint a" and ?b = "sint b" and ?m = "2 ^ (LENGTH('w) - 1) :: int"
  let ?q = "trunc_div ?a ?b" and ?r = "trunc_mod ?a ?b"
  have b0: "?b \<noteq> 0"
    using assms(1) sint_eq(2) [of b] by simp
  have r: "\<bar>?r\<bar> < \<bar>?b\<bar>" "?r = 0 \<or> sgn ?r = sgn ?a"
    using trunc_mod_bounds [OF b0] by auto
  have "\<bar>?q\<bar> \<le> \<bar>?a\<bar>"
    by (rule trunc_div_abs)
  moreover have "?q < ?m"
  proof (cases "?a < 0 \<and> ?b = -1")
    case True
    then have "?q = - ?a" and "?a \<noteq> - ?m"
      using assms(2) by (auto simp: trunc_div_def sgn_if)
    then show ?thesis
      using sint_bounds(1) [of a] by linarith
  next
    case False
    show ?thesis
    proof (cases "?a < 0")
      case True
      then show ?thesis
        using trunc_div_max [OF b0 False] sint_bounds(1) [of a] by linarith
    next
      case False
      then show ?thesis
        using calculation sint_bounds(2) [of a] by linarith
    qed
  qed
  ultimately have "sint (of_int ?q :: 'w word) = ?q"
    using sint_bounds [of a] by (intro sint_of_int_in) linarith+
  moreover have "sint (of_int ?r :: 'w word) = ?r"
    using r(1) sint_bounds [of b] by (intro sint_of_int_in) linarith+
  ultimately show ?thesis
    using assms r by (auto simp: word_div_def word_rem_def trunc_mod_def)
qed

text \<open>
  The same of the instructions: the value of an \<open>int\<close> or \<open>long\<close>, and the least value of either type.
\<close>

fun int_value :: "val \<Rightarrow> int" where
  "int_value (VInt a) = sint a"
| "int_value (VLong a) = sint a"
| "int_value _ = 0"

definition least_value :: "ctype \<Rightarrow> int" where
  "least_value t = (if t = Int64 then - (2 ^ 63) else - (2 ^ 31))"

lemma int_pairs:
  assumes "vtype a = t" "vtype b = t" "t \<in> {Int32, Int64}"
  obtains (ints) x y where "t = Int32" "a = VInt x" "b = VInt y"
  | (longs) x y where "t = Int64" "a = VLong x" "b = VLong y"
  using assms by (cases a; cases b) auto

lemma val_div_rem:
  assumes "vtype a = t" "vtype b = t" "t \<in> {Int32, Int64}" and "int_value b \<noteq> 0"
    and "\<not> (int_value a = least_value t \<and> int_value b = -1)"
  shows "\<exists>q r. val_div a b = Inr q \<and> val_irem a b = Inr r \<and> vtype q = t \<and> vtype r = t \<and>
    int_value q * int_value b + int_value r = int_value a \<and> \<bar>int_value r\<bar> < \<bar>int_value b\<bar> \<and>
    (int_value r = 0 \<or> sgn (int_value r) = sgn (int_value a))"
  using assms(1-3)
proof (cases rule: int_pairs)
  case (ints x y)
  then have "y \<noteq> 0" "\<not> (sint x = - (2 ^ (LENGTH(32) - 1)) \<and> sint y = -1)"
    using assms(4,5) by (auto simp: least_value_def)
  from word_div_rem [OF this] obtain q r where "word_div x y = Inr q" "word_rem x y = Inr r"
    "sint q * sint y + sint r = sint x" "\<bar>sint r\<bar> < \<bar>sint y\<bar>" "sint r = 0 \<or> sgn (sint r) = sgn (sint x)"
    by blast
  with ints show ?thesis
    by (intro exI [of _ "VInt q"] exI [of _ "VInt r"]) simp
next
  case (longs x y)
  then have "y \<noteq> 0" "\<not> (sint x = - (2 ^ (LENGTH(64) - 1)) \<and> sint y = -1)"
    using assms(4,5) by (auto simp: least_value_def)
  from word_div_rem [OF this] obtain q r where "word_div x y = Inr q" "word_rem x y = Inr r"
    "sint q * sint y + sint r = sint x" "\<bar>sint r\<bar> < \<bar>sint y\<bar>" "sint r = 0 \<or> sgn (sint r) = sgn (sint x)"
    by blast
  with longs show ?thesis
    by (intro exI [of _ "VLong q"] exI [of _ "VLong r"]) simp
qed

lemma val_div_zero:
  assumes "vtype a = t" "vtype b = t" "t \<in> {Int32, Int64}" and "int_value b = 0"
  shows "val_div a b = Inl (Fatal ''ArithmeticException'') \<and> val_irem a b = Inl (Fatal ''ArithmeticException'')"
  using assms(1-3) by (cases rule: int_pairs) (use assms(4) in \<open>simp_all add: word_div_def word_rem_def sint_eq\<close>)

lemma val_div_least:
  assumes "vtype a = t" "vtype b = t" "t \<in> {Int32, Int64}" and "int_value a = least_value t" "int_value b = -1"
  shows "val_div a b = Inl (Undefined ''signed overflow'') \<and> val_irem a b = Inl (Undefined ''signed overflow'')"
  using assms(1-3)
  by (cases rule: int_pairs) (use assms(4,5) in \<open>auto simp: word_div_def word_rem_def least_value_def\<close>)

end
