(* ===== verification/Vm_Frames_Spec.thy ===== *)
theory Vm_Frames_Spec
  imports Vm_Frames Frame_Insts_Spec
begin

text \<open>
  Calls and returns over the list of frames that the block of a thread holds (\<open>stack_repr\<close>). An
  operation on the frame at an address is an update of one element of the list (\<open>in_frame_nth\<close>).
  Invocation puts a new frame on the list whose first local variables are the slots that the caller had
  on top of its operand stack, in the same order, and takes these from the caller; a return takes
  the frame off and appends the slots of its result to the operand stack of the caller.
\<close>

section \<open>Frames by their position\<close>

definition frame_addr :: "vm_stack \<Rightarrow> nat \<Rightarrow> addr" where
  "frame_addr st n = st_base st + n * sizeof_Frame"

text \<open>The block, and the two pointers into it, are the same.\<close>

definition same_block :: "vm_stack \<Rightarrow> vm_stack \<Rightarrow> bool" where
  "same_block st' st \<longleftrightarrow> st_base st' = st_base st \<and> st_max_size st' = st_max_size st \<and>
     st_sp st' = st_sp st \<and> st_fp st' = st_fp st"

definition vm_stack_of :: "vm \<Rightarrow> vm_stack" where
  "vm_stack_of s = th_stack (v_thread s)"

definition with_stack :: "vm_stack \<Rightarrow> vm \<Rightarrow> vm" where
  "with_stack st s = s\<lparr>v_thread := (v_thread s)\<lparr>th_stack := st\<rparr>\<rparr>"

lemma vm_stack_of_with_stack [simp]: "vm_stack_of (with_stack st s) = st"
  by (simp add: vm_stack_of_def with_stack_def)

lemma with_stack_twice [simp]: "with_stack st' (with_stack st s) = with_stack st' s"
  by (simp add: with_stack_def)

lemma same_block_refl [simp]: "same_block st st"
  by (simp add: same_block_def)

lemma same_block_trans: "same_block a b \<Longrightarrow> same_block b c \<Longrightarrow> same_block a c"
  by (simp add: same_block_def)

lemma same_block_addr: "same_block st' st \<Longrightarrow> frame_addr st' n = frame_addr st n"
  by (simp add: same_block_def frame_addr_def)

lemma frames_at_nth: "frames_at st fs \<Longrightarrow> i < length fs \<Longrightarrow> st_mem st (frame_addr st (length fs - Suc i)) = Some (fs ! i)"
  by (induction fs arbitrary: i) (auto simp: frame_addr_def nth_Cons split: nat.splits)

lemma frames_at_above: "frames_at st fs \<Longrightarrow> length fs \<le> n \<Longrightarrow>
  frames_at (st\<lparr>st_mem := (st_mem st)(frame_addr st n \<mapsto> f)\<rparr>) fs"
  by (rule frames_at_other [of st]) (use sizeof_Frame_pos in \<open>auto simp: frame_addr_def\<close>)

lemma frames_at_update:
  assumes "frames_at st fs" "i < length fs" "fr_prev_fp f' = fr_prev_fp (fs ! i)"
  shows "frames_at (st\<lparr>st_mem := (st_mem st)(frame_addr st (length fs - Suc i) \<mapsto> f')\<rparr>) (fs[i := f'])"
  using assms
proof (induction fs arbitrary: i)
  case (Cons f fs)
  show ?case
  proof (cases i)
    case 0
    have "frames_at (st\<lparr>st_mem := (st_mem st)(frame_addr st (length fs) \<mapsto> f')\<rparr>) fs"
      using Cons.prems(1) frames_at_above [of st fs "length fs"] by simp
    then show ?thesis
      using 0 Cons.prems by (auto simp: frame_addr_def fun_upd_def)
  next
    case (Suc j)
    have "frames_at (st\<lparr>st_mem := (st_mem st)(frame_addr st (length fs - Suc j) \<mapsto> f')\<rparr>) (fs[j := f'])"
      by (rule Cons.IH) (use Suc Cons.prems in simp_all)
    moreover have "length fs \<noteq> length fs - Suc j"
      using Cons.prems(2) Suc by simp
    ultimately show ?thesis
      using Suc Cons.prems sizeof_Frame_pos by (auto simp: frame_addr_def fun_upd_def)
  qed
qed simp

lemma in_frame_nth:
  assumes repr: "stack_repr (vm_stack_of s) fs" and i: "i < length fs" "n = length fs - Suc i"
    and run: "m (fs ! i) = Inr (x, f')" "fr_prev_fp f' = fr_prev_fp (fs ! i)"
  shows "\<exists>st. in_frame (Some (frame_addr (vm_stack_of s) n)) m s = Inr (x, with_stack st s) \<and>
    stack_repr st (fs[i := f']) \<and> same_block st (vm_stack_of s)"
proof -
  let ?st = "vm_stack_of s"
  let ?st' = "?st\<lparr>st_mem := (st_mem ?st)(frame_addr ?st n \<mapsto> f')\<rparr>"
  have at: "frames_at ?st fs"
    using repr by (simp add: stack_repr_def)
  have "in_frame (Some (frame_addr ?st n)) m s = Inr (x, with_stack ?st' s)"
    using frames_at_nth [OF at i(1)] i(2) run(1)
    by (simp add: in_frame_def on_thread_def zoom_def on_frame_def deref_def vm_stack_of_def with_stack_def)
  moreover have "stack_repr ?st' (fs[i := f'])"
    using repr frames_at_update [OF at i(1) run(2)] i by (auto simp: stack_repr_def)
  ultimately show ?thesis
    by (auto simp: same_block_def)
qed

lemma prev_update [simp]:
  "fr_prev_fp (f\<lparr>fr_operand_stack := st\<rparr>) = fr_prev_fp f" "fr_prev_fp (f\<lparr>fr_local_vars := l\<rparr>) = fr_prev_fp f"
  by simp_all

lemma operands_nth:
  assumes "stack_repr (vm_stack_of s) fs" "i < length fs" "n = length fs - Suc i"
    and "m (fr_operand_stack (fs ! i)) = Inr (x, os)"
  shows "\<exists>st. operands (Some (frame_addr (vm_stack_of s) n)) m s = Inr (x, with_stack st s) \<and>
    stack_repr st (fs[i := (fs ! i)\<lparr>fr_operand_stack := os\<rparr>]) \<and> same_block st (vm_stack_of s)"
  unfolding operands_def
  by (rule in_frame_nth) (use assms in \<open>auto simp: on_operands_def zoom_def\<close>)

lemma locals_nth:
  assumes "stack_repr (vm_stack_of s) fs" "i < length fs" "n = length fs - Suc i"
    and "m (fr_local_vars (fs ! i)) = Inr (x, l)"
  shows "\<exists>st. locals (Some (frame_addr (vm_stack_of s) n)) m s = Inr (x, with_stack st s) \<and>
    stack_repr st (fs[i := (fs ! i)\<lparr>fr_local_vars := l\<rparr>]) \<and> same_block st (vm_stack_of s)"
  unfolding locals_def
  by (rule in_frame_nth) (use assms in \<open>auto simp: on_locals_def zoom_def\<close>)

lemma current_frame_addr:
  "stack_repr (vm_stack_of s) (f # fs) \<Longrightarrow> current_frame s = Some (frame_addr (vm_stack_of s) (length fs))"
  by (simp add: stack_repr_def current_frame_def CurrentFrame_def frame_addr_def vm_stack_of_def)

section \<open>The current frame\<close>

lemma with_stack_other [simp]:
  "v_classes (with_stack st s) = v_classes s" "v_objects (with_stack st s) = v_objects s"
  by (simp_all add: with_stack_def)

lemma current_mem: "stack_repr (vm_stack_of s) (f # fs) \<Longrightarrow>
  st_mem (vm_stack_of s) (frame_addr (vm_stack_of s) (length fs)) = Some f"
  by (simp add: stack_repr_def frame_addr_def)

lemma current_reads:
  assumes "stack_repr (vm_stack_of s) (f # fs)"
  shows "in_frame (current_frame s) (reads g) s = Inr (g f, s)"
proof -
  have "(st_mem (vm_stack_of s))(frame_addr (vm_stack_of s) (length fs) \<mapsto> f) = st_mem (vm_stack_of s)"
    using current_mem [OF assms] by (simp add: fun_upd_idem_iff)
  then show ?thesis
    using current_mem [OF assms] current_frame_addr [OF assms]
    by (simp add: in_frame_def on_thread_def zoom_def on_frame_def deref_def reads_def vm_stack_of_def)
qed

text \<open>An operation on the current frame.\<close>

lemma in_current_frame:
  assumes "stack_repr (vm_stack_of s) (f # fs)" "m f = Inr (x, f')" "fr_prev_fp f' = fr_prev_fp f"
  shows "\<exists>st. in_frame (current_frame s) m s = Inr (x, with_stack st s) \<and> stack_repr st (f' # fs) \<and>
    same_block st (vm_stack_of s)"
proof -
  have "\<exists>st. in_frame (Some (frame_addr (vm_stack_of s) (length fs))) m s = Inr (x, with_stack st s) \<and>
      stack_repr st ((f # fs)[0 := f']) \<and> same_block st (vm_stack_of s)"
    by (rule in_frame_nth [OF assms(1)]) (use assms(2,3) in simp_all)
  then show ?thesis
    by (simp add: current_frame_addr [OF assms(1)])
qed

lemma in_current_frame_stops:
  "stack_repr (vm_stack_of s) (f # fs) \<Longrightarrow> m f = Inl e \<Longrightarrow> in_frame (current_frame s) m s = Inl e"
  using current_mem [of s f fs] current_frame_addr [of s f fs]
  by (simp add: in_frame_def on_thread_def zoom_def on_frame_def deref_def vm_stack_of_def)

lemma same_current_frame:
  "same_block st (vm_stack_of s) \<Longrightarrow> current_frame (with_stack st s) = current_frame s"
  by (simp add: same_block_def current_frame_def CurrentFrame_def with_stack_def vm_stack_of_def)

lemma pop_current:
  assumes "stack_repr (vm_stack_of s) (f # fs)"
  shows "\<exists>p st. on_thread PopFrame s = Inr (p, with_stack st s) \<and> stack_repr st fs \<and>
    (IsStackEmpty (v_thread (with_stack st s)) \<longleftrightarrow> fs = [])"
proof -
  obtain p st where st: "Stack_PopFrame (vm_stack_of s) = Inr (p, st)" "stack_repr st fs"
    using PopFrame_top [OF assms] by blast
  have "on_thread PopFrame s = Inr (p, with_stack st s)"
    using st(1) by (simp add: on_thread_def PopFrame_def on_stack_def zoom_def vm_stack_of_def with_stack_def)
  then show ?thesis
    using st(2) stack_repr_empty [OF st(2)] by (auto simp: IsStackEmpty_def with_stack_def)
qed

section \<open>Passing arguments\<close>

lemma SetSlot_in: "i < length l \<Longrightarrow> i < 2 ^ 16 \<Longrightarrow> LocalVars_SetSlot (of_nat i) v l = Inr ((), l[i := v])"
  by (simp add: LocalVars_SetSlot_def Slots_SetSlot_def vec_set_def unat_of_nat)

lemma pass_args_frames:
  assumes "stack_repr (vm_stack_of s) (g # f # fs)" "stk (xs @ ys) c (fr_operand_stack f)" "length xs + length ys < c"
    and "length ys \<le> length (fr_local_vars g)" "length ys \<le> 2 ^ 16" "d = length fs"
  shows "\<exists>st f'. pass_args (Some (frame_addr (vm_stack_of s) d)) (Some (frame_addr (vm_stack_of s) (Suc d)))
      (length ys) s = Inr ((), with_stack st s) \<and>
    stack_repr st (g\<lparr>fr_local_vars := ys @ drop (length ys) (fr_local_vars g)\<rparr> # f' # fs) \<and>
    same_block st (vm_stack_of s) \<and> frame_stk f xs c f'"
  using assms
proof (induction ys arbitrary: s g f rule: rev_induct)
  case Nil
  then show ?case
    by (intro exI [of _ "vm_stack_of s"] exI [of _ f])
      (auto simp: ret_def with_stack_def vm_stack_of_def frame_stk_self)
next
  case (snoc y ys)
  let ?a = "Some (frame_addr (vm_stack_of s) d)" and ?b = "Some (frame_addr (vm_stack_of s) (Suc d))"
  let ?g = "g\<lparr>fr_local_vars := (fr_local_vars g)[length ys := y]\<rparr>"
  have "valid (stk ((xs @ ys) @ [y]) c) PopSlot (\<lambda>r t. r = y \<and> stk (xs @ ys) c t)"
    by (rule PopSlot_not_full) (use snoc.prems in simp)
  with snoc.prems(2) obtain os where os: "PopSlot (fr_operand_stack f) = Inr (y, os)" "stk (xs @ ys) c os"
    by (auto simp: valid_def)
  let ?f = "f\<lparr>fr_operand_stack := os\<rparr>"
  obtain st1 where st1: "operands ?a PopSlot s = Inr (y, with_stack st1 s)" "stack_repr st1 (g # ?f # fs)"
    "same_block st1 (vm_stack_of s)"
    using operands_nth [OF snoc.prems(1), of 1 d PopSlot y os] os snoc.prems(6) by auto
  have set: "LocalVars_SetSlot (of_nat (length ys)) y (fr_local_vars g) = Inr ((), (fr_local_vars g)[length ys := y])"
    by (rule SetSlot_in) (use snoc.prems in auto)
  obtain st2 where st2: "locals ?b (LocalVars_SetSlot (of_nat (length ys)) y) (with_stack st1 s) = Inr ((), with_stack st2 s)"
    "stack_repr st2 (?g # ?f # fs)" "same_block st2 (vm_stack_of s)"
    using locals_nth [of "with_stack st1 s" "g # ?f # fs" 0 "Suc d" "LocalVars_SetSlot (of_nat (length ys)) y" "()"
        "(fr_local_vars g)[length ys := y]"] set st1(2) snoc.prems(6) same_block_trans [OF _ st1(3)]
    by (auto simp: same_block_addr [OF st1(3)])
  have "\<exists>st f'. pass_args (Some (frame_addr (vm_stack_of (with_stack st2 s)) d))
      (Some (frame_addr (vm_stack_of (with_stack st2 s)) (Suc d))) (length ys) (with_stack st2 s) =
        Inr ((), with_stack st (with_stack st2 s)) \<and>
    stack_repr st (?g\<lparr>fr_local_vars := ys @ drop (length ys) (fr_local_vars ?g)\<rparr> # f' # fs) \<and>
    same_block st (vm_stack_of (with_stack st2 s)) \<and> frame_stk ?f xs c f'"
    by (rule snoc.IH) (use st2 os snoc.prems in auto)
  then obtain st f' where st: "pass_args ?a ?b (length ys) (with_stack st2 s) = Inr ((), with_stack st s)"
    "stack_repr st (?g\<lparr>fr_local_vars := ys @ drop (length ys) (fr_local_vars ?g)\<rparr> # f' # fs)"
    "same_block st (vm_stack_of s)" "frame_stk ?f xs c f'"
    using same_block_trans [OF _ st2(3)] by (auto simp: same_block_addr [OF st2(3)])
  have "pass_args ?a ?b (length (ys @ [y])) s = Inr ((), with_stack st s)"
    using st1(1) st2(1) st(1) by (simp add: bind_def andthen_def)
  moreover have "ys @ drop (length ys) (fr_local_vars ?g) = (ys @ [y]) @ drop (length (ys @ [y])) (fr_local_vars g)"
    using snoc.prems(4) by (simp add: drop_update_swap Cons_nth_drop_Suc [symmetric])
  ultimately show ?case
    using st(2,3,4) by (intro exI [of _ st] exI [of _ f']) (auto simp: frame_stk_def)
qed

section \<open>Invocation\<close>

lemma CreateFrame_frames:
  assumes "stack_repr (vm_stack_of s) fs" "fits (st_max_size (vm_stack_of s)) m (length fs)"
  shows "\<exists>st. on_thread (CreateFrame m) s = Inr (frame_addr (vm_stack_of s) (length fs), with_stack st s) \<and>
    stack_repr st (Frame_new m (st_fp (vm_stack_of s)) # fs) \<and>
    st_base st = st_base (vm_stack_of s) \<and> st_max_size st = st_max_size (vm_stack_of s)"
proof -
  obtain p st where "Stack_CreateFrame m (vm_stack_of s) = Inr (p, st)"
    "stack_repr st (Frame_new m (st_fp (vm_stack_of s)) # fs)" "st_max_size st = st_max_size (vm_stack_of s)"
    using CreateFrame_room [OF assms] by blast
  moreover from this(1) assms(1) have "p = frame_addr (vm_stack_of s) (length fs)" "st_base st = st_base (vm_stack_of s)"
    by (auto simp: CreateFrame_unfold stack_repr_def frame_addr_def split: if_splits)
  ultimately show ?thesis
    by (auto simp: on_thread_def CreateFrame_def on_stack_def zoom_def vm_stack_of_def with_stack_def)
qed

lemma InvokeMethod_frames:
  assumes repr: "stack_repr (vm_stack_of s) (f # fs)" and room: "fits (st_max_size (vm_stack_of s)) m (length (f # fs))"
    and args: "stk (xs @ ys) c (fr_operand_stack f)" "length xs + length ys < c" "length ys \<le> unat (m_max_locals m)"
    and m: "unat (m_max_locals m) < 2 ^ 16" "m_arg_slot_count m = of_nat (length ys)"
  shows "\<exists>st f' g. InvokeMethod (current_frame s) m s = Inr ((), with_stack st s) \<and>
    stack_repr st (g # f' # fs) \<and> frame_stk f xs c f' \<and>
    g = (Frame_new m (current_frame s))\<lparr>fr_local_vars := ys @ replicate (unat (m_max_locals m) - length ys) 0\<rparr>"
proof -
  let ?g = "Frame_new m (st_fp (vm_stack_of s))" and ?d = "length fs"
  have lv: "fr_local_vars ?g = replicate (unat (m_max_locals m)) 0"
    using m(1) by (simp add: Frame_new_def LocalVars_new_def Slots_new_def unsigned_ucast_eq take_bit_nat_eq_self)
  have "m_arg_slot_count m - 1 = of_int (int (length ys) - 1)"
    using m(2) by simp
  then have "sint (m_arg_slot_count m - 1) = int (length ys) - 1"
    using args(3) m(1) sint_of_int_in [where ?'w = 32, of "int (length ys) - 1"] by simp
  then have count: "nat (sint (m_arg_slot_count m - 1) + 1) = length ys"
    by simp
  obtain st1 where st1: "on_thread (CreateFrame m) s = Inr (frame_addr (vm_stack_of s) (Suc ?d), with_stack st1 s)"
    "stack_repr st1 (?g # f # fs)" "st_base st1 = st_base (vm_stack_of s)"
    using CreateFrame_frames [OF repr room] by auto
  have addr: "frame_addr st1 n = frame_addr (vm_stack_of s) n" for n
    using st1(3) by (simp add: frame_addr_def)
  obtain st f' where "pass_args (Some (frame_addr st1 ?d)) (Some (frame_addr st1 (Suc ?d))) (length ys) (with_stack st1 s) =
      Inr ((), with_stack st s)"
    "stack_repr st (?g\<lparr>fr_local_vars := ys @ drop (length ys) (fr_local_vars ?g)\<rparr> # f' # fs)" "frame_stk f xs c f'"
    using pass_args_frames [of "with_stack st1 s" ?g f fs xs ys c ?d] st1(2) args m(1) by (auto simp: lv)
  moreover have "current_frame s = st_fp (vm_stack_of s)"
    by (simp add: current_frame_def CurrentFrame_def vm_stack_of_def)
  ultimately show ?thesis
    using st1(1) count current_frame_addr [OF repr]
    by (intro exI [of _ st] exI [of _ f'] exI [of _ "?g\<lparr>fr_local_vars := ys @ drop (length ys) (fr_local_vars ?g)\<rparr>"])
      (simp add: InvokeMethod_def bind_def addr lv drop_replicate)
qed

section \<open>Returns\<close>

text \<open>The slots of a value move from one operand stack to another.\<close>

lemma return_value:
  assumes ts: "typed_stack push pop enc w" and ys: "ys = enc v"
    and repr: "stack_repr (vm_stack_of s) (f # fs)"
    and mem: "st_mem (vm_stack_of s) (frame_addr (vm_stack_of s) (Suc (length fs))) = Some g"
    and g: "stk (zs @ ys) cg (fr_operand_stack g)"
    and f: "stk xs c (fr_operand_stack f)" "length xs + w \<le> c"
  shows "\<exists>st f'. bind (operands (Some (frame_addr (vm_stack_of s) (Suc (length fs)))) pop)
      (\<lambda>v. operands (current_frame s) (push v)) s = Inr ((), with_stack st s) \<and>
    stack_repr st (f' # fs) \<and> frame_stk f (xs @ ys) c f'"
proof -
  let ?st = "vm_stack_of s" and ?a = "frame_addr (vm_stack_of s) (Suc (length fs))"
  obtain os where os: "pop (fr_operand_stack g) = Inr (v, os)"
    using typed_stack.pop_top [OF ts, of zs v cg] g ys by (auto simp: valid_def)
  define st1 where "st1 = ?st\<lparr>st_mem := (st_mem ?st)(?a \<mapsto> g\<lparr>fr_operand_stack := os\<rparr>)\<rparr>"
  have pop: "operands (Some ?a) pop s = Inr (v, with_stack st1 s)"
    using mem os by (simp add: operands_def in_frame_def on_operands_def on_thread_def zoom_def on_frame_def deref_def
      vm_stack_of_def with_stack_def st1_def)
  have repr1: "stack_repr st1 (f # fs)"
    using repr frames_at_above [of ?st "f # fs" "Suc (length fs)"]
    by (simp add: stack_repr_def st1_def del: frames_at.simps)
  have addr: "frame_addr st1 n = frame_addr ?st n" for n
    by (simp add: frame_addr_def st1_def)
  obtain os' where os': "push v (fr_operand_stack f) = Inr ((), os')" "stk (xs @ enc v) c os'"
    using typed_stack.push_room [OF ts f(2), of v] f(1) by (auto simp: valid_def)
  have "\<exists>st. operands (Some (frame_addr (vm_stack_of (with_stack st1 s)) (length fs))) (push v) (with_stack st1 s) =
      Inr ((), with_stack st (with_stack st1 s)) \<and>
    stack_repr st ((f # fs)[0 := ((f # fs) ! 0)\<lparr>fr_operand_stack := os'\<rparr>]) \<and>
    same_block st (vm_stack_of (with_stack st1 s))"
    by (rule operands_nth) (use repr1 os'(1) in \<open>simp_all del: frames_at.simps\<close>)
  then obtain st where "operands (current_frame s) (push v) (with_stack st1 s) = Inr ((), with_stack st s)"
    "stack_repr st (f\<lparr>fr_operand_stack := os'\<rparr> # fs)"
    unfolding current_frame_addr [OF repr] vm_stack_of_with_stack with_stack_twice addr by (elim exE conjE) simp
  moreover have "frame_stk f (xs @ ys) c (f\<lparr>fr_operand_stack := os'\<rparr>)"
    using os'(2) ys by (auto simp: frame_stk_def)
  moreover have "bind (operands (Some ?a) pop) (\<lambda>v. operands (current_frame s) (push v)) s =
      operands (current_frame s) (push v) (with_stack st1 s)"
    using pop by (rule bind_Inr)
  ultimately show ?thesis
    by auto
qed

lemma Return_frames:
  assumes repr: "stack_repr (vm_stack_of s) (g # f # fs)"
    and T: "T \<in> {Int32, Int64, Float, Double, ObjectPtr}"
    and g: "stk (zs @ ys) cg (fr_operand_stack g)" "length ys = twidth T"
    and f: "stk xs c (fr_operand_stack f)" "length xs + twidth T \<le> c"
  shows "\<exists>st f'. Return (Some T) s = Inr ((), with_stack st s) \<and> stack_repr st (f' # fs) \<and> frame_stk f (xs @ ys) c f'"
proof -
  obtain p st1 where pop: "Stack_PopFrame (vm_stack_of s) = Inr (p, st1)" "stack_repr st1 (f # fs)"
    "st_mem st1 = st_mem (vm_stack_of s)"
    using PopFrame_top [OF repr] by blast
  have p: "p = frame_addr st1 (Suc (length fs))" "st_base st1 = st_base (vm_stack_of s)"
    using pop(1) repr by (auto simp: Stack_PopFrame_def deref_def stack_repr_def frame_addr_def)
  have mem: "st_mem st1 p = Some g"
    using repr pop(3) p by (simp add: stack_repr_def frame_addr_def)
  have run: "on_thread PopFrame s = Inr (p, with_stack st1 s)"
    using pop(1) by (simp add: on_thread_def PopFrame_def on_stack_def zoom_def vm_stack_of_def with_stack_def)
  have move: "\<exists>st f'. bind (operands (Some p) pop) (\<lambda>v. operands (current_frame (with_stack st1 s)) (push v)) (with_stack st1 s) =
      Inr ((), with_stack st s) \<and> stack_repr st (f' # fs) \<and> frame_stk f (xs @ ys) c f'"
    if "typed_stack push pop enc (twidth T)" "ys = enc v" for push pop enc v
    using return_value [OF that, of "with_stack st1 s" f fs g zs cg xs c] pop(2) mem g(1) f p(1) by simp
  show ?thesis
  proof -
    have run_bind: "bind (on_thread PopFrame) k s = k p (with_stack st1 s)" for k :: "addr \<Rightarrow> (vm, unit) op"
      using run by (rule bind_Inr)
    have cf: "bind (reads current_frame) k t = k (current_frame t) t" for k :: "addr option \<Rightarrow> (vm, unit) op" and t
      by (simp add: bind_def reads_def)
    consider "T = Int32" | "T = Int64" | "T = Float" | "T = Double" | "T = ObjectPtr"
      using T by blast
    then show ?thesis
    proof cases
      case 1
      then show ?thesis
        using move [of PushInt PopInt enc1 "dec1 ys"] g(2) int_stack.typed_stack_axioms
        by (simp add: Return_def run_bind cf enc1_dec1)
    next
      case 2
      then show ?thesis
        using move [of PushLong PopLong enc2 "dec2 ys"] g(2) long_stack.typed_stack_axioms
        by (simp add: Return_def run_bind cf enc2_dec2)
    next
      case 3
      then show ?thesis
        using move [of PushFloat PopFloat enc1 "dec1 ys"] g(2) float_stack.typed_stack_axioms
        by (simp add: Return_def run_bind cf enc1_dec1)
    next
      case 4
      then show ?thesis
        using move [of PushDouble PopDouble enc2 "dec2 ys"] g(2) double_stack.typed_stack_axioms
        by (simp add: Return_def run_bind cf enc2_dec2)
    next
      case 5
      then show ?thesis
        using move [of PushRef PopRef enc2 "dec2 ys"] g(2) ref_stack.typed_stack_axioms
        by (simp add: Return_def run_bind cf enc2_dec2)
    qed
  qed
qed

end
