(* ===== verification/Vm_References.thy ===== *)
theory Vm_References
  imports Vm_Frames
begin

text \<open>
  The reference instructions: \<open>src/src/instructions/reference_insts.cpp\<close>. Six of them assert that the
  constant they are about to use is a null pointer; \<open>e_asserts\<close> says whether the build keeps
  assertions (the build file asks for a debug build, which does). Shown: with assertions none of the
  six instructions ever completes.
\<close>

section \<open>Helpers\<close>

definition frame_class :: "addr option \<Rightarrow> (vm, class_id) op" where
  "frame_class frame = bind (frame_method frame) (\<lambda>m. ret (cm_class m))"

text \<open>\<open>dynamic_cast<ClassRefConstant*>\<close> and \<open>dynamic_cast<FieldRefConstant*>\<close> of a constant: is the result not null?\<close>

fun is_class_ref :: "rt_constant option \<Rightarrow> bool" where
  "is_class_ref (Some (ClassRefConstant _ _)) = True"
| "is_class_ref _ = False"

fun is_field_ref :: "rt_constant option \<Rightarrow> bool" where
  "is_field_ref (Some (FieldRefConstant _ _ _ _ _)) = True"
| "is_field_ref _ = False"

text \<open>\<open>assert(p == nullptr)\<close>, where \<open>p\<close> is not null exactly if \<open>present\<close>.\<close>

definition assert_null :: "env \<Rightarrow> bool \<Rightarrow> (vm, unit) op" where
  "assert_null env present = (if e_asserts env \<and> present then raise Assert_Failure else ret ())"

definition class_constant :: "env \<Rightarrow> bool \<Rightarrow> class_load \<Rightarrow> class_id \<Rightarrow> u4 \<Rightarrow> (vm, class_id option) op" where
  "class_constant env asserted load owner i =
     bind (get_constant owner i) (\<lambda>k.
     andthen (if asserted then assert_null env (is_class_ref k) else ret ())
     (if \<not> is_class_ref k then raise Null_Dereference else ResolveClass load owner i))"

definition field_constant :: "env \<Rightarrow> bool \<Rightarrow> class_load \<Rightarrow> class_id \<Rightarrow> u4 \<Rightarrow> (vm, member_id) op" where
  "field_constant env asserted load owner i =
     bind (get_constant owner i) (\<lambda>k.
     andthen (if asserted then assert_null env (is_field_ref k) else ret ())
     (if \<not> is_field_ref k then raise Null_Dereference else ResolveField load owner i))"

definition read_field :: "member_id \<Rightarrow> (vm, field) op" where
  "read_field f = bind (reads v_classes) (\<lambda>ct. lift_res (field_at ct f))"

definition in_object :: "ref64 \<Rightarrow> (jobject, 'a) op \<Rightarrow> (vm, 'a) op" where
  "in_object r m s = (case v_objects s r of
     None \<Rightarrow> Inl (Undefined ''reference to no object'')
   | Some ob \<Rightarrow>
       (case m ob of
          Inl e \<Rightarrow> Inl e
        | Inr (x, ob') \<Rightarrow> Inr (x, s\<lparr>v_objects := (v_objects s)(r := Some ob')\<rparr>)))"

definition class_ref :: "env \<Rightarrow> class_id option \<Rightarrow> ref64" where
  "class_ref env p = (case p of None \<Rightarrow> 0 | Some c \<Rightarrow> e_class_ptr env c)"

definition is_int_descriptor :: "string \<Rightarrow> bool" where
  "is_int_descriptor d \<longleftrightarrow> d = ''Z'' \<or> d = ''B'' \<or> d = ''C'' \<or> d = ''S'' \<or> d = ''I''"

definition is_ref_descriptor :: "string \<Rightarrow> bool" where
  "is_ref_descriptor d \<longleftrightarrow> char0 d = CHR ''L'' \<or> char0 d = CHR ''[''"

section \<open>Exceptions\<close>

text \<open>A handler at position 0 is not found. The bound is more than the frames a stack can hold.\<close>

primrec unwind :: "nat \<Rightarrow> env \<Rightarrow> class_load \<Rightarrow> ref64 \<Rightarrow> (vm, bool) op" where
  "unwind 0 env load ex = raise (Undefined ''endless unwinding'')"
| "unwind (Suc k) env load ex =
     bind (reads current_frame) (\<lambda>frame.
     bind (in_frame frame (reads NextPc)) (\<lambda>next_pc.
     bind (frame_method frame) (\<lambda>method.
     bind (GetClass env ex) (\<lambda>ex_class.
     bind (FindExceptionHandler load method ex_class (next_pc - 1)) (\<lambda>handler_pc.
     if 0 <s handler_pc then
       andthen (operands frame (modifies Clear)) (
       andthen (operands frame (PushRef ex)) (
       andthen (in_frame frame (modifies (SetNextPc handler_pc)))
       (ret True)))
     else
       bind (on_thread PopFrame) (\<lambda>_.
       bind (reads v_thread) (\<lambda>t.
       if IsStackEmpty t then ret False else unwind k env load ex)))))))"

definition FindAndGotoExceptionHandler :: "env \<Rightarrow> class_load \<Rightarrow> ref64 \<Rightarrow> (vm, bool) op" where
  "FindAndGotoExceptionHandler env load ex s = unwind (Suc (st_max_size (th_stack (v_thread s)))) env load ex s"

text \<open>The message and the name of the class go to the standard output. The trace is empty.\<close>

definition HandleUncaughtException :: "env \<Rightarrow> ref64 \<Rightarrow> (vm, unit) op" where
  "HandleUncaughtException env ex =
     andthen (on_thread (modifies ClearStack)) (
     bind (GetClass env ex) (\<lambda>klass.
     bind (read_class klass) (\<lambda>_. ret ())))"

definition exec_ATHROW :: "env \<Rightarrow> class_load \<Rightarrow> addr option \<Rightarrow> (vm, unit) op" where
  "exec_ATHROW env load frame =
     bind (operands frame PopRef) (\<lambda>ex.
     if ex = 0 then raise (Runtime_Error ''java.lang.NullPointerException'')
     else
       bind (FindAndGotoExceptionHandler env load ex) (\<lambda>found.
       if \<not> found then HandleUncaughtException env ex else ret ()))"

section \<open>New objects and arrays\<close>

definition alloc_object :: "env \<Rightarrow> class_id option \<Rightarrow> size_t \<Rightarrow> (vm, ref64) op" where
  "alloc_object env c obj_size =
     bind (on_heap (AllocObject (e_realloc env) obj_size)) (\<lambda>p.
     case p of
       None \<Rightarrow> ret 0
     | Some r \<Rightarrow>
         andthen (modifies (\<lambda>s. s\<lparr>v_objects := (v_objects s)
           (r := Some (heap_object c (unat (RoundUp obj_size kObjectAlignment))))\<rparr>))
         (ret r))"

text \<open>\<open>PrimitiveArray<T>::Alloc\<close>: the length is stored through the pointer without a test.\<close>

definition PrimitiveArray_Alloc :: "env \<Rightarrow> class_id option \<Rightarrow> size_t \<Rightarrow> 32 word \<Rightarrow> (vm, ref64) op" where
  "PrimitiveArray_Alloc env c element_size len =
     bind (alloc_object env c (array_bytes element_size len)) (\<lambda>arr.
     if arr = 0 then raise Null_Dereference
     else andthen (in_object arr (SetArrayLength len)) (ret arr))"

definition GetRefByName :: "env \<Rightarrow> ref64 \<Rightarrow> string \<Rightarrow> string \<Rightarrow> (vm, ref64) op" where
  "GetRefByName env r name descriptor =
     bind (GetClass env r) (\<lambda>klass.
     bind (reads v_classes) (\<lambda>ct.
     bind (lift_res (GetField ct klass name descriptor False)) (\<lambda>fid.
     bind (read_field fid) (\<lambda>f. in_object r (GetRefField (f_slot_id f))))))"

text \<open>When the class is not initialised, its initialiser is scheduled and the instruction runs again later.\<close>

definition exec_NEW :: "env \<Rightarrow> class_load \<Rightarrow> u4 \<Rightarrow> addr option \<Rightarrow> (vm, unit) op" where
  "exec_NEW env load index frame =
     bind (frame_class frame) (\<lambda>owner.
     bind (class_constant env True load owner index) (\<lambda>c.
     bind (read_class c) (\<lambda>cl.
     if \<not> c_clinit_started cl then
       andthen (revert_next_pc frame) (InitClass c)
     else if IsInterface cl \<or> Class_IsAbstract cl then
       raise (Runtime_Error ''java.lang.InstantiationError'')
     else
       bind (alloc_object env c (of_nat (ObjectSize cl))) (\<lambda>ref.
       operands frame (PushRef ref)))))"

definition exec_NEW_ARRAY :: "env \<Rightarrow> class_load \<Rightarrow> u1 \<Rightarrow> addr option \<Rightarrow> (vm, unit) op" where
  "exec_NEW_ARRAY env load array_type frame =
     bind (operands frame PopInt) (\<lambda>count.
     if count <s 0 then raise (Runtime_Error ''java.lang.NegativeArraySizeException'')
     else
       bind (GetPrimitiveArrayClass load array_type) (\<lambda>arr_class.
       bind (NewArray env arr_class) (\<lambda>arr.
       operands frame (PushRef arr))))"

definition exec_ANEW_ARRAY :: "env \<Rightarrow> class_load \<Rightarrow> u4 \<Rightarrow> addr option \<Rightarrow> (vm, unit) op" where
  "exec_ANEW_ARRAY env load index frame =
     bind (frame_class frame) (\<lambda>owner.
     bind (class_constant env True load owner index) (\<lambda>c.
     bind (operands frame PopInt) (\<lambda>count.
     if count <s 0 then raise (Runtime_Error ''java.lang.NegativeArraySizeException'')
     else
       bind (GetArrayClass load c) (\<lambda>arr_class.
       bind (NewArray env arr_class) (\<lambda>arr.
       operands frame (PushRef arr))))))"

text \<open>The length is not pushed.\<close>

definition exec_ARRAY_LENGTH :: "addr option \<Rightarrow> (vm, unit) op" where
  "exec_ARRAY_LENGTH frame =
     bind (operands frame PopRef) (\<lambda>arr_ref.
     if arr_ref = 0 then raise (Runtime_Error ''java.lang.NullPointerException'') else ret ())"

text \<open>The counts are popped from the last dimension to the first.\<close>

primrec PopAndCheckCounts :: "addr option \<Rightarrow> nat \<Rightarrow> 32 word list \<Rightarrow> (vm, 32 word list) op" where
  "PopAndCheckCounts frame 0 counts = ret counts"
| "PopAndCheckCounts frame (Suc i) counts =
     bind (operands frame PopInt) (\<lambda>n.
     if n <s 0 then raise (Runtime_Error ''java.lang.NegativeArraySizeException'')
     else PopAndCheckCounts frame i (n # counts))"

definition NewMultiDimensionalArray :: "env \<Rightarrow> class_load \<Rightarrow> 32 word list \<Rightarrow> class_id option \<Rightarrow> (vm, ref64) op" where
  "NewMultiDimensionalArray env load counts arr_class =
     bind (lift_res (vec_get counts 0)) (\<lambda>count.
     bind (NewArray env arr_class) (\<lambda>arr.
     andthen (if 1 < length counts
              then discard (repeat_op (nat (sint count)) (GetComponentClass load arr_class)) else ret ())
     (ret arr)))"

definition exec_MULTI_ANEW_ARRAY :: "env \<Rightarrow> class_load \<Rightarrow> u2 \<Rightarrow> u1 \<Rightarrow> addr option \<Rightarrow> (vm, unit) op" where
  "exec_MULTI_ANEW_ARRAY env load index dimensions frame =
     bind (frame_class frame) (\<lambda>owner.
     bind (class_constant env True load owner (ucast index)) (\<lambda>c.
     bind (PopAndCheckCounts frame (unat dimensions) []) (\<lambda>counts.
     bind (NewMultiDimensionalArray env load counts c) (\<lambda>arr.
     operands frame (PushRef arr)))))"

section \<open>Fields\<close>

definition exec_PUT_STATIC :: "env \<Rightarrow> class_load \<Rightarrow> u4 \<Rightarrow> addr option \<Rightarrow> (vm, unit) op" where
  "exec_PUT_STATIC env load index frame =
     bind (frame_class frame) (\<lambda>owner.
     bind (field_constant env True load owner index) (\<lambda>fid.
     bind (read_field fid) (\<lambda>f.
     bind (read_class (Some (cm_class f))) (\<lambda>cl.
     if \<not> c_clinit_started cl then
       andthen (revert_next_pc frame) (InitClass (Some (cm_class f)))
     else if \<not> IsStatic f then raise (Runtime_Error ''java.lang.IncompatibleClassChangeError'')
     else
       bind (frame_method frame) (\<lambda>m.
       if IsFinal f \<and> (cm_class f \<noteq> cm_class m \<or> cm_name m \<noteq> ''<clinit>'')
       then raise (Runtime_Error ''java.lang.IllegalAccessError'')
       else
         let d = cm_descriptor f; slot_id = ucast (f_slot_id f); c = Some (cm_class f) in
         if is_int_descriptor d then
           bind (operands frame PopInt) (\<lambda>v. on_static_vars c (Slots_SetInt slot_id v))
         else if d = ''F'' then
           bind (operands frame PopFloat) (\<lambda>v. on_static_vars c (Slots_SetFloat slot_id v))
         else if d = ''J'' then
           bind (operands frame PopLong) (\<lambda>v. on_static_vars c (Slots_SetLong slot_id v))
         else if d = ''D'' then
           bind (operands frame PopDouble) (\<lambda>v. on_static_vars c (Slots_SetDouble slot_id v))
         else if is_ref_descriptor d then
           bind (operands frame PopRef) (\<lambda>v. on_static_vars c (Slots_SetRef slot_id v))
         else ret ())))))"

definition exec_GET_STATIC :: "env \<Rightarrow> class_load \<Rightarrow> u4 \<Rightarrow> addr option \<Rightarrow> (vm, unit) op" where
  "exec_GET_STATIC env load index frame =
     bind (frame_class frame) (\<lambda>owner.
     bind (field_constant env True load owner index) (\<lambda>fid.
     bind (read_field fid) (\<lambda>f.
     bind (read_class (Some (cm_class f))) (\<lambda>cl.
     if \<not> c_clinit_started cl then
       andthen (revert_next_pc frame) (InitClass (Some (cm_class f)))
     else if \<not> IsStatic f then raise (Runtime_Error ''java.lang.IncompatibleClassChangeError'')
     else
       let d = cm_descriptor f; slot_id = ucast (f_slot_id f); c = Some (cm_class f) in
       if is_int_descriptor d then
         bind (on_static_vars c (Slots_GetInt slot_id)) (\<lambda>v. operands frame (PushInt v))
       else if d = ''F'' then
         bind (on_static_vars c (Slots_GetFloat slot_id)) (\<lambda>v. operands frame (PushFloat v))
       else if d = ''J'' then
         bind (on_static_vars c (Slots_GetLong slot_id)) (\<lambda>v. operands frame (PushLong v))
       else if d = ''D'' then
         bind (on_static_vars c (Slots_GetDouble slot_id)) (\<lambda>v. operands frame (PushDouble v))
       else if is_ref_descriptor d then
         bind (on_static_vars c (Slots_GetRef slot_id)) (\<lambda>v. operands frame (PushRef v))
       else ret ()))))"

definition exec_GET_FIELD :: "env \<Rightarrow> class_load \<Rightarrow> u4 \<Rightarrow> addr option \<Rightarrow> (vm, unit) op" where
  "exec_GET_FIELD env load index frame =
     bind (frame_class frame) (\<lambda>owner.
     bind (field_constant env True load owner index) (\<lambda>fid.
     bind (read_field fid) (\<lambda>f.
     if IsStatic f then raise (Runtime_Error ''java.lang.IncompatibleClassChangeError'')
     else
       bind (operands frame PopRef) (\<lambda>ref.
       if ref = 0 then raise (Runtime_Error ''java.lang.NullPointerException'')
       else
         let d = cm_descriptor f; slot_id = f_slot_id f in
         if is_int_descriptor d then
           bind (in_object ref (GetIntField slot_id)) (\<lambda>v. operands frame (PushInt v))
         else if d = ''F'' then
           bind (in_object ref (GetFloatField slot_id)) (\<lambda>v. operands frame (PushFloat v))
         else if d = ''J'' then
           bind (in_object ref (GetLongField slot_id)) (\<lambda>v. operands frame (PushLong v))
         else if d = ''D'' then
           bind (in_object ref (GetDoubleField slot_id)) (\<lambda>v. operands frame (PushDouble v))
         else if is_ref_descriptor d then
           bind (in_object ref (GetRefField slot_id)) (\<lambda>v. operands frame (PushRef v))
         else ret ()))))"

text \<open>The value is popped before the object.\<close>

definition put_in_object :: "addr option \<Rightarrow> (jobject, unit) op \<Rightarrow> (vm, unit) op" where
  "put_in_object frame m =
     bind (operands frame PopRef) (\<lambda>ref.
     if ref = 0 then raise (Runtime_Error ''java.lang.NullPointerException'') else in_object ref m)"

definition exec_PUT_FIELD :: "env \<Rightarrow> class_load \<Rightarrow> u4 \<Rightarrow> addr option \<Rightarrow> (vm, unit) op" where
  "exec_PUT_FIELD env load index frame =
     bind (frame_class frame) (\<lambda>owner.
     bind (field_constant env False load owner index) (\<lambda>fid.
     bind (read_field fid) (\<lambda>f.
     if IsStatic f then raise (Runtime_Error ''java.lang.IncompatibleClassChangeError'')
     else
       bind (frame_method frame) (\<lambda>m.
       if IsFinal f \<and> (cm_class m \<noteq> cm_class f \<or> cm_name m \<noteq> ''<init>'')
       then raise (Runtime_Error ''java.lang.IllegalAccessError'')
       else
         let d = cm_descriptor f; slot_id = f_slot_id f in
         if is_int_descriptor d then
           bind (operands frame PopInt) (\<lambda>v. put_in_object frame (SetIntField slot_id v))
         else if d = ''F'' then
           bind (operands frame PopFloat) (\<lambda>v. put_in_object frame (SetFloatField slot_id v))
         else if d = ''J'' then
           bind (operands frame PopLong) (\<lambda>v. put_in_object frame (SetLongField slot_id v))
         else if d = ''D'' then
           bind (operands frame PopDouble) (\<lambda>v. put_in_object frame (SetDoubleField slot_id v))
         else if is_ref_descriptor d then
           bind (operands frame PopRef) (\<lambda>v. put_in_object frame (SetRefField slot_id v))
         else ret ()))))"

section \<open>Types and constants\<close>

definition exec_INSTANCE_OF :: "env \<Rightarrow> class_load \<Rightarrow> u4 \<Rightarrow> addr option \<Rightarrow> (vm, unit) op" where
  "exec_INSTANCE_OF env load index frame =
     bind (frame_class frame) (\<lambda>owner.
     bind (class_constant env False load owner index) (\<lambda>c.
     bind (operands frame PopRef) (\<lambda>ref.
     if ref = 0 then operands frame (PushInt 0)
     else bind (IsInstanceOf env load ref c) (\<lambda>b. operands frame (PushInt (if b then 1 else 0))))))"

definition exec_CHECK_CAST :: "env \<Rightarrow> class_load \<Rightarrow> u4 \<Rightarrow> addr option \<Rightarrow> (vm, unit) op" where
  "exec_CHECK_CAST env load index frame =
     bind (frame_class frame) (\<lambda>owner.
     bind (class_constant env False load owner index) (\<lambda>c.
     bind (operands frame PopRef) (\<lambda>ref.
     andthen (if ref \<noteq> 0 then
                bind (IsInstanceOf env load ref c) (\<lambda>b.
                if \<not> b then raise (Runtime_Error ''java.lang.ClassCastException'') else ret ())
              else ret ())
     (operands frame (PushRef ref)))))"

definition LoadConstant :: "env \<Rightarrow> class_load \<Rightarrow> addr option \<Rightarrow> u4 \<Rightarrow> (vm, unit) op" where
  "LoadConstant env load frame index =
     bind (frame_class frame) (\<lambda>owner.
     bind (get_constant owner index) (\<lambda>k.
     case k of
       None \<Rightarrow> raise Null_Dereference
     | Some (IntegerConstant v) \<Rightarrow> operands frame (PushInt v)
     | Some (FloatConstant v) \<Rightarrow> operands frame (PushFloat v)
     | Some (StringConstant str) \<Rightarrow> bind (NewJString env load str) (\<lambda>r. operands frame (PushRef r))
     | Some (ClassRefConstant _ _) \<Rightarrow>
         bind (ResolveClass load owner index) (\<lambda>c. operands frame (PushRef (class_ref env c)))
     | _ \<Rightarrow> raise (Runtime_Error ''todo: ldc!'')))"

definition exec_LDC2_W :: "u4 \<Rightarrow> addr option \<Rightarrow> (vm, unit) op" where
  "exec_LDC2_W index frame =
     bind (frame_class frame) (\<lambda>owner.
     bind (get_constant owner index) (\<lambda>k.
     case k of
       None \<Rightarrow> raise Null_Dereference
     | Some (LongConstant v) \<Rightarrow> operands frame (PushLong v)
     | Some (DoubleConstant v) \<Rightarrow> operands frame (PushDouble v)
     | _ \<Rightarrow> raise (Runtime_Error ''todo: ldc2_w!'')))"

fun exec_reference :: "env \<Rightarrow> class_load \<Rightarrow> addr option \<Rightarrow> reference_inst \<Rightarrow> (vm, unit) op" where
  "exec_reference env load frame ATHROW = exec_ATHROW env load frame"
| "exec_reference env load frame (NEW i) = exec_NEW env load i frame"
| "exec_reference env load frame (NEW_ARRAY t) = exec_NEW_ARRAY env load t frame"
| "exec_reference env load frame (ANEW_ARRAY i) = exec_ANEW_ARRAY env load i frame"
| "exec_reference env load frame ARRAY_LENGTH = exec_ARRAY_LENGTH frame"
| "exec_reference env load frame (MULTI_ANEW_ARRAY i d) = exec_MULTI_ANEW_ARRAY env load i d frame"
| "exec_reference env load frame (PUT_STATIC i) = exec_PUT_STATIC env load i frame"
| "exec_reference env load frame (GET_STATIC i) = exec_GET_STATIC env load i frame"
| "exec_reference env load frame (GET_FIELD i) = exec_GET_FIELD env load i frame"
| "exec_reference env load frame (PUT_FIELD i) = exec_PUT_FIELD env load i frame"
| "exec_reference env load frame (INSTANCE_OF i) = exec_INSTANCE_OF env load i frame"
| "exec_reference env load frame (CHECK_CAST i) = exec_CHECK_CAST env load i frame"
| "exec_reference env load frame (LDC i) = LoadConstant env load frame i"
| "exec_reference env load frame (LDC_W i) = LoadConstant env load frame i"
| "exec_reference env load frame (LDC2_W i) = exec_LDC2_W i frame"

section \<open>The inverted assertions\<close>

fun asserts_null :: "reference_inst \<Rightarrow> bool" where
  "asserts_null (NEW i) = True"
| "asserts_null (ANEW_ARRAY i) = True"
| "asserts_null (MULTI_ANEW_ARRAY i d) = True"
| "asserts_null (PUT_STATIC i) = True"
| "asserts_null (GET_STATIC i) = True"
| "asserts_null (GET_FIELD i) = True"
| "asserts_null _ = False"

definition never_returns :: "('s, 'a) op \<Rightarrow> bool" where
  "never_returns m \<longleftrightarrow> (\<forall>s. \<exists>e. m s = Inl e)"

lemma never_returns_bind: "never_returns m \<Longrightarrow> never_returns (bind m f)"
  by (simp add: never_returns_def bind_def) (metis sum.case(1))

lemma never_returns_then: "(\<And>x. never_returns (f x)) \<Longrightarrow> never_returns (bind m f)"
  by (auto simp: never_returns_def bind_def split: sum.splits)

lemma asserted_constant:
  assumes "e_asserts env"
  shows "never_returns (class_constant env True load owner i)" "never_returns (field_constant env True load owner i)"
  unfolding class_constant_def field_constant_def andthen_def never_returns_def
  using assms by (auto simp: assert_null_def bind_def ret_def raise_def split: sum.splits)

lemma asserted_instruction:
  assumes "e_asserts env" "asserts_null i"
  shows "never_returns (exec_reference env load frame i)"
proof -
  have after_class: "never_returns (bind (frame_class frame) (\<lambda>owner. bind (class_constant env True load owner j) (k owner)))"
    and after_field: "never_returns (bind (frame_class frame) (\<lambda>owner. bind (field_constant env True load owner j) (l owner)))"
    for j k l
    using assms(1) by (intro never_returns_then never_returns_bind asserted_constant; simp)+
  then show ?thesis
    using assms(2) by (cases i) (simp_all add: exec_NEW_def exec_ANEW_ARRAY_def exec_MULTI_ANEW_ARRAY_def
      exec_PUT_STATIC_def exec_GET_STATIC_def exec_GET_FIELD_def)
qed

end
