(* ===== verification/Vm_Invoke.thy ===== *)
theory Vm_Invoke
  imports Vm_References
begin

text \<open>
  Native methods (\<open>src/src/runtime/native\<close>) and the invocation instructions
  (\<open>src/src/instructions/invoke_insts.cpp\<close>). A native method finds its arguments in the local
  variables of its frame and pushes its result on the operand stack of that frame. Shown: what is
  found after a sequence of registrations, under which names that begin with a small letter, as
  those of the Java library do, the program finds a method, and that each of its native methods is
  found under one key.
\<close>

section \<open>Native methods\<close>

datatype native_method =
    Native_GetClass | HashCode | Clone | GetPrimitiveClass | GetName0 | DesiredAssertionStatus0
  | ArrayCopy | DoubleToRawLongBits | LongBitsToDouble | FloatToRawIntBits | Intern | Initialize
  | FillInStackTrace | EmptyNativeMethod

type_synonym registry = "(string \<times> native_method) list"

definition native_key :: "string \<Rightarrow> string \<Rightarrow> string \<Rightarrow> string" where
  "native_key class_name method_name method_descriptor =
     class_name @ ''~'' @ method_name @ ''~'' @ method_descriptor"

definition RegisterNativeMethod ::
    "string \<Rightarrow> string \<Rightarrow> string \<Rightarrow> native_method \<Rightarrow> registry \<Rightarrow> registry" where
  "RegisterNativeMethod class_name method_name method_descriptor m reg =
     AList.update (native_key class_name method_name method_descriptor) m reg"

text \<open>The calls that \<open>init\<close> makes, in their order.\<close>

definition native_table :: "(string \<times> string \<times> string \<times> native_method) list" where
  "native_table =
     [(''java/lang/Object'', ''GetClass'', ''()Ljava/lang/Class;'', Native_GetClass),
      (''java/lang/Object'', ''HashCode'', ''()I'', HashCode),
      (''java/lang/Object'', ''Clone'', ''()Ljava/lang/Object;'', Clone),
      (''java/lang/Class'', ''GetPrimitiveClass'', ''(Ljava/lang/String;)Ljava/lang/Class;'', GetPrimitiveClass),
      (''java/lang/Class'', ''GetName0'', ''()Ljava/lang/String;'', GetName0),
      (''java/lang/Class'', ''DesiredAssertionStatus0'', ''(Ljava/lang/Class;)Z'', DesiredAssertionStatus0),
      (''java/lang/System'', ''ArrayCopy'', ''(Ljava/lang/Object;ILjava/lang/Object;II)V'', ArrayCopy),
      (''java/lang/Double'', ''DoubleToRawLongBits'', ''(D)J'', DoubleToRawLongBits),
      (''java/lang/Double'', ''LongBitsToDouble'', ''(J)D'', LongBitsToDouble),
      (''java/lang/Float'', ''FloatToRawIntBits'', ''(F)I'', FloatToRawIntBits),
      (''java/lang/String'', ''Intern'', ''()Ljava/lang/String;'', Intern),
      (''sun/misc/VM'', ''initialize'', ''()V'', Initialize),
      (''java/lang/Throwable'', ''FillInStackTrace'', ''(I)Ljava/lang/Throwable;'', FillInStackTrace)]"

definition init :: "registry \<Rightarrow> registry" where
  "init reg = fold (\<lambda>(c, n, d, m). RegisterNativeMethod c n d m) native_table reg"

definition FindNativeMethod :: "registry \<Rightarrow> string \<Rightarrow> string \<Rightarrow> string \<Rightarrow> native_method option" where
  "FindNativeMethod reg class_name method_name method_descriptor =
     (case map_of reg (native_key class_name method_name method_descriptor) of
        Some m \<Rightarrow> Some m
      | None \<Rightarrow>
          if method_descriptor = ''()V'' \<and> method_name = ''registerNatives'' then Some EmptyNativeMethod
          else None)"

text \<open>\<open>java_lang_Object.cpp\<close>. The hash code is the lower half of the address; a clone is null.\<close>

definition native_GetClass :: "env \<Rightarrow> addr option \<Rightarrow> (vm, unit) op" where
  "native_GetClass env frame =
     bind (locals frame LocalVars_GetThis) (\<lambda>this.
     bind (GetClass env this) (\<lambda>c. operands frame (PushRef (class_ref env c))))"

definition native_HashCode :: "addr option \<Rightarrow> (vm, unit) op" where
  "native_HashCode frame =
     bind (locals frame LocalVars_GetThis) (\<lambda>this. operands frame (PushInt (ucast this)))"

definition native_Clone :: "env \<Rightarrow> class_load \<Rightarrow> addr option \<Rightarrow> (vm, unit) op" where
  "native_Clone env load frame =
     bind (locals frame LocalVars_GetThis) (\<lambda>this.
     bind (GetClass env this) (\<lambda>klass.
     bind (load_with load klass ''java/lang/Cloneable'') (\<lambda>cloneable.
     bind (reads v_classes) (\<lambda>ct.
     bind (lift_res (IsImplements ct klass cloneable)) (\<lambda>b.
     if \<not> b then ret () else operands frame (PushRef 0))))))"

text \<open>\<open>java_lang_Class.cpp\<close>. The name that is loaded is always the same (\<open>javaStringToString\<close>).\<close>

definition native_GetPrimitiveClass :: "env \<Rightarrow> class_load \<Rightarrow> addr option \<Rightarrow> (vm, unit) op" where
  "native_GetPrimitiveClass env load frame =
     bind (locals frame (LocalVars_GetRef 0)) (\<lambda>name_obj.
     bind GetBootClassLoader (\<lambda>b.
     bind (load b (javaStringToString name_obj)) (\<lambda>c.
     operands frame (PushRef (class_ref env c)))))"

definition native_DesiredAssertionStatus0 :: "addr option \<Rightarrow> (vm, unit) op" where
  "native_DesiredAssertionStatus0 frame = operands frame (PushInt 0)"

text \<open>\<open>java_lang_System.cpp\<close>: the arguments are checked, nothing is copied.\<close>

definition CheckArrayCopy :: "env \<Rightarrow> class_load \<Rightarrow> ref64 \<Rightarrow> ref64 \<Rightarrow> (vm, bool) op" where
  "CheckArrayCopy env load src dest =
     bind (GetClass env src) (\<lambda>sc.
     bind (GetClass env dest) (\<lambda>dc.
     bind (read_class sc) (\<lambda>scl.
     if \<not> IsArrayClass (c_name scl) then ret False
     else
       bind (read_class dc) (\<lambda>dcl.
       if \<not> IsArrayClass (c_name dcl) then ret False
       else
         bind (GetComponentClass load sc) (\<lambda>se.
         bind (read_class se) (\<lambda>secl.
         if IsPrimitive (c_name secl) then ret (sc = dc)
         else
           bind (GetComponentClass load dc) (\<lambda>de.
           bind (read_class de) (\<lambda>decl.
           if IsPrimitive (c_name decl) then ret (sc = dc) else ret True))))))))"

definition native_ArrayCopy :: "env \<Rightarrow> class_load \<Rightarrow> addr option \<Rightarrow> (vm, unit) op" where
  "native_ArrayCopy env load frame =
     bind (locals frame (LocalVars_GetRef 0)) (\<lambda>src.
     bind (locals frame (LocalVars_GetInt 1)) (\<lambda>srcPos.
     bind (locals frame (LocalVars_GetRef 2)) (\<lambda>dest.
     bind (locals frame (LocalVars_GetInt 3)) (\<lambda>destPos.
     bind (locals frame (LocalVars_GetInt 4)) (\<lambda>len.
     if src = 0 \<or> dest = 0 then raise (Runtime_Error ''java.lang.NullPointerException'')
     else
       bind (CheckArrayCopy env load src dest) (\<lambda>ok.
       if \<not> ok then raise (Runtime_Error ''java.lang.ArrayStoreException'') else ret ()))))))"

text \<open>\<open>java_lang_Double.h\<close>, \<open>java_lang_Float.h\<close>, \<open>java_lang_String.h\<close>.\<close>

definition native_DoubleToRawLongBits :: "addr option \<Rightarrow> (vm, unit) op" where
  "native_DoubleToRawLongBits frame =
     bind (locals frame (LocalVars_GetDouble 0)) (\<lambda>v. operands frame (PushLong v))"

definition native_LongBitsToDouble :: "addr option \<Rightarrow> (vm, unit) op" where
  "native_LongBitsToDouble frame =
     bind (locals frame (LocalVars_GetLong 0)) (\<lambda>v. operands frame (PushDouble v))"

definition native_FloatToRawIntBits :: "addr option \<Rightarrow> (vm, unit) op" where
  "native_FloatToRawIntBits frame =
     bind (locals frame (LocalVars_GetFloat 0)) (\<lambda>v. operands frame (PushInt v))"

definition on_strings :: "(string_pool, 'a) op \<Rightarrow> (vm, 'a) op" where
  "on_strings = zoom v_strings (\<lambda>p s. s\<lparr>v_strings := p\<rparr>)"

definition native_Intern :: "addr option \<Rightarrow> (vm, unit) op" where
  "native_Intern frame =
     bind (locals frame LocalVars_GetThis) (\<lambda>this.
     bind (on_strings (internString this)) (\<lambda>r. operands frame (PushRef r)))"

text \<open>\<open>java_lang_Throwable.cpp\<close>: the distance of the class from the root is computed and not used.\<close>

primrec distance :: "nat \<Rightarrow> class_table \<Rightarrow> class_id option \<Rightarrow> nat res" where
  "distance 0 ct k = endless"
| "distance (Suc n) ct k =
     (if k = None then Inr 0
      else case class_at ct k of
             Inl e \<Rightarrow> Inl e
           | Inr cl \<Rightarrow> (case distance n ct (c_super_class cl) of Inl e \<Rightarrow> Inl e | Inr d \<Rightarrow> Inr (Suc d)))"

definition DistanceToObject :: "class_table \<Rightarrow> class_id option \<Rightarrow> nat res" where
  "DistanceToObject ct klass =
     (case class_at ct klass of
        Inl e \<Rightarrow> Inl e
      | Inr cl \<Rightarrow> distance (search_depth ct) ct (c_super_class cl))"

record stack_trace_element =
  ste_file_name :: string
  ste_class_name :: string
  ste_method_name :: string
  ste_line_number :: "32 word"

text \<open>No trace is made yet: the loop that would call this function is commented out.\<close>

definition CreateStackTraceElement :: "meth \<Rightarrow> addr option \<Rightarrow> (vm, stack_trace_element) op" where
  "CreateStackTraceElement method frame =
     bind (read_class (Some (cm_class method))) (\<lambda>cl.
     bind (in_frame frame (reads NextPc)) (\<lambda>next_pc.
     bind (lift_res (GetLineNumber method (next_pc - 1))) (\<lambda>line_number.
     ret \<lparr>ste_file_name = c_source_file cl, ste_class_name = GetJavaName (c_name cl),
          ste_method_name = cm_name method, ste_line_number = line_number\<rparr>)))"

definition native_FillInStackTrace :: "env \<Rightarrow> addr option \<Rightarrow> (vm, unit) op" where
  "native_FillInStackTrace env frame =
     bind (locals frame LocalVars_GetThis) (\<lambda>this.
     andthen (operands frame (PushRef this)) (
     bind (GetClass env this) (\<lambda>klass.
     bind (reads v_classes) (\<lambda>ct.
     discard (lift_res (DistanceToObject ct klass))))))"

text \<open>\<open>sun_misc_VM.cpp\<close>.\<close>

definition native_Initialize :: "env \<Rightarrow> class_load \<Rightarrow> addr option \<Rightarrow> (vm, unit) op" where
  "native_Initialize env load frame =
     bind (frame_class frame) (\<lambda>owner.
     bind (load_with load (Some owner) ''sun/misc/VM'') (\<lambda>vm_class.
     bind (reads v_classes) (\<lambda>ct.
     bind (lift_res (GetField ct vm_class ''savedProps'' ''Ljava/util/Properties;'' True)) (\<lambda>fid.
     bind (load_with load vm_class ''java/util/Properties'') (\<lambda>prop_class.
     bind (read_field fid) (\<lambda>f.
     bind (on_static_vars vm_class (Slots_GetRef (ucast (f_slot_id f)))) (\<lambda>saved_props.
     bind (NewJString env load ''foo'') (\<lambda>key.
     bind (NewJString env load ''bar'') (\<lambda>val.
     andthen (operands frame (PushRef saved_props)) (
     andthen (operands frame (PushRef key)) (
     andthen (operands frame (PushRef val)) (
     bind (reads v_classes) (\<lambda>ct.
     bind (lift_res (GetMethod ct prop_class ''setProperty''
       ''(Ljava/lang/String;Ljava/lang/String;)Ljava/lang/Object;'' False)) (\<lambda>m.
     case m of
       None \<Rightarrow> raise Null_Dereference
     | Some m \<Rightarrow> bind (lift_res (method_at ct m)) (\<lambda>method. InvokeMethod frame method)))))))))))))))"

fun run_native :: "env \<Rightarrow> class_load \<Rightarrow> addr option \<Rightarrow> native_method \<Rightarrow> (vm, unit) op" where
  "run_native env load frame Native_GetClass = native_GetClass env frame"
| "run_native env load frame HashCode = native_HashCode frame"
| "run_native env load frame Clone = native_Clone env load frame"
| "run_native env load frame GetPrimitiveClass = native_GetPrimitiveClass env load frame"
| "run_native env load frame GetName0 = ret ()"
| "run_native env load frame DesiredAssertionStatus0 = native_DesiredAssertionStatus0 frame"
| "run_native env load frame ArrayCopy = native_ArrayCopy env load frame"
| "run_native env load frame DoubleToRawLongBits = native_DoubleToRawLongBits frame"
| "run_native env load frame LongBitsToDouble = native_LongBitsToDouble frame"
| "run_native env load frame FloatToRawIntBits = native_FloatToRawIntBits frame"
| "run_native env load frame Intern = native_Intern frame"
| "run_native env load frame Initialize = native_Initialize env load frame"
| "run_native env load frame FillInStackTrace = native_FillInStackTrace env frame"
| "run_native env load frame EmptyNativeMethod = ret ()"

section \<open>Invocation instructions\<close>

definition read_method :: "member_id \<Rightarrow> (vm, meth) op" where
  "read_method m = bind (reads v_classes) (\<lambda>ct. lift_res (method_at ct m))"

definition exec_INVOKE_STATIC :: "class_load \<Rightarrow> u4 \<Rightarrow> addr option \<Rightarrow> (vm, unit) op" where
  "exec_INVOKE_STATIC load index frame =
     bind (frame_class frame) (\<lambda>owner.
     bind (ResolveMethod load owner index) (\<lambda>mid.
     bind (read_method mid) (\<lambda>m.
     if \<not> IsStatic m then raise (Fatal ''java.lang.IncompatibleClassChangeError'')
     else
       bind (read_class (Some (cm_class m))) (\<lambda>cl.
       if \<not> c_clinit_started cl then
         andthen (revert_next_pc frame) (InitClass (Some (cm_class m)))
       else if cm_name m = ''println'' then HackPrintln m frame
       else InvokeMethod frame m))))"

text \<open>
  The access check of protected methods that \<open>INVOKE_SPECIAL\<close> and \<open>INVOKE_VIRTUAL\<close> share: each condition is
  evaluated only when those before it hold.
\<close>

definition illegal_access :: "env \<Rightarrow> meth \<Rightarrow> class_id \<Rightarrow> ref64 \<Rightarrow> (vm, bool) op" where
  "illegal_access env m owner ref =
     (if \<not> IsProtected m then ret False
      else
        bind (reads v_classes) (\<lambda>ct.
        bind (lift_res (IsSuperClassOf ct (Some (cm_class m)) (Some owner))) (\<lambda>is_super.
        if \<not> is_super then ret False
        else
          bind (read_class (Some (cm_class m))) (\<lambda>mc.
          bind (read_class (Some owner)) (\<lambda>oc.
          if c_package_name mc = c_package_name oc then ret False
          else
            bind (GetClass env ref) (\<lambda>rc.
            if rc = Some owner then ret False
            else bind (lift_res (IsSubClassOf ct rc (Some owner))) (\<lambda>b. ret (\<not> b))))))))"

definition invoke_found :: "addr option \<Rightarrow> member_id option \<Rightarrow> (vm, unit) op" where
  "invoke_found frame mid =
     (case mid of
        None \<Rightarrow> raise (Fatal ''java.lang.AbstractMethodError'')
      | Some mid \<Rightarrow>
          bind (read_method mid) (\<lambda>m.
          if IsAbstract m then raise (Fatal ''java.lang.AbstractMethodError'') else InvokeMethod frame m))"

definition ref_name :: "class_id \<Rightarrow> u4 \<Rightarrow> (vm, string \<times> string) op" where
  "ref_name owner index =
     bind (get_constant owner index) (\<lambda>k.
     case Option.bind k member_ref of
       None \<Rightarrow> raise Null_Dereference
     | Some (name, descriptor, _) \<Rightarrow> ret (name, descriptor))"

definition exec_INVOKE_SPECIAL :: "env \<Rightarrow> class_load \<Rightarrow> u4 \<Rightarrow> addr option \<Rightarrow> (vm, unit) op" where
  "exec_INVOKE_SPECIAL env load index frame =
     bind (frame_class frame) (\<lambda>owner.
     bind (ResolveMethod load owner index) (\<lambda>mid.
     bind (read_method mid) (\<lambda>m.
     bind (ResolveClass load owner index) (\<lambda>resolved_class.
     if cm_name m = ''<init>'' \<and> Some (cm_class m) \<noteq> resolved_class
     then raise (Fatal ''java.lang.NoSuchMethodError'')
     else if IsStatic m then raise (Fatal ''java.lang.IncompatibleClassChangeError'')
     else
       bind (operands frame (GetRefFromTop (m_arg_slot_count m - 1))) (\<lambda>ref.
       if ref = 0 then raise (Fatal ''java.lang.NullPointerException'')
       else
         bind (illegal_access env m owner ref) (\<lambda>illegal.
         if illegal then raise (Fatal ''java.lang.IllegalAccessError'')
         else
           bind (read_class (Some owner)) (\<lambda>oc.
           bind (reads v_classes) (\<lambda>ct.
           bind (if \<not> IsSuper oc then ret False
                 else lift_res (IsSuperClassOf ct resolved_class (Some owner))) (\<lambda>is_super.
           if is_super \<and> cm_name m \<noteq> ''<init>'' then
             bind (ref_name owner index) (\<lambda>(name, descriptor).
             bind (lift_res (LookupMethodInClass ct (c_super_class oc) name descriptor)) (\<lambda>target.
             invoke_found frame target))
           else invoke_found frame (Some mid)))))))))) "

definition exec_INVOKE_VIRTUAL :: "env \<Rightarrow> class_load \<Rightarrow> u4 \<Rightarrow> addr option \<Rightarrow> (vm, unit) op" where
  "exec_INVOKE_VIRTUAL env load index frame =
     bind (frame_class frame) (\<lambda>owner.
     bind (ResolveMethod load owner index) (\<lambda>mid.
     bind (read_method mid) (\<lambda>m.
     if IsStatic m then raise (Fatal ''java.lang.IncompatibleClassChangeError'')
     else if cm_name m = ''println'' then HackPrintln m frame
     else
       bind (operands frame (GetRefFromTop (m_arg_slot_count m - 1))) (\<lambda>ref.
       if ref = 0 then raise (Fatal ''java.lang.NullPointerException'')
       else
         bind (illegal_access env m owner ref) (\<lambda>illegal.
         if illegal then raise (Fatal ''java.lang.IllegalAccessError'')
         else
           bind (ref_name owner index) (\<lambda>(name, descriptor).
           bind (GetClass env ref) (\<lambda>rc.
           bind (reads v_classes) (\<lambda>ct.
           bind (lift_res (LookupMethodInClass ct rc name descriptor)) (\<lambda>target.
           invoke_found frame target)))))))))"

definition exec_INVOKE_INTERFACE :: "env \<Rightarrow> class_load \<Rightarrow> u4 \<Rightarrow> addr option \<Rightarrow> (vm, unit) op" where
  "exec_INVOKE_INTERFACE env load index frame =
     bind (frame_class frame) (\<lambda>owner.
     bind (ResolveInterfaceMethod load owner index) (\<lambda>mid.
     bind (read_method mid) (\<lambda>m.
     if IsStatic m \<or> IsPrivate m then raise (Fatal ''java.lang.IncompatibleClassChangeError'')
     else
       bind (operands frame (GetRefFromTop (m_arg_slot_count m - 1))) (\<lambda>ref.
       if ref = 0 then raise (Fatal ''java.lang.NullPointerException'')
       else
         bind (GetClass env ref) (\<lambda>rc.
         bind (ResolveClass load owner index) (\<lambda>ic.
         bind (reads v_classes) (\<lambda>ct.
         bind (lift_res (IsImplements ct rc ic)) (\<lambda>implements.
         if \<not> implements then raise (Fatal ''java.lang.IncompatibleClassChangeError'')
         else
           bind (ref_name owner index) (\<lambda>(name, descriptor).
           bind (lift_res (LookupMethodInClass ct rc name descriptor)) (\<lambda>target.
           case target of
             None \<Rightarrow> raise (Fatal ''java.lang.AbstractMethodError'')
           | Some tid \<Rightarrow>
               bind (read_method tid) (\<lambda>tm.
               if IsAbstract tm then raise (Fatal ''java.lang.AbstractMethodError'')
               else if \<not> IsPublic tm then raise (Fatal ''java.lang.IllegalAccessError'')
               else InvokeMethod frame tm)))))))))))"

definition exec_INVOKE_NATIVE :: "env \<Rightarrow> class_load \<Rightarrow> registry \<Rightarrow> addr option \<Rightarrow> (vm, unit) op" where
  "exec_INVOKE_NATIVE env load reg frame =
     bind (frame_method frame) (\<lambda>m.
     bind (read_class (Some (cm_class m))) (\<lambda>cl.
     case FindNativeMethod reg (c_name cl) (cm_name m) (cm_descriptor m) of
       None \<Rightarrow> raise (Fatal ''java.lang.UnsatisfiedLinkError'')
     | Some nm \<Rightarrow> run_native env load frame nm))"

fun exec_invoke :: "env \<Rightarrow> class_load \<Rightarrow> registry \<Rightarrow> addr option \<Rightarrow> invoke_inst \<Rightarrow> (vm, unit) op" where
  "exec_invoke env load reg frame (INVOKE_STATIC i) = exec_INVOKE_STATIC load i frame"
| "exec_invoke env load reg frame (INVOKE_SPECIAL i) = exec_INVOKE_SPECIAL env load i frame"
| "exec_invoke env load reg frame (INVOKE_VIRTUAL i) = exec_INVOKE_VIRTUAL env load i frame"
| "exec_invoke env load reg frame (INVOKE_INTERFACE i) = exec_INVOKE_INTERFACE env load i frame"
| "exec_invoke env load reg frame INVOKE_NATIVE = exec_INVOKE_NATIVE env load reg frame"

section \<open>The registry\<close>

lemma split_at: "x \<notin> set as \<Longrightarrow> x \<notin> set bs \<Longrightarrow> as @ x # cs = bs @ x # ds \<Longrightarrow> as = bs \<and> cs = ds"
  by (induction as bs rule: list_induct2') auto

lemma native_key_inj:
  assumes "CHR ''~'' \<notin> set c" "CHR ''~'' \<notin> set n" "CHR ''~'' \<notin> set c'" "CHR ''~'' \<notin> set n'"
    and "native_key c n d = native_key c' n' d'"
  shows "c = c' \<and> n = n' \<and> d = d'"
proof -
  have "c = c' \<and> n @ ''~'' @ d = n' @ ''~'' @ d'"
    using assms by (intro split_at [of "CHR ''~''"]) (simp_all add: native_key_def)
  then show ?thesis
    using split_at [of "CHR ''~''" n n' d d'] assms by simp
qed

lemma FindNativeMethod_registered:
  "FindNativeMethod (RegisterNativeMethod c n d m reg) c n d = Some m"
  by (simp add: FindNativeMethod_def RegisterNativeMethod_def update_conv')

lemma FindNativeMethod_other:
  assumes "CHR ''~'' \<notin> set c" "CHR ''~'' \<notin> set n" "CHR ''~'' \<notin> set c'" "CHR ''~'' \<notin> set n'"
    and "(c', n', d') \<noteq> (c, n, d)"
  shows "FindNativeMethod (RegisterNativeMethod c n d m reg) c' n' d' = FindNativeMethod reg c' n' d'"
proof -
  have "native_key c' n' d' \<noteq> native_key c n d"
    using native_key_inj assms by metis
  then show ?thesis
    by (simp add: FindNativeMethod_def RegisterNativeMethod_def update_conv')
qed

text \<open>
  After a sequence of registrations the last one for a key is found, and what was found before for the other keys.
\<close>

definition native_names :: "(string \<times> string \<times> string \<times> native_method) list \<Rightarrow>
    (string \<times> string \<times> string) \<rightharpoonup> native_method" where
  "native_names xs = map_of (rev (map (\<lambda>(c, n, d, m). ((c, n, d), m)) xs))"

lemma native_names_simps:
  "native_names [] = Map.empty"
  "native_names ((c, n, d, m) # xs) = [(c, n, d) \<mapsto> m] ++ native_names xs"
  by (simp_all add: native_names_def)

lemma FindNativeMethod_sequence:
  assumes "CHR ''~'' \<notin> set c \<union> set n" and "\<forall>(c, n, d, m) \<in> set xs. CHR ''~'' \<notin> set c \<union> set n"
  shows "FindNativeMethod (fold (\<lambda>(c, n, d, m). RegisterNativeMethod c n d m) xs reg) c n d =
    (case native_names xs (c, n, d) of Some m \<Rightarrow> Some m | None \<Rightarrow> FindNativeMethod reg c n d)"
  using assms(2)
proof (induction xs arbitrary: reg)
  case (Cons x xs)
  obtain c' n' d' m where x: "x = (c', n', d', m)"
    by (cases x)
  then have "FindNativeMethod (RegisterNativeMethod c' n' d' m reg) c n d =
      (if (c, n, d) = (c', n', d') then Some m else FindNativeMethod reg c n d)"
    using Cons.prems assms(1) FindNativeMethod_registered FindNativeMethod_other [of c' n' c n d d' m reg] by auto
  then show ?case
    using Cons.IH [of "RegisterNativeMethod c' n' d' m reg"] Cons.prems x
    by (auto simp: native_names_simps map_add_def split: option.splits)
qed (simp add: native_names_simps)

lemma FindNativeMethod_empty:
  "FindNativeMethod [] c n d = (if n = ''registerNatives'' \<and> d = ''()V'' then Some EmptyNativeMethod else None)"
  by (simp add: FindNativeMethod_def)

lemma native_table_plain: "\<forall>(c, n, d, m) \<in> set native_table. CHR ''~'' \<notin> set c \<union> set n"
  by (simp add: native_table_def)

lemma FindNativeMethod_init:
  assumes "CHR ''~'' \<notin> set c \<union> set n"
  shows "FindNativeMethod (init []) c n d =
    (case native_names native_table (c, n, d) of
       Some m \<Rightarrow> Some m
     | None \<Rightarrow> if n = ''registerNatives'' \<and> d = ''()V'' then Some EmptyNativeMethod else None)"
  unfolding init_def FindNativeMethod_sequence [OF assms native_table_plain] FindNativeMethod_empty ..

text \<open>
  The methods of the Java library begin with a small letter, all but one of the registered names with a capital.
\<close>

definition capital :: "char \<Rightarrow> bool" where
  "capital x \<longleftrightarrow> x \<in> set ''ABCDEFGHIJKLMNOPQRSTUVWXYZ''"

lemma small_names:
  assumes "CHR ''~'' \<notin> set c \<union> set n" and "n = x # xs" and "\<not> capital x"
  shows "FindNativeMethod (init []) c n d =
    (if (c, n, d) = (''sun/misc/VM'', ''initialize'', ''()V'') then Some Initialize
     else if n = ''registerNatives'' \<and> d = ''()V'' then Some EmptyNativeMethod else None)"
proof -
  have "native_names native_table (c, n, d) =
      (if (c, n, d) = (''sun/misc/VM'', ''initialize'', ''()V'') then Some Initialize else None)"
    using assms(2,3) by (auto simp: native_table_def native_names_def capital_def)
  then show ?thesis
    by (simp add: FindNativeMethod_init [OF assms(1)])
qed

text \<open>Every native method is registered, under one key.\<close>

lemma native_table_distinct:
  "distinct (map (\<lambda>(c, n, d, m). (c, n, d)) native_table)" "distinct (map (\<lambda>(c, n, d, m). m) native_table)"
  by (simp_all add: native_table_def)

lemma native_table_complete: "(\<exists>c n d. (c, n, d, m) \<in> set native_table) \<longleftrightarrow> m \<noteq> EmptyNativeMethod"
  by (cases m) (auto simp: native_table_def)

lemma native_names_iff:
  "native_names native_table (c, n, d) = Some m \<longleftrightarrow> (c, n, d, m) \<in> set native_table"
proof -
  let ?xs = "rev (map (\<lambda>(c, n, d, m). ((c, n, d), m)) native_table)"
  have "map fst ?xs = rev (map (\<lambda>(c, n, d, m). (c, n, d)) native_table)"
    by (simp add: rev_map case_prod_beta comp_def)
  then have "distinct (map fst ?xs)"
    using native_table_distinct(1) by simp
  then show ?thesis
    unfolding native_names_def by (subst map_of_eq_Some_iff) force+
qed

lemma registered_once:
  assumes "m \<noteq> EmptyNativeMethod"
  shows "\<exists>!(c, n, d). CHR ''~'' \<notin> set c \<union> set n \<and> FindNativeMethod (init []) c n d = Some m"
proof -
  have found: "CHR ''~'' \<notin> set c \<union> set n \<and> FindNativeMethod (init []) c n d = Some m \<longleftrightarrow> (c, n, d, m) \<in> set native_table"
    (is "?plain \<and> ?found \<longleftrightarrow> ?row") for c n d
  proof
    assume "?plain \<and> ?found"
    then show ?row
      using assms by (auto simp: FindNativeMethod_init native_names_iff split: option.splits if_splits)
  next
    assume ?row
    then have "?plain" "native_names native_table (c, n, d) = Some m"
      using native_table_plain native_names_iff by blast+
    then show "?plain \<and> ?found"
      by (simp add: FindNativeMethod_init)
  qed
  obtain c n d where row: "(c, n, d, m) \<in> set native_table"
    using native_table_complete assms by blast
  have only: "(c', n', d') = (c, n, d)" if "(c', n', d', m) \<in> set native_table" for c' n' d'
    using native_table_distinct(2) that row
      inj_onD [of "\<lambda>(c, n, d, m). m" "set native_table" "(c', n', d', m)" "(c, n, d, m)"]
    by (simp add: distinct_map)
  show ?thesis
    unfolding found
  proof (rule ex1I [of _ "(c, n, d)"])
    show "case (c, n, d) of (c, n, d) \<Rightarrow> (c, n, d, m) \<in> set native_table"
      using row by simp
    show "x = (c, n, d)" if "case x of (c, n, d) \<Rightarrow> (c, n, d, m) \<in> set native_table" for x
      using that by (cases x rule: prod_cases3) (simp only: prod.case, rule only)
  qed
qed

end
