(* ===== verification/Class_Loader_Spec.thy ===== *)
theory Class_Loader_Spec
  imports Class_Loader
begin

text \<open>
  What loading guarantees. The argument: a class object is not reachable from others before it is
  stored in a cache, which happens after its super class and interfaces are set; so every
  edge of the hierarchy leads to a class that was complete before. The set of complete classes only
  grows, and only by classes made during the load.
\<close>

section \<open>The invariant\<close>

definition loads_ok :: "class_id set \<Rightarrow> vm \<Rightarrow> bool" where
  "loads_ok D s \<longleftrightarrow>
     (\<forall>c \<in> D. c < length (v_classes s)) \<and>
     (\<forall>a b. (a, b) \<in> hierarchy (v_classes s) \<longrightarrow> b \<in> D) \<and>
     acyclic (hierarchy (v_classes s)) \<and>
     (\<forall>l n c. map_of (cache_of l s) n = Some (Some c) \<longrightarrow> c \<in> D)"

text \<open>
  \<open>guarded n P m Q\<close>: when \<open>m\<close> returns from a state where the invariant and \<open>P\<close> hold, the invariant holds again
  for a set of complete classes that has grown by classes from \<open>n\<close> on only, and \<open>Q\<close> holds. The
  conditions speak about the set and about the number of classes.
\<close>

definition guarded :: "nat \<Rightarrow> (class_id set \<Rightarrow> nat \<Rightarrow> bool) \<Rightarrow> (vm, 'a) op \<Rightarrow>
    ('a \<Rightarrow> class_id set \<Rightarrow> nat \<Rightarrow> bool) \<Rightarrow> bool" where
  "guarded n P m Q \<longleftrightarrow>
     (\<forall>D s x s'. loads_ok D s \<and> n \<le> length (v_classes s) \<and> P D (length (v_classes s)) \<and>
        m s = Inr (x, s') \<longrightarrow>
        (\<exists>D'. D \<subseteq> D' \<and> D' - D \<subseteq> {n..} \<and> length (v_classes s) \<le> length (v_classes s') \<and>
              loads_ok D' s' \<and> Q x D' (length (v_classes s'))))"

definition fresh :: "class_id \<Rightarrow> class_id set \<Rightarrow> nat \<Rightarrow> bool" where
  "fresh c D k \<longleftrightarrow> c \<notin> D \<and> c < k"

definition finished :: "class_id option \<Rightarrow> class_id set \<Rightarrow> nat \<Rightarrow> bool" where
  "finished p D k \<longleftrightarrow> (\<forall>c. p = Some c \<longrightarrow> c \<in> D)"

definition load_ok :: "class_load \<Rightarrow> bool" where
  "load_ok load \<longleftrightarrow> (\<forall>n l nm. guarded n (\<lambda>_ _. True) (load l nm) finished)"

section \<open>Rules\<close>

lemma guardedD:
  assumes "guarded n P m Q" "loads_ok D s" "n \<le> length (v_classes s)" "P D (length (v_classes s))"
    "m s = Inr (x, s')"
  obtains D' where "D \<subseteq> D'" "D' - D \<subseteq> {n..}" "length (v_classes s) \<le> length (v_classes s')"
    "loads_ok D' s'" "Q x D' (length (v_classes s'))"
  using assms unfolding guarded_def by metis

lemma guardedI:
  assumes "\<And>D s x s'. loads_ok D s \<Longrightarrow> n \<le> length (v_classes s) \<Longrightarrow> P D (length (v_classes s)) \<Longrightarrow>
    m s = Inr (x, s') \<Longrightarrow>
    \<exists>D'. D \<subseteq> D' \<and> D' - D \<subseteq> {n..} \<and> length (v_classes s) \<le> length (v_classes s') \<and>
         loads_ok D' s' \<and> Q x D' (length (v_classes s'))"
  shows "guarded n P m Q"
  using assms unfolding guarded_def by blast

lemma guarded_conseq:
  assumes "guarded n P' m Q'" "\<And>D k. P D k \<Longrightarrow> P' D k" "\<And>x D k. Q' x D k \<Longrightarrow> Q x D k"
  shows "guarded n P m Q"
proof (rule guardedI)
  fix D s x s'
  assume a: "loads_ok D s" "n \<le> length (v_classes s)" "P D (length (v_classes s))" "m s = Inr (x, s')"
  obtain D' where "D \<subseteq> D'" "D' - D \<subseteq> {n..}" "length (v_classes s) \<le> length (v_classes s')"
    "loads_ok D' s'" "Q' x D' (length (v_classes s'))"
    using guardedD [OF assms(1) a(1,2) assms(2) [OF a(3)] a(4)] .
  then show "\<exists>D'. D \<subseteq> D' \<and> D' - D \<subseteq> {n..} \<and> length (v_classes s) \<le> length (v_classes s') \<and>
    loads_ok D' s' \<and> Q x D' (length (v_classes s'))"
    by (intro exI [of _ D']) (simp add: assms(3))
qed

lemma guarded_bind:
  assumes "guarded n P m R" "\<And>x. guarded n (R x) (f x) Q"
  shows "guarded n P (bind m f) Q"
proof (rule guardedI)
  fix D s y s''
  assume ok: "loads_ok D s" "n \<le> length (v_classes s)" "P D (length (v_classes s))"
    and run: "bind m f s = Inr (y, s'')"
  obtain x s' where m: "m s = Inr (x, s')" and f: "f x s' = Inr (y, s'')"
    using run by (rule bind_InrE)
  obtain D' where D': "D \<subseteq> D'" "D' - D \<subseteq> {n..}" "length (v_classes s) \<le> length (v_classes s')"
    "loads_ok D' s'" "R x D' (length (v_classes s'))"
    using guardedD [OF assms(1) ok m] .
  moreover have "n \<le> length (v_classes s')"
    using ok(2) D'(3) by simp
  then obtain D'' where "D' \<subseteq> D''" "D'' - D' \<subseteq> {n..}" "length (v_classes s') \<le> length (v_classes s'')"
    "loads_ok D'' s''" "Q y D'' (length (v_classes s''))"
    using guardedD [OF assms(2) D'(4) _ D'(5) f] by blast
  ultimately show "\<exists>D''. D \<subseteq> D'' \<and> D'' - D \<subseteq> {n..} \<and>
      length (v_classes s) \<le> length (v_classes s'') \<and> loads_ok D'' s'' \<and> Q y D'' (length (v_classes s''))"
    by (intro exI [of _ D'']) auto
qed

lemma guarded_andthen:
  "guarded n P m (\<lambda>_. R) \<Longrightarrow> guarded n R k Q \<Longrightarrow> guarded n P (andthen m k) Q"
  unfolding andthen_def by (rule guarded_bind)

lemma guarded_ret: "guarded n (Q x) (ret x) Q"
  by (rule guardedI) (auto simp: ret_def)

text \<open>Conditions that hold on when classes from \<open>n\<close> on are completed.\<close>

definition stable :: "nat \<Rightarrow> (class_id set \<Rightarrow> nat \<Rightarrow> bool) \<Rightarrow> bool" where
  "stable n F \<longleftrightarrow> (\<forall>D D' k k'. F D k \<and> D \<subseteq> D' \<and> D' - D \<subseteq> {n..} \<and> k \<le> k' \<longrightarrow> F D' k')"

lemma guarded_frame:
  assumes "guarded n P m Q" "stable n F"
  shows "guarded n (\<lambda>D k. P D k \<and> F D k) m (\<lambda>x D k. Q x D k \<and> F D k)"
proof (rule guardedI)
  fix D s x s'
  assume a: "loads_ok D s" "n \<le> length (v_classes s)"
    "P D (length (v_classes s)) \<and> F D (length (v_classes s))" "m s = Inr (x, s')"
  obtain D' where D': "D \<subseteq> D'" "D' - D \<subseteq> {n..}" "length (v_classes s) \<le> length (v_classes s')"
    "loads_ok D' s'" "Q x D' (length (v_classes s'))"
    using guardedD [OF assms(1) a(1,2) conjunct1 [OF a(3)] a(4)] .
  have "F D' (length (v_classes s'))"
    using assms(2) a(3) D'(1-3) unfolding stable_def by blast
  with D' show "\<exists>D'. D \<subseteq> D' \<and> D' - D \<subseteq> {n..} \<and> length (v_classes s) \<le> length (v_classes s') \<and>
    loads_ok D' s' \<and> Q x D' (length (v_classes s')) \<and> F D' (length (v_classes s'))"
    by blast
qed

lemma guarded_base:
  assumes "guarded n' P m Q" "n \<le> n'" "\<And>D k. P D k \<Longrightarrow> n' \<le> k"
  shows "guarded n P m Q"
proof (rule guardedI)
  fix D s x s'
  assume a: "loads_ok D s" "n \<le> length (v_classes s)" "P D (length (v_classes s))" "m s = Inr (x, s')"
  obtain D' where "D \<subseteq> D'" "D' - D \<subseteq> {n'..}" "length (v_classes s) \<le> length (v_classes s')"
    "loads_ok D' s'" "Q x D' (length (v_classes s'))"
    using guardedD [OF assms(1) a(1) assms(3) [OF a(3)] a(3,4)] .
  then show "\<exists>D'. D \<subseteq> D' \<and> D' - D \<subseteq> {n..} \<and> length (v_classes s) \<le> length (v_classes s') \<and>
    loads_ok D' s' \<and> Q x D' (length (v_classes s'))"
    using assms(2) by (intro exI [of _ D']) auto
qed

lemma stable_fresh: "c < n \<Longrightarrow> stable n (fresh c)"
  by (auto simp: stable_def fresh_def)

lemma stable_finished: "stable n (finished p)"
  by (auto simp: stable_def finished_def)

lemma stable_conj: "stable n F \<Longrightarrow> stable n G \<Longrightarrow> stable n (\<lambda>D k. F D k \<and> G D k)"
  unfolding stable_def by blast

lemma stable_True: "stable n (\<lambda>_ _. True)"
  by (simp add: stable_def)

section \<open>Operations that leave the hierarchy alone\<close>

definition quiet :: "(vm, 'a) op \<Rightarrow> bool" where
  "quiet m \<longleftrightarrow> (\<forall>s x s'. m s = Inr (x, s') \<longrightarrow>
     hierarchy (v_classes s') = hierarchy (v_classes s) \<and> length (v_classes s') = length (v_classes s) \<and>
     v_loaders s' = v_loaders s)"

lemma guarded_quiet: "quiet m \<Longrightarrow> guarded n P m (\<lambda>_. P)"
  by (rule guardedI) (auto simp: quiet_def loads_ok_def cache_of_def)

lemma quiet_bind: "quiet m \<Longrightarrow> (\<And>x. quiet (f x)) \<Longrightarrow> quiet (bind m f)"
  unfolding quiet_def by (fastforce elim: bind_InrE)

lemma quiet_andthen: "quiet m \<Longrightarrow> quiet k \<Longrightarrow> quiet (andthen m k)"
  unfolding andthen_def by (rule quiet_bind)

lemma quiet_simple [simp]:
  "quiet (ret x)" "quiet (raise e)" "quiet (lift_res r)" "quiet (reads g)" "quiet (read_class c)"
  "quiet (GetClassLoader msg l)"
  by (auto simp: quiet_def ret_def raise_def lift_res_def reads_def read_class_def GetClassLoader_def
      split: sum.splits if_splits)

definition same_parents :: "class_obj \<Rightarrow> class_obj \<Rightarrow> bool" where
  "same_parents cl cl' \<longleftrightarrow> c_super_class cl' = c_super_class cl \<and> c_interfaces cl' = c_interfaces cl"

lemma hierarchy_same:
  assumes "length ct' = length ct" "\<And>i. i < length ct \<Longrightarrow> same_parents (ct ! i) (ct' ! i)"
  shows "hierarchy ct' = hierarchy ct"
  using assms by (auto simp: hierarchy_def extends_rel_def implements_rel_def same_parents_def)

lemma hierarchy_update:
  "same_parents (ct ! c) cl \<Longrightarrow> c < length ct \<Longrightarrow> hierarchy (ct[c := cl]) = hierarchy ct"
  by (rule hierarchy_same) (auto simp: nth_list_update same_parents_def)

lemma class_at_InrE:
  assumes "class_at ct c = Inr cl"
  obtains i where "c = Some i" "i < length ct" "cl = ct ! i"
  using assms by (auto simp: class_at_def split: option.splits if_splits)

lemma with_class_InrE:
  assumes "with_class c g ct = Inr (x, ct')"
  obtains i cl where "c = Some i" "i < length ct" "g (ct ! i) = Inr cl" "ct' = ct[i := cl]"
  using assms by (auto simp: with_class_def split: sum.splits elim: class_at_InrE)

lemma quiet_with_class:
  assumes "\<And>cl cl'. g cl = Inr cl' \<Longrightarrow> same_parents cl cl'"
  shows "quiet (on_classes (with_class c g))"
  unfolding quiet_def on_classes_def zoom_def
  by (auto split: sum.splits elim!: with_class_InrE intro!: hierarchy_update assms)

lemma quiet_update: "(\<And>cl. same_parents cl (g cl)) \<Longrightarrow> quiet (update_class c g)"
  unfolding update_class_def by (rule quiet_with_class) auto

lemma quiet_static_vars: "quiet (on_static_vars c m)"
  unfolding quiet_def on_static_vars_def
  by (auto split: sum.splits option.splits elim!: class_at_InrE intro!: hierarchy_update
      simp: same_parents_def)

lemma quiet_layout:
  "quiet (on_classes (CalcInstanceFieldSlotIds c))" "quiet (on_classes (CalcStaticFieldSlotIds c))"
  unfolding quiet_def on_classes_def zoom_def CalcInstanceFieldSlotIds_def CalcStaticFieldSlotIds_def
  by (auto split: sum.splits prod.splits elim!: with_class_InrE intro!: hierarchy_update
      simp: same_parents_def)

lemma quiet_strings:
  "quiet (new_object env)" "quiet (GetClass env r)" "quiet (modifies (\<lambda>s. s\<lparr>v_strings := g s\<rparr>))"
  by (auto simp: quiet_def new_object_def GetClass_def modifies_def split: if_splits option.splits)

lemma quiet_SetRefVar: "quiet (SetRefVar env r a b v)"
  unfolding SetRefVar_def by (intro quiet_bind quiet_strings quiet_simple)

lemma quiet_GetBoot: "quiet GetBootClassLoader"
  by (simp add: GetBootClassLoader_def)

section \<open>Operations that keep what is stable\<close>

definition keeps_stable :: "nat \<Rightarrow> (vm, 'a) op \<Rightarrow> bool" where
  "keeps_stable n m \<longleftrightarrow> (\<forall>F. stable n F \<longrightarrow> guarded n F m (\<lambda>_. F))"

lemma stable_quiet: "quiet m \<Longrightarrow> keeps_stable n m"
  by (simp add: keeps_stable_def guarded_quiet)

lemma keeps_stable_bind: "keeps_stable n m \<Longrightarrow> (\<And>x. keeps_stable n (f x)) \<Longrightarrow> keeps_stable n (bind m f)"
  unfolding keeps_stable_def by (blast intro: guarded_bind)

lemma keeps_stable_andthen: "keeps_stable n m \<Longrightarrow> keeps_stable n k \<Longrightarrow> keeps_stable n (andthen m k)"
  unfolding andthen_def by (rule keeps_stable_bind)

lemma stable_each: "(\<And>x. keeps_stable n (f x)) \<Longrightarrow> keeps_stable n (each f xs)"
  by (induction xs) (auto intro: keeps_stable_andthen stable_quiet)

lemma guarded_load:
  assumes "load_ok load" "stable n F"
  shows "guarded n F (load l nm) (\<lambda>p D k. finished p D k \<and> F D k)"
  using guarded_frame [of n "\<lambda>_ _. True" "load l nm" finished F] assms by (simp add: load_ok_def)

lemma stable_load: "load_ok load \<Longrightarrow> keeps_stable n (load l nm)"
  unfolding keeps_stable_def by (blast intro: guarded_conseq [OF guarded_load])

lemma keeps_stable_if: "keeps_stable n m \<Longrightarrow> keeps_stable n k \<Longrightarrow> keeps_stable n (if b then m else k)"
  by simp

lemma stable_option:
  "keeps_stable n m \<Longrightarrow> (\<And>x. keeps_stable n (f x)) \<Longrightarrow>
   keeps_stable n (case y of None \<Rightarrow> m | Some x \<Rightarrow> f x)"
  by (cases y) simp_all

lemma stable_update: "(\<And>cl. same_parents cl (g cl)) \<Longrightarrow> keeps_stable n (update_class c g)"
  by (rule stable_quiet [OF quiet_update])

lemmas stable_rules = keeps_stable_bind keeps_stable_andthen stable_each keeps_stable_if stable_option stable_load
  quiet_simple [THEN stable_quiet] quiet_static_vars [THEN stable_quiet] quiet_layout [THEN stable_quiet]
  quiet_strings [THEN stable_quiet] quiet_SetRefVar [THEN stable_quiet] quiet_GetBoot [THEN stable_quiet]
  stable_update

lemma stable_NewJString: "load_ok load \<Longrightarrow> keeps_stable n (NewJString env load str)"
  unfolding NewJString_def NewObject_def by (intro stable_rules)

lemma stable_string_constant:
  "(\<And>str. keeps_stable n (f str)) \<Longrightarrow>
   keeps_stable n (case y of Some (StringConstant str) \<Rightarrow> f str | _ \<Rightarrow> raise e)"
  by (auto intro: stable_rules split: option.split rt_constant.split)

lemma stable_InitStaticFinalVar:
  assumes "\<And>str. keeps_stable n (nj str)"
  shows "keeps_stable n (InitStaticFinalVar nj c f)"
  unfolding InitStaticFinalVar_def Let_def by (intro stable_string_constant stable_rules assms)

lemma stable_LinkClass:
  assumes "\<And>str. keeps_stable n (nj str)"
  shows "keeps_stable n (LinkClass nj c)"
  unfolding LinkClass_def VerifyClass_def PrepareClass_def AllocAndInitStaticVars_def
  by (intro stable_rules stable_InitStaticFinalVar assms) (simp add: same_parents_def)

section \<open>New edges\<close>

definition targets :: "class_obj \<Rightarrow> class_id set" where
  "targets cl = {d. c_super_class cl = Some d \<or> Some d \<in> set (c_interfaces cl)}"

lemma hierarchy_targets: "hierarchy ct = {(c, d). c < length ct \<and> d \<in> targets (ct ! c)}"
  by (auto simp: hierarchy_def extends_rel_def implements_rel_def targets_def)

text \<open>Edges from a class that no edge leads to close no cycle.\<close>

lemma acyclic_new_edges:
  assumes "acyclic H" "H' \<subseteq> H \<union> {c} \<times> D" "Range H \<subseteq> D" "c \<notin> D"
  shows "acyclic H'"
proof (rule acyclicI, rule allI, rule notI)
  fix x
  assume cycle: "(x, x) \<in> H'\<^sup>+"
  have range: "(a, b) \<in> H' \<Longrightarrow> b \<in> D" for a b
    using assms(2,3) by auto
  have old: "(a, b) \<in> H' \<Longrightarrow> a \<noteq> c \<Longrightarrow> (a, b) \<in> H" for a b
    using assms(2) by auto
  have "x \<in> D"
    using cycle range by (auto elim: trancl.cases)
  then have "x \<noteq> c"
    using assms(4) by auto
  from cycle have "(x, x) \<in> H\<^sup>+ \<and> x \<in> D"
  proof (rule trancl_induct [where P = "\<lambda>y. (x, y) \<in> H\<^sup>+ \<and> y \<in> D"])
    fix y
    assume "(x, y) \<in> H'"
    then show "(x, y) \<in> H\<^sup>+ \<and> y \<in> D"
      using old range \<open>x \<noteq> c\<close> by blast
  next
    fix y z
    assume yz: "(y, z) \<in> H'" and "(x, y) \<in> H\<^sup>+ \<and> y \<in> D"
    moreover from this have "y \<noteq> c"
      using assms(4) by auto
    ultimately show "(x, z) \<in> H\<^sup>+ \<and> z \<in> D"
      using old range by (meson trancl.trancl_into_trancl)
  qed
  then show False
    using assms(1) by (simp add: acyclic_def)
qed

lemma guarded_edges:
  assumes "\<And>cl. targets (g cl) \<subseteq> targets cl \<union> set_option p"
  shows "guarded n (\<lambda>D k. finished p D k \<and> fresh c D k) (update_class (Some c) g) (\<lambda>_. fresh c)"
proof (rule guardedI)
  fix D s x s'
  assume ok: "loads_ok D s" and pre: "finished p D (length (v_classes s)) \<and> fresh c D (length (v_classes s))"
    and run: "update_class (Some c) g s = Inr (x, s')"
  define ct where "ct = v_classes s"
  have c: "c < length ct" "c \<notin> D" and p: "set_option p \<subseteq> D"
    using pre by (auto simp: fresh_def finished_def ct_def)
  have s': "s' = s\<lparr>v_classes := ct[c := g (ct ! c)]\<rparr>"
    using run c by (simp add: update_class_def on_classes_def zoom_def with_class_def ct_def)
  have range: "Range (hierarchy ct) \<subseteq> D"
    using ok by (auto simp: loads_ok_def ct_def)
  have sub: "hierarchy (ct[c := g (ct ! c)]) \<subseteq> hierarchy ct \<union> {c} \<times> D"
  proof
    fix e
    assume "e \<in> hierarchy (ct[c := g (ct ! c)])"
    then obtain a b where e: "e = (a, b)" "a < length ct" "b \<in> targets (ct[c := g (ct ! c)] ! a)"
      by (auto simp: hierarchy_targets)
    show "e \<in> hierarchy ct \<union> {c} \<times> D"
    proof (cases "a = c")
      case True
      then have "b \<in> targets (ct ! c) \<union> D"
        using e c(1) assms [of "ct ! c"] p by auto
      then show ?thesis
        using e True by (auto simp: hierarchy_targets)
    next
      case False
      then show ?thesis
        using e by (simp add: hierarchy_targets)
    qed
  qed
  have "acyclic (hierarchy ct)"
    using ok by (simp add: loads_ok_def ct_def)
  from acyclic_new_edges [OF this sub range c(2)]
  have "acyclic (hierarchy (ct[c := g (ct ! c)]))" .
  moreover have "(a, b) \<in> hierarchy (ct[c := g (ct ! c)]) \<Longrightarrow> b \<in> D" for a b
    using sub range by auto
  ultimately have "loads_ok D s'"
    using ok by (auto simp: loads_ok_def s' cache_of_def ct_def)
  then show "\<exists>D'. D \<subseteq> D' \<and> D' - D \<subseteq> {n..} \<and> length (v_classes s) \<le> length (v_classes s') \<and>
    loads_ok D' s' \<and> fresh c D' (length (v_classes s'))"
    using pre by (intro exI [of _ D]) (simp add: s' ct_def)
qed

section \<open>Loading one class\<close>

text \<open>While class \<open>c\<close> is loaded, nested loads complete classes behind \<open>c\<close> only.\<close>

lemma fresh_keep: "keeps_stable (Suc c) m \<Longrightarrow> guarded (Suc c) (fresh c) m (\<lambda>_. fresh c)"
  by (simp add: keeps_stable_def stable_fresh)

lemma fresh_bind:
  "keeps_stable (Suc c) m \<Longrightarrow> (\<And>x. guarded (Suc c) (fresh c) (f x) Q) \<Longrightarrow>
   guarded (Suc c) (fresh c) (bind m f) Q"
  by (rule guarded_bind [OF fresh_keep])

lemma fresh_andthen:
  "keeps_stable (Suc c) m \<Longrightarrow> guarded (Suc c) (fresh c) k Q \<Longrightarrow>
   guarded (Suc c) (fresh c) (andthen m k) Q"
  by (rule guarded_andthen [OF fresh_keep])

lemma fresh_edge:
  "guarded (Suc c) (fresh c) m (\<lambda>p D k. finished p D k \<and> fresh c D k) \<Longrightarrow>
   (\<And>p cl. targets (g p cl) \<subseteq> targets cl \<union> set_option p) \<Longrightarrow>
   (\<And>p. guarded (Suc c) (fresh c) (f p) Q) \<Longrightarrow>
   guarded (Suc c) (fresh c) (bind m (\<lambda>p. andthen (update_class (Some c) (g p)) (f p))) Q"
  by (rule guarded_bind, assumption, rule guarded_andthen, rule guarded_edges) auto

lemma fresh_load:
  "load_ok load \<Longrightarrow>
   guarded (Suc c) (fresh c) (load l nm) (\<lambda>p D k. finished p D k \<and> fresh c D k)"
  by (rule guarded_load) (simp_all add: stable_fresh)

lemma fresh_ResolveSuperClass:
  assumes "load_ok load"
  shows "guarded (Suc c) (fresh c) (ResolveSuperClass load l (Some c))
    (\<lambda>p D k. finished p D k \<and> fresh c D k)"
proof -
  have "guarded (Suc c) (fresh c) (ret None) (\<lambda>p D k. finished p D k \<and> fresh c D k)"
    by (rule guarded_conseq [OF guarded_ret]) (auto simp: finished_def)
  then show ?thesis
    unfolding ResolveSuperClass_def
    by (intro fresh_bind stable_rules) (simp add: fresh_load [OF assms])
qed

lemma fresh_update:
  "(\<And>cl. targets (g cl) \<subseteq> targets cl) \<Longrightarrow>
   guarded (Suc c) (fresh c) (update_class (Some c) g) (\<lambda>_. fresh c)"
  by (rule guarded_conseq [OF guarded_edges [of g None]]) (auto simp: finished_def)

lemma fresh_resolve_from:
  "load_ok load \<Longrightarrow>
   guarded (Suc c) (fresh c) (resolve_from load l (Some c) i ns) (\<lambda>_. fresh c)"
proof (induction ns arbitrary: i)
  case (Cons n ns)
  have "targets (cl\<lparr>c_interfaces := (c_interfaces cl)[i := p]\<rparr>) \<subseteq> targets cl \<union> set_option p" for cl p
    using set_update_subset_insert [of "c_interfaces cl" i p] by (auto simp: targets_def)
  then show ?case
    unfolding resolve_from.simps using Cons by (intro fresh_edge fresh_load)
qed (simp add: fresh_keep stable_quiet)

lemma fresh_ResolveInterfaces:
  assumes "load_ok load"
  shows "guarded (Suc c) (fresh c) (ResolveInterfaces load l (Some c)) (\<lambda>_. fresh c)"
proof -
  have "guarded (Suc c) (fresh c)
    (update_class (Some c) (\<lambda>cl. cl\<lparr>c_interfaces := replicate n None\<rparr>)) (\<lambda>_. fresh c)" for n
    by (rule fresh_update) (auto simp: targets_def)
  then show ?thesis
    unfolding ResolveInterfaces_def Let_def
    by (intro fresh_bind stable_rules)
      (auto intro: guarded_andthen fresh_resolve_from [OF assms] guarded_ret)
qed

lemma fresh_StartLoad:
  assumes "load_ok load"
  shows "guarded (Suc c) (fresh c) (StartLoad load (Some c) cf) (\<lambda>_. fresh c)"
  unfolding StartLoad_def
  by (intro fresh_edge fresh_ResolveSuperClass assms guarded_andthen [OF fresh_ResolveInterfaces]
      fresh_bind fresh_andthen fresh_keep stable_rules)
    (auto simp: same_parents_def targets_def)

lemma fresh_StartLoadArrayClass:
  assumes "load_ok load"
  shows "guarded (Suc c) (fresh c) (StartLoadArrayClass load (Some c)) (\<lambda>_. fresh c)"
  unfolding StartLoadArrayClass_def push_interface_def
  by (intro fresh_edge fresh_load assms fresh_bind fresh_andthen fresh_keep stable_rules)
    (auto simp: same_parents_def targets_def)

text \<open>Storing the class in the cache completes it.\<close>

lemma guarded_cache_put:
  "guarded n (\<lambda>D k. fresh c D k \<and> n \<le> c) (cache_put l nm (Some c)) (\<lambda>_. finished (Some c))"
proof (rule guardedI)
  fix D s x s'
  assume ok: "loads_ok D s" and pre: "fresh c D (length (v_classes s)) \<and> n \<le> c"
    and run: "cache_put l nm (Some c) s = Inr (x, s')"
  obtain ld where ld: "v_loaders s l = Some ld" and s': "s' = s\<lparr>v_loaders := (v_loaders s)
      (l := Some (ld\<lparr>l_loaded_classes := AList.update nm (Some c) (l_loaded_classes ld)\<rparr>))\<rparr>"
    using run by (auto simp: cache_put_def split: option.splits)
  have "map_of (cache_of k s') m = Some (Some d) \<Longrightarrow> d \<in> insert c D" for k m d
    using ok ld by (auto simp: s' cache_of_def loads_ok_def update_conv' split: if_splits option.splits)
  then have "loads_ok (insert c D) s'"
    using ok pre by (auto simp: loads_ok_def s' fresh_def)
  then show "\<exists>D'. D \<subseteq> D' \<and> D' - D \<subseteq> {n..} \<and> length (v_classes s) \<le> length (v_classes s') \<and>
    loads_ok D' s' \<and> finished (Some c) D' (length (v_classes s'))"
    using pre by (intro exI [of _ "insert c D"]) (auto simp: s' finished_def)
qed

lemma guarded_cache_index: "keeps_stable n (cache_index l nm)"
proof -
  have ok: "loads_ok D s'" and len: "length (v_classes s') = length (v_classes s)"
    if "loads_ok D s" "cache_index l nm s = Inr (x, s')" for D s x s'
    using that
    by (auto simp: cache_index_def cache_put_def op_simps loads_ok_def cache_of_def update_conv'
        split: if_splits option.splits)
  show ?thesis
    unfolding keeps_stable_def
  proof (intro allI impI guardedI)
    fix F :: "class_id set \<Rightarrow> nat \<Rightarrow> bool" and D s x s'
    assume "loads_ok D s" "F D (length (v_classes s))" "cache_index l nm s = Inr (x, s')"
    then show "\<exists>D'. D \<subseteq> D' \<and> D' - D \<subseteq> {n..} \<and> length (v_classes s) \<le> length (v_classes s') \<and>
      loads_ok D' s' \<and> F D' (length (v_classes s'))"
      using ok len by (intro exI [of _ D]) simp
  qed
qed

section \<open>The loader\<close>

text \<open>
  What the loader relies on when it asks for a class object: it gets null, or a new object as the
  constructor leaves it; other classes and the caches stay as they are.
\<close>

locale class_maker =
  fixes mk :: "(vm, class_id option) op"
  assumes mk_none: "mk s = Inr (None, s') \<Longrightarrow> v_classes s' = v_classes s \<and> v_loaders s' = v_loaders s"
    and mk_some: "mk s = Inr (Some c, s') \<Longrightarrow>
      c = length (v_classes s) \<and> v_classes s' = v_classes s @ [Class_new] \<and> v_loaders s' = v_loaders s"
begin

lemma guarded_mk: "guarded n (\<lambda>_ _. True) mk (\<lambda>p D k. \<forall>c. p = Some c \<longrightarrow> fresh c D k \<and> n \<le> c)"
proof (rule guardedI)
  fix D s p s'
  assume ok: "loads_ok D s" and n: "n \<le> length (v_classes s)" and run: "mk s = Inr (p, s')"
  have "loads_ok D s' \<and> length (v_classes s) \<le> length (v_classes s') \<and>
        (\<forall>c. p = Some c \<longrightarrow> fresh c D (length (v_classes s')) \<and> n \<le> c)"
  proof (cases p)
    case None
    then show ?thesis
      using mk_none ok run by (auto simp: loads_ok_def cache_of_def)
  next
    case (Some c)
    then have s': "c = length (v_classes s)" "v_classes s' = v_classes s @ [Class_new]"
      "v_loaders s' = v_loaders s"
      using mk_some run by blast+
    have "hierarchy (v_classes s') = hierarchy (v_classes s)"
      by (auto simp: hierarchy_targets s'(2) nth_append targets_def Class_new_def split: if_splits)
    then show ?thesis
      using ok n Some s' by (auto simp: loads_ok_def cache_of_def fresh_def)
  qed
  then show "\<exists>D'. D \<subseteq> D' \<and> D' - D \<subseteq> {n..} \<and> length (v_classes s) \<le> length (v_classes s') \<and>
    loads_ok D' s' \<and> (\<forall>c. p = Some c \<longrightarrow> fresh c D' (length (v_classes s')) \<and> n \<le> c)"
    by (intro exI [of _ D]) auto
qed

lemma guarded_make_then:
  assumes "\<And>c. guarded n (\<lambda>D k. fresh c D k \<and> n \<le> c) (f (Some c)) Q" "\<And>s y u. f None s \<noteq> Inr (y, u)"
  shows "guarded n (\<lambda>_ _. True) (bind mk f) Q"
proof (rule guarded_bind [OF guarded_mk])
  fix p
  show "guarded n (\<lambda>D k. \<forall>c. p = Some c \<longrightarrow> fresh c D k \<and> n \<le> c) (f p) Q"
  proof (cases p)
    case None
    then show ?thesis
      using assms(2) by (intro guardedI) auto
  next
    case (Some c)
    then show ?thesis
      using assms(1) [of c] by simp
  qed
qed

lemma guarded_complete:
  assumes "guarded (Suc c) (fresh c) m (\<lambda>_. fresh c)"
  shows "guarded n (\<lambda>D k. fresh c D k \<and> n \<le> c) m (\<lambda>_ D k. fresh c D k \<and> n \<le> c)"
proof (cases "n \<le> c")
  case True
  then have "guarded n (fresh c) m (\<lambda>_. fresh c)"
    by (intro guarded_base [OF assms]) (auto simp: fresh_def)
  then show ?thesis
    by (rule guarded_conseq) (auto simp: True)
next
  case False
  then show ?thesis
    by (intro guardedI) simp
qed

lemma update_null: "update_class None g s \<noteq> Inr (y, u)"
  by (auto simp: update_class_def on_classes_def zoom_def with_class_def)

lemma guarded_finish: "guarded n (\<lambda>D k. fresh c D k \<and> n \<le> c) (andthen (cache_put l nm (Some c)) (ret (Some c))) finished"
  by (rule guarded_andthen, rule guarded_cache_put, rule guarded_ret)

lemma guarded_DefineClass:
  assumes "load_ok load"
  shows "guarded n (\<lambda>_ _. True) (DefineClass mk load l d) finished"
proof -
  have never: "andthen (StartLoad load None cf) k s \<noteq> Inr (y, u)" for cf k s y u
    unfolding StartLoad_def andthen_def bind_assoc
    by (rule notI, elim bind_InrE) (simp add: update_null)
  have body: "guarded n (\<lambda>D k. fresh c D k \<and> n \<le> c) (andthen (StartLoad load (Some c) cf)
      (bind (read_class (Some c)) (\<lambda>cl. andthen (cache_put l (c_name cl) (Some c)) (ret (Some c))))) finished"
    for c cf
    by (rule guarded_andthen [OF guarded_complete [OF fresh_StartLoad [OF assms]]])
      (rule guarded_bind [OF guarded_quiet guarded_finish], simp)
  show ?thesis
    unfolding DefineClass_def
    by (rule guarded_bind [OF guarded_quiet], simp, rule guarded_make_then, rule body, rule never)
qed

lemma guarded_LoadArrayClass:
  assumes "load_ok load"
  shows "guarded n (\<lambda>_ _. True) (LoadArrayClass mk load l nm) finished"
proof -
  have "guarded (Suc c) (fresh c) (update_class (Some c) (\<lambda>cl. cl\<lparr>c_name := nm\<rparr>)) (\<lambda>_. fresh c)" for c
    by (rule fresh_update) (simp add: targets_def)
  then have "guarded n (\<lambda>D k. fresh c D k \<and> n \<le> c)
      (andthen (update_class (Some c) (\<lambda>cl. cl\<lparr>c_name := nm\<rparr>))
        (andthen (StartLoadArrayClass load (Some c)) (andthen (cache_put l nm (Some c)) (ret (Some c)))))
      finished" for c
    by (intro guarded_andthen [OF guarded_complete] guarded_finish fresh_StartLoadArrayClass assms)
  then show ?thesis
    unfolding LoadArrayClass_def
    by (intro guarded_make_then) (auto simp: andthen_def update_null elim!: bind_InrE)
qed

lemma guarded_LoadNonArrayClass:
  assumes "load_ok load"
  shows "guarded n (\<lambda>_ _. True) (LoadNonArrayClass env mk load l nm) finished"
proof -
  have "guarded n (finished c) (andthen (LinkClass (NewJString env load) c) (ret c)) finished" for c
  proof (rule guarded_andthen)
    show "guarded n (finished c) (LinkClass (NewJString env load) c) (\<lambda>_. finished c)"
      using stable_LinkClass [of n "NewJString env load" c] stable_NewJString [OF assms] stable_finished
      by (simp add: keeps_stable_def)
  qed (rule guarded_ret)
  then show ?thesis
    unfolding LoadNonArrayClass_def
    by (intro guarded_bind [OF guarded_quiet] guarded_bind [OF guarded_DefineClass [OF assms]]) simp_all
qed

lemma guarded_load_body:
  assumes "load_ok load"
  shows "guarded n (\<lambda>_ _. True) (load_body env mk load l nm) finished"
proof -
  define rest where "rest = bind (if char0 nm = CHR ''['' then LoadArrayClass mk load l nm
      else LoadNonArrayClass env mk load l nm) (\<lambda>c. bind (cache_index l kJlcClassString) (\<lambda>jlc.
      andthen (if jlc \<noteq> None then update_class c (\<lambda>cl. cl\<lparr>c_klass := jlc\<rparr>) else ret ()) (ret c)))"
  have "keeps_stable n (bind (cache_index l kJlcClassString) (\<lambda>jlc.
      if jlc \<noteq> None then update_class c (\<lambda>cl. cl\<lparr>c_klass := jlc\<rparr>) else ret ()))" for c
    by (intro keeps_stable_bind guarded_cache_index stable_rules) (simp add: same_parents_def)
  then have "guarded n (finished c) (bind (cache_index l kJlcClassString) (\<lambda>jlc.
      if jlc \<noteq> None then update_class c (\<lambda>cl. cl\<lparr>c_klass := jlc\<rparr>) else ret ())) (\<lambda>_. finished c)" for c
    by (simp add: keeps_stable_def stable_finished)
  from guarded_andthen [OF this guarded_ret]
  have after: "guarded n (finished c) (bind (cache_index l kJlcClassString) (\<lambda>jlc.
      andthen (if jlc \<noteq> None then update_class c (\<lambda>cl. cl\<lparr>c_klass := jlc\<rparr>) else ret ()) (ret c))) finished"
    for c
    by (simp add: andthen_def bind_assoc)
  have rest: "guarded n (\<lambda>_ _. True) rest finished"
    unfolding rest_def using guarded_LoadArrayClass [OF assms] guarded_LoadNonArrayClass [OF assms]
    by (intro guarded_bind [OF _ after]) simp
  show ?thesis
  proof (rule guardedI)
    fix D s p s'
    assume a: "loads_ok D s" "n \<le> length (v_classes s)" "load_body env mk load l nm s = Inr (p, s')"
    show "\<exists>D'. D \<subseteq> D' \<and> D' - D \<subseteq> {n..} \<and> length (v_classes s) \<le> length (v_classes s') \<and>
      loads_ok D' s' \<and> finished p D' (length (v_classes s'))"
    proof (cases "map_of (cache_of l s) nm")
      case None
      then have "rest s = Inr (p, s')"
        using a(3) by (simp add: load_body_def bind_def reads_def rest_def)
      then show ?thesis
        by (rule guardedD [OF rest a(1,2) TrueI]) blast
    next
      case (Some c)
      then have "s' = s" "p = c"
        using a(3) by (auto simp: load_body_def bind_def reads_def ret_def)
      moreover have "finished c D (length (v_classes s))"
        using a(1) Some by (auto simp: loads_ok_def finished_def)
      ultimately show ?thesis
        using a(1) by (intro exI [of _ D]) simp
    qed
  qed
qed

lemma load_class_ok: "load_ok (load_class env mk k)"
proof (induction k)
  case 0
  show ?case
    by (auto simp: load_ok_def guarded_def raise_def)
next
  case (Suc k)
  then show ?case
    using guarded_load_body [OF Suc] by (simp add: load_ok_def)
qed

end

section \<open>The makers of class objects\<close>

text \<open>
  The function of the program, which never returns an object, and the one it stands for, which runs the
  constructor \<open>Class::Class\<close> on the new object.
\<close>

lemma NewClassObject_cases:
  "(\<exists>e. NewClassObject env s = Inl e) \<or> NewClassObject env s = Inr (None, s)"
proof (cases "AllocObject (e_realloc env) sizeof_Class (v_heap s)")
  case (Inr r)
  then show ?thesis
    using AllocObject_cases [of "e_realloc env" sizeof_Class "v_heap s"]
    by (cases r) (auto simp: NewClassObject_def on_heap_def op_simps)
qed (simp add: NewClassObject_def on_heap_def op_simps)

interpretation program: class_maker "NewClassObject env" for env
proof
  fix s s'
  assume "NewClassObject env s = Inr (None, s')"
  then show "v_classes s' = v_classes s \<and> v_loaders s' = v_loaders s"
    using NewClassObject_cases [of env s] by auto
next
  fix s c s'
  assume "NewClassObject env s = Inr (Some c, s')"
  then show "c = length (v_classes s) \<and> v_classes s' = v_classes s @ [Class_new] \<and> v_loaders s' = v_loaders s"
    using NewClassObject_cases [of env s] by auto
qed

definition construct_class :: "(vm, class_id option) op" where
  "construct_class s = Inr (Some (length (v_classes s)), s\<lparr>v_classes := v_classes s @ [Class_new]\<rparr>)"

interpretation constructed: class_maker construct_class
  by unfold_locales (auto simp: construct_class_def)

section \<open>What a load guarantees\<close>

lemma loads_ok_hierarchy:
  assumes "loads_ok D s"
  shows "acyclic (hierarchy (v_classes s)) \<and>
    hierarchy (v_classes s) \<subseteq> {..<length (v_classes s)} \<times> {..<length (v_classes s)}"
  using assms by (auto simp: loads_ok_def hierarchy_targets)

lemma loads_ok_wf:
  assumes "loads_ok D s" "\<forall>cl \<in> set (v_classes s). None \<notin> set (c_interfaces cl)"
  shows "wf_classes (v_classes s)"
proof -
  have "pointers_ok (v_classes s)"
    unfolding pointers_ok_def
  proof (intro ballI conjI allI impI)
    fix cl d
    assume cl: "cl \<in> set (v_classes s)"
    then obtain a where a: "a < length (v_classes s)" "cl = v_classes s ! a"
      by (auto simp: in_set_conv_nth)
    have range: "d \<in> targets cl \<Longrightarrow> d < length (v_classes s)" for d
      using loads_ok_hierarchy [OF assms(1)] a by (auto simp: hierarchy_targets)
    show "c_super_class cl = Some d \<Longrightarrow> d < length (v_classes s)"
      using range by (simp add: targets_def)
    fix i
    assume i: "i \<in> set (c_interfaces cl)"
    show "i \<noteq> None"
      using assms(2) cl i by metis
    then show "the i < length (v_classes s)"
      using range i by (auto simp: targets_def)
  qed
  then show ?thesis
    using loads_ok_hierarchy [OF assms(1)] by (simp add: wf_classes_def)
qed

context class_maker
begin

lemma load_keeps:
  assumes "loads_ok D s" "load_class env mk k l nm s = Inr (p, s')"
  obtains D' where "D \<subseteq> D'" "loads_ok D' s'" "finished p D' (length (v_classes s'))"
proof -
  have "guarded 0 (\<lambda>_ _. True) (load_class env mk k l nm) finished"
    using load_class_ok by (simp add: load_ok_def)
  from this assms(1) le0 TrueI assms(2) show thesis
    by (rule guardedD) (rule that)
qed

end

section \<open>Loads that fail\<close>

lemma bind_reads: "bind (reads f) g s = g (f s) s"
  by (simp add: bind_def reads_def)

lemma StartLoad_null: "\<exists>e. bind (StartLoad load None cf) f s = Inl e"
  by (auto simp: StartLoad_def op_simps update_class_def on_classes_def with_class_def GetBootClassLoader_def
      GetClassLoader_def split: sum.splits)

text \<open>Without a class object nothing can be loaded: the null pointer is followed at once.\<close>

lemma load_class_fails:
  assumes "map_of (cache_of l s) nm = None"
  shows "\<exists>e. LoadClass env k l nm s = Inl e"
proof (cases k)
  case (Suc j)
  define load where "load = load_class env (NewClassObject env) j"
  have null: "\<exists>e. bind (NewClassObject env) f t = Inl e" if "\<And>t. \<exists>e. f None t = Inl e" for f t
    using NewClassObject_cases [of env t] that [of t] by (auto simp: bind_def)
  have arr: "\<exists>e. LoadArrayClass (NewClassObject env) load l nm t = Inl e" for t
    unfolding LoadArrayClass_def
    by (rule null) (simp add: op_simps update_class_def on_classes_def with_class_def)
  have def: "\<exists>e. DefineClass (NewClassObject env) load l d t = Inl e" for d t
  proof (cases "parse_data d")
    case (Inr cf)
    then have "lift_res (parse_data d) t = Inr (cf, t)"
      by (simp add: lift_res_def)
    then have "DefineClass (NewClassObject env) load l d t =
      bind (NewClassObject env) (\<lambda>c. bind (StartLoad load c cf) (\<lambda>_. bind (read_class c)
        (\<lambda>cl. andthen (cache_put l (c_name cl) c) (ret c)))) t"
      unfolding DefineClass_def andthen_def [of "StartLoad _ _ _"] by (rule bind_Inr)
    moreover have "\<exists>e. bind (NewClassObject env) (\<lambda>c. bind (StartLoad load c cf) (\<lambda>_. bind (read_class c)
        (\<lambda>cl. andthen (cache_put l (c_name cl) c) (ret c)))) t = Inl e"
      by (rule null) (rule StartLoad_null)
    ultimately show ?thesis
      by simp
  qed (simp add: DefineClass_def bind_def lift_res_def)
  have "\<exists>e. LoadNonArrayClass env (NewClassObject env) load l nm t = Inl e" for t
    unfolding LoadNonArrayClass_def
  proof (cases "e_read env l nm")
    case (Inr d)
    then show "\<exists>e. bind (lift_res (e_read env l nm)) (\<lambda>class_data.
        bind (DefineClass (NewClassObject env) load l class_data)
          (\<lambda>c. andthen (LinkClass (NewJString env load) c) (ret c))) t = Inl e"
      using def [of d t] by (auto simp: bind_def lift_res_def)
  qed (simp add: bind_def lift_res_def)
  with arr have "\<exists>e. bind (if char0 nm = CHR ''['' then LoadArrayClass (NewClassObject env) load l nm
      else LoadNonArrayClass env (NewClassObject env) load l nm) g s = Inl e" for g
    by (auto simp: bind_def) (metis sum.case(1))+
  then show ?thesis
    using assms Suc by (simp add: LoadClass_def load_body_def bind_reads load_def [symmetric] split del: if_split)
qed (simp add: LoadClass_def raise_def)

text \<open>The loaders hand the name of the class to the readers as it is, without \<open>ClassNameToClassPath\<close>.\<close>

lemma load_plain_name_fails:
  assumes "map_of (cache_of l s) nm = None" "char0 nm \<noteq> CHR ''[''" "\<not> CheckClassPathValid nm"
    and "e_read env l = (\<lambda>n. ReadClass w n r)"
  shows "load_class env mk (Suc k) l nm s = Inl Null_Dereference"
proof -
  have "e_read env l nm = Inr not_class_file"
    using assms(3,4) by (simp add: ReadClass_not_class)
  moreover have "parse_data not_class_file = Inl Null_Dereference"
    by (simp add: parse_data_def not_class_file_def SetReadErrno_def ClassData_new_def)
  ultimately show ?thesis
    using assms(1,2)
    by (simp add: load_body_def LoadNonArrayClass_def DefineClass_def bind_def lift_res_def reads_def)
qed

end
