(* ===== verification/Command_Line.thy ===== *)
theory Command_Line
  imports Jvm_Prelude
begin

text \<open>
  The command line: \<open>src/src/command.cpp\<close>, \<open>command.h\<close> and the choice that \<open>main\<close> makes
  (\<open>src/src/main.cpp\<close>). The results of \<open>getopt_long_only\<close>, a function of the C library, are arguments:
  the codes of the options with their \<open>optarg\<close>, the arguments in the order it leaves them in, and
  the index \<open>optind\<close> of the first one that is not an option. Shown: what the parsed
  command holds, for every sequence of options.
\<close>

record command =
  cmd_help_flag :: bool
  cmd_version_flag :: bool
  cmd_app_class_path :: string
  cmd_class_name :: string
  cmd_jre_path :: string
  cmd_args :: "string list"

definition Command_new :: command where
  "Command_new =
     \<lparr>cmd_help_flag = False, cmd_version_flag = False, cmd_app_class_path = [], cmd_class_name = [],
      cmd_jre_path = [], cmd_args = []\<rparr>"

text \<open>The codes in the table of options; the first three are those of \<open>v\<close>, \<open>h\<close>, \<open>c\<close> and the fourth is \<open>?\<close>.\<close>

definition opt_version :: int where "opt_version = 118"
definition opt_help :: int where "opt_help = 104"
definition opt_class_path :: int where "opt_class_path = 99"
definition opt_unknown :: int where "opt_unknown = 63"
definition opt_jre :: int where "opt_jre = 103"

lemmas opt_defs = opt_version_def opt_help_def opt_class_path_def opt_unknown_def opt_jre_def

text \<open>The short option \<open>-g\<close> does not exist, so that the code 103 is that of \<open>-Xjre\<close>. A null \<open>optarg\<close> is not a string.\<close>

definition switch_option :: "int \<times> string option \<Rightarrow> command \<Rightarrow> command res" where
  "switch_option = (\<lambda>(opt, optarg) cmd.
     if opt = opt_version then Inr (cmd\<lparr>cmd_version_flag := True\<rparr>)
     else if opt = opt_help then Inr (cmd\<lparr>cmd_help_flag := True\<rparr>)
     else if opt = opt_class_path then
       (case optarg of None \<Rightarrow> Inl Null_Dereference | Some a \<Rightarrow> Inr (cmd\<lparr>cmd_app_class_path := a\<rparr>))
     else if opt = opt_unknown then Inr (cmd\<lparr>cmd_help_flag := True\<rparr>)
     else if opt = opt_jre then
       (case optarg of None \<Rightarrow> Inl Null_Dereference | Some a \<Rightarrow> Inr (cmd\<lparr>cmd_jre_path := a\<rparr>))
     else Inr cmd)"

fun switch_options :: "(int \<times> string option) list \<Rightarrow> command \<Rightarrow> command res" where
  "switch_options [] cmd = Inr cmd"
| "switch_options (x # xs) cmd =
     (case switch_option x cmd of Inl e \<Rightarrow> Inl e | Inr cmd' \<Rightarrow> switch_options xs cmd')"

definition ParseCommand :: "(int \<times> string option) list \<Rightarrow> string list \<Rightarrow> nat \<Rightarrow> command res" where
  "ParseCommand opts argv optind =
     (case switch_options opts Command_new of
        Inl e \<Rightarrow> Inl e
      | Inr cmd \<Rightarrow>
          Inr (if optind < length argv
               then cmd\<lparr>cmd_class_name := argv ! optind, cmd_args := drop (optind + 1) argv\<rparr>
               else cmd))"

definition PrintHelp :: "command \<Rightarrow> bool" where "PrintHelp cmd = cmd_help_flag cmd"
definition PrintVersion :: "command \<Rightarrow> bool" where "PrintVersion cmd = cmd_version_flag cmd"
definition GetAppClassPath :: "command \<Rightarrow> string" where "GetAppClassPath cmd = cmd_app_class_path cmd"
definition Command_GetClassName :: "command \<Rightarrow> string" where "Command_GetClassName cmd = cmd_class_name cmd"
definition GetJrePath :: "command \<Rightarrow> string" where "GetJrePath cmd = cmd_jre_path cmd"
definition GetArgs :: "command \<Rightarrow> string list" where "GetArgs cmd = cmd_args cmd"

lemmas command_getters = PrintHelp_def PrintVersion_def GetAppClassPath_def Command_GetClassName_def
  GetJrePath_def GetArgs_def

text \<open>What \<open>main\<close> does with the command.\<close>

datatype action = Show_Version | Show_Help | Run_Machine

definition main_action :: "command \<Rightarrow> action" where
  "main_action cmd =
     (if PrintVersion cmd then Show_Version
      else if PrintHelp cmd \<or> Command_GetClassName cmd = [] then Show_Help
      else Run_Machine)"

section \<open>The parsed command\<close>

text \<open>The last argument of an option.\<close>

definition last_arg :: "int \<Rightarrow> (int \<times> string option) list \<Rightarrow> string \<Rightarrow> string" where
  "last_arg opt opts dflt =
     (case map_of (rev opts) opt of Some (Some a) \<Rightarrow> a | _ \<Rightarrow> dflt)"

definition has_arguments :: "(int \<times> string option) list \<Rightarrow> bool" where
  "has_arguments opts \<longleftrightarrow> (\<forall>(opt, optarg) \<in> set opts. opt \<in> {opt_class_path, opt_jre} \<longrightarrow> optarg \<noteq> None)"

lemma last_arg_Nil [simp]: "last_arg opt [] d = d"
  by (simp add: last_arg_def)

lemma last_arg_Cons:
  "has_arguments ((o', a) # opts) \<Longrightarrow> opt \<in> {opt_class_path, opt_jre} \<Longrightarrow>
   last_arg opt ((o', a) # opts) d = last_arg opt opts (if o' = opt then the a else d)"
  by (auto simp: last_arg_def has_arguments_def map_add_def dest!: map_of_SomeD split: option.splits)

lemma switch_options_result:
  "has_arguments opts \<Longrightarrow>
   switch_options opts cmd = Inr (cmd\<lparr>
     cmd_help_flag := cmd_help_flag cmd \<or> opt_help \<in> fst ` set opts \<or> opt_unknown \<in> fst ` set opts,
     cmd_version_flag := cmd_version_flag cmd \<or> opt_version \<in> fst ` set opts,
     cmd_app_class_path := last_arg opt_class_path opts (cmd_app_class_path cmd),
     cmd_jre_path := last_arg opt_jre opts (cmd_jre_path cmd)\<rparr>)"
proof (induction opts arbitrary: cmd)
  case (Cons x opts)
  obtain o' a where x: "x = (o', a)"
    by (cases x)
  have "has_arguments opts"
    using Cons.prems by (simp add: has_arguments_def)
  note IH = Cons.IH [OF this]
  have arg: "o' \<in> {opt_class_path, opt_jre} \<Longrightarrow> a \<noteq> None"
    using Cons.prems x by (auto simp: has_arguments_def)
  consider "o' = opt_version" | "o' = opt_help" | "o' = opt_class_path" | "o' = opt_unknown" | "o' = opt_jre"
    | "o' \<notin> {opt_version, opt_help, opt_class_path, opt_unknown, opt_jre}"
    by auto
  then show ?case
    using Cons.prems arg unfolding x
    by cases (auto simp: switch_option_def IH last_arg_Cons opt_defs)
qed simp

section \<open>Lines of the log\<close>

text \<open>
  \<open>InitLogPrefix\<close> writes the start of every line of the log. Numbers are written in decimal. A width applies to
  the next item only, the fill character stays until it is changed; \<open>fill\<close> is the one the stream has when the
  function is called. \<open>pid\<close> is the result of \<open>getpid\<close>, and the text of the thread identifier comes from the C++
  library.
\<close>

fun dec :: "nat \<Rightarrow> string" where
  "dec n = (if n < 10 then [char_of (48 + n)] else dec (n div 10) @ [char_of (48 + n mod 10)])"

declare dec.simps [simp del]

definition dec_int :: "int \<Rightarrow> string" where
  "dec_int i = (if i < 0 then CHR ''-'' # dec (nat (- i)) else dec (nat i))"

definition setw :: "char \<Rightarrow> nat \<Rightarrow> string \<Rightarrow> string" where
  "setw fill w s = replicate (w - length s) fill @ s"

record log_info =
  li_month :: int
  li_day :: int
  li_hour :: int
  li_min :: int
  li_sec :: int
  li_severity :: string
  li_thread_id :: string
  li_filename :: string

definition InitLogPrefix :: "char \<Rightarrow> int \<Rightarrow> log_info \<Rightarrow> string" where
  "InitLogPrefix fill pid l =
     setw fill 2 (dec_int (1 + li_month l)) @ ''-'' @
     setw fill 2 (dec_int (li_day l)) @ '' '' @
     setw fill 2 (dec_int (li_hour l)) @ '':'' @
     setw fill 2 (dec_int (li_min l)) @ '':'' @
     setw fill 2 (dec_int (li_sec l)) @ '' '' @
     [case li_severity l of [] \<Rightarrow> CHR 0x00 | c # _ \<Rightarrow> c] @ '' '' @
     setw CHR '' '' 5 (dec_int pid) @ '' '' @
     setw CHR '' '' 5 (li_thread_id l) @ '' '' @
     setw CHR '' '' 5 (li_filename l)"

text \<open>The decimal digits determine the number, and a two-digit column is two characters wide.\<close>

definition digits_value :: "string \<Rightarrow> nat" where
  "digits_value = foldl (\<lambda>v c. 10 * v + (of_char c - 48)) 0"

lemma dec_value: "digits_value (dec n) = n"
proof (induction n rule: dec.induct)
  case (1 n)
  have digit: "of_char (char_of (48 + d) :: char) - 48 = d" if "d < 10" for d :: nat
    using that by simp
  show ?case
  proof (cases "n < 10")
    case True
    then show ?thesis
      using digit [of n] by (subst dec.simps) (simp add: digits_value_def)
  next
    case False
    then have "digits_value (dec (n div 10)) = n div 10"
      using 1 by simp
    then show ?thesis
      using False digit [of "n mod 10"] by (subst dec.simps) (simp add: digits_value_def)
  qed
qed

lemma two_columns:
  assumes "0 \<le> i" "i < 100"
  shows "length (setw fill 2 (dec_int i)) = 2"
proof -
  have "nat i div 10 < 10"
    using assms by simp
  then have "length (dec (nat i)) = (if i < 10 then 1 else 2)"
    using assms by (subst dec.simps, subst dec.simps) auto
  then show ?thesis
    using assms(1) by (simp add: setw_def dec_int_def)
qed

text \<open>So the process identifier starts at the same column in every line.\<close>

lemma log_prefix_columns:
  assumes "0 \<le> li_month l" "li_month l < 12" "li_day l \<in> {1..31}" "li_hour l \<in> {0..23}" "li_min l \<in> {0..59}" "li_sec l \<in> {0..60}"
  shows "drop 17 (InitLogPrefix fill pid l) =
    setw CHR '' '' 5 (dec_int pid) @ '' '' @ setw CHR '' '' 5 (li_thread_id l) @ '' '' @ setw CHR '' '' 5 (li_filename l)"
proof -
  have "length (setw fill 2 (dec_int (1 + li_month l))) = 2" "length (setw fill 2 (dec_int (li_day l))) = 2"
    "length (setw fill 2 (dec_int (li_hour l))) = 2" "length (setw fill 2 (dec_int (li_min l))) = 2"
    "length (setw fill 2 (dec_int (li_sec l))) = 2"
    by (rule two_columns; use assms in simp)+
  then show ?thesis
    by (simp add: InitLogPrefix_def)
qed

end
