(* ===== verification/Interpreter.thy ===== *)
theory Interpreter
  imports Vm_Invoke Class_Loader_Spec Command_Line
begin

text \<open>
  The interpreter loop and the start of the machine (\<open>src/src/jvm.cpp\<close>). One round of the loop is \<open>interpret_step\<close>; the loop ends
  after the round that leaves the stack of frames empty. It is a partial function, and the
  step relation \<open>vm_step\<close> describes its rounds. Shown: the loop returns exactly when a finite number of
  rounds leads to an empty stack, and what it returns.
\<close>

section \<open>One instruction\<close>

definition exec_inst ::
    "env \<Rightarrow> class_load \<Rightarrow> registry \<Rightarrow> addr option \<Rightarrow> instruction \<Rightarrow> (vm, unit) op" where
  "exec_inst env load reg frame i =
     bind (reads v_thread) (\<lambda>t.
     case exec_frame_inst (GetPc t) i of
       Some m \<Rightarrow> in_frame frame m
     | None \<Rightarrow>
         (case i of
            RetI r \<Rightarrow> exec_return r
          | RefI r \<Rightarrow> exec_reference env load frame r
          | InvI r \<Rightarrow> exec_invoke env load reg frame r
          | _ \<Rightarrow> ret ()))"

text \<open>
  A null frame is reported and then used. The code of a method without code is a pointer that was never
  set.
\<close>

definition fetch :: "meth \<Rightarrow> 32 word \<Rightarrow> (instruction \<times> 32 word) res" where
  "fetch method pc =
     (case m_codes method of
        None \<Rightarrow> Inl (Undefined ''code pointer not initialised'')
      | Some codes \<Rightarrow>
          (case fetch_instruction (reset codes pc) of
             Inl e \<Rightarrow> Inl e
           | Inr (i, r) \<Rightarrow> Inr (i, CurrentPc r)))"

definition interpret_step :: "env \<Rightarrow> class_load \<Rightarrow> registry \<Rightarrow> (vm, unit) op" where
  "interpret_step env load reg =
     bind (reads current_frame) (\<lambda>frame.
     bind (in_frame frame (reads NextPc)) (\<lambda>pc.
     andthen (on_thread (modifies (SetPc pc))) (
     bind (frame_method frame) (\<lambda>method.
     bind (lift_res (fetch method pc)) (\<lambda>(i, next_pc).
     andthen (in_frame frame (modifies (SetNextPc next_pc)))
     (exec_inst env load reg frame i))))))"

section \<open>The loop\<close>

definition stack_empty :: "vm \<Rightarrow> bool" where
  "stack_empty s \<longleftrightarrow> IsStackEmpty (v_thread s)"

text \<open>\<open>None\<close>: the loop does not end.\<close>

partial_function (option) LoopExecute :: "env \<Rightarrow> class_load \<Rightarrow> registry \<Rightarrow> vm \<Rightarrow> (vm res) option" where
  "LoopExecute env load reg s =
     (case interpret_step env load reg s of
        Inl e \<Rightarrow> Some (Inl e)
      | Inr (u, s') \<Rightarrow> if stack_empty s' then Some (Inr s') else LoopExecute env load reg s')"

declare LoopExecute.simps [code]

text \<open>The rounds that are followed by another one.\<close>

inductive vm_step :: "env \<Rightarrow> class_load \<Rightarrow> registry \<Rightarrow> vm \<Rightarrow> vm \<Rightarrow> bool"
  for env load reg where
  round: "interpret_step env load reg s = Inr (u, s') \<Longrightarrow> \<not> stack_empty s' \<Longrightarrow>
         vm_step env load reg s s'"

inductive_cases vm_stepE: "vm_step env load reg s s'"
inductive_simps vm_step_iff: "vm_step env load reg s s'"

inductive vm_steps :: "env \<Rightarrow> class_load \<Rightarrow> registry \<Rightarrow> vm \<Rightarrow> vm \<Rightarrow> bool"
  for env load reg where
  no_rounds: "vm_steps env load reg s s"
| more_rounds: "vm_step env load reg s t \<Longrightarrow> vm_steps env load reg t u \<Longrightarrow> vm_steps env load reg s u"

definition final :: "env \<Rightarrow> class_load \<Rightarrow> registry \<Rightarrow> vm \<Rightarrow> vm res \<Rightarrow> bool" where
  "final env load reg t r \<longleftrightarrow>
     (case interpret_step env load reg t of
        Inl e \<Rightarrow> r = Inl e
      | Inr (u, t') \<Rightarrow> stack_empty t' \<and> r = Inr t')"

lemma vm_step_deterministic: "vm_step env load reg s t \<Longrightarrow> vm_step env load reg s t' \<Longrightarrow> t = t'"
  by (auto elim!: vm_stepE)

lemma LoopExecute_step: "vm_step env load reg s t \<Longrightarrow> LoopExecute env load reg s = LoopExecute env load reg t"
  by (subst LoopExecute.simps) (auto elim!: vm_stepE)

lemma LoopExecute_final: "final env load reg t r \<Longrightarrow> LoopExecute env load reg t = Some r"
  by (subst LoopExecute.simps) (auto simp: final_def split: sum.splits prod.splits)

lemma LoopExecute_steps:
  "vm_steps env load reg s t \<Longrightarrow> LoopExecute env load reg s = LoopExecute env load reg t"
  by (induction rule: vm_steps.induct) (auto simp: LoopExecute_step)

lemma LoopExecute_returns:
  assumes "LoopExecute env load reg s = Some r"
  shows "\<exists>t. vm_steps env load reg s t \<and> final env load reg t r"
proof (rule LoopExecute.raw_induct [OF _ assms, where P = "\<lambda>env load reg s r.
    \<exists>t. vm_steps env load reg s t \<and> final env load reg t r"])
  fix loop env load reg s r
  assume IH: "\<And>env load reg s r. loop env load reg s = Some r \<Longrightarrow>
      \<exists>t. vm_steps env load reg s t \<and> final env load reg t r"
    and body: "(case interpret_step env load reg s of Inl e \<Rightarrow> Some (Inl e)
      | Inr (u, s') \<Rightarrow> if stack_empty s' then Some (Inr s') else loop env load reg s') = Some r"
  show "\<exists>t. vm_steps env load reg s t \<and> final env load reg t r"
  proof (cases "interpret_step env load reg s")
    case (Inl e)
    then show ?thesis
      using body by (intro exI [of _ s]) (auto simp: final_def intro: vm_steps.no_rounds)
  next
    case (Inr x)
    obtain u s' where x: "x = (u, s')"
      by (cases x)
    show ?thesis
    proof (cases "stack_empty s'")
      case True
      then show ?thesis
        using body Inr x by (intro exI [of _ s]) (auto simp: final_def intro: vm_steps.no_rounds)
    next
      case False
      then have "loop env load reg s' = Some r"
        using body Inr x by simp
      from IH [OF this] obtain t where "vm_steps env load reg s' t" "final env load reg t r"
        by blast
      moreover have "vm_step env load reg s s'"
        using Inr x False by (auto intro: vm_step.intros)
      ultimately show ?thesis
        by (blast intro: vm_steps.more_rounds)
    qed
  qed
qed

lemma LoopExecute_iff:
  "LoopExecute env load reg s = Some r \<longleftrightarrow> (\<exists>t. vm_steps env load reg s t \<and> final env load reg t r)"
  using LoopExecute_returns LoopExecute_steps LoopExecute_final by metis

text \<open>The loop runs forever exactly when there is an endless sequence of rounds.\<close>

lemma final_no_step: "final env load reg t r \<Longrightarrow> \<not> vm_step env load reg t u"
  by (auto simp: final_def elim!: vm_stepE)

lemma no_endless_run:
  "vm_steps env load reg s t \<Longrightarrow> final env load reg t r \<Longrightarrow> run 0 = s \<Longrightarrow>
   \<exists>i. \<not> vm_step env load reg (run i) (run (Suc i))"
proof (induction arbitrary: run rule: vm_steps.induct)
  case (no_rounds s)
  then show ?case
    using final_no_step by metis
next
  case (more_rounds s t u)
  show ?case
  proof (cases "run 1 = t")
    case True
    then show ?thesis
      using more_rounds.IH [of "\<lambda>i. run (Suc i)"] more_rounds.prems(1) by auto
  next
    case False
    then show ?thesis
      using more_rounds.hyps(1) more_rounds.prems(2) vm_step_deterministic by (metis One_nat_def)
  qed
qed

lemma LoopExecute_None_step:
  assumes "LoopExecute env load reg s = None"
  shows "\<exists>t. LoopExecute env load reg t = None \<and> vm_step env load reg s t"
proof (cases "interpret_step env load reg s")
  case (Inl e)
  then show ?thesis
    using assms LoopExecute_final [of env load reg s "Inl e"] by (simp add: final_def)
next
  case (Inr x)
  then obtain u t where t: "interpret_step env load reg s = Inr (u, t)"
    by (cases x) auto
  then have "\<not> stack_empty t"
    using assms LoopExecute_final [of env load reg s "Inr t"] by (auto simp: final_def)
  with t have "vm_step env load reg s t"
    by (rule vm_step.round)
  then show ?thesis
    using assms LoopExecute_step by metis
qed

lemma LoopExecute_None:
  "LoopExecute env load reg s = None \<longleftrightarrow>
   (\<exists>run. run 0 = s \<and> (\<forall>i. vm_step env load reg (run i) (run (Suc i))))" (is "_ \<longleftrightarrow> ?endless")
proof
  assume none: "LoopExecute env load reg s = None"
  define P where "P n x \<longleftrightarrow> LoopExecute env load reg x = None \<and> (n = 0 \<longrightarrow> x = s)" for n :: nat and x
  have "\<exists>run. \<forall>n. P n (run n) \<and> vm_step env load reg (run n) (run (Suc n))"
    by (rule dependent_nat_choice) (use none LoopExecute_None_step in \<open>auto simp: P_def\<close>)
  then show ?endless
    unfolding P_def by blast
next
  assume endless: ?endless
  show "LoopExecute env load reg s = None"
  proof (rule ccontr)
    assume "LoopExecute env load reg s \<noteq> None"
    then obtain r t where "vm_steps env load reg s t" "final env load reg t r"
      using LoopExecute_returns by blast
    then show False
      using endless no_endless_run by metis
  qed
qed

section \<open>The machine\<close>

text \<open>
  \<open>JVM::JVM\<close>. The readers of the class path become those of the loaders; \<open>block\<close> is what \<open>calloc\<close> returns for the heap.
\<close>

definition readers :: "world \<Rightarrow> class_path_parser \<Rightarrow> loader_id \<Rightarrow> string \<Rightarrow> class_data res" where
  "readers w p l class_name =
     (case l of
        Boot_Loader \<Rightarrow> ReadClass w class_name (cpp_boot p)
      | Ext_Loader \<Rightarrow> ReadClass w class_name (cpp_ext p)
      | Base_Loader \<Rightarrow> ReadClass w class_name (cpp_app p))"

definition JVM_new :: "world \<Rightarrow> command \<Rightarrow> uptr \<Rightarrow> (vm, class_path_parser \<times> registry) op" where
  "JVM_new w cmd block =
     bind (lift_res (ClassPathParser_new w (GetJrePath cmd) (GetAppClassPath cmd))) (\<lambda>p.
     andthen CreateBootClassLoader (
     andthen CreateExtClassLoader (
     andthen CreateBaseClassLoader (
     andthen (modifies (\<lambda>s. s\<lparr>v_heap := Heap_new block (1024 * 1024 * 512)\<rparr>))
     (ret (p, init []))))))"

definition CreateArgs :: "env \<Rightarrow> class_load \<Rightarrow> (vm, ref64) op" where
  "CreateArgs env load =
     bind GetBootClassLoader (\<lambda>b.
     bind (load b ''java/lang/String'') (\<lambda>string_class.
     bind (GetArrayClass load string_class) (\<lambda>arr_class.
     NewArray env arr_class)))"

text \<open>
  \<open>JVM::Start\<close> up to the call of the interpreter; the result says whether it is called. \<open>thread\<close> is the outcome of
  \<open>Thread::Create\<close>.
\<close>

definition prepare_main ::
    "env \<Rightarrow> (vm, class_id option) op \<Rightarrow> class_load \<Rightarrow> thread res \<Rightarrow> command \<Rightarrow> (vm, bool) op" where
  "prepare_main env mk load thread cmd =
     bind (lift_res thread) (\<lambda>main_thread.
     andthen (modifies (\<lambda>s. s\<lparr>v_thread := main_thread\<rparr>)) (
     bind GetBootClassLoader (\<lambda>boot.
     andthen (LoadBasicClass load boot) (
     andthen (LoadPrimitiveClasses mk boot) (
     bind GetBaseClassLoader (\<lambda>base.
     bind (load base (Command_GetClassName cmd)) (\<lambda>main_class.
     if main_class = None then ret False
     else
       bind (reads v_classes) (\<lambda>ct.
       bind (lift_res (GetMainMethod ct main_class)) (\<lambda>main_method.
       case main_method of
         None \<Rightarrow> ret False
       | Some mid \<Rightarrow>
           bind (read_method mid) (\<lambda>method.
           bind (reads (\<lambda>s. Thread_Current (Some (v_thread s)))) (\<lambda>current.
           if current = None then raise Null_Dereference
           else
             bind (on_thread (CreateFrame method)) (\<lambda>frame.
             bind (CreateArgs env load) (\<lambda>args.
             andthen (locals (Some frame) (LocalVars_SetRef 0 args))
             (ret True))))))))))))))"

definition Start ::
    "env \<Rightarrow> (vm, class_id option) op \<Rightarrow> class_load \<Rightarrow> registry \<Rightarrow> thread res \<Rightarrow> command \<Rightarrow> vm \<Rightarrow> (vm res) option" where
  "Start env mk load reg thread cmd s =
     (case prepare_main env mk load thread cmd s of
        Inl e \<Rightarrow> Some (Inl e)
      | Inr (interpret, s') \<Rightarrow> if interpret then LoopExecute env load reg s' else Some (Inr s'))"

section \<open>The process\<close>

text \<open>
  The static state of the process: the parts of the machine and the one object of class \<open>JVM\<close>, its command, class path
  and native methods. \<open>CreateVM\<close> makes it once (\<open>call_once\<close>); \<open>Current\<close> is null before.
\<close>

record jvm =
  j_command :: command
  j_class_path :: class_path_parser
  j_natives :: registry

record process =
  p_vm :: vm
  p_jvm_current :: "jvm option"

definition CreateVM :: "world \<Rightarrow> uptr \<Rightarrow> command \<Rightarrow> (process, unit) op" where
  "CreateVM w block cmd s =
     (case p_jvm_current s of
        Some j \<Rightarrow> Inr ((), s)
      | None \<Rightarrow>
          (case JVM_new w cmd block (p_vm s) of
             Inl e \<Rightarrow> Inl e
           | Inr ((p, reg), v) \<Rightarrow>
               Inr ((), \<lparr>p_vm = v, p_jvm_current = Some \<lparr>j_command = cmd, j_class_path = p, j_natives = reg\<rparr>\<rparr>)))"

definition Current :: "(process, jvm option) op" where
  "Current = reads p_jvm_current"

text \<open>
  \<open>main\<close>: the options as \<open>getopt_long_only\<close> reports them, the arguments behind them, and what the process prints or runs.
  The outcome is \<open>None\<close> when the program runs forever. \<open>k\<close> bounds nested loads, \<open>thread\<close> is the outcome of \<open>Thread::Create\<close>.
\<close>

datatype main_outcome = Version_Shown | Help_Shown | Program_Ended vm

definition run_current ::
    "world \<Rightarrow> env \<Rightarrow> nat \<Rightarrow> thread res \<Rightarrow> process \<Rightarrow> main_outcome res option" where
  "run_current w env0 k thread s =
     (case Current s of
        Inl e \<Rightarrow> Some (Inl e)
      | Inr (None, s') \<Rightarrow> Some (Inl Null_Dereference)
      | Inr (Some j, s') \<Rightarrow>
          (let env = env0\<lparr>e_read := readers w (j_class_path j)\<rparr> in
           case Start env (NewClassObject env) (LoadClass env k) (j_natives j) thread (j_command j) (p_vm s') of
             None \<Rightarrow> None
           | Some (Inl e) \<Rightarrow> Some (Inl e)
           | Some (Inr v) \<Rightarrow> Some (Inr (Program_Ended v))))"

definition main_program ::
    "world \<Rightarrow> env \<Rightarrow> nat \<Rightarrow> thread res \<Rightarrow> uptr \<Rightarrow> (int \<times> string option) list \<Rightarrow> string list \<Rightarrow> nat \<Rightarrow> process \<Rightarrow>
     main_outcome res option" where
  "main_program w env0 k thread block opts argv optind s =
     (case ParseCommand opts argv optind of
        Inl e \<Rightarrow> Some (Inl e)
      | Inr cmd \<Rightarrow>
          (case main_action cmd of
             Show_Version \<Rightarrow> Some (Inr Version_Shown)
           | Show_Help \<Rightarrow> Some (Inr Help_Shown)
           | Run_Machine \<Rightarrow>
               (case CreateVM w block cmd s of
                  Inl e \<Rightarrow> Some (Inl e)
                | Inr (u, s') \<Rightarrow> run_current w env0 k thread s')))"

lemma CreateVM_once: "CreateVM w block cmd s = Inr (u, t) \<Longrightarrow> CreateVM w' block' cmd' t = Inr ((), t)"
  by (auto simp: CreateVM_def split: option.splits sum.splits)

section \<open>The start fails\<close>

lemma JVM_new_loaders:
  assumes "JVM_new w cmd block s = Inr ((p, reg), s')" "\<forall>l. v_loaders s l = None"
  shows "\<forall>l. v_loaders s' l \<noteq> None \<and> cache_of l s' = []"
proof
  fix l
  show "v_loaders s' l \<noteq> None \<and> cache_of l s' = []"
    using assms
    by (cases l) (auto simp: JVM_new_def op_simps CreateBootClassLoader_def CreateExtClassLoader_def
        CreateBaseClassLoader_def create_loader_def GetBootClassLoader_def GetExtClassLoader_def
        GetClassLoader_def cache_of_def split: sum.splits)
qed

lemma prepare_main_fails:
  assumes "cache_of Boot_Loader s = []"
  shows "\<exists>e. prepare_main env mk (LoadClass env k) thread cmd s = Inl e"
proof (cases thread)
  case (Inr t)
  define u where "u = s\<lparr>v_thread := t\<rparr>"
  have "cache_of Boot_Loader u = []"
    using assms by (simp add: u_def cache_of_def)
  then obtain e where "LoadClass env k Boot_Loader kJlcClassString u = Inl e"
    using load_class_fails [of Boot_Loader u kJlcClassString env k] by auto
  then have "LoadBasicClass (LoadClass env k) Boot_Loader u = Inl e"
    by (simp add: LoadBasicClass_def bind_def)
  then show ?thesis
    using Inr
    by (simp add: prepare_main_def bind_def andthen_def lift_res_def modifies_def u_def [symmetric]
        GetBootClassLoader_def GetClassLoader_def)
qed (simp add: prepare_main_def bind_def lift_res_def)

lemma run_current_fails:
  assumes "p_jvm_current s = None" and "\<forall>l. v_loaders (p_vm s) l = None" and "CreateVM w block cmd s = Inr (u, t)"
  shows "\<exists>e. run_current w env0 k thread t = Some (Inl e)"
proof -
  obtain p reg v where v: "JVM_new w cmd block (p_vm s) = Inr ((p, reg), v)"
    and t: "t = \<lparr>p_vm = v, p_jvm_current = Some \<lparr>j_command = cmd, j_class_path = p, j_natives = reg\<rparr>\<rparr>"
    using assms(1,3) by (auto simp: CreateVM_def split: sum.splits)
  define env where "env = env0\<lparr>e_read := readers w p\<rparr>"
  have "cache_of Boot_Loader v = []"
    using JVM_new_loaders [OF v assms(2)] by blast
  then obtain e where "prepare_main env (NewClassObject env) (LoadClass env k) thread cmd v = Inl e"
    using prepare_main_fails by blast
  then have "Start env (NewClassObject env) (LoadClass env k) reg thread cmd v = Some (Inl e)"
    by (simp add: Start_def)
  then show ?thesis
    by (simp add: t run_current_def Current_def reads_def Let_def env_def)
qed

end
