(* ===== verification/Class_Resolve_Spec.thy ===== *)
theory Class_Resolve_Spec
  imports Class_Resolve Class_Loader_Spec
begin

text \<open>
  Loading and resolution over time. A load changes no class that existed before it; it only adds classes
  (\<open>conservative\<close>, proved for the loader). So a reference that was resolved once stays
  resolved: resolving it again returns the same class, field or method, changes nothing and does not call the
  loader.
\<close>

section \<open>Loading only adds classes\<close>

definition extends :: "class_table \<Rightarrow> vm \<Rightarrow> bool" where
  "extends ct s \<longleftrightarrow> take (length ct) (v_classes s) = ct"

definition new_from :: "class_table \<Rightarrow> class_id option \<Rightarrow> bool" where
  "new_from ct p \<longleftrightarrow> (\<forall>c. p = Some c \<longrightarrow> length ct \<le> c)"

lemma extends_same: "(\<And>s x t. m s = Inr (x, t) \<Longrightarrow> v_classes t = v_classes s) \<Longrightarrow> keeps (extends ct) m"
  by (auto simp: keeps_def extends_def)

lemma extends_primitive [keeps_rules]:
  "keeps (extends ct) (read_class c)" "keeps (extends ct) (GetClassLoader msg l)" "keeps (extends ct) (cache_put l n c)"
  "keeps (extends ct) (new_object env)" "keeps (extends ct) (GetClass env r)"
  "keeps (extends ct) (modifies (\<lambda>s. s\<lparr>v_strings := g s\<rparr>))"
  by (rule extends_same, auto simp: read_class_def GetClassLoader_def cache_put_def new_object_def GetClass_def
      modifies_def split: sum.splits option.splits if_splits)+

lemma extends_with_class:
  "new_from ct c \<Longrightarrow> keeps (extends ct) (on_classes (with_class c g))"
  by (auto simp: keeps_def extends_def new_from_def on_classes_def zoom_def split: sum.splits elim!: with_class_InrE)

lemma extends_new_class [keeps_rules]:
  assumes "new_from ct c"
  shows "keeps (extends ct) (update_class c g)" "keeps (extends ct) (on_static_vars c m)"
    "keeps (extends ct) (on_classes (CalcStaticFieldSlotIds c))"
    "keeps (extends ct) (on_classes (CalcInstanceFieldSlotIds c))"
proof -
  show "keeps (extends ct) (update_class c g)" "keeps (extends ct) (on_classes (CalcStaticFieldSlotIds c))"
    unfolding update_class_def CalcStaticFieldSlotIds_def by (intro extends_with_class assms)+
  show "keeps (extends ct) (on_static_vars c m)" "keeps (extends ct) (on_classes (CalcInstanceFieldSlotIds c))"
    using assms by (auto simp: keeps_def extends_def new_from_def on_static_vars_def CalcInstanceFieldSlotIds_def
      on_classes_def zoom_def split: sum.splits option.splits elim!: class_at_InrE with_class_InrE)
qed

lemma keeps_each: "(\<And>x. keeps P (f x)) \<Longrightarrow> keeps P (each f xs)"
  by (induction xs) (auto intro: keeps_rules)

text \<open>The uses of constants.\<close>

lemma keeps_constants [keeps_rules]:
  assumes "keeps P m"
  shows "(\<And>x. keeps P (f x)) \<Longrightarrow> keeps P (case k of StringConstant x \<Rightarrow> f x | _ \<Rightarrow> m)"
    "(\<And>a b c d e. keeps P (g a b c d e)) \<Longrightarrow> keeps P (case k of FieldRefConstant a b c d e \<Rightarrow> g a b c d e | _ \<Rightarrow> m)"
    "(\<And>a b c d e. keeps P (g a b c d e)) \<Longrightarrow> keeps P (case k of MethodRefConstant a b c d e \<Rightarrow> g a b c d e | _ \<Rightarrow> m)"
    "(\<And>a b c d e. keeps P (g a b c d e)) \<Longrightarrow>
      keeps P (case k of InterfaceMethodRefConstant a b c d e \<Rightarrow> g a b c d e | _ \<Rightarrow> m)"
  using assms by (cases k; simp)+

lemma extends_NewJString:
  assumes "\<And>l n. keeps (extends ct) (load l n)"
  shows "keeps (extends ct) (NewJString env load str)"
  unfolding NewJString_def NewObject_def SetRefVar_def GetBootClassLoader_def by (intro keeps_rules assms)

lemma extends_LinkClass:
  assumes "\<And>str. keeps (extends ct) (nj str)" "new_from ct c"
  shows "keeps (extends ct) (LinkClass nj c)"
  unfolding LinkClass_def VerifyClass_def PrepareClass_def AllocAndInitStaticVars_def InitStaticFinalVar_def
  by (intro keeps_rules keeps_each assms)

lemma extends_resolve_from:
  "(\<And>l n. keeps (extends ct) (load l n)) \<Longrightarrow> new_from ct c \<Longrightarrow> keeps (extends ct) (resolve_from load l c i ns)"
  by (induction ns arbitrary: i) (auto intro!: keeps_rules)

lemma extends_StartLoad:
  assumes "\<And>l n. keeps (extends ct) (load l n)" "new_from ct c"
  shows "keeps (extends ct) (StartLoad load c cf)" "keeps (extends ct) (StartLoadArrayClass load c)"
  unfolding StartLoad_def StartLoadArrayClass_def ResolveSuperClass_def ResolveInterfaces_def push_interface_def
    GetBootClassLoader_def
  by (intro keeps_rules assms extends_resolve_from)+

lemma extends_cache_index: "keeps (extends ct) (cache_index l n)"
  by (rule extends_same) (auto simp: cache_index_def cache_put_def op_simps split: option.splits)

context class_maker
begin

lemma mk_new: "gives (extends ct) mk (new_from ct)"
  unfolding gives_def
proof (intro allI impI)
  fix s p t
  assume s: "extends ct s" and run: "mk s = Inr (p, t)"
  then have "length ct \<le> length (v_classes s)"
    by (metis extends_def length_take min.cobounded1 min_def)
  then show "extends ct t \<and> new_from ct p"
    using s run mk_none [of s t] mk_some [of s _ t] by (cases p) (auto simp: extends_def new_from_def)
qed

lemma load_extends: "keeps (extends ct) (load_class env mk k l n)"
proof (induction k arbitrary: l n)
  case (Suc k)
  let ?load = "load_class env mk k"
  have arr: "gives (extends ct) (LoadArrayClass mk ?load l n) (new_from ct)" for l n
    unfolding LoadArrayClass_def
    by (intro gives_bind [OF mk_new] gives_andthen gives_ret keeps_rules extends_StartLoad Suc.IH)
  have def: "gives (extends ct) (DefineClass mk ?load l d) (new_from ct)" for l d
    unfolding DefineClass_def
    by (rule gives_keeps_bind [OF keeps_lift_res]; rule gives_bind [OF mk_new])
     (intro gives_andthen gives_keeps_bind gives_ret keeps_rules extends_StartLoad Suc.IH)
  have non: "gives (extends ct) (LoadNonArrayClass env mk ?load l n) (new_from ct)" for l n
    unfolding LoadNonArrayClass_def
    by (rule gives_keeps_bind [OF keeps_lift_res]; rule gives_bind [OF def])
     (intro gives_andthen gives_ret extends_LinkClass extends_NewJString Suc.IH)
  have "gives (extends ct) (if b then LoadArrayClass mk ?load l n else LoadNonArrayClass env mk ?load l n)
      (new_from ct)" for b
    using arr non by simp
  note new = keeps_gives_bind [OF this]
  show ?case
    unfolding load_class.simps load_body_def
  proof (rule keeps_bind [OF keeps_reads], rule keeps_option)
    show "keeps (extends ct) (bind (if char0 n = CHR ''['' then LoadArrayClass mk ?load l n
        else LoadNonArrayClass env mk ?load l n) (\<lambda>c. bind (cache_index l kJlcClassString) (\<lambda>jlc.
          andthen (if jlc \<noteq> None then update_class c (\<lambda>cl. cl\<lparr>c_klass := jlc\<rparr>) else ret ()) (ret c))))"
      by (rule new) (intro keeps_rules extends_cache_index)
  qed (rule keeps_ret)
qed (simp add: keeps_raise)

lemma load_prefix:
  "load_class env mk k l n s = Inr (p, t) \<Longrightarrow> take (length (v_classes s)) (v_classes t) = v_classes s"
  using keepsD [OF load_extends [of "v_classes s"], of s] by (simp add: extends_def)

end

section \<open>The contract of a loader\<close>

text \<open>Resolution relies on a loader that changes no class that is there.\<close>

locale conservative =
  fixes load :: class_load
  assumes load_extends_table: "load l n s = Inr (p, t) \<Longrightarrow> take (length (v_classes s)) (v_classes t) = v_classes s"
begin

lemma load_class_at:
  assumes "load l n s = Inr (p, t)" "class_at (v_classes s) c = Inr cl"
  shows "class_at (v_classes t) c = Inr cl"
proof -
  have pre: "take (length (v_classes s)) (v_classes t) = v_classes s"
    using assms(1) by (rule load_extends_table)
  obtain i where i: "c = Some i" "i < length (v_classes s)" "cl = v_classes s ! i"
    using assms(2) by (rule class_at_InrE)
  have "length (v_classes s) \<le> length (v_classes t)"
    using arg_cong [OF pre, of length] by simp
  moreover have "v_classes t ! i = v_classes s ! i"
    using nth_take [OF i(2), of "v_classes t"] by (simp add: pre)
  ultimately show ?thesis
    using i by (simp add: class_at_def)
qed

lemma load_constant:
  "load l n s = Inr (p, t) \<Longrightarrow> get_constant c i s = Inr (k, s) \<Longrightarrow> get_constant c i t = Inr (k, t)"
  using load_class_at by (fastforce simp: get_constant_def bind_def read_class_def raise_def ret_def
      split: sum.splits option.splits)

end

interpretation program_add: conservative "load_class env (NewClassObject env) k" for env k
  by unfold_locales (rule program.load_prefix)

interpretation constructed_add: conservative "load_class env construct_class k" for env k
  by unfold_locales (rule constructed.load_prefix)

section \<open>Constants after resolution\<close>

lemma get_constant_state: "get_constant c i s = Inr (k, t) \<Longrightarrow> t = s"
  by (auto simp: get_constant_def bind_def read_class_def raise_def ret_def split: sum.splits option.splits)

lemma check_access_state: "check_access m c s = Inr (u, t) \<Longrightarrow> t = s"
  unfolding check_access_def
  by (auto elim!: bind_InrE simp: lift_res_def reads_def raise_def ret_def split: sum.splits if_splits)

lemma put_get_constant:
  assumes "get_constant c i s = Inr (Some k, s)" "put_constant c i k' s = Inr (u, t)"
  shows "get_constant c i t = Inr (Some k', t)"
  using assms
  by (auto simp: get_constant_def put_constant_def update_class_def on_classes_def zoom_def bind_def read_class_def
      raise_def ret_def with_class_def class_at_def GetConstant_def split: sum.splits option.splits if_splits)

lemma set_class_ptr_simps [simp]:
  "sym_ref k = Some (cn, q) \<Longrightarrow> sym_ref (set_class_ptr p k) = Some (cn, p)"
  "member_ref (set_class_ptr p k) = member_ref k"
  "sym_ref k = Some (cn, p) \<Longrightarrow> set_class_ptr p k = k"
  by (cases k; simp)+

lemma set_member_simps [simp]:
  "sym_ref (set_member f k) = sym_ref k"
  "member_ref k = Some (n, d, g) \<Longrightarrow> member_ref (set_member f k) = Some (n, d, f)"
  by (cases k; simp)+

context conservative
begin

text \<open>What a resolution of a class that returns has done.\<close>

lemma ResolveClass_done:
  assumes "ResolveClass load c i s = Inr (p, t)"
  obtains k cn q where "get_constant c i s = Inr (Some k, s)" "sym_ref k = Some (cn, q)"
    "get_constant c i t = Inr (Some (set_class_ptr p k), t)" "p \<noteq> None"
    "\<And>load'. ResolveClass load' c i t = Inr (p, t)"
proof -
  obtain k where k: "get_constant c i s = Inr (k, s)"
    using assms get_constant_state unfolding ResolveClass_def by (elim bind_InrE) blast
  then obtain k' cn q where k': "k = Some k'" "sym_ref k' = Some (cn, q)"
    using assms by (cases "Option.bind k sym_ref")
      (auto simp: ResolveClass_def bind_def raise_def Option.bind_eq_Some_conv split: option.splits)
  define m where "m = (if q = None then
      bind (load_with load (Some c) cn) (\<lambda>p. andthen (put_constant c i (set_class_ptr p k')) (ret p)) else ret q)"
  have "ResolveClass load c i s = bind m (\<lambda>p. bind (read_class p) (\<lambda>cl. bind (read_class (Some c)) (\<lambda>other.
      if \<not> Class_IsAccessibleTo cl other then raise (Fatal ''java.lang.IllegalAccessError'') else ret p))) s"
    using k' unfolding ResolveClass_def bind_Inr [of "get_constant c i", OF k] by (simp add: m_def)
  with assms obtain cl other where run: "m s = Inr (p, t)"
    and acc: "class_at (v_classes t) p = Inr cl" "class_at (v_classes t) (Some c) = Inr other" "Class_IsAccessibleTo cl other"
    by (auto elim!: bind_InrE simp: read_class_def raise_def ret_def split: sum.splits if_splits)
  have p: "p \<noteq> None"
    using acc(1) by (auto elim: class_at_InrE)
  have now: "get_constant c i t = Inr (Some (set_class_ptr p k'), t)"
  proof (cases "q = None")
    case True
    then obtain t1 u where "load_with load (Some c) cn s = Inr (p, t1)" "put_constant c i (set_class_ptr p k') t1 = Inr (u, t)"
      using run by (auto simp: m_def andthen_def ret_def elim!: bind_InrE)
    moreover from this(1) have "get_constant c i t1 = Inr (Some k', t1)"
      using load_constant k k'(1) by (auto simp: load_with_def bind_def read_class_def raise_def split: sum.splits option.splits)
    ultimately show ?thesis
      using put_get_constant by metis
  next
    case False
    then show ?thesis
      using run k k' by (auto simp: m_def ret_def)
  qed
  have "ResolveClass load' c i t = Inr (p, t)" for load'
    using now k'(2) p acc unfolding ResolveClass_def by (auto simp: bind_def read_class_def ret_def)
  then show thesis
    using that [of k' cn q] k k' now p by blast
qed

lemma resolve_method_done:
  assumes "resolve_method b load c i s = Inr (m, t)"
  obtains k k' n d where "get_constant c i s = Inr (Some k, s)" "get_constant c i t = Inr (Some k', t)"
    "k' = k \<or> (\<exists>p. k' = set_member (Some m) (set_class_ptr p k))" "member_ref k' = Some (n, d, Some m)"
proof -
  obtain k0 where k0: "get_constant c i s = Inr (k0, s)"
    using assms get_constant_state unfolding resolve_method_def by (elim bind_InrE) blast
  then obtain k n d r where k: "k0 = Some k" "member_ref k = Some (n, d, r)"
    using assms by (cases "Option.bind k0 member_ref")
      (auto simp: resolve_method_def bind_def raise_def Option.bind_eq_Some_conv split: option.splits)
  show thesis
  proof (cases r)
    case (Some x)
    then show thesis
      using assms k0 k that [of k k n d] by (auto simp: resolve_method_def bind_def ret_def)
  next
    case None
    define rest where "rest p = bind (read_class p) (\<lambda>dc.
       if IsInterface dc \<noteq> b then raise (Fatal ''java.lang.IncompatibleClassChangeError'')
       else bind (reads v_classes) (\<lambda>ct. bind (lift_res (LookupMethod ct p n d)) (\<lambda>m. case m of
             None \<Rightarrow> raise (Fatal ''java.lang.NoSuchMethodError'')
           | Some m \<Rightarrow> andthen (check_access (method_at ct m) c) (
               bind (get_constant c i) (\<lambda>k. andthen (put_constant c i (set_member (Some m) (the k))) (ret m))))))" for p
    have "bind (ResolveClass load c i) rest s = Inr (m, t)"
      using assms k None unfolding resolve_method_def bind_Inr [of "get_constant c i", OF k0] by (simp add: rest_def [abs_def])
    then obtain p s1 where "ResolveClass load c i s = Inr (p, s1)" and rest: "rest p s1 = Inr (m, t)"
      by (rule bind_InrE)
    from this(1) obtain k1 where "get_constant c i s = Inr (Some k1, s)"
        "get_constant c i s1 = Inr (Some (set_class_ptr p k1), s1)"
      by (rule ResolveClass_done)
    then have k1: "get_constant c i s1 = Inr (Some (set_class_ptr p k), s1)"
      using k0 k by simp
    then obtain u where "put_constant c i (set_member (Some m) (set_class_ptr p k)) s1 = Inr (u, t)"
      using rest by (auto simp: rest_def andthen_def check_access_def read_class_def lift_res_def reads_def raise_def ret_def
          elim!: bind_InrE split: sum.splits option.splits if_splits)
    then have "get_constant c i t = Inr (Some (set_member (Some m) (set_class_ptr p k)), t)"
      by (rule put_get_constant [OF k1])
    then show thesis
      using that [of k "set_member (Some m) (set_class_ptr p k)" n d] k k0 by auto
  qed
qed

text \<open>Resolving twice.\<close>

lemma resolve_class_again:
  assumes "ResolveClass load c i s = Inr (p, t)"
  shows "ResolveClass load' c i t = Inr (p, t)"
  using assms by (rule ResolveClass_done)

lemma resolve_method_again:
  assumes "ResolveMethod load c i s = Inr (m, t)"
  shows "ResolveMethod load' c i t = Inr (m, t)"
proof -
  have run: "resolve_method False load c i s = Inr (m, t)"
    and kind: "\<exists>a b e f g. get_constant c i s = Inr (Some (MethodRefConstant a b e f g), s)"
    using assms get_constant_state [of c i s]
    by (auto simp: ResolveMethod_def bind_def raise_def split: sum.splits option.splits rt_constant.splits)
  from run show ?thesis
    by (rule resolve_method_done)
      (use kind in \<open>auto simp: ResolveMethod_def resolve_method_def bind_def ret_def\<close>)
qed

lemma resolve_interface_method_again:
  assumes "ResolveInterfaceMethod load c i s = Inr (m, t)"
  shows "ResolveInterfaceMethod load' c i t = Inr (m, t)"
proof -
  have run: "resolve_method True load c i s = Inr (m, t)"
    and kind: "\<exists>a b e f g. get_constant c i s = Inr (Some (InterfaceMethodRefConstant a b e f g), s)"
    using assms get_constant_state [of c i s]
    by (auto simp: ResolveInterfaceMethod_def bind_def raise_def split: sum.splits option.splits rt_constant.splits)
  from run show ?thesis
    by (rule resolve_method_done)
      (use kind in \<open>auto simp: ResolveInterfaceMethod_def resolve_method_def bind_def ret_def\<close>)
qed

lemma resolve_field_again:
  assumes "ResolveField load c i s = Inr (f, t)"
  shows "ResolveField load' c i t = Inr (f, t)"
proof -
  obtain cn n d q r where k: "get_constant c i s = Inr (Some (FieldRefConstant cn n d q r), s)"
    using assms get_constant_state [of c i s]
    by (auto simp: ResolveField_def bind_def raise_def split: sum.splits option.splits rt_constant.splits)
  define look where "look p = bind (reads v_classes) (\<lambda>ct. bind (lift_res (LookupField ct p n d)) (\<lambda>f. case f of
       None \<Rightarrow> raise (Fatal ''java.lang.NoSuchFieldError'')
     | Some f \<Rightarrow> bind (get_constant c i) (\<lambda>k. andthen (put_constant c i (set_member (Some f) (the k))) (ret f))))" for p
  define find where "find = (case r of Some f \<Rightarrow> ret f | None \<Rightarrow> bind (ResolveClass load c i) look)"
  have "bind find (\<lambda>f. bind (reads v_classes) (\<lambda>ct. andthen (check_access (field_at ct f) c) (ret f))) s = Inr (f, t)"
    using assms unfolding ResolveField_def bind_Inr [of "get_constant c i", OF k] find_def look_def [abs_def] by simp
  then have found: "find s = Inr (f, t)" and access: "\<exists>u. check_access (field_at (v_classes t) f) c t = Inr (u, t)"
    using check_access_state by (fastforce elim!: bind_InrE simp: andthen_def reads_def ret_def)+
  have "\<exists>q. get_constant c i t = Inr (Some (FieldRefConstant cn n d q (Some f)), t)"
  proof (cases r)
    case None
    then obtain p s1 where "ResolveClass load c i s = Inr (p, s1)" and look: "look p s1 = Inr (f, t)"
      using found by (auto simp: find_def elim!: bind_InrE)
    from this(1) have k1: "get_constant c i s1 = Inr (Some (FieldRefConstant cn n d p r), s1)"
      by (rule ResolveClass_done) (use k in auto)
    then obtain u where "put_constant c i (FieldRefConstant cn n d p (Some f)) s1 = Inr (u, t)"
      using look by (auto simp: look_def andthen_def lift_res_def reads_def raise_def ret_def
          elim!: bind_InrE split: sum.splits option.splits)
    from put_get_constant [OF k1 this] show ?thesis
      by blast
  next
    case (Some x)
    then show ?thesis
      using found k by (auto simp: find_def ret_def)
  qed
  then show ?thesis
    using access by (auto simp: ResolveField_def bind_def reads_def andthen_def ret_def)
qed

end

end
