(* ===== verification/Class_Init_Spec.thy ===== *)
theory Class_Init_Spec
  imports Vm_Frames_Spec Class_Loader_Spec
begin

text \<open>
  Initialisation of a class (\<open>Class::InitClass\<close> in \<open>src/src/runtime/oo/class.cpp\<close>). The classes that take part are the class and its
  super classes up to the first one whose initialisation has begun. All of them are marked and the
  frames of their initialisers are pushed on the stack of the thread, the class first; so the
  initialiser of the topmost super class runs first.
\<close>

section \<open>The classes that are initialised\<close>

primrec init_chain :: "nat \<Rightarrow> class_table \<Rightarrow> class_id \<Rightarrow> class_id list" where
  "init_chain 0 ct c = []"
| "init_chain (Suc k) ct c = c #
     (case c_super_class (ct ! c) of
        None \<Rightarrow> []
      | Some d \<Rightarrow> if IsInterface (ct ! c) \<or> c_clinit_started (ct ! d) then [] else init_chain k ct d)"

definition own_clinit :: "class_table \<Rightarrow> class_id \<Rightarrow> meth option" where
  "own_clinit ct c = find (\<lambda>m. names ''<clinit>'' ''()V'' m \<and> IsStatic m) (c_methods (ct ! c))"

definition clinits :: "class_table \<Rightarrow> class_id list \<Rightarrow> meth list" where
  "clinits ct cs = List.map_filter (own_clinit ct) cs"

definition started :: "class_id \<Rightarrow> class_table \<Rightarrow> class_table" where
  "started c ct = ct[c := (ct ! c)\<lparr>c_clinit_started := True\<rparr>]"

text \<open>A method belongs to the class that lists it; the constructor of a class sees to it.\<close>

definition members_owned :: "class_table \<Rightarrow> bool" where
  "members_owned ct \<longleftrightarrow> (\<forall>c < length ct. \<forall>m \<in> set (c_methods (ct ! c)). cm_class m = c)"

lemma clinits_simps [simp]:
  "clinits ct [] = []" "clinits ct (c # cs) = (case own_clinit ct c of None \<Rightarrow> [] | Some m \<Rightarrow> [m]) @ clinits ct cs"
  by (simp_all add: clinits_def List.map_filter_simps split: option.split)

lemma length_started [simp]: "length (started c ct) = length ct"
  by (simp add: started_def)

lemma started_nth: "i < length ct \<Longrightarrow>
  started c ct ! i = (if i = c then (ct ! c)\<lparr>c_clinit_started := True\<rparr> else ct ! i)"
  by (simp add: started_def nth_list_update)

lemma started_same:
  assumes "i < length ct"
  shows "c_super_class (started c ct ! i) = c_super_class (ct ! i)" "c_interfaces (started c ct ! i) = c_interfaces (ct ! i)"
    "c_methods (started c ct ! i) = c_methods (ct ! i)" "IsInterface (started c ct ! i) = IsInterface (ct ! i)"
  using assms by (auto simp: started_nth IsInterface_def)

lemma started_hierarchy [simp]: "hierarchy (started c ct) = hierarchy ct" "extends_rel (started c ct) = extends_rel ct"
  by (auto simp: hierarchy_def extends_rel_def implements_rel_def started_same)

lemma started_wf [simp]: "wf_classes (started c ct) = wf_classes ct"
  by (simp add: wf_classes_def pointers_ok_def all_set_conv_all_nth started_same)

lemma started_owned [simp]: "members_owned (started c ct) = members_owned ct"
  by (auto simp: members_owned_def started_same)

lemma started_rank [simp]: "class_rank (started c ct) d = class_rank ct d"
  by (simp add: class_rank_def)

lemma started_clinit [simp]: "i < length ct \<Longrightarrow> own_clinit (started c ct) i = own_clinit ct i"
  by (simp add: own_clinit_def started_same)

lemma super_edge:
  assumes "wf_classes ct" "c < length ct" "c_super_class (ct ! c) = Some d"
  shows "(c, d) \<in> extends_rel ct" "d < length ct" "(c, d) \<in> hierarchy ct"
proof -
  show "(c, d) \<in> extends_rel ct"
    using assms(2,3) by (simp add: extends_rel_def)
  show edge: "(c, d) \<in> hierarchy ct"
    using assms(2,3) by (rule super_in_hierarchy)
  show "d < length ct"
    using hierarchy_range [OF assms(1) edge] by simp
qed

lemma clinits_started: "\<forall>x \<in> set cs. x < length ct \<Longrightarrow> clinits (started c ct) cs = clinits ct cs"
  by (induction cs) simp_all

text \<open>The mark of a class is of no consequence for its super classes.\<close>

lemma init_chain_range:
  "wf_classes ct \<Longrightarrow> c < length ct \<Longrightarrow> \<forall>x \<in> set (init_chain k ct c). x < length ct \<and> (c, x) \<in> (extends_rel ct)\<^sup>*"
proof (induction k arbitrary: c)
  case (Suc k)
  show ?case
  proof (cases "c_super_class (ct ! c)")
    case (Some d)
    note edge = super_edge [OF Suc.prems Some]
    show ?thesis
      using Suc.IH [OF Suc.prems(1) edge(2)] Suc.prems(2) Some converse_rtrancl_into_rtrancl [OF edge(1)] by simp
  qed (use Suc.prems in simp)
qed simp

lemma init_chain_started:
  "wf_classes ct \<Longrightarrow> d < length ct \<Longrightarrow> (d, c) \<notin> (extends_rel ct)\<^sup>* \<Longrightarrow> init_chain k (started c ct) d = init_chain k ct d"
proof (induction k arbitrary: d)
  case (Suc k)
  show ?case
  proof (cases "c_super_class (ct ! d)")
    case (Some e)
    note edge = super_edge [OF Suc.prems(1,2) Some]
    have up: "(e, c) \<notin> (extends_rel ct)\<^sup>*"
      using Suc.prems(3) converse_rtrancl_into_rtrancl [OF edge(1)] by blast
    then have "e \<noteq> c"
      by blast
    then show ?thesis
      using Suc.IH [OF Suc.prems(1) edge(2) up] Suc.prems(2) edge(2) Some by (simp add: started_same started_nth [of e])
  qed (use Suc.prems in \<open>simp add: started_same\<close>)
qed simp

section \<open>One initialiser\<close>

lemma find_find_index: "find p xs = map_option ((!) xs) (find_index p xs)"
  by (induction xs) (auto simp: option.map_comp comp_def)

lemma find_index_first: "i < length xs \<Longrightarrow> p (xs ! i) \<Longrightarrow> \<forall>j < i. \<not> p (xs ! j) \<Longrightarrow> find_index p xs = Some i"
proof (induction xs arbitrary: i)
  case (Cons x xs)
  then show ?case
    by (cases i) (auto simp: All_less_Suc2)
qed simp

lemma schedule_own:
  assumes "wf_classes (v_classes s)" "members_owned (v_classes s)" "c < length (v_classes s)"
  shows "ScheduleClinit (Some c) s = (case own_clinit (v_classes s) c of
      None \<Rightarrow> Inr ((), s)
    | Some m \<Rightarrow> bind (on_thread (CreateFrame m)) (\<lambda>_. ret ()) s)"
proof -
  let ?ct = "v_classes s" and ?p = "\<lambda>m :: meth. names ''<clinit>'' ''()V'' m \<and> IsStatic m"
  obtain r where r: "GetClinitMethod ?ct (Some c) = Inr r" "nearest_method ?ct ?p c r"
    using GetMethod_nearest [OF assms(1,3), of "''<clinit>''" "''()V''" True] by (auto simp: GetClinitMethod_def)
  have run: "ScheduleClinit (Some c) s = (case r of None \<Rightarrow> Inr ((), s)
      | Some m \<Rightarrow> bind (lift_res (method_at ?ct m)) (\<lambda>method. if Some (cm_class method) = Some c
          then bind (on_thread (CreateFrame method)) (\<lambda>_. ret ()) else ret ()) s)"
    using r(1) by (simp add: ScheduleClinit_def bind_def reads_def lift_res_def ret_def split: option.split)
  show ?thesis
  proof (cases r)
    case None
    then have "own_clinit ?ct c = None"
      using r(2) by (auto simp: nearest_method_def declares_def own_clinit_def find_None_iff)
    then show ?thesis
      using run None by simp
  next
    case (Some x)
    obtain d i where x: "x = (d, i)"
      by (cases x)
    have near: "(c, d) \<in> (extends_rel ?ct)\<^sup>*" "first_method ?ct ?p d i"
      "\<And>e. (c, e) \<in> (extends_rel ?ct)\<^sup>* \<Longrightarrow> (e, d) \<in> (extends_rel ?ct)\<^sup>+ \<Longrightarrow> \<not> declares ?ct ?p e"
      using r(2) Some x by (auto simp: nearest_method_def)
    have d: "d < length ?ct"
      using near(1) assms(3) hierarchy_range [OF assms(1)] by (auto simp: hierarchy_def elim: rtranclE)
    let ?m = "c_methods (?ct ! d) ! i"
    have m: "method_at ?ct (d, i) = Inr ?m" "cm_class ?m = d"
      using near(2) d assms(2) by (auto simp: method_at_def vec_get_def first_method_def members_owned_def)
    show ?thesis
    proof (cases "d = c")
      case True
      have "find_index ?p (c_methods (?ct ! c)) = Some i"
        using near(2) True by (intro find_index_first) (simp_all add: first_method_def)
      then have "own_clinit ?ct c = Some ?m"
        using True by (simp add: own_clinit_def find_find_index)
      then show ?thesis
        using run Some x m True by (simp add: bind_def lift_res_def)
    next
      case False
      then have "(c, d) \<in> (extends_rel ?ct)\<^sup>+"
        using near(1) by (metis rtranclD)
      then have "own_clinit ?ct c = None"
        using near(3) [of c] by (auto simp: declares_def own_clinit_def find_None_iff)
      then show ?thesis
        using run Some x m False by (simp add: bind_def lift_res_def ret_def)
    qed
  qed
qed

section \<open>All of them\<close>

text \<open>The frame of a class on its own, if it has an initialiser.\<close>

definition clinit_list :: "class_table \<Rightarrow> class_id \<Rightarrow> meth list" where
  "clinit_list ct c = (case own_clinit ct c of None \<Rightarrow> [] | Some m \<Rightarrow> [m])"

definition frames_for :: "meth list \<Rightarrow> frame list" where
  "frames_for ms = rev (map (\<lambda>m. Frame_new m None) ms)"

lemma clinits_Cons: "clinits ct (c # cs) = clinit_list ct c @ clinits ct cs"
  by (simp add: clinit_list_def)

lemma start_and_schedule:
  assumes wf: "wf_classes (v_classes s)" "members_owned (v_classes s)" "c < length (v_classes s)"
    and repr: "stack_repr (vm_stack_of s) fs"
    and room: "\<forall>m \<in> set (clinit_list (v_classes s) c). fits (st_max_size (vm_stack_of s)) m (length fs)"
  shows "\<exists>st hs. andthen (StartClinit (Some c)) (ScheduleClinit (Some c)) s =
      Inr ((), (with_stack st s)\<lparr>v_classes := started c (v_classes s)\<rparr>) \<and> stack_repr st (hs @ fs) \<and>
    map core hs = frames_for (clinit_list (v_classes s) c) \<and> st_max_size st = st_max_size (vm_stack_of s)"
proof -
  let ?ct = "v_classes s"
  define s1 where "s1 = s\<lparr>v_classes := started c ?ct\<rparr>"
  have mark: "StartClinit (Some c) s = Inr ((), s1)"
    using wf(3) by (simp add: StartClinit_def update_class_def on_classes_def zoom_def with_class_def s1_def started_def)
  have s1: "v_classes s1 = started c ?ct" "vm_stack_of s1 = vm_stack_of s"
    by (simp_all add: s1_def vm_stack_of_def)
  have same: "(with_stack st s)\<lparr>v_classes := started c ?ct\<rparr> = with_stack st s1" for st
    by (simp add: s1_def with_stack_def)
  have run: "andthen (StartClinit (Some c)) (ScheduleClinit (Some c)) s = (case own_clinit ?ct c of
      None \<Rightarrow> Inr ((), s1) | Some m \<Rightarrow> bind (on_thread (CreateFrame m)) (\<lambda>_. ret ()) s1)"
    using schedule_own [of s1 c] wf s1 mark by (simp add: andthen_def bind_Inr)
  show ?thesis
  proof (cases "own_clinit ?ct c")
    case None
    then show ?thesis
      using run repr s1(2) unfolding same
      by (intro exI [of _ "vm_stack_of s1"] exI [of _ "[]"])
        (simp add: clinit_list_def frames_for_def with_stack_def vm_stack_of_def)
  next
    case (Some m)
    then have "fits (st_max_size (vm_stack_of s1)) m (length fs)"
      using room by (simp add: clinit_list_def s1)
    from CreateFrame_frames [OF _ this] show ?thesis
      using run repr s1(2) Some unfolding same
      by (auto simp: clinit_list_def frames_for_def bind_def ret_def
          intro!: exI [of _ "[Frame_new m (st_fp (vm_stack_of s1))]"])
  qed
qed

text \<open>What happens after a class is marked: nothing, or its super class is next.\<close>

lemma init_class_next:
  assumes wf: "wf_classes (v_classes s)" "c < length (v_classes s)" "class_rank (v_classes s) c < Suc k"
    and run: "andthen (StartClinit (Some c)) (ScheduleClinit (Some c)) s = Inr ((), s2)"
    and s2: "v_classes s2 = started c (v_classes s)"
  shows "(init_chain (Suc k) (v_classes s) c = [c] \<and> init_class (Suc k) (Some c) s = Inr ((), s2)) \<or>
    (\<exists>d. d < length (v_classes s) \<and> class_rank (v_classes s) d < k \<and>
       init_chain (Suc k) (v_classes s) c = c # init_chain k (v_classes s2) d \<and>
       init_class (Suc k) (Some c) s = init_class k (Some d) s2)"
proof -
  let ?ct = "v_classes s"
  have read: "read_class (Some c) s2 = Inr (started c ?ct ! c, s2)" "c_super_class (started c ?ct ! c) = c_super_class (?ct ! c)"
    "IsInterface (started c ?ct ! c) = IsInterface (?ct ! c)"
    using wf(2) s2 by (simp_all add: read_class_def started_same)
  have unfold: "init_class (Suc k) (Some c) s = bind (andthen (StartClinit (Some c)) (ScheduleClinit (Some c))) (\<lambda>_.
     bind (read_class (Some c)) (\<lambda>cl.
     if \<not> IsInterface cl \<and> c_super_class cl \<noteq> None then
       bind (read_class (c_super_class cl)) (\<lambda>sc.
       if \<not> c_clinit_started sc then init_class k (c_super_class cl) else ret ())
     else ret ())) s"
    by (simp add: andthen_def bind_assoc)
  have step: "init_class (Suc k) (Some c) s =
     (if \<not> IsInterface (?ct ! c) \<and> c_super_class (?ct ! c) \<noteq> None then
       bind (read_class (c_super_class (?ct ! c))) (\<lambda>sc.
       if \<not> c_clinit_started sc then init_class k (c_super_class (?ct ! c)) else ret ())
     else ret ()) s2"
    unfolding unfold bind_Inr [of "andthen (StartClinit (Some c)) (ScheduleClinit (Some c))", OF run] bind_Inr [of "read_class (Some c)", OF read(1)] read(2,3) ..
  show ?thesis
  proof (cases "c_super_class (?ct ! c)")
    case None
    then show ?thesis
      unfolding step by (simp add: ret_def)
  next
    case (Some d)
    note edge = super_edge [OF wf(1,2) Some]
    have up: "(d, c) \<notin> (extends_rel ?ct)\<^sup>*"
      using no_cycle [OF wf(1), of c] edge(1) by (meson rtrancl_into_trancl2)
    then have "d \<noteq> c"
      by blast
    moreover have "class_rank ?ct d < k"
      using class_rank_decreases [OF wf(1) edge(3)] wf(3) by simp
    ultimately show ?thesis
      unfolding step using Some edge(2) s2 init_chain_started [OF wf(1) edge(2) up, of k]
      by (auto simp: bind_def read_class_def ret_def started_nth)
  qed
qed

lemma init_class_frames:
  assumes "wf_classes (v_classes s)" "members_owned (v_classes s)" "c < length (v_classes s)" "class_rank (v_classes s) c < k"
    and "stack_repr (vm_stack_of s) fs" "ms = clinits (v_classes s) (init_chain k (v_classes s) c)"
    and "\<forall>i < length ms. fits (st_max_size (vm_stack_of s)) (ms ! i) (length fs + i)"
  shows "\<exists>st gs. init_class k (Some c) s =
        Inr ((), (with_stack st s)\<lparr>v_classes := fold started (init_chain k (v_classes s) c) (v_classes s)\<rparr>) \<and>
      stack_repr st (gs @ fs) \<and> map core gs = frames_for ms"
  using assms
proof (induction k arbitrary: c s fs ms)
  case (Suc k)
  let ?ct = "v_classes s"
  define tail where "tail = tl (init_chain (Suc k) ?ct c)"
  have ms: "ms = clinit_list ?ct c @ clinits ?ct tail" and chain: "init_chain (Suc k) ?ct c = c # tail"
    using Suc.prems(6) by (simp_all add: tail_def clinit_list_def)
  have room: "fits (st_max_size (vm_stack_of s)) (ms ! i) (length fs + i)" if "i < length ms" for i
    using Suc.prems(7) that by blast
  have "\<forall>m \<in> set (clinit_list ?ct c). fits (st_max_size (vm_stack_of s)) m (length fs)"
    using room [of 0] by (cases "own_clinit ?ct c") (simp_all add: ms clinit_list_def)
  from start_and_schedule [OF Suc.prems(1,2,3,5) this] obtain st1 hs where
    sched: "andthen (StartClinit (Some c)) (ScheduleClinit (Some c)) s = Inr ((), (with_stack st1 s)\<lparr>v_classes := started c ?ct\<rparr>)"
    and hs: "stack_repr st1 (hs @ fs)" "map core hs = frames_for (clinit_list ?ct c)" "st_max_size st1 = st_max_size (vm_stack_of s)"
    by blast
  define s2 where "s2 = (with_stack st1 s)\<lparr>v_classes := started c ?ct\<rparr>"
  have s2: "v_classes s2 = started c ?ct" "vm_stack_of s2 = st1"
    by (simp_all add: s2_def with_stack_def vm_stack_of_def)
  from init_class_next [OF Suc.prems(1,3,4) sched [folded s2_def] s2(1)] show ?case
  proof (elim disjE conjE exE)
    assume "init_chain (Suc k) ?ct c = [c]" "init_class (Suc k) (Some c) s = Inr ((), s2)"
    then show ?thesis
      using hs(1,2) ms chain by (intro exI [of _ st1] exI [of _ hs]) (simp add: s2_def)
  next
    fix d
    assume d: "d < length ?ct" "class_rank ?ct d < k" "init_chain (Suc k) ?ct c = c # init_chain k (v_classes s2) d"
      and run: "init_class (Suc k) (Some c) s = init_class k (Some d) s2"
    have tail: "tail = init_chain k (v_classes s2) d"
      using d(3) chain by simp
    have "\<forall>x \<in> set tail. x < length ?ct"
      using init_chain_range [of "v_classes s2" d k] Suc.prems(1) d(1) s2(1) tail by simp
    then have same: "clinits ?ct tail = clinits (v_classes s2) tail"
      using clinits_started s2(1) by simp
    have len: "length hs = length (clinit_list ?ct c)"
      using arg_cong [OF hs(2), of length] by (simp add: frames_for_def)
    have "\<exists>st gs. init_class k (Some d) s2 =
          Inr ((), (with_stack st s2)\<lparr>v_classes := fold started (init_chain k (v_classes s2) d) (v_classes s2)\<rparr>) \<and>
        stack_repr st (gs @ (hs @ fs)) \<and> map core gs = frames_for (clinits ?ct tail)"
    proof (rule Suc.IH)
      show "\<forall>i < length (clinits ?ct tail). fits (st_max_size (vm_stack_of s2)) (clinits ?ct tail ! i) (length (hs @ fs) + i)"
        using room [of "length hs + _"] s2(2) hs(3) len ms by (simp add: nth_append ac_simps)
    qed (use Suc.prems(1,2) d s2 hs(1) same tail in simp_all)
    then obtain st gs where "init_class k (Some d) s2 = Inr ((), (with_stack st s2)\<lparr>v_classes := fold started tail (v_classes s2)\<rparr>)"
      "stack_repr st (gs @ hs @ fs)" "map core gs = frames_for (clinits ?ct tail)"
      unfolding tail [symmetric] by blast
    then show ?thesis
      using run hs(2) ms chain unfolding run
      by (intro exI [of _ st] exI [of _ "gs @ hs"]) (simp add: s2_def with_stack_def frames_for_def del: init_chain.simps)
  qed
qed simp

text \<open>The bound of the model is never reached.\<close>

lemma InitClass_frames:
  assumes "wf_classes (v_classes s)" "members_owned (v_classes s)" "c < length (v_classes s)"
    and "stack_repr (vm_stack_of s) fs" "cs = init_chain (search_depth (v_classes s)) (v_classes s) c" "ms = clinits (v_classes s) cs"
    and "\<forall>i < length ms. fits (st_max_size (vm_stack_of s)) (ms ! i) (length fs + i)"
  shows "\<exists>st gs. InitClass (Some c) s = Inr ((), (with_stack st s)\<lparr>v_classes := fold started cs (v_classes s)\<rparr>) \<and>
      stack_repr st (gs @ fs) \<and> map core gs = frames_for ms"
  unfolding InitClass_def assms(5)
  by (rule init_class_frames [OF assms(1,2,3) search_depth_enough [OF assms(1)] assms(4)]) (use assms(5,6,7) in simp_all)

end
