(* ===== verification/Vm_Exceptions_Spec.thy ===== *)
theory Vm_Exceptions_Spec
  imports Vm_References Vm_Frames_Spec Class_Loader_Spec
begin

text \<open>
  Where an exception goes (\<open>athrow\<close> in \<open>src/src/instructions/reference_insts.cpp\<close>, \<open>Method::FindExceptionHandler\<close>), over the list
  of frames. When the catch types are resolved, the table of a method is searched for the first entry
  that covers the instruction and catches the class of the exception; the frames above the first one with a
  handler are dropped, and that frame goes on at its handler with the exception as its only operand. A
  handler at position 0 counts as none.
\<close>

section \<open>The table of a method\<close>

text \<open>The class that a constant of class \<open>c\<close> has been resolved to, when the access is allowed.\<close>

definition resolved :: "class_table \<Rightarrow> class_id \<Rightarrow> u4 \<Rightarrow> class_id option" where
  "resolved ct c i =
     (if c < length ct then
        (case Option.bind (Option.bind (c_constant_pool (ct ! c)) (\<lambda>pool. GetConstant pool i)) sym_ref of
           Some (_, Some d) \<Rightarrow> if d < length ct \<and> Class_IsAccessibleTo (ct ! d) (ct ! c) then Some d else None
         | _ \<Rightarrow> None)
      else None)"

lemma ResolveClass_resolved:
  assumes "resolved (v_classes s) c i = Some d"
  shows "ResolveClass load c i s = Inr (Some d, s)"
  using assms
  by (auto simp: resolved_def ResolveClass_def get_constant_def read_class_def bind_def ret_def
      split: if_splits option.splits bind_splits)

definition covers :: "32 word \<Rightarrow> exception_handler \<Rightarrow> bool" where
  "covers pc h \<longleftrightarrow> eh_start_pc h \<le>s pc \<and> pc <s eh_end_pc h"

definition catches :: "class_table \<Rightarrow> class_id \<Rightarrow> class_id \<Rightarrow> exception_handler \<Rightarrow> bool" where
  "catches ct c ex h = (case eh_catch_type h of
     None \<Rightarrow> True
   | Some i \<Rightarrow> (case resolved ct c (ucast i) of None \<Rightarrow> False | Some k \<Rightarrow> (ex, k) \<in> (extends_rel ct)\<^sup>*))"

definition handler_in :: "class_table \<Rightarrow> class_id \<Rightarrow> exception_handler list \<Rightarrow> class_id \<Rightarrow> 32 word \<Rightarrow> 32 word" where
  "handler_in ct c hs ex pc = (case find (\<lambda>h. covers pc h \<and> catches ct c ex h) hs of
     None \<Rightarrow> - 1
   | Some h \<Rightarrow> eh_handler_pc h)"

definition catch_types_resolved :: "class_table \<Rightarrow> meth \<Rightarrow> bool" where
  "catch_types_resolved ct m = (case m_exception_table m of
     None \<Rightarrow> False
   | Some hs \<Rightarrow> (\<forall>h \<in> set hs. \<forall>i. eh_catch_type h = Some i \<longrightarrow> resolved ct (cm_class m) (ucast i) \<noteq> None))"

definition handler_of :: "class_table \<Rightarrow> meth \<Rightarrow> class_id \<Rightarrow> 32 word \<Rightarrow> 32 word" where
  "handler_of ct m ex pc = handler_in ct (cm_class m) (the (m_exception_table m)) ex pc"

lemma find_handler_first:
  assumes "wf_classes (v_classes s)" "ex < length (v_classes s)"
    and "\<forall>h \<in> set hs. \<forall>i. eh_catch_type h = Some i \<longrightarrow> resolved (v_classes s) c (ucast i) \<noteq> None"
  shows "find_handler load c hs (Some ex) pc s = Inr (handler_in (v_classes s) c hs ex pc, s)"
  using assms(3)
proof (induction hs)
  case Nil
  then show ?case
    by (simp add: handler_in_def ret_def)
next
  case (Cons h hs)
  then have IH: "find_handler load c hs (Some ex) pc s = Inr (handler_in (v_classes s) c hs ex pc, s)"
    by simp
  show ?case
  proof (cases "eh_catch_type h")
    case None
    then show ?thesis
      using IH by (auto simp: handler_in_def covers_def catches_def ret_def)
  next
    case (Some i)
    then obtain k where k: "resolved (v_classes s) c (ucast i) = Some k"
      using Cons.prems by auto
    have test: "lift_res (IsSuperClassOf (v_classes s) (Some k) (Some ex)) s = Inr ((ex, k) \<in> (extends_rel (v_classes s))\<^sup>+, s)"
      using IsSuperClassOf_trancl [OF assms(1,2)] by (simp add: lift_res_def)
    have "find_handler load c (h # hs) (Some ex) pc s =
      (if covers pc h \<and> (k = ex \<or> (ex, k) \<in> (extends_rel (v_classes s))\<^sup>+) then Inr (eh_handler_pc h, s)
       else find_handler load c hs (Some ex) pc s)"
      using Some ResolveClass_resolved [OF k] test by (simp add: covers_def bind_def reads_def ret_def)
    then show ?thesis
      using IH Some k by (auto simp: handler_in_def catches_def rtrancl_eq_or_trancl)
  qed
qed

lemma FindExceptionHandler_first:
  assumes "wf_classes (v_classes s)" "ex < length (v_classes s)" "catch_types_resolved (v_classes s) m"
  shows "FindExceptionHandler load m (Some ex) pc s = Inr (handler_of (v_classes s) m ex pc, s)"
  using assms by (auto simp: FindExceptionHandler_def catch_types_resolved_def handler_of_def find_handler_first
      split: option.splits)

section \<open>The list of frames\<close>

definition caught_at :: "class_table \<Rightarrow> class_id \<Rightarrow> frame \<Rightarrow> 32 word" where
  "caught_at ct ex f = handler_of ct (fr_method f) ex (NextPc f - 1)"

definition caught :: "class_table \<Rightarrow> class_id \<Rightarrow> frame \<Rightarrow> bool" where
  "caught ct ex f \<longleftrightarrow> 0 <s caught_at ct ex f"

text \<open>The frame with its handler as the next instruction and the exception on its operand stack.\<close>

definition handling :: "class_table \<Rightarrow> class_id \<Rightarrow> ref64 \<Rightarrow> frame \<Rightarrow> frame \<Rightarrow> bool" where
  "handling ct ex r f g \<longleftrightarrow> (\<exists>os. stk (enc2 r) (length (os_slots (fr_operand_stack f))) os \<and>
     g = f\<lparr>fr_operand_stack := os, fr_next_pc := caught_at ct ex f\<rparr>)"

definition throwable :: "vm \<Rightarrow> ref64 \<Rightarrow> class_id \<Rightarrow> frame list \<Rightarrow> bool" where
  "throwable s r ex fs \<longleftrightarrow> wf_classes (v_classes s) \<and> ex < length (v_classes s) \<and>
     r \<noteq> 0 \<and> map_option o_klass (v_objects s r) = Some (Some ex) \<and>
     (\<forall>f \<in> set fs. catch_types_resolved (v_classes s) (fr_method f) \<and> frame_wf f)"

section \<open>Unwinding\<close>

lemma goto_handler:
  assumes repr: "stack_repr (vm_stack_of s) (f # fs)" and wf: "frame_wf f" and room: "2 \<le> length (os_slots (fr_operand_stack f))"
  shows "\<exists>st os. andthen (operands (current_frame s) (modifies Clear)) (
       andthen (operands (current_frame s) (PushRef r)) (
       andthen (in_frame (current_frame s) (modifies (SetNextPc h))) (ret True))) s = Inr (True, with_stack st s) \<and>
     stack_repr st (f\<lparr>fr_operand_stack := os, fr_next_pc := h\<rparr> # fs) \<and>
     stk (enc2 r) (length (os_slots (fr_operand_stack f))) os"
proof -
  let ?c = "length (os_slots (fr_operand_stack f))" and ?p = "current_frame s"
  have clear: "stk [] ?c (Clear (fr_operand_stack f))"
    using wf by (intro stk_Clear [OF stk_wf]) (simp add: frame_wf_def os_inv_def)
  then obtain os where os: "PushRef r (Clear (fr_operand_stack f)) = Inr ((), os)" "stk (enc2 r) ?c os"
    using ref_stack.push_room [of "[]" ?c r] room by (auto simp: valid_def)
  define f1 where "f1 = f\<lparr>fr_operand_stack := Clear (fr_operand_stack f)\<rparr>"
  define f2 where "f2 = f\<lparr>fr_operand_stack := os\<rparr>"
  define f3 where "f3 = f\<lparr>fr_operand_stack := os, fr_next_pc := h\<rparr>"
  have m: "on_operands (modifies Clear) f = Inr ((), f1)" "on_operands (PushRef r) f1 = Inr ((), f2)"
    "modifies (SetNextPc h) f2 = Inr ((), f3)"
    using os(1) by (simp_all add: on_operands_def zoom_def modifies_def f1_def f2_def f3_def SetNextPc_def)
  obtain st1 where st1: "operands ?p (modifies Clear) s = Inr ((), with_stack st1 s)" "stack_repr st1 (f1 # fs)"
    "same_block st1 (vm_stack_of s)"
    using in_current_frame [OF repr, of _ "()" f1] m(1) by (auto simp: operands_def f1_def)
  obtain st2 where st2: "operands ?p (PushRef r) (with_stack st1 s) = Inr ((), with_stack st2 s)" "stack_repr st2 (f2 # fs)"
    "same_block st2 st1"
    using in_current_frame [of "with_stack st1 s" f1 fs _ "()" f2] st1 m(2) same_current_frame [OF st1(3)]
    by (auto simp: operands_def f1_def f2_def)
  obtain st3 where st3: "in_frame ?p (modifies (SetNextPc h)) (with_stack st2 s) = Inr ((), with_stack st3 s)" "stack_repr st3 (f3 # fs)"
    using in_current_frame [of "with_stack st2 s" f2 fs _ "()" f3] st2 m(3)
      same_current_frame [OF same_block_trans [OF st2(3) st1(3)]]
    by (auto simp: f3_def f2_def)
  show ?thesis
    using st1(1) st2(1) st3 os(2) unfolding f3_def
    by (intro exI [of _ st3] exI [of _ os]) (simp add: andthen_def bind_def ret_def)
qed

lemma unwind_round:
  assumes repr: "stack_repr (vm_stack_of s) (f # fs)" and t: "throwable s r ex (f # fs)"
  shows "unwind (Suc k) env load r s =
    (if caught (v_classes s) ex f then
       andthen (operands (current_frame s) (modifies Clear)) (
       andthen (operands (current_frame s) (PushRef r)) (
       andthen (in_frame (current_frame s) (modifies (SetNextPc (caught_at (v_classes s) ex f)))) (ret True)))
     else bind (on_thread PopFrame) (\<lambda>_. bind (reads v_thread) (\<lambda>t. if IsStackEmpty t then ret False else unwind k env load r))) s"
proof -
  have "GetClass env r s = Inr (Some ex, s)"
    using t by (auto simp: throwable_def GetClass_def)
  moreover have "FindExceptionHandler load (fr_method f) (Some ex) (NextPc f - 1) s = Inr (caught_at (v_classes s) ex f, s)"
    using t by (simp add: throwable_def caught_at_def FindExceptionHandler_first)
  moreover have "frame_method (current_frame s) s = Inr (fr_method f, s)"
    unfolding frame_method_def by (rule current_reads [OF repr])
  moreover have "reads current_frame s = Inr (current_frame s, s)"
    by (simp add: reads_def)
  moreover have "in_frame (current_frame s) (reads NextPc) s = Inr (NextPc f, s)"
    by (rule current_reads [OF repr])
  ultimately show ?thesis
    by (simp only: unwind.simps caught_def bind_Inr)
qed

lemma throwable_with_stack [simp]: "throwable (with_stack st s) r ex fs = throwable s r ex fs"
  by (simp add: throwable_def)

lemma throwable_sub: "throwable s r ex fs \<Longrightarrow> set gs \<subseteq> set fs \<Longrightarrow> throwable s r ex gs"
  by (auto simp: throwable_def)

text \<open>The outcome of a throw: the frames that are left, and whether a handler was found.\<close>

definition thrown :: "class_table \<Rightarrow> class_id \<Rightarrow> ref64 \<Rightarrow> frame list \<Rightarrow> bool \<Rightarrow> frame list \<Rightarrow> bool" where
  "thrown ct ex r fs found gs = (case dropWhile (\<lambda>f. \<not> caught ct ex f) fs of
     [] \<Rightarrow> \<not> found \<and> gs = []
   | f # rest \<Rightarrow> found \<and> (\<exists>g. handling ct ex r f g \<and> gs = g # rest))"

lemma unwind_frames:
  assumes "stack_repr (vm_stack_of s) fs" "fs \<noteq> []" "throwable s r ex fs" "length fs \<le> k"
    and "\<forall>f \<in> set fs. caught (v_classes s) ex f \<longrightarrow> 2 \<le> length (os_slots (fr_operand_stack f))"
  shows "\<exists>found st gs. unwind k env load r s = Inr (found, with_stack st s) \<and> stack_repr st gs \<and>
    thrown (v_classes s) ex r fs found gs"
  using assms
proof (induction fs arbitrary: s k)
  case (Cons f fs)
  obtain j where k: "k = Suc j"
    using Cons.prems(4) by (cases k) auto
  note round = unwind_round [OF Cons.prems(1,3), of j env load, folded k]
  show ?case
  proof (cases "caught (v_classes s) ex f")
    case True
    have "frame_wf f" "2 \<le> length (os_slots (fr_operand_stack f))"
      using Cons.prems(3,5) True by (simp_all add: throwable_def)
    from goto_handler [OF Cons.prems(1) this, of r "caught_at (v_classes s) ex f"] show ?thesis
      using True unfolding round by (fastforce simp: thrown_def handling_def)
  next
    case False
    obtain p st where st: "on_thread PopFrame s = Inr (p, with_stack st s)" "stack_repr st fs"
      "IsStackEmpty (v_thread (with_stack st s)) \<longleftrightarrow> fs = []"
      using pop_current [OF Cons.prems(1)] by blast
    have run: "unwind k env load r s = (if fs = [] then ret False else unwind j env load r) (with_stack st s)"
      using False st(3) unfolding round by (simp add: bind_Inr [of "on_thread PopFrame", OF st(1)] bind_reads)
    show ?thesis
    proof (cases "fs = []")
      case True
      then show ?thesis
        using run False st(2) by (intro exI [of _ False] exI [of _ st] exI [of _ "[]"]) (simp add: thrown_def ret_def)
    next
      case ne: False
      have "\<exists>found st' gs. unwind j env load r (with_stack st s) = Inr (found, with_stack st' (with_stack st s)) \<and>
          stack_repr st' gs \<and> thrown (v_classes (with_stack st s)) ex r fs found gs"
        by (rule Cons.IH) (use st(2) ne Cons.prems throwable_sub [OF Cons.prems(3), of fs] k in auto)
      then show ?thesis
        using run ne False by (auto simp: thrown_def)
    qed
  qed
qed simp

lemma frames_bound: "stack_repr st fs \<Longrightarrow> length fs \<le> st_max_size st"
  by (auto simp: stack_repr_def sizeof_Frame_def)

section \<open>The instruction\<close>

text \<open>The exception is the operand on top of the stack of the current frame.\<close>

lemma athrow_frames:
  assumes repr: "stack_repr (vm_stack_of s) (f # fs)" and t: "throwable s r ex (f # fs)"
    and top: "stk (xs @ enc2 r) c (fr_operand_stack f)"
    and room: "\<forall>f \<in> set (f # fs). caught (v_classes s) ex f \<longrightarrow> 2 \<le> length (os_slots (fr_operand_stack f))"
  shows "\<exists>found st gs. exec_ATHROW env load (current_frame s) s = Inr ((), with_stack st s) \<and> stack_repr st gs \<and>
    thrown (v_classes s) ex r (f # fs) found gs"
proof -
  obtain os where os: "PopRef (fr_operand_stack f) = Inr (r, os)" "stk xs c os"
    using ref_stack.pop_top [of xs r c] top by (auto simp: valid_def)
  define f1 where "f1 = f\<lparr>fr_operand_stack := os\<rparr>"
  have cap: "length (os_slots os) = length (os_slots (fr_operand_stack f))"
    using os(2) top by (simp add: stk_iff)
  obtain st1 where st1: "operands (current_frame s) PopRef s = Inr (r, with_stack st1 s)" "stack_repr st1 (f1 # fs)"
    using in_current_frame [OF repr, of "on_operands PopRef" r f1] os(1)
    by (auto simp: operands_def on_operands_def zoom_def f1_def)
  have "os_wf os"
    using os(2) by (simp add: stk_def)
  then have "throwable (with_stack st1 s) r ex (f1 # fs)"
    using t cap by (auto simp: throwable_def f1_def frame_wf_def os_inv_def)
  moreover have same: "caught_at ct ex f1 = caught_at ct ex f" "caught ct ex f1 = caught ct ex f" for ct
    by (simp_all add: f1_def caught_at_def caught_def NextPc_def)
  ultimately obtain found st gs where
    "unwind (Suc (st_max_size st1)) env load r (with_stack st1 s) = Inr (found, with_stack st (with_stack st1 s))"
    and gs: "stack_repr st gs" "thrown (v_classes s) ex r (f1 # fs) found gs"
    using unwind_frames [of "with_stack st1 s" "f1 # fs" r ex "Suc (st_max_size st1)" env load] st1(2) frames_bound [OF st1(2)] room cap
    by (auto simp: f1_def)
  then have find: "FindAndGotoExceptionHandler env load r (with_stack st1 s) = Inr (found, with_stack st s)"
    by (simp add: FindAndGotoExceptionHandler_def vm_stack_of_def [symmetric] del: unwind.simps)
  have "handling ct ex r f1 g = handling ct ex r f g" for ct g
    using cap same by (simp add: handling_def f1_def)
  then have out: "thrown (v_classes s) ex r (f # fs) found gs"
    using gs(2) same by (cases "caught (v_classes s) ex f") (simp_all add: thrown_def)
  have run: "exec_ATHROW env load (current_frame s) s =
      (if \<not> found then HandleUncaughtException env r else ret ()) (with_stack st s)"
    using t by (simp add: exec_ATHROW_def bind_Inr [of "operands (current_frame s) PopRef", OF st1(1)]
        bind_Inr [of "FindAndGotoExceptionHandler env load r", OF find] throwable_def)
  show ?thesis
  proof (cases found)
    case True
    then show ?thesis
      using run out gs(1) by (auto simp: ret_def)
  next
    case False
    then have "gs = []"
      using out by (auto simp: thrown_def split: list.splits)
    moreover have "HandleUncaughtException env r (with_stack st s) = Inr ((), with_stack (Stack_Clear st) s)"
      using t by (auto simp: HandleUncaughtException_def op_simps on_thread_def ClearStack_def GetClass_def throwable_def
          read_class_def with_stack_def)
    ultimately show ?thesis
      using run out False stack_repr_clear [OF gs(1)] by auto
  qed
qed

end
