(* ===== verification/Vm_Programs.thy ===== *)
theory Vm_Programs
  imports Interpreter Vm_Frames_Spec Instruction_Format
begin

text \<open>
  Programs as lists of instructions. The interpreter works on bytes, a cursor and addresses of frames;
  \<open>prog_step\<close> executes the instructions of a list on one frame, with the program counter at the start of
  an instruction. When the code of a method is the encoding of the list, the rounds of the interpreter
  follow the steps of the program, whatever else is on the stack. Shown too: the loop runs forever, ends or
  stops with an error exactly when the program goes on forever, comes to a \<open>return\<close> or to that error.
\<close>

section \<open>Steps of a program\<close>

definition inst_addr :: "instruction list \<Rightarrow> nat \<Rightarrow> nat" where
  "inst_addr P n = length (encode_all 0 (take n P))"

definition assembled :: "instruction list \<Rightarrow> meth \<Rightarrow> bool" where
  "assembled P m \<longleftrightarrow> m_codes m = Some (encode_all 0 P) \<and> list_all wf_instruction P \<and> length (encode_all 0 P) < 2 ^ 31"

definition at_inst :: "instruction list \<Rightarrow> nat \<Rightarrow> frame \<Rightarrow> bool" where
  "at_inst P n f \<longleftrightarrow> n < length P \<and> NextPc f = of_nat (inst_addr P n)"

inductive prog_step :: "instruction list \<Rightarrow> frame \<Rightarrow> frame \<Rightarrow> bool" for P where
  instr: "at_inst P n f \<Longrightarrow> exec_frame_inst (NextPc f) (P ! n) = Some m \<Longrightarrow>
    m (SetNextPc (of_nat (inst_addr P (Suc n))) f) = Inr (u, g) \<Longrightarrow> prog_step P f g"

inductive_cases prog_stepE: "prog_step P f g"

text \<open>The same steps as a function: the instructions at the given positions, one after the other.\<close>

fun run_insts :: "instruction list \<Rightarrow> nat list \<Rightarrow> frame \<Rightarrow> frame option" where
  "run_insts P [] f = Some f"
| "run_insts P (n # ns) f =
     (if at_inst P n f then
        (case exec_frame_inst (NextPc f) (P ! n) of
           None \<Rightarrow> None
         | Some m \<Rightarrow>
             (case m (SetNextPc (of_nat (inst_addr P (Suc n))) f) of
                Inl e \<Rightarrow> None
              | Inr (u, g) \<Rightarrow> run_insts P ns g))
      else None)"

lemma run_insts_steps: "run_insts P ns f = Some g \<Longrightarrow> (prog_step P)\<^sup>*\<^sup>* f g"
proof (induction P ns f rule: run_insts.induct)
  case (2 P n ns f)
  then show ?case
    by (auto split: if_splits option.splits sum.splits intro: prog_step.instr converse_rtranclp_into_rtranclp)
qed simp

text \<open>The parts of the machine that a step on one frame leaves alone.\<close>

definition same_world :: "vm \<Rightarrow> vm \<Rightarrow> bool" where
  "same_world t s \<longleftrightarrow> v_classes t = v_classes s \<and> v_heap t = v_heap s \<and> v_objects t = v_objects s \<and>
     v_strings t = v_strings s \<and> v_loaders t = v_loaders s"

lemma same_world_trans: "same_world a b \<Longrightarrow> same_world b c \<Longrightarrow> same_world a c"
  by (simp add: same_world_def)

section \<open>Fetching\<close>

lemma encode_all_append: "encode_all p (xs @ ys) = encode_all p xs @ encode_all (p + length (encode_all p xs)) ys"
  by (induction xs arbitrary: p) (simp_all add: add.assoc)

lemma fetch_assembled:
  assumes P: "assembled P m" and n: "n < length P"
  shows "fetch m (of_nat (inst_addr P n)) = Inr (P ! n, of_nat (inst_addr P (Suc n)))"
proof -
  let ?a = "inst_addr P n" and ?i = "P ! n"
  define pre where "pre = encode_all 0 (take n P)"
  define post where "post = encode_all (?a + length (encode_inst ?a ?i)) (drop (Suc n) P)"
  have pre: "length pre = ?a"
    by (simp add: pre_def inst_addr_def)
  have "encode_all 0 (take n P @ ?i # drop (Suc n) P) = pre @ encode_inst ?a ?i @ post"
    by (simp add: encode_all_append pre_def post_def inst_addr_def)
  then have code: "encode_all 0 P = pre @ encode_inst ?a ?i @ post"
    using n by (simp add: id_take_nth_drop [symmetric])
  have "inst_addr P (Suc n) = ?a + length (encode_inst ?a ?i)"
    using n by (simp add: inst_addr_def take_Suc_conv_app_nth encode_all_append)
  moreover have "wf_instruction ?i"
    using P n by (simp add: assembled_def list_all_length)
  ultimately show ?thesis
    using P reads_atD [OF fetch_encode [of ?i "length pre"], of post] pre
    by (simp add: assembled_def code fetch_def reset_def CurrentPc_def)
qed

section \<open>Rounds of the interpreter\<close>

text \<open>A round up to the execution of the instruction.\<close>

lemma interpret_fetch:
  assumes repr: "stack_repr (vm_stack_of s) (f # fs)" and fetched: "fetch (fr_method f) (NextPc f) = Inr (i, n)"
  obtains t where "interpret_step env load reg s = exec_inst env load reg (current_frame s) i t"
    "stack_repr (vm_stack_of t) (SetNextPc n f # fs)" "current_frame t = current_frame s" "GetPc (v_thread t) = NextPc f"
    "same_world t s" "same_block (vm_stack_of t) (vm_stack_of s)"
proof -
  let ?p = "current_frame s"
  define s1 where "s1 = s\<lparr>v_thread := SetPc (NextPc f) (v_thread s)\<rparr>"
  have s1: "vm_stack_of s1 = vm_stack_of s" "current_frame s1 = ?p" "GetPc (v_thread s1) = NextPc f"
    by (simp_all add: s1_def vm_stack_of_def current_frame_def CurrentFrame_def SetPc_def GetPc_def)
  have pc: "on_thread (modifies (SetPc (NextPc f))) s = Inr ((), s1)"
    by (simp add: on_thread_def zoom_def modifies_def s1_def)
  have next_pc: "in_frame ?p (reads NextPc) s = Inr (NextPc f, s)"
    by (rule current_reads [OF repr])
  have meth_read: "frame_method ?p s1 = Inr (fr_method f, s1)"
    unfolding frame_method_def using current_reads [of s1 f fs fr_method] repr s1 by simp
  obtain st where st: "in_frame ?p (modifies (SetNextPc n)) s1 = Inr ((), with_stack st s1)"
    "stack_repr st (SetNextPc n f # fs)" "same_block st (vm_stack_of s1)"
    using in_current_frame [of s1 f fs "modifies (SetNextPc n)" "()" "SetNextPc n f"] repr s1
    by (auto simp: modifies_def SetNextPc_def)
  define t where "t = with_stack st s1"
  have "interpret_step env load reg s = exec_inst env load reg ?p i t"
    using pc next_pc meth_read fetched st(1)
    by (simp add: interpret_step_def bind_reads andthen_def bind_Inr t_def [symmetric] lift_res_def)
  moreover have "current_frame t = ?p" "GetPc (v_thread t) = NextPc f"
    using same_current_frame [OF st(3)] s1 by (simp_all add: t_def) (simp add: with_stack_def GetPc_def)
  moreover have "same_world t s"
    by (simp add: same_world_def t_def s1_def with_stack_def)
  ultimately show thesis
    using that st(2,3) s1(1) by (simp add: t_def)
qed

lemma same_world_with_stack [simp]: "same_world (with_stack st t) s = same_world t s"
  by (simp add: same_world_def with_stack_def)

lemma interpret_local:
  assumes repr: "stack_repr (vm_stack_of s) (f # fs)"
    and fetched: "fetch (fr_method f) (NextPc f) = Inr (i, n)" and exec: "exec_frame_inst (NextPc f) i = Some m"
    and run: "m (SetNextPc n f) = Inr (u, g)" and prev: "fr_prev_fp g = fr_prev_fp f"
  shows "\<exists>t. interpret_step env load reg s = Inr (u, t) \<and> stack_repr (vm_stack_of t) (g # fs) \<and> same_world t s \<and>
    same_block (vm_stack_of t) (vm_stack_of s)"
proof -
  obtain t where t: "interpret_step env load reg s = exec_inst env load reg (current_frame s) i t"
    "stack_repr (vm_stack_of t) (SetNextPc n f # fs)" "current_frame t = current_frame s" "GetPc (v_thread t) = NextPc f"
    "same_world t s" "same_block (vm_stack_of t) (vm_stack_of s)"
    using interpret_fetch [OF repr fetched] .
  obtain st where "in_frame (current_frame s) m t = Inr (u, with_stack st t)" "stack_repr st (g # fs)"
      "same_block st (vm_stack_of t)"
    using in_current_frame [OF t(2), of m u g] run prev t(3) by (auto simp: SetNextPc_def)
  moreover have "exec_inst env load reg (current_frame s) i t = in_frame (current_frame s) m t"
    using exec t(4) by (simp add: exec_inst_def bind_reads)
  ultimately show ?thesis
    using t(1,5) same_block_trans [OF _ t(6)] by (intro exI [of _ "with_stack st t"]) simp
qed

lemma prog_step_frame:
  assumes "prog_step P f g" and "frame_wf f"
  shows "frame_of f g"
  using assms(1)
proof cases
  case (instr n m u)
  let ?f = "SetNextPc (of_nat (inst_addr P (Suc n))) f"
  have "frame_wf ?f" "fr_method ?f = fr_method f" "fr_prev_fp ?f = fr_prev_fp f"
    using assms(2) by (simp_all add: SetNextPc_def frame_wf_def)
  then show ?thesis
    using keepsD [OF keeps_exec_frame_inst [OF instr(2)], of f ?f u g] instr(3) by (simp add: frame_of_def)
qed

lemma prog_step_round:
  assumes repr: "stack_repr (vm_stack_of s) (f # fs)" and P: "assembled P (fr_method f)" and wf: "frame_wf f"
    and step: "prog_step P f g"
  shows "\<exists>t. vm_step env load reg s t \<and> stack_repr (vm_stack_of t) (g # fs) \<and> same_world t s \<and>
    same_block (vm_stack_of t) (vm_stack_of s) \<and> frame_of f g"
  using step
proof cases
  case (instr n m u)
  let ?f = "SetNextPc (of_nat (inst_addr P (Suc n))) f"
  have g: "frame_of f g"
    using step wf by (rule prog_step_frame)
  have "fetch (fr_method f) (NextPc f) = Inr (P ! n, of_nat (inst_addr P (Suc n)))"
    using fetch_assembled [OF P, of n] instr(1) by (simp add: at_inst_def)
  from interpret_local [OF repr this instr(2,3), of env load reg] g obtain t where
    t: "interpret_step env load reg s = Inr (u, t)" "stack_repr (vm_stack_of t) (g # fs)" "same_world t s"
    "same_block (vm_stack_of t) (vm_stack_of s)"
    by (auto simp: frame_of_def)
  have "\<not> stack_empty t"
    using stack_repr_empty [OF t(2)] by (simp add: stack_empty_def IsStackEmpty_def vm_stack_of_def)
  then show ?thesis
    using t g by (blast intro: vm_step.round)
qed

lemma vm_steps_trans: "vm_steps env load reg s t \<Longrightarrow> vm_steps env load reg t u \<Longrightarrow> vm_steps env load reg s u"
  by (induction rule: vm_steps.induct) (auto intro: vm_steps.more_rounds)

lemma prog_steps_rounds:
  assumes "(prog_step P)\<^sup>*\<^sup>* f g" "stack_repr (vm_stack_of s) (f # fs)" "assembled P (fr_method f)" "frame_wf f"
  shows "\<exists>t. vm_steps env load reg s t \<and> stack_repr (vm_stack_of t) (g # fs) \<and> same_world t s \<and>
    same_block (vm_stack_of t) (vm_stack_of s) \<and> frame_of f g"
  using assms
proof (induction rule: rtranclp_induct)
  case base
  then show ?case
    by (intro exI [of _ s]) (auto simp: same_world_def intro: vm_steps.no_rounds)
next
  case (step g h)
  then obtain t where t: "vm_steps env load reg s t" "stack_repr (vm_stack_of t) (g # fs)" "same_world t s" "frame_of f g"
    "same_block (vm_stack_of t) (vm_stack_of s)"
    by blast
  then have "assembled P (fr_method g)" "frame_wf g"
    using step.prems(2) by (simp_all add: frame_of_def)
  from prog_step_round [OF t(2) this step.hyps(2), of env load reg] obtain u where
    "vm_step env load reg t u" "stack_repr (vm_stack_of u) (h # fs)" "same_world u t" "frame_of g h"
    "same_block (vm_stack_of u) (vm_stack_of t)"
    by blast
  moreover from this(1) have "vm_steps env load reg s u"
    by (rule vm_steps_trans [OF t(1) vm_steps.more_rounds [OF _ vm_steps.no_rounds]])
  ultimately show ?case
    using t(3,4,5) same_world_trans same_block_trans by (intro exI [of _ u]) (auto simp: frame_of_def)
qed

section \<open>A program that returns\<close>

lemma return_round:
  assumes repr: "stack_repr (vm_stack_of s) (f # fs)" and P: "assembled P (fr_method f)"
    and inst: "at_inst P n f" "P ! n = RetI RETURN"
  shows "\<exists>t. interpret_step env load reg s = Inr ((), t) \<and> stack_repr (vm_stack_of t) fs \<and> same_world t s"
proof -
  have "fetch (fr_method f) (NextPc f) = Inr (RetI RETURN, of_nat (inst_addr P (Suc n)))"
    using fetch_assembled [OF P, of n] inst by (simp add: at_inst_def)
  from interpret_fetch [OF repr this, of env load reg] obtain t where
    t: "interpret_step env load reg s = exec_inst env load reg (current_frame s) (RetI RETURN) t"
    "stack_repr (vm_stack_of t) (SetNextPc (of_nat (inst_addr P (Suc n))) f # fs)" "same_world t s"
    by blast
  obtain p st where "on_thread PopFrame t = Inr (p, with_stack st t)" "stack_repr st fs"
    using pop_current [OF t(2)] by blast
  moreover from this(1) have "exec_inst env load reg (current_frame s) (RetI RETURN) t = Inr ((), with_stack st t)"
    by (simp add: exec_inst_def bind_reads Return_def bind_Inr ret_def)
  ultimately show ?thesis
    using t(1,3) by (intro exI [of _ "with_stack st t"]) simp
qed

lemma return_ends:
  assumes u: "vm_steps env load reg s u" "stack_repr (vm_stack_of u) [g]" "same_world u s"
    and P: "assembled P (fr_method g)" and inst: "at_inst P n g" "P ! n = RetI RETURN"
  shows "\<exists>t. LoopExecute env load reg s = Some (Inr t) \<and> stack_empty t \<and> same_world t s"
proof -
  from return_round [OF u(2) P inst, of env load reg] obtain t where
    t: "interpret_step env load reg u = Inr ((), t)" "stack_repr (vm_stack_of t) []" "same_world t u"
    by blast
  have "stack_empty t"
    using stack_repr_empty [OF t(2)] by (simp add: stack_empty_def IsStackEmpty_def vm_stack_of_def)
  then have "LoopExecute env load reg s = Some (Inr t)"
    using LoopExecute_steps [OF u(1)] LoopExecute_final [of env load reg u "Inr t"] t(1) by (simp add: final_def)
  then show ?thesis
    using \<open>stack_empty t\<close> same_world_trans [OF t(3) u(3)] by blast
qed

lemma program_returns:
  assumes steps: "(prog_step P)\<^sup>*\<^sup>* f g" and repr: "stack_repr (vm_stack_of s) [f]"
    and P: "assembled P (fr_method f)" and wf: "frame_wf f" and inst: "at_inst P n g" "P ! n = RetI RETURN"
  shows "\<exists>u t. vm_steps env load reg s u \<and> stack_repr (vm_stack_of u) [g] \<and>
    LoopExecute env load reg s = Some (Inr t) \<and> stack_empty t \<and> same_world t s"
proof -
  obtain u where u: "vm_steps env load reg s u" "stack_repr (vm_stack_of u) [g]" "same_world u s" "frame_of f g"
    using prog_steps_rounds [OF steps repr P wf, of env load reg] by blast
  then show ?thesis
    using return_ends [OF u(1-3) _ inst] P by (auto simp: frame_of_def)
qed

section \<open>What becomes of a program\<close>

text \<open>
  A program of instructions on one frame and \<open>return\<close>, started in the only frame, has three fates: it goes on
  forever, it comes to a \<open>return\<close>, or it comes to an instruction that stops with an error. The loop of the
  interpreter has the same three.
\<close>

coinductive prog_endless :: "instruction list \<Rightarrow> frame \<Rightarrow> bool" for P where
  goes_on: "prog_step P f g \<Longrightarrow> prog_endless P g \<Longrightarrow> prog_endless P f"

inductive prog_returns :: "instruction list \<Rightarrow> frame \<Rightarrow> bool" for P where
  at_return: "at_inst P n f \<Longrightarrow> P ! n = RetI RETURN \<Longrightarrow> prog_returns P f"
| returns_later: "prog_step P f g \<Longrightarrow> prog_returns P g \<Longrightarrow> prog_returns P f"

inductive prog_fails :: "instruction list \<Rightarrow> frame \<Rightarrow> vm_error \<Rightarrow> bool" for P where
  at_error: "at_inst P n f \<Longrightarrow> exec_frame_inst (NextPc f) (P ! n) = Some m \<Longrightarrow>
    m (SetNextPc (of_nat (inst_addr P (Suc n))) f) = Inl e \<Longrightarrow> prog_fails P f e"
| fails_later: "prog_step P f g \<Longrightarrow> prog_fails P g e \<Longrightarrow> prog_fails P f e"

inductive_cases prog_endlessE: "prog_endless P f"

text \<open>Such programs, and frames from which no step leads between two instructions or past the last one.\<close>

definition frame_program :: "instruction list \<Rightarrow> bool" where
  "frame_program P \<longleftrightarrow> (\<forall>i \<in> set P. i = RetI RETURN \<or> (\<forall>pc. exec_frame_inst pc i \<noteq> None))"

definition stays_inside :: "instruction list \<Rightarrow> frame \<Rightarrow> bool" where
  "stays_inside P f \<longleftrightarrow> (\<forall>g. (prog_step P)\<^sup>*\<^sup>* f g \<longrightarrow> (\<exists>n. at_inst P n g))"

lemma stays_inside_step: "stays_inside P f \<Longrightarrow> prog_step P f g \<Longrightarrow> stays_inside P g"
  unfolding stays_inside_def by (blast intro: converse_rtranclp_into_rtranclp)

lemma inside_cases:
  assumes "frame_program P" "stays_inside P f"
  obtains (step) g where "prog_step P f g"
  | (return) n where "at_inst P n f" "P ! n = RetI RETURN"
  | (error) e where "prog_fails P f e"
proof -
  obtain n where n: "at_inst P n f"
    using assms(2) unfolding stays_inside_def by blast
  show thesis
  proof (cases "P ! n = RetI RETURN")
    case True
    with n show thesis by (rule return)
  next
    case False
    then obtain m where m: "exec_frame_inst (NextPc f) (P ! n) = Some m"
      using assms(1) n unfolding frame_program_def at_inst_def by (metis nth_mem option.exhaust)
    show thesis
    proof (cases "m (SetNextPc (of_nat (inst_addr P (Suc n))) f)")
      case (Inl e)
      with n m show thesis by (blast intro: error at_error)
    next
      case (Inr r)
      then show thesis
        using prog_step.instr [OF n m] by (cases r) (blast intro: step)
    qed
  qed
qed

lemma one_of_three:
  assumes "frame_program P" "stays_inside P f" "\<not> prog_returns P f" "\<forall>e. \<not> prog_fails P f e"
  shows "prog_endless P f"
  using assms(2-)
proof (coinduction arbitrary: f)
  case prog_endless
  from assms(1) prog_endless(1) obtain g where g: "prog_step P f g"
    by (rule inside_cases) (use prog_endless(2,3) in \<open>blast intro: prog_returns.at_return\<close>)+
  then show ?case
    using stays_inside_step prog_endless prog_returns.returns_later prog_fails.fails_later by blast
qed

text \<open>The loop in each of the three cases.\<close>

lemma steps_keep_program: "prog_step P f g \<Longrightarrow> frame_wf f \<Longrightarrow> fr_method g = fr_method f \<and> frame_wf g"
  using prog_step_frame by (fastforce simp: frame_of_def)

lemma LoopExecute_prog_step:
  assumes "stack_repr (vm_stack_of s) (f # fs)" "assembled P (fr_method f)" "frame_wf f" "prog_step P f g"
  shows "\<exists>t. LoopExecute env load reg s = LoopExecute env load reg t \<and> stack_repr (vm_stack_of t) (g # fs)"
  using prog_step_round [OF assms, of env load reg] LoopExecute_step by metis

lemma endless_steps:
  assumes "vm_steps env load reg s t" "stack_repr (vm_stack_of s) (f # fs)" "assembled P (fr_method f)" "frame_wf f"
    "prog_endless P f"
  shows "\<exists>u. vm_step env load reg t u"
  using assms
proof (induction arbitrary: f rule: vm_steps.induct)
  case (no_rounds s)
  from no_rounds.prems(4) obtain g where "prog_step P f g"
    by (rule prog_endlessE)
  then show ?case
    using prog_step_round [OF no_rounds.prems(1-3), of g env load reg] by blast
next
  case (more_rounds s t u)
  from more_rounds.prems(4) obtain g where g: "prog_step P f g" "prog_endless P g"
    by (rule prog_endlessE)
  obtain t' where "vm_step env load reg s t'" "stack_repr (vm_stack_of t') (g # fs)"
    using prog_step_round [OF more_rounds.prems(1-3) g(1), of env load reg] by blast
  then have "stack_repr (vm_stack_of t) (g # fs)"
    using vm_step_deterministic more_rounds.hyps(1) by metis
  then show ?case
    using more_rounds.IH [of g] steps_keep_program [OF g(1)] more_rounds.prems(2,3) g(2) by metis
qed

lemma endless_runs_forever:
  assumes "stack_repr (vm_stack_of s) (f # fs)" "assembled P (fr_method f)" "frame_wf f" "prog_endless P f"
  shows "LoopExecute env load reg s = None"
proof (rule ccontr)
  assume "LoopExecute env load reg s \<noteq> None"
  then obtain r t where "vm_steps env load reg s t" "final env load reg t r"
    using LoopExecute_returns by blast
  then show False
    using endless_steps [OF _ assms] final_no_step by blast
qed

lemma returns_ends:
  assumes "prog_returns P f" "stack_repr (vm_stack_of s) [f]" "assembled P (fr_method f)" "frame_wf f"
  shows "\<exists>t. LoopExecute env load reg s = Some (Inr t)"
  using assms
proof (induction arbitrary: s rule: prog_returns.induct)
  case (at_return n f)
  then show ?case
    using return_ends [OF vm_steps.no_rounds at_return.prems(1) _ at_return.prems(2) at_return.hyps, of env load reg]
    by (auto simp: same_world_def)
next
  case (returns_later f g)
  obtain t where "LoopExecute env load reg s = LoopExecute env load reg t" "stack_repr (vm_stack_of t) [g]"
    using LoopExecute_prog_step [OF returns_later.prems(1-3) returns_later.hyps(1)] by blast
  then show ?case
    using returns_later.IH [of t] steps_keep_program [OF returns_later.hyps(1)] returns_later.prems(2,3) by simp
qed

lemma fails_stops:
  assumes "prog_fails P f e" "stack_repr (vm_stack_of s) (f # fs)" "assembled P (fr_method f)" "frame_wf f"
  shows "LoopExecute env load reg s = Some (Inl e)"
  using assms
proof (induction arbitrary: s rule: prog_fails.induct)
  case (at_error n f m e)
  have fetched: "fetch (fr_method f) (NextPc f) = Inr (P ! n, of_nat (inst_addr P (Suc n)))"
    using fetch_assembled [OF at_error.prems(2), of n] at_error.hyps(1) by (simp add: at_inst_def)
  from interpret_fetch [OF at_error.prems(1) fetched, of env load reg] obtain t where
    t: "interpret_step env load reg s = exec_inst env load reg (current_frame s) (P ! n) t"
    "stack_repr (vm_stack_of t) (SetNextPc (of_nat (inst_addr P (Suc n))) f # fs)" "current_frame t = current_frame s"
    "GetPc (v_thread t) = NextPc f"
    by blast
  then have "interpret_step env load reg s = Inl e"
    using in_current_frame_stops [OF t(2), of m e] at_error.hyps(2,3) by (simp add: exec_inst_def bind_reads)
  then show ?case
    by (intro LoopExecute_final) (simp add: final_def)
next
  case (fails_later f g e)
  obtain t where "LoopExecute env load reg s = LoopExecute env load reg t" "stack_repr (vm_stack_of t) (g # fs)"
    using LoopExecute_prog_step [OF fails_later.prems(1-3) fails_later.hyps(1)] by blast
  then show ?case
    using fails_later.IH [of t] steps_keep_program [OF fails_later.hyps(1)] fails_later.prems(2,3) by simp
qed

lemma three_fates:
  assumes repr: "stack_repr (vm_stack_of s) [f]" and P: "assembled P (fr_method f)" "frame_wf f"
    and inside: "frame_program P" "stays_inside P f"
  shows "LoopExecute env load reg s = None \<longleftrightarrow> prog_endless P f"
    "(\<exists>t. LoopExecute env load reg s = Some (Inr t)) \<longleftrightarrow> prog_returns P f"
    "LoopExecute env load reg s = Some (Inl e) \<longleftrightarrow> prog_fails P f e"
proof -
  have endless: "prog_endless P f \<Longrightarrow> LoopExecute env load reg s = None"
    using endless_runs_forever [OF repr P] by blast
  have returns: "prog_returns P f \<Longrightarrow> \<exists>t. LoopExecute env load reg s = Some (Inr t)"
    using returns_ends [OF _ repr P] by blast
  have fails: "prog_fails P f x \<Longrightarrow> LoopExecute env load reg s = Some (Inl x)" for x
    using fails_stops [OF _ repr P] by blast
  have one: "prog_endless P f \<or> prog_returns P f \<or> (\<exists>x. prog_fails P f x)"
    using one_of_three [OF inside] by blast
  show "LoopExecute env load reg s = None \<longleftrightarrow> prog_endless P f"
    using endless returns fails one by fastforce
  show "(\<exists>t. LoopExecute env load reg s = Some (Inr t)) \<longleftrightarrow> prog_returns P f"
    using endless returns fails one by fastforce
  show "LoopExecute env load reg s = Some (Inl e) \<longleftrightarrow> prog_fails P f e"
    using endless returns fails one by fastforce
qed

end
