(* ===== verification/Vm_Calls.thy ===== *)
theory Vm_Calls
  imports Vm_Programs Vm_Exceptions_Spec
begin

text \<open>
  Calls of methods over the list of frames (\<open>src/src/instructions/invoke_insts.cpp\<close>). \<open>call_target\<close> says which method a static, special,
  virtual or interface call reaches when its reference is resolved: the receiver is read under the arguments, and
  the method of a virtual or interface call is looked up in the class of the receiver. From there the rounds of the
  interpreter are those of the body of the method, up to its return, and the caller goes on behind the call.
\<close>

section \<open>The receiver\<close>

text \<open>
  The reference that a call of a method with \<open>n\<close> argument slots takes for the receiver. It starts one slot below
  the argument slots: the receiver counts as one of them and has two.
\<close>

definition receiver :: "slot list \<Rightarrow> nat \<Rightarrow> ref64" where
  "receiver xs n = dec2 (take 2 (drop (length xs - (n + 1)) xs))"

lemma receiver_split:
  "xs \<noteq> [] \<Longrightarrow> args \<noteq> [] \<Longrightarrow> receiver (xs @ args) (length args) = join32 (hd args) (last xs)"
  by (cases xs rule: rev_cases; cases args) (simp_all add: receiver_def dec2_def)

lemma current_unchanged:
  assumes repr: "stack_repr (vm_stack_of s) (f # fs)" and m: "m f = Inr (x, f)"
  shows "in_frame (current_frame s) m s = Inr (x, s)"
proof -
  have "(st_mem (vm_stack_of s))(frame_addr (vm_stack_of s) (length fs) \<mapsto> f) = st_mem (vm_stack_of s)"
    using current_mem [OF repr] by (simp add: fun_upd_idem_iff)
  then show ?thesis
    using m current_mem [OF repr] current_frame_addr [OF repr]
    by (simp add: in_frame_def on_thread_def zoom_def on_frame_def deref_def vm_stack_of_def)
qed

lemma GetRefFromTop_receiver:
  assumes os: "stk xs c os" and n: "0 < unat n" "unat n + 1 < length xs"
  shows "GetRefFromTop (n - 1) os = Inr (receiver xs (unat n), os)"
proof -
  have xs: "unat (os_top os) = length xs" "length xs \<le> c" "c < 2 ^ 16" "length (os_slots os) = c" "take (length xs) (os_slots os) = xs"
    using os by (simp_all add: stk_iff)
  have top: "unat (ucast (os_top os) :: 32 word) = length xs"
    using xs(1-3) by (simp add: unsigned_ucast_eq take_bit_nat_eq_self)
  have "unat (n + 1) = unat n + 1"
    using unat_word_ariths(1) [of n 1] n(2) xs(2,3) by simp
  moreover have n2: "n - 1 + 2 = n + 1"
    by simp
  ultimately have n1: "unat (n - 1 + 2) = unat n + 1"
    by (simp only:)
  have gt: "\<not> ucast (os_top os) \<le> n - 1 + 2"
    unfolding word_le_nat_alt n1 top using n(2) by simp
  have pos: "unat (ucast (ucast (os_top os) - (n - 1) - 2 :: 32 word) :: 16 word) = length xs - (unat n + 1)"
  proof -
    have "ucast (os_top os) - (n - 1) - 2 = (ucast (os_top os) :: 32 word) - (n - 1 + 2)"
      by (simp add: algebra_simps)
    moreover have "unat ((ucast (os_top os) :: 32 word) - (n - 1 + 2)) = length xs - (unat n + 1)"
      using unat_sub [of "n - 1 + 2" "ucast (os_top os) :: 32 word"] gt unfolding n1 top by simp
    ultimately show ?thesis
      using xs(2,3) by (simp only: unsigned_ucast_eq) (simp add: take_bit_nat_eq_self)
  qed
  have "xs = take (length xs) (os_slots os)"
    using xs(5) by simp
  then have "drop (length xs - (unat n + 1)) xs = take (unat n + 1) (drop (length xs - (unat n + 1)) (os_slots os))"
    using n(2) by (metis diff_diff_cancel drop_take less_imp_le)
  then have "take 2 (drop (length xs - (unat n + 1)) (os_slots os)) = take 2 (drop (length xs - (unat n + 1)) xs)"
    using n(1) by (simp add: min_def)
  then show ?thesis
    using gt pos xs n GetLong_in [of "ucast (ucast (os_top os) - (n - 1) - 2 :: 32 word)" "os_slots os"]
    by (simp add: GetRefFromTop_def on_slots_def zoom_def Slots_GetRef_def receiver_def)
qed

section \<open>The method of a call\<close>

text \<open>A resolved reference to a method of a class or of an interface: name, descriptor and the method it was resolved to.\<close>

definition pool_entry :: "class_table \<Rightarrow> class_id \<Rightarrow> u4 \<Rightarrow> rt_constant option" where
  "pool_entry ct c i = (if c < length ct then Option.bind (c_constant_pool (ct ! c)) (\<lambda>pool. GetConstant pool i) else None)"

definition method_of_ref :: "class_table \<Rightarrow> class_id \<Rightarrow> u4 \<Rightarrow> (string \<times> string \<times> member_id) option" where
  "method_of_ref ct c i = (case pool_entry ct c i of
     Some (MethodRefConstant _ n d _ (Some mid)) \<Rightarrow> Some (n, d, mid) | _ \<Rightarrow> None)"

definition interface_method_of_ref :: "class_table \<Rightarrow> class_id \<Rightarrow> u4 \<Rightarrow> (string \<times> string \<times> member_id) option" where
  "interface_method_of_ref ct c i = (case pool_entry ct c i of
     Some (InterfaceMethodRefConstant _ n d _ (Some mid)) \<Rightarrow> Some (n, d, mid) | _ \<Rightarrow> None)"

text \<open>A method that has code, and the method that a class has under a name and a descriptor.\<close>

definition concrete :: "class_table \<Rightarrow> member_id \<Rightarrow> meth option" where
  "concrete ct mid = (case method_at ct mid of Inr m \<Rightarrow> if IsAbstract m then None else Some m | Inl e \<Rightarrow> None)"

definition dispatched :: "class_table \<Rightarrow> class_id option \<Rightarrow> string \<Rightarrow> string \<Rightarrow> meth option" where
  "dispatched ct k n d = (case LookupMethodInClass ct k n d of Inr (Some mid) \<Rightarrow> concrete ct mid | _ \<Rightarrow> None)"

definition permitted :: "env \<Rightarrow> vm \<Rightarrow> meth \<Rightarrow> class_id \<Rightarrow> ref64 \<Rightarrow> bool" where
  "permitted env s m c r = (case illegal_access env m c r s of Inr (b, _) \<Rightarrow> \<not> b | Inl e \<Rightarrow> False)"

definition class_of_object :: "env \<Rightarrow> vm \<Rightarrow> ref64 \<Rightarrow> class_id option" where
  "class_of_object env s r = (case GetClass env r s of Inr (k, _) \<Rightarrow> k | Inl e \<Rightarrow> None)"

text \<open>
  The receiver of a call of method \<open>r\<close> in class \<open>c\<close>, with the operands \<open>xs\<close>: not null, and two slots of the
  stack with at least one more below them.
\<close>

definition receiver_of :: "slot list \<Rightarrow> meth \<Rightarrow> ref64 option" where
  "receiver_of xs r =
     (let n = unat (m_arg_slot_count r) in
      if 0 < n \<and> n + 1 < length xs \<and> receiver xs n \<noteq> 0 then Some (receiver xs n) else None)"

definition virtual_target :: "env \<Rightarrow> vm \<Rightarrow> class_id \<Rightarrow> slot list \<Rightarrow> u4 \<Rightarrow> meth option" where
  "virtual_target env s c xs i =
     (case method_of_ref (v_classes s) c i of
        None \<Rightarrow> None
      | Some (n, d, mid) \<Rightarrow>
          (case method_at (v_classes s) mid of
             Inl e \<Rightarrow> None
           | Inr r \<Rightarrow>
               (case receiver_of xs r of
                  None \<Rightarrow> None
                | Some ref \<Rightarrow>
                    if IsStatic r \<or> cm_name r = ''println'' \<or> \<not> permitted env s r c ref then None
                    else Option.bind (class_of_object env s ref) (\<lambda>k. dispatched (v_classes s) (Some k) n d))))"

definition interface_target :: "env \<Rightarrow> vm \<Rightarrow> class_id \<Rightarrow> slot list \<Rightarrow> u4 \<Rightarrow> meth option" where
  "interface_target env s c xs i =
     (case (interface_method_of_ref (v_classes s) c i, resolved (v_classes s) c i) of
        (Some (n, d, mid), Some ic) \<Rightarrow>
          (case method_at (v_classes s) mid of
             Inl e \<Rightarrow> None
           | Inr r \<Rightarrow>
               (case Option.bind (receiver_of xs r) (class_of_object env s) of
                  None \<Rightarrow> None
                | Some k \<Rightarrow>
                    if IsStatic r \<or> IsPrivate r \<or> IsImplements (v_classes s) (Some k) (Some ic) \<noteq> Inr True then None
                    else Option.bind (dispatched (v_classes s) (Some k) n d) (\<lambda>m. if IsPublic m then Some m else None)))
      | _ \<Rightarrow> None)"

text \<open>A special call reaches the method of the reference, or the one that the super class of the caller has under its name.\<close>

definition special_target :: "env \<Rightarrow> vm \<Rightarrow> class_id \<Rightarrow> slot list \<Rightarrow> u4 \<Rightarrow> meth option" where
  "special_target env s c xs i =
     (case (method_of_ref (v_classes s) c i, resolved (v_classes s) c i) of
        (Some (n, d, mid), Some rc) \<Rightarrow>
          (case method_at (v_classes s) mid of
             Inl e \<Rightarrow> None
           | Inr r \<Rightarrow>
               (case receiver_of xs r of
                  None \<Rightarrow> None
                | Some ref \<Rightarrow>
                    if IsStatic r \<or> cm_name r = ''<init>'' \<and> cm_class r \<noteq> rc \<or> \<not> permitted env s r c ref then None
                    else
                      (case if IsSuper (v_classes s ! c) then IsSuperClassOf (v_classes s) (Some rc) (Some c) else Inr False of
                         Inl e \<Rightarrow> None
                       | Inr b \<Rightarrow>
                           if b \<and> cm_name r \<noteq> ''<init>''
                           then dispatched (v_classes s) (c_super_class (v_classes s ! c)) n d
                           else concrete (v_classes s) mid)))
      | _ \<Rightarrow> None)"

text \<open>A static call reaches the method of the reference when its class is initialised.\<close>

definition static_target :: "class_table \<Rightarrow> class_id \<Rightarrow> u4 \<Rightarrow> meth option" where
  "static_target ct c i =
     (case method_of_ref ct c i of
        None \<Rightarrow> None
      | Some (n, d, mid) \<Rightarrow>
          (case method_at ct mid of
             Inl e \<Rightarrow> None
           | Inr m \<Rightarrow>
               if IsStatic m \<and> cm_class m < length ct \<and> c_clinit_started (ct ! cm_class m) \<and> cm_name m \<noteq> ''println''
               then Some m else None))"

fun call_target :: "env \<Rightarrow> vm \<Rightarrow> class_id \<Rightarrow> slot list \<Rightarrow> invoke_inst \<Rightarrow> meth option" where
  "call_target env s c xs (INVOKE_STATIC i) = static_target (v_classes s) c i"
| "call_target env s c xs (INVOKE_SPECIAL i) = special_target env s c xs i"
| "call_target env s c xs (INVOKE_VIRTUAL i) = virtual_target env s c xs i"
| "call_target env s c xs (INVOKE_INTERFACE i) = interface_target env s c xs i"
| "call_target env s c xs INVOKE_NATIVE = None"

text \<open>What the instructions read.\<close>

lemma method_of_ref_reads:
  assumes "method_of_ref (v_classes s) c i = Some (n, d, mid)"
  shows "ResolveMethod load c i s = Inr (mid, s)" "ref_name c i s = Inr ((n, d), s)" "c < length (v_classes s)"
proof -
  obtain pool a b where k: "c < length (v_classes s)" "c_constant_pool (v_classes s ! c) = Some pool"
      "GetConstant pool i = Some (MethodRefConstant a n d b (Some mid))"
    using assms by (auto simp: method_of_ref_def pool_entry_def bind_eq_Some_conv split: if_splits option.splits rt_constant.splits)
  then show "ResolveMethod load c i s = Inr (mid, s)" "ref_name c i s = Inr ((n, d), s)" "c < length (v_classes s)"
    by (simp_all add: ResolveMethod_def resolve_method_def ref_name_def get_constant_def read_class_def bind_def ret_def)
qed

lemma interface_method_of_ref_reads:
  assumes "interface_method_of_ref (v_classes s) c i = Some (n, d, mid)"
  shows "ResolveInterfaceMethod load c i s = Inr (mid, s)" "ref_name c i s = Inr ((n, d), s)"
proof -
  obtain pool a b where k: "c < length (v_classes s)" "c_constant_pool (v_classes s ! c) = Some pool"
      "GetConstant pool i = Some (InterfaceMethodRefConstant a n d b (Some mid))"
    using assms by (auto simp: interface_method_of_ref_def pool_entry_def bind_eq_Some_conv split: if_splits option.splits rt_constant.splits)
  then show "ResolveInterfaceMethod load c i s = Inr (mid, s)" "ref_name c i s = Inr ((n, d), s)"
    by (simp_all add: ResolveInterfaceMethod_def resolve_method_def ref_name_def get_constant_def read_class_def bind_def ret_def)
qed

lemma read_method_at: "method_at (v_classes s) mid = Inr m \<Longrightarrow> read_method mid s = Inr (m, s)"
  by (simp add: read_method_def bind_reads lift_res_def)

lemma read_class_in: "c < length (v_classes s) \<Longrightarrow> read_class (Some c) s = Inr (v_classes s ! c, s)"
  by (simp add: read_class_def)

lemma frame_class_current:
  "stack_repr (vm_stack_of s) (f # fs) \<Longrightarrow> frame_class (current_frame s) s = Inr (cm_class (fr_method f), s)"
  using current_reads [of s f fs fr_method] by (simp add: frame_class_def frame_method_def bind_Inr ret_def)

lemma receiver_of_reads:
  assumes repr: "stack_repr (vm_stack_of s) (f # fs)" and os: "stk xs c (fr_operand_stack f)" and r: "receiver_of xs r = Some ref"
  shows "operands (current_frame s) (GetRefFromTop (m_arg_slot_count r - 1)) s = Inr (ref, s)" "ref \<noteq> 0"
proof -
  have "0 < unat (m_arg_slot_count r)" "unat (m_arg_slot_count r) + 1 < length xs" "ref = receiver xs (unat (m_arg_slot_count r))" "ref \<noteq> 0"
    using r by (auto simp: receiver_of_def Let_def split: if_splits)
  then show "operands (current_frame s) (GetRefFromTop (m_arg_slot_count r - 1)) s = Inr (ref, s)" "ref \<noteq> 0"
    using current_unchanged [OF repr, of "on_operands (GetRefFromTop (m_arg_slot_count r - 1))" ref] GetRefFromTop_receiver [OF os]
    by (simp_all add: operands_def on_operands_def zoom_def)
qed

lemma GetClass_same: "GetClass env r s = Inr (k, t) \<Longrightarrow> t = s"
  by (auto simp: GetClass_def split: if_splits option.splits)

lemma permitted_reads: "permitted env s m c r \<Longrightarrow> illegal_access env m c r s = Inr (False, s)"
  by (auto simp: permitted_def illegal_access_def bind_def ret_def reads_def lift_res_def read_class_def
      split: if_splits sum.splits prod.splits dest!: GetClass_same)

lemma class_of_object_reads: "class_of_object env s r = Some k \<Longrightarrow> GetClass env r s = Inr (Some k, s)"
  by (auto simp: class_of_object_def split: sum.splits dest: GetClass_same)

lemma concrete_invoked: "concrete (v_classes s) mid = Some m \<Longrightarrow> invoke_found p (Some mid) s = InvokeMethod p m s"
  by (auto simp: concrete_def invoke_found_def read_method_at bind_Inr split: sum.splits if_splits)

lemma dispatched_found:
  assumes "dispatched ct k n d = Some m"
  obtains mid where "LookupMethodInClass ct k n d = Inr (Some mid)" "concrete ct mid = Some m"
  using assms by (auto simp: dispatched_def split: sum.splits option.splits)

lemmas target_reads = bind_Inr method_of_ref_reads interface_method_of_ref_reads read_method_at bind_reads lift_res_def

text \<open>The instructions invoke the method of the call.\<close>

lemma INVOKE_STATIC_target:
  assumes repr: "stack_repr (vm_stack_of s) (f # fs)"
    and target: "static_target (v_classes s) (cm_class (fr_method f)) i = Some m"
  shows "exec_INVOKE_STATIC load i (current_frame s) s = InvokeMethod (current_frame s) m s"
proof -
  obtain n d mid where "method_of_ref (v_classes s) (cm_class (fr_method f)) i = Some (n, d, mid)" "method_at (v_classes s) mid = Inr m"
      "IsStatic m" "cm_class m < length (v_classes s)" "c_clinit_started (v_classes s ! cm_class m)" "cm_name m \<noteq> ''println''"
    using target by (auto simp: static_target_def split: option.splits sum.splits if_splits)
  then show ?thesis
    by (simp add: exec_INVOKE_STATIC_def frame_class_current [OF repr] target_reads read_class_in)
qed

lemma INVOKE_VIRTUAL_target:
  assumes repr: "stack_repr (vm_stack_of s) (f # fs)" and os: "stk xs c (fr_operand_stack f)"
    and target: "virtual_target env s (cm_class (fr_method f)) xs i = Some m"
  shows "exec_INVOKE_VIRTUAL env load i (current_frame s) s = InvokeMethod (current_frame s) m s"
proof -
  obtain n d mid r ref k where ref: "method_of_ref (v_classes s) (cm_class (fr_method f)) i = Some (n, d, mid)"
      "method_at (v_classes s) mid = Inr r" "receiver_of xs r = Some ref"
    and r: "\<not> IsStatic r" "cm_name r \<noteq> ''println''" "permitted env s r (cm_class (fr_method f)) ref"
      "class_of_object env s ref = Some k" "dispatched (v_classes s) (Some k) n d = Some m"
    using target by (auto simp: virtual_target_def bind_eq_Some_conv split: option.splits sum.splits if_splits)
  show ?thesis
    using ref r(1,2) receiver_of_reads [OF repr os ref(3)] permitted_reads [OF r(3)] class_of_object_reads [OF r(4)]
    by (auto simp: exec_INVOKE_VIRTUAL_def frame_class_current [OF repr] target_reads concrete_invoked
        intro: dispatched_found [OF r(5)])
qed

lemma INVOKE_INTERFACE_target:
  assumes repr: "stack_repr (vm_stack_of s) (f # fs)" and os: "stk xs c (fr_operand_stack f)"
    and target: "interface_target env s (cm_class (fr_method f)) xs i = Some m"
  shows "exec_INVOKE_INTERFACE env load i (current_frame s) s = InvokeMethod (current_frame s) m s"
proof -
  obtain n d mid r ref ic k where ref: "interface_method_of_ref (v_classes s) (cm_class (fr_method f)) i = Some (n, d, mid)"
      "method_at (v_classes s) mid = Inr r" "receiver_of xs r = Some ref" "resolved (v_classes s) (cm_class (fr_method f)) i = Some ic"
    and r: "\<not> IsStatic r" "\<not> IsPrivate r" "class_of_object env s ref = Some k"
      "IsImplements (v_classes s) (Some k) (Some ic) = Inr True" "dispatched (v_classes s) (Some k) n d = Some m" "IsPublic m"
    using target by (auto simp: interface_target_def bind_eq_Some_conv split: option.splits sum.splits if_splits)
  obtain tid where tid: "LookupMethodInClass (v_classes s) (Some k) n d = Inr (Some tid)" "concrete (v_classes s) tid = Some m"
    using dispatched_found [OF r(5)] .
  then have "method_at (v_classes s) tid = Inr m" "\<not> IsAbstract m"
    by (simp_all add: concrete_def split: sum.splits if_splits)
  then show ?thesis
    using ref r(1,2,4,6) tid(1) receiver_of_reads [OF repr os ref(3)] class_of_object_reads [OF r(3)]
    by (simp add: exec_INVOKE_INTERFACE_def frame_class_current [OF repr] target_reads ResolveClass_resolved)
qed

lemma INVOKE_SPECIAL_target:
  assumes repr: "stack_repr (vm_stack_of s) (f # fs)" and os: "stk xs c (fr_operand_stack f)"
    and target: "special_target env s (cm_class (fr_method f)) xs i = Some m"
  shows "exec_INVOKE_SPECIAL env load i (current_frame s) s = InvokeMethod (current_frame s) m s"
proof -
  let ?ct = "v_classes s" and ?c = "cm_class (fr_method f)"
  obtain n d mid r ref rc b where ref: "method_of_ref ?ct ?c i = Some (n, d, mid)"
      "method_at ?ct mid = Inr r" "receiver_of xs r = Some ref" "resolved ?ct ?c i = Some rc"
    and r: "\<not> IsStatic r" "\<not> (cm_name r = ''<init>'' \<and> cm_class r \<noteq> rc)" "permitted env s r ?c ref"
      "(if IsSuper (?ct ! ?c) then IsSuperClassOf ?ct (Some rc) (Some ?c) else Inr False) = Inr b"
    and m: "(if b \<and> cm_name r \<noteq> ''<init>'' then dispatched ?ct (c_super_class (?ct ! ?c)) n d else concrete ?ct mid) = Some m"
    using target by (auto simp: special_target_def split: option.splits sum.splits if_splits)
  have is_super: "bind (if \<not> IsSuper (?ct ! ?c) then ret False else lift_res (IsSuperClassOf ?ct (Some rc) (Some ?c))) g s = g b s"
    for g :: "bool \<Rightarrow> (vm, unit) op"
    using r(4) by (auto simp: ret_def lift_res_def bind_def split: if_splits)
  have "exec_INVOKE_SPECIAL env load i (current_frame s) s =
     (if b \<and> cm_name r \<noteq> ''<init>'' then bind (ref_name ?c i) (\<lambda>(name, descriptor).
        bind (lift_res (LookupMethodInClass ?ct (c_super_class (?ct ! ?c)) name descriptor)) (invoke_found (current_frame s)))
      else invoke_found (current_frame s) (Some mid)) s"
    using ref r(1,2) receiver_of_reads [OF repr os ref(3)] permitted_reads [OF r(3)]
    by (auto simp add: exec_INVOKE_SPECIAL_def frame_class_current [OF repr] is_super bind_Inr
        method_of_ref_reads(1,3) read_method_at read_class_in bind_reads ResolveClass_resolved)
  then show ?thesis
    using m ref(1) by (auto simp: target_reads concrete_invoked elim!: dispatched_found split: if_splits)
qed

lemma invoke_target:
  assumes "stack_repr (vm_stack_of s) (f # fs)" and "stk xs c (fr_operand_stack f)"
    and "call_target env s (cm_class (fr_method f)) xs i = Some m"
  shows "exec_invoke env load reg (current_frame s) i s = InvokeMethod (current_frame s) m s"
  using assms INVOKE_STATIC_target INVOKE_SPECIAL_target INVOKE_VIRTUAL_target INVOKE_INTERFACE_target by (cases i) simp_all

text \<open>The method depends only on the classes and the objects.\<close>

lemma call_target_world:
  assumes "same_world t s"
  shows "call_target env t c xs i = call_target env s c xs i"
proof -
  have w: "v_classes t = v_classes s" "v_objects t = v_objects s"
    using assms by (simp_all add: same_world_def)
  have obj: "class_of_object env t = class_of_object env s"
    using w by (intro ext) (auto simp: class_of_object_def GetClass_def class_of_ref_def split: option.splits)
  have get: "GetClass env r t = (case GetClass env r s of Inl e \<Rightarrow> Inl e | Inr (k, _) \<Rightarrow> Inr (k, t))" for r
    using w by (simp add: GetClass_def class_of_ref_def split: option.splits)
  have perm: "permitted env t m k r = permitted env s m k r" for m k r
    using w by (cases "GetClass env r s")
      (auto simp: permitted_def illegal_access_def bind_def ret_def reads_def lift_res_def read_class_def get
        split: sum.splits dest: GetClass_same)
  show ?thesis
    by (cases i; hypsubst; unfold call_target.simps virtual_target_def special_target_def interface_target_def w obj perm; rule refl)
qed

section \<open>Dispatch\<close>

text \<open>The outcome of a virtual call, whatever the receiver is.\<close>

lemma nearest_method_at:
  assumes wf: "wf_classes ct" and c: "c < length ct" and near: "nearest_method ct p c (Some (k, i))"
  shows "method_at ct (k, i) = Inr (c_methods (ct ! k) ! i)"
proof -
  have "(c, k) \<in> (extends_rel ct)\<^sup>*"
    using near by (simp add: nearest_method_def)
  then have "k < length ct"
    using c hierarchy_range [OF wf] by (cases rule: rtranclE) (auto simp: hierarchy_def)
  then show ?thesis
    using near by (simp add: nearest_method_def first_method_def method_at_def vec_get_def)
qed

lemma GetRefFromTop_too_deep:
  assumes os: "stk xs c os" and n: "length xs \<le> unat n + 1" "unat n < 2 ^ 16"
  shows "GetRefFromTop (n - 1) os = Inl (Fatal ''GetRefFromTop operand_stack_ size less than'')"
proof -
  have top: "unat (ucast (os_top os) :: 32 word) = length xs"
    using os by (simp add: stk_iff unsigned_ucast_eq take_bit_nat_eq_self)
  have "unat (n + 1) = unat n + 1"
    using unat_word_ariths(1) [of n 1] n(2) by simp
  moreover have "n - 1 + 2 = n + 1"
    by simp
  ultimately have n1: "unat (n - 1 + 2) = unat n + 1"
    by (simp only:)
  have "ucast (os_top os) \<le> n - 1 + 2"
    unfolding word_le_nat_alt n1 top by (rule n(1))
  then show ?thesis
    by (simp add: GetRefFromTop_def)
qed

lemma current_stops:
  assumes "stack_repr (vm_stack_of s) (f # fs)" and "m f = Inl e"
  shows "in_frame (current_frame s) m s = Inl e"
  using assms current_mem [OF assms(1)] current_frame_addr [OF assms(1)]
  by (simp add: in_frame_def on_thread_def zoom_def on_frame_def deref_def vm_stack_of_def)

lemma found_outcome:
  assumes wf: "wf_classes (v_classes s)" and k: "k < length (v_classes s)"
    and q: "nearest_method (v_classes s) (names n d) k q"
  shows "invoke_found p q s = (case Option.bind q (concrete (v_classes s)) of
    None \<Rightarrow> Inl (Fatal ''java.lang.AbstractMethodError'') | Some m \<Rightarrow> InvokeMethod p m s)"
proof (cases q)
  case (Some mid)
  then obtain m where "method_at (v_classes s) mid = Inr m"
    using nearest_method_at [OF wf k] q by (cases mid) blast
  then show ?thesis
    using Some by (simp add: invoke_found_def read_method_at bind_Inr concrete_def raise_def)
qed (simp add: invoke_found_def raise_def)

lemma virtual_outcome:
  assumes repr: "stack_repr (vm_stack_of s) (f # fs)" and os: "stk xs c (fr_operand_stack f)"
    and ref: "method_of_ref (v_classes s) (cm_class (fr_method f)) i = Some (n, d, mid)" "method_at (v_classes s) mid = Inr r"
    and r: "\<not> IsStatic r" "cm_name r \<noteq> ''println''" "0 < unat (m_arg_slot_count r)" "unat (m_arg_slot_count r) < 2 ^ 16"
  shows "length xs \<le> unat (m_arg_slot_count r) + 1 \<Longrightarrow> exec_INVOKE_VIRTUAL env load i (current_frame s) s =
      Inl (Fatal ''GetRefFromTop operand_stack_ size less than'')"
    and "unat (m_arg_slot_count r) + 1 < length xs \<Longrightarrow> receiver xs (unat (m_arg_slot_count r)) = 0 \<Longrightarrow>
      exec_INVOKE_VIRTUAL env load i (current_frame s) s = Inl (Fatal ''java.lang.NullPointerException'')"
    and "receiver_of xs r = Some o1 \<Longrightarrow> permitted env s r (cm_class (fr_method f)) o1 \<Longrightarrow> class_of_object env s o1 = Some k \<Longrightarrow>
      wf_classes (v_classes s) \<Longrightarrow> k < length (v_classes s) \<Longrightarrow>
      \<exists>q. nearest_method (v_classes s) (names n d) k q \<and> exec_INVOKE_VIRTUAL env load i (current_frame s) s =
        (case Option.bind q (concrete (v_classes s)) of
           None \<Rightarrow> Inl (Fatal ''java.lang.AbstractMethodError'') | Some m \<Rightarrow> InvokeMethod (current_frame s) m s)"
proof -
  let ?n = "m_arg_slot_count r"
  have start: "exec_INVOKE_VIRTUAL env load i (current_frame s) s =
    bind (operands (current_frame s) (GetRefFromTop (?n - 1))) (\<lambda>ref.
       if ref = 0 then raise (Fatal ''java.lang.NullPointerException'')
       else
         bind (illegal_access env r (cm_class (fr_method f)) ref) (\<lambda>illegal.
         if illegal then raise (Fatal ''java.lang.IllegalAccessError'')
         else
           bind (ref_name (cm_class (fr_method f)) i) (\<lambda>(name, descriptor).
           bind (GetClass env ref) (\<lambda>rc.
           bind (reads v_classes) (\<lambda>ct.
           bind (lift_res (LookupMethodInClass ct rc name descriptor)) (invoke_found (current_frame s))))))) s"
    using ref r by (simp add: exec_INVOKE_VIRTUAL_def frame_class_current [OF repr] bind_Inr method_of_ref_reads(1) read_method_at)
  show "exec_INVOKE_VIRTUAL env load i (current_frame s) s = Inl (Fatal ''GetRefFromTop operand_stack_ size less than'')"
    if "length xs \<le> unat ?n + 1"
    using start current_stops [OF repr, of "on_operands (GetRefFromTop (?n - 1))"] GetRefFromTop_too_deep [OF os that r(4)]
    by (simp add: operands_def on_operands_def zoom_def bind_def)
  show "exec_INVOKE_VIRTUAL env load i (current_frame s) s = Inl (Fatal ''java.lang.NullPointerException'')"
    if "unat ?n + 1 < length xs" "receiver xs (unat ?n) = 0"
    using start current_unchanged [OF repr, of "on_operands (GetRefFromTop (?n - 1))"] GetRefFromTop_receiver [OF os r(3) that(1)] that(2)
    by (simp add: operands_def on_operands_def zoom_def bind_def raise_def)
  show "\<exists>q. nearest_method (v_classes s) (names n d) k q \<and> exec_INVOKE_VIRTUAL env load i (current_frame s) s =
        (case Option.bind q (concrete (v_classes s)) of
           None \<Rightarrow> Inl (Fatal ''java.lang.AbstractMethodError'') | Some m \<Rightarrow> InvokeMethod (current_frame s) m s)"
    if o1: "receiver_of xs r = Some o1" "permitted env s r (cm_class (fr_method f)) o1" "class_of_object env s o1 = Some k"
      and wf: "wf_classes (v_classes s)" "k < length (v_classes s)"
  proof -
    obtain q where q: "LookupMethodInClass (v_classes s) (Some k) n d = Inr q" "nearest_method (v_classes s) (names n d) k q"
      using LookupMethodInClass_nearest [OF wf] by blast
    have "exec_INVOKE_VIRTUAL env load i (current_frame s) s = invoke_found (current_frame s) q s"
      using start q(1) receiver_of_reads [OF repr os o1(1)] permitted_reads [OF o1(2)] class_of_object_reads [OF o1(3)]
        method_of_ref_reads(2) [OF ref(1)] by (simp add: bind_Inr bind_reads lift_res_def)
    then show ?thesis
      using found_outcome [OF wf q(2)] q(2) by auto
  qed
qed

section \<open>Calls\<close>

text \<open>The size of the block of the stack stays the same.\<close>

definition stack_bytes :: "nat \<Rightarrow> vm \<Rightarrow> bool" where
  "stack_bytes n s \<longleftrightarrow> st_max_size (vm_stack_of s) = n"

lemma bytes_in_frame [keeps_rules]: "keeps (stack_bytes n) (in_frame p m)"
  by (auto simp: keeps_def in_frame_def on_thread_def on_frame_def zoom_def deref_def stack_bytes_def vm_stack_of_def
      split: option.splits sum.splits)

lemma bytes_operands [keeps_rules]: "keeps (stack_bytes n) (operands p m)" "keeps (stack_bytes n) (locals p v)"
  by (simp_all add: operands_def locals_def bytes_in_frame)

lemma bytes_CreateFrame [keeps_rules]: "keeps (stack_bytes n) (on_thread (CreateFrame m))"
  by (auto simp: keeps_def on_thread_def CreateFrame_def on_stack_def zoom_def CreateFrame_unfold stack_bytes_def vm_stack_of_def
      split: sum.splits if_splits)

lemma bytes_PopFrame [keeps_rules]: "keeps (stack_bytes n) (on_thread PopFrame)"
  by (auto simp: keeps_def on_thread_def PopFrame_def on_stack_def zoom_def Stack_PopFrame_def deref_def stack_bytes_def vm_stack_of_def
      split: sum.splits option.splits if_splits)

lemma bytes_pass_args [keeps_rules]: "keeps (stack_bytes n) (pass_args p q k)"
  by (induction k) (auto intro!: keeps_rules)

lemma bytes_InvokeMethod: "keeps (stack_bytes n) (InvokeMethod p m)"
  by (auto simp: InvokeMethod_def intro!: keeps_rules)

lemma bytes_exec_return: "keeps (stack_bytes n) (exec_return r)"
  by (cases r) (auto simp: Return_def intro!: keeps_rules split: ctype.splits)

text \<open>The frame in which a method starts, with its arguments in the local variables.\<close>

definition entry_frame :: "meth \<Rightarrow> addr option \<Rightarrow> slot list \<Rightarrow> frame" where
  "entry_frame m p args = (Frame_new m p)\<lparr>fr_local_vars := args @ replicate (unat (m_max_locals m) - length args) 0\<rparr>"

lemma entry_frame_wf:
  "length args \<le> unat (m_max_locals m) \<Longrightarrow> unat (m_max_locals m) < 2 ^ 16 \<Longrightarrow> frame_wf (entry_frame m p args)"
  using frame_wf_new [of m p] by (auto simp: entry_frame_def frame_wf_def Frame_new_def unsigned_ucast_eq take_bit_nat_eq_self)

lemma entry_frame_method [simp]: "fr_method (entry_frame m p args) = m"
  by (simp add: entry_frame_def Frame_new_def)

lemma call_round:
  assumes repr: "stack_repr (vm_stack_of s) (f # fs)" and P: "assembled P (fr_method f)"
    and inst: "at_inst P n f" "P ! n = InvI i"
    and target: "call_target env s (cm_class (fr_method f)) (xs @ args) i = Some m"
    and room: "fits (st_max_size (vm_stack_of s)) m (length (f # fs))"
    and args: "stk (xs @ args) c (fr_operand_stack f)" "length xs + length args < c" "length args \<le> unat (m_max_locals m)"
    and m: "unat (m_max_locals m) < 2 ^ 16" "m_arg_slot_count m = of_nat (length args)"
  shows "\<exists>t f'. vm_step env load reg s t \<and> same_world t s \<and> stack_bytes (st_max_size (vm_stack_of s)) t \<and>
    frame_stk (SetNextPc (of_nat (inst_addr P (Suc n))) f) xs c f' \<and>
    stack_repr (vm_stack_of t) (entry_frame m (current_frame s) args # f' # fs)"
proof -
  let ?n = "of_nat (inst_addr P (Suc n))"
  have "fetch (fr_method f) (NextPc f) = Inr (InvI i, ?n)"
    using fetch_assembled [OF P, of n] inst by (simp add: at_inst_def)
  then obtain t where
    t: "interpret_step env load reg s = exec_inst env load reg (current_frame s) (InvI i) t"
    "stack_repr (vm_stack_of t) (SetNextPc ?n f # fs)" "current_frame t = current_frame s" "same_world t s"
    "same_block (vm_stack_of t) (vm_stack_of s)"
    using interpret_fetch [OF repr] by blast
  have "exec_inst env load reg (current_frame s) (InvI i) t = exec_invoke env load reg (current_frame t) i t"
    using t(3) by (simp add: exec_inst_def bind_reads)
  also have "\<dots> = InvokeMethod (current_frame t) m t"
    by (rule invoke_target [OF t(2)]) (use args(1) target t(4) in \<open>simp_all add: call_target_world SetNextPc_def\<close>)
  finally have run: "interpret_step env load reg s = InvokeMethod (current_frame t) m t"
    using t(1) by simp
  have "\<exists>st f' g. InvokeMethod (current_frame t) m t = Inr ((), with_stack st t) \<and>
    stack_repr st (g # f' # fs) \<and> frame_stk (SetNextPc ?n f) xs c f' \<and>
    g = entry_frame m (current_frame t) args"
    unfolding entry_frame_def by (rule InvokeMethod_frames [OF t(2)])
      (use room t(5) args m in \<open>simp_all add: same_block_def SetNextPc_def\<close>)
  then obtain st f' where st: "interpret_step env load reg s = Inr ((), with_stack st t)" "frame_stk (SetNextPc ?n f) xs c f'"
    "stack_repr st (entry_frame m (current_frame s) args # f' # fs)"
    using run t(3) by auto
  have "stack_bytes (st_max_size (vm_stack_of s)) (with_stack st t)"
    by (rule keepsD [OF bytes_InvokeMethod, of _ t "current_frame t" m "()"])
      (use st(1) run t(5) in \<open>simp_all add: stack_bytes_def same_block_def\<close>)
  moreover have "\<not> stack_empty (with_stack st t)"
    using stack_repr_empty [OF st(3)] by (simp add: stack_empty_def IsStackEmpty_def with_stack_def)
  then have "vm_step env load reg s (with_stack st t)"
    by (rule vm_step.round [OF st(1)])
  ultimately show ?thesis
    using st(2,3) t(4) by (intro exI [of _ "with_stack st t"] exI [of _ f']) simp
qed

text \<open>The return, with or without a value.\<close>

fun ret_type :: "return_inst \<Rightarrow> ctype option" where
  "ret_type RETURN = None"
| "ret_type IRETURN = Some Int32"
| "ret_type LRETURN = Some Int64"
| "ret_type FRETURN = Some Float"
| "ret_type DRETURN = Some Double"
| "ret_type ARETURN = Some ObjectPtr"

definition ret_width :: "return_inst \<Rightarrow> nat" where
  "ret_width r = (case ret_type r of None \<Rightarrow> 0 | Some T \<Rightarrow> twidth T)"

lemma exec_return_frames:
  assumes repr: "stack_repr (vm_stack_of s) (g # f # fs)"
    and g: "stk (zs @ ys) cg (fr_operand_stack g)" "length ys = ret_width r"
    and f: "stk xs c (fr_operand_stack f)" "length xs + ret_width r \<le> c"
  shows "\<exists>st f'. exec_return r s = Inr ((), with_stack st s) \<and> stack_repr st (f' # fs) \<and> frame_stk f (xs @ ys) c f'"
proof (cases "ret_type r")
  case None
  then have r: "r = RETURN"
    by (cases r) simp_all
  obtain p st where "on_thread PopFrame s = Inr (p, with_stack st s)" "stack_repr st (f # fs)"
    using pop_current [OF repr] by blast
  then show ?thesis
    using r g(2) f(1) by (auto simp: Return_def bind_Inr ret_def ret_width_def intro!: frame_stk_self)
next
  case (Some T)
  then have "exec_return r = Return (Some T)" "T \<in> {Int32, Int64, Float, Double, ObjectPtr}"
    by (cases r; simp)+
  then show ?thesis
    using Return_frames [OF repr, of T zs ys cg xs c] g f Some by (simp add: ret_width_def)
qed

lemma value_return_round:
  assumes repr: "stack_repr (vm_stack_of s) (g # f # fs)" and Q: "assembled Q (fr_method g)"
    and inst: "at_inst Q k g" "Q ! k = RetI r"
    and g: "stk (zs @ ys) cg (fr_operand_stack g)" "length ys = ret_width r"
    and f: "stk xs c (fr_operand_stack f)" "length xs + ret_width r \<le> c"
  shows "\<exists>t f'. vm_step env load reg s t \<and> stack_repr (vm_stack_of t) (f' # fs) \<and> frame_stk f (xs @ ys) c f' \<and> same_world t s \<and>
    stack_bytes (st_max_size (vm_stack_of s)) t"
proof -
  have "fetch (fr_method g) (NextPc g) = Inr (RetI r, of_nat (inst_addr Q (Suc k)))"
    using fetch_assembled [OF Q, of k] inst by (simp add: at_inst_def)
  then obtain t where t: "interpret_step env load reg s = exec_inst env load reg (current_frame s) (RetI r) t"
    "stack_repr (vm_stack_of t) (SetNextPc (of_nat (inst_addr Q (Suc k))) g # f # fs)" "same_world t s"
    "same_block (vm_stack_of t) (vm_stack_of s)"
    using interpret_fetch [OF repr] by blast
  have run: "exec_inst env load reg (current_frame s) (RetI r) t = exec_return r t"
    by (simp add: exec_inst_def bind_reads)
  then obtain st f' where st: "interpret_step env load reg s = Inr ((), with_stack st t)" "stack_repr st (f' # fs)"
    "frame_stk f (xs @ ys) c f'"
    using exec_return_frames [OF t(2), of zs ys cg r xs c] g f t(1) by (auto simp: SetNextPc_def)
  have "stack_bytes (st_max_size (vm_stack_of s)) (with_stack st t)"
    by (rule keepsD [OF bytes_exec_return, of _ t r "()"])
      (use st(1) run t(1,4) in \<open>simp_all add: stack_bytes_def same_block_def\<close>)
  moreover have "\<not> stack_empty (with_stack st t)"
    using stack_repr_empty [OF st(2)] by (simp add: stack_empty_def IsStackEmpty_def with_stack_def)
  then have "vm_step env load reg s (with_stack st t)"
    by (rule vm_step.round [OF st(1)])
  ultimately show ?thesis
    using st(2,3) t(3) by (intro exI [of _ "with_stack st t"] exI [of _ f']) simp
qed

end
