(* ===== verification/Vm_Runs.thy ===== *)
theory Vm_Runs
  imports Vm_Calls
begin

text \<open>
  What methods compute, calls included. \<open>runs\<close> says that a frame, executing the program of its method, reaches a frame
  with the property \<open>R\<close>: by the steps of the program, and by calls, for which it is enough to know what the called
  method returns. A method may call itself, and what it returns is then proved by induction. Whatever \<open>runs\<close>
  says the interpreter does, with any frames below, as long as the frames fit on the stack.
\<close>

section \<open>Runs\<close>

definition can_call :: "nat \<Rightarrow> nat \<Rightarrow> meth \<Rightarrow> slot list \<Rightarrow> slot list \<Rightarrow> nat \<Rightarrow> bool" where
  "can_call bytes d m xs args c \<longleftrightarrow> fits bytes m d \<and> length xs + length args < c \<and> length args \<le> unat (m_max_locals m) \<and>
     unat (m_max_locals m) < 2 ^ 16 \<and> m_arg_slot_count m = of_nat (length args)"

text \<open>The frame is about to return, with the slots \<open>ys\<close>.\<close>

definition returning :: "instruction list \<Rightarrow> (slot list \<Rightarrow> bool) \<Rightarrow> frame \<Rightarrow> bool" where
  "returning Q V g \<longleftrightarrow> (\<exists>k r zs ys c. at_inst Q k g \<and> Q ! k = RetI r \<and> stk (zs @ ys) c (fr_operand_stack g) \<and>
     length ys = ret_width r \<and> V ys)"

lemma returningI:
  "at_inst Q k g \<Longrightarrow> Q ! k = RetI r \<Longrightarrow> stk (zs @ ys) c (fr_operand_stack g) \<Longrightarrow> length ys = ret_width r \<Longrightarrow> V ys \<Longrightarrow>
   returning Q V g"
  unfolding returning_def by blast

inductive runs :: "env \<Rightarrow> vm \<Rightarrow> nat \<Rightarrow> nat \<Rightarrow> frame \<Rightarrow> (frame \<Rightarrow> bool) \<Rightarrow> bool" for env w bytes where
  arrived: "R f \<Longrightarrow> runs env w bytes d f R"
| steps: "assembled P (fr_method f) \<Longrightarrow> prog_step P f g \<Longrightarrow> runs env w bytes d g R \<Longrightarrow> runs env w bytes d f R"
| calls: "assembled P (fr_method f) \<Longrightarrow> at_inst P n f \<Longrightarrow> P ! n = InvI i \<Longrightarrow> stk (xs @ args) c (fr_operand_stack f) \<Longrightarrow>
    call_target env w (cm_class (fr_method f)) (xs @ args) i = Some m \<Longrightarrow> can_call bytes (Suc d) m xs args c \<Longrightarrow> assembled Q m \<Longrightarrow>
    (\<And>p. runs env w bytes (Suc d) (entry_frame m p args) (returning Q V)) \<Longrightarrow>
    (\<And>ys. V ys \<Longrightarrow> length xs + length ys \<le> c) \<Longrightarrow>
    (\<And>ys g. V ys \<Longrightarrow> frame_stk (SetNextPc (of_nat (inst_addr P (Suc n))) f) (xs @ ys) c g \<Longrightarrow> frame_of f g \<Longrightarrow>
      runs env w bytes d g R) \<Longrightarrow>
    runs env w bytes d f R"

lemma runs_weaken: "runs env w bytes d f R \<Longrightarrow> (\<And>g. R g \<Longrightarrow> S g) \<Longrightarrow> runs env w bytes d f S"
  by (induction arbitrary: S rule: runs.induct) (blast intro: runs.intros)+

lemma runs_insts:
  assumes "run_insts P ns f = Some g" and "assembled P (fr_method f)" and "frame_wf f" and "runs env w bytes d g R"
  shows "runs env w bytes d f R"
proof -
  have "(prog_step P)\<^sup>*\<^sup>* f g"
    using assms(1) by (rule run_insts_steps)
  then show ?thesis
    using assms(2,3,4)
  proof (induction rule: converse_rtranclp_induct)
    case (step f h)
    then have "frame_of f h"
      by (blast dest: prog_step_frame)
    then show ?case
      using step by (auto simp: frame_of_def intro: runs.steps)
  qed
qed

lemma frame_stk_of: "frame_stk f xs c g \<Longrightarrow> frame_wf f \<Longrightarrow> stk zs c (fr_operand_stack f) \<Longrightarrow> frame_of f g"
  by (auto simp: frame_stk_def frame_of_def frame_wf_def os_inv_def stk_def)

section \<open>The interpreter does what runs say\<close>

lemma call_and_return:
  assumes repr: "stack_repr (vm_stack_of s) (f # fs)" and P: "assembled P (fr_method f)"
    and inst: "at_inst P n f" "P ! n = InvI i"
    and target: "call_target env s (cm_class (fr_method f)) (xs @ args) i = Some m"
    and os: "stk (xs @ args) c (fr_operand_stack f)" and can: "can_call bytes (Suc (length fs)) m xs args c" "stack_bytes bytes s"
    and Q: "assembled Q m" and fit: "\<And>ys. V ys \<Longrightarrow> length xs + length ys \<le> c"
    and body: "\<And>t h. stack_repr (vm_stack_of t) (entry_frame m (current_frame s) args # h # fs) \<Longrightarrow> same_world t s \<Longrightarrow>
      stack_bytes bytes t \<Longrightarrow> \<exists>u g. vm_steps env load reg t u \<and> stack_repr (vm_stack_of u) (g # h # fs) \<and> returning Q V g \<and>
        same_world u s \<and> stack_bytes bytes u \<and> fr_method g = m"
  shows "\<exists>t g ys. vm_steps env load reg s t \<and> stack_repr (vm_stack_of t) (g # fs) \<and> V ys \<and>
    frame_stk (SetNextPc (of_nat (inst_addr P (Suc n))) f) (xs @ ys) c g \<and> same_world t s \<and> stack_bytes bytes t"
proof -
  let ?f = "SetNextPc (of_nat (inst_addr P (Suc n))) f"
  have can': "fits (st_max_size (vm_stack_of s)) m (length (f # fs))" "length xs + length args < c"
    "length args \<le> unat (m_max_locals m)" "unat (m_max_locals m) < 2 ^ 16" "m_arg_slot_count m = of_nat (length args)"
    using can by (simp_all add: can_call_def stack_bytes_def)
  from call_round [OF repr P inst target can'(1) os can'(2-5), of load reg]
  obtain t1 f1 where t1: "vm_step env load reg s t1" "same_world t1 s" "stack_bytes bytes t1" "frame_stk ?f xs c f1"
    "stack_repr (vm_stack_of t1) (entry_frame m (current_frame s) args # f1 # fs)"
    using can(2) by (auto simp: stack_bytes_def)
  obtain t2 g where t2: "vm_steps env load reg t1 t2" "stack_repr (vm_stack_of t2) (g # f1 # fs)" "returning Q V g"
    "same_world t2 s" "stack_bytes bytes t2" "fr_method g = m"
    using body [OF t1(5,2,3)] by blast
  from t2(3) obtain k r zs ys cg where r: "at_inst Q k g" "Q ! k = RetI r" "stk (zs @ ys) cg (fr_operand_stack g)"
    "length ys = ret_width r" "V ys"
    by (auto simp: returning_def)
  have "assembled Q (fr_method g)" "stk xs c (fr_operand_stack f1)" "length xs + ret_width r \<le> c"
    using t2(6) Q t1(4) fit [OF r(5)] r(4) by (simp_all add: frame_stk_def)
  from value_return_round [OF t2(2) this(1) r(1-4) this(2,3), of env load reg]
  obtain t3 f2 where t3: "vm_step env load reg t2 t3" "stack_repr (vm_stack_of t3) (f2 # fs)" "frame_stk f1 (xs @ ys) c f2"
    "same_world t3 t2" "stack_bytes bytes t3"
    using t2(5) by (auto simp: stack_bytes_def)
  have "frame_stk ?f (xs @ ys) c f2"
    using t1(4) t3(3) by (auto simp: frame_stk_def)
  moreover have "vm_steps env load reg s t3"
    using t1(1) vm_steps_trans [OF t2(1) vm_steps.more_rounds [OF t3(1) vm_steps.no_rounds]] by (rule vm_steps.more_rounds)
  ultimately show ?thesis
    using t3(2,5) r(5) same_world_trans [OF t3(4) t2(4)] by blast
qed

lemma runs_rounds:
  assumes "runs env w bytes d f R" and "stack_repr (vm_stack_of s) (f # fs)" and "length fs = d" and "frame_wf f"
    and "same_world s w" and "stack_bytes bytes s"
  shows "\<exists>t g. vm_steps env load reg s t \<and> stack_repr (vm_stack_of t) (g # fs) \<and> R g \<and> same_world t w \<and>
    stack_bytes bytes t \<and> frame_of f g"
  using assms
proof (induction arbitrary: s fs rule: runs.induct)
  case (arrived R f d)
  then show ?case
    by (intro exI [of _ s] exI [of _ f]) (simp add: vm_steps.no_rounds)
next
  case (steps P f g d R)
  obtain t where t: "vm_step env load reg s t" "stack_repr (vm_stack_of t) (g # fs)" "same_world t s"
    "same_block (vm_stack_of t) (vm_stack_of s)" "frame_of f g"
    using prog_step_round [OF steps.prems(1) steps.hyps(1) steps.prems(3) steps.hyps(2)] by blast
  have "\<exists>u h. vm_steps env load reg t u \<and> stack_repr (vm_stack_of u) (h # fs) \<and> R h \<and> same_world u w \<and>
    stack_bytes bytes u \<and> frame_of g h"
    by (rule steps.IH)
      (use t steps.prems same_world_trans [OF t(3)] in \<open>simp_all add: stack_bytes_def same_block_def frame_of_def\<close>)
  then show ?case
    using t(1,5) by (auto simp: frame_of_def intro: vm_steps.more_rounds)
next
  case (calls P f n i xs args c m d Q V R)
  have "\<exists>t g ys. vm_steps env load reg s t \<and> stack_repr (vm_stack_of t) (g # fs) \<and> V ys \<and>
      frame_stk (SetNextPc (of_nat (inst_addr P (Suc n))) f) (xs @ ys) c g \<and> same_world t s \<and> stack_bytes bytes t"
  proof (rule call_and_return [OF calls.prems(1) calls.hyps(1-3) _ calls.hyps(4) _ calls.prems(5) calls.hyps(7,9)])
    show "call_target env s (cm_class (fr_method f)) (xs @ args) i = Some m"
      using calls.hyps(5) calls.prems(4) by (simp add: call_target_world)
    show "can_call bytes (Suc (length fs)) m xs args c"
      using calls.hyps(6) calls.prems(2) by simp
    then have wf: "frame_wf (entry_frame m (current_frame s) args)"
      by (simp add: can_call_def entry_frame_wf)
    show "\<exists>u g. vm_steps env load reg t u \<and> stack_repr (vm_stack_of u) (g # h # fs) \<and> returning Q V g \<and>
        same_world u s \<and> stack_bytes bytes u \<and> fr_method g = m"
      if "stack_repr (vm_stack_of t) (entry_frame m (current_frame s) args # h # fs)" "same_world t s" "stack_bytes bytes t" for t h
      using calls.IH(1) [OF that(1) _ wf same_world_trans [OF that(2) calls.prems(4)] that(3)] calls.prems(2,4)
      by (auto simp: frame_of_def same_world_def)
  qed
  then obtain t g ys where t: "vm_steps env load reg s t" "stack_repr (vm_stack_of t) (g # fs)" "V ys" "same_world t s" "stack_bytes bytes t"
    and g: "frame_stk (SetNextPc (of_nat (inst_addr P (Suc n))) f) (xs @ ys) c g"
    by blast
  have "frame_wf (SetNextPc (of_nat (inst_addr P (Suc n))) f)" "stk (xs @ args) c (fr_operand_stack (SetNextPc (of_nat (inst_addr P (Suc n))) f))"
    using calls.prems(3) calls.hyps(4) by (simp_all add: SetNextPc_def frame_wf_def)
  then have g_of: "frame_of f g"
    using frame_stk_of [OF g] by (simp add: frame_of_def SetNextPc_def)
  then obtain u h where "vm_steps env load reg t u" "stack_repr (vm_stack_of u) (h # fs)" "R h" "same_world u w" "stack_bytes bytes u"
    "frame_of g h"
    using calls.IH(2) [OF t(3) g _ t(2) calls.prems(2) _ same_world_trans [OF t(4) calls.prems(4)] t(5)] by (auto simp: frame_of_def)
  then show ?case
    using vm_steps_trans [OF t(1)] g_of by (auto simp: frame_of_def)
qed

text \<open>A run that ends with the return of the only frame: the interpreter loop returns.\<close>

lemma runs_return:
  assumes run: "runs env s (st_max_size (vm_stack_of s)) 0 f (\<lambda>g. \<exists>n. at_inst P n g \<and> P ! n = RetI RETURN \<and> R g)"
    and repr: "stack_repr (vm_stack_of s) [f]" and P: "assembled P (fr_method f)" and wf: "frame_wf f"
  shows "\<exists>u g t. vm_steps env load reg s u \<and> stack_repr (vm_stack_of u) [g] \<and> R g \<and>
    LoopExecute env load reg s = Some (Inr t) \<and> stack_empty t \<and> same_world t s"
proof -
  obtain u g n where u: "vm_steps env load reg s u" "stack_repr (vm_stack_of u) [g]" "same_world u s" "frame_of f g"
    and g: "at_inst P n g" "P ! n = RetI RETURN" "R g"
    using runs_rounds [OF run repr _ wf, of load reg] by (auto simp: stack_bytes_def same_world_def)
  then show ?thesis
    using return_ends [OF u(1-3) _ g(1,2)] P by (auto simp: frame_of_def)
qed

end
