(* ===== verification/Vm_Invariant.thy ===== *)
theory Vm_Invariant
  imports Interpreter Vm_Frames_Spec Class_Resolve_Spec
begin

text \<open>
  The invariant of the running machine: the block of the thread holds well-formed frames one above the
  other, the classes form a hierarchy without cycles and without dangling pointers, and the heap has its
  spaces in order. Every instruction keeps it, whichever frame it works on, and so does every round
  of the interpreter. The class loader is a parameter of the instructions; \<open>machine_load\<close> is what they
  need of it, and it is proved for the loader of the program.
\<close>

section \<open>The invariant\<close>

definition frames_ok :: "vm_stack \<Rightarrow> bool" where
  "frames_ok st \<longleftrightarrow> (\<exists>fs. stack_repr st fs \<and> list_all frame_wf fs)"

definition machine_ok :: "vm \<Rightarrow> bool" where
  "machine_ok s \<longleftrightarrow> frames_ok (vm_stack_of s) \<and> (\<exists>D. loads_ok D s) \<and> heap_wf (v_heap s)"

text \<open>What loading a class has to leave alone: the thread, and the order of the heap.\<close>

definition rest_ok :: "thread \<Rightarrow> vm \<Rightarrow> bool" where
  "rest_ok t s \<longleftrightarrow> v_thread s = t \<and> heap_wf (v_heap s)"

section \<open>Frames\<close>

text \<open>A frame of memory that is not one of the list may change freely.\<close>

lemma frames_ok_update:
  assumes ok: "frames_ok st" and f: "st_mem st a = Some f" and f': "frame_wf f \<Longrightarrow> frame_of f f'"
  shows "frames_ok (st\<lparr>st_mem := (st_mem st)(a \<mapsto> f')\<rparr>)"
proof -
  let ?st = "st\<lparr>st_mem := (st_mem st)(a \<mapsto> f')\<rparr>"
  obtain fs where repr: "stack_repr st fs" and fs: "list_all frame_wf fs"
    using ok by (auto simp: frames_ok_def)
  then have at: "frames_at st fs"
    by (simp add: stack_repr_def)
  show ?thesis
  proof (cases "\<exists>k < length fs. a = frame_addr st k")
    case True
    then obtain k where k: "k < length fs" "a = frame_addr st k"
      by blast
    define i where "i = length fs - Suc k"
    have i: "i < length fs" "a = frame_addr st (length fs - Suc i)"
      using k by (auto simp: i_def)
    have "fs ! i = f"
      using frames_at_nth [OF at i(1)] i(2) f by simp
    then have "frame_of (fs ! i) f'"
      using fs i(1) f' by (auto simp: list_all_length)
    then have "frames_at ?st (fs[i := f'])" "list_all frame_wf (fs[i := f'])"
      using frames_at_update [OF at i(1), of f'] i(2) fs set_update_subset_insert [of fs i f']
      by (auto simp: frame_of_def list_all_iff)
    then show ?thesis
      using repr by (auto simp: frames_ok_def stack_repr_def intro!: exI [of _ "fs[i := f']"])
  next
    case False
    then have "frames_at ?st fs"
      using at by (intro frames_at_other [OF at]) (auto simp: frame_addr_def)
    then show ?thesis
      using repr fs by (auto simp: frames_ok_def stack_repr_def intro!: exI [of _ fs])
  qed
qed

text \<open>An operation on the stack of the thread.\<close>

lemma keeps_on_stack:
  assumes "\<And>st x st'. frames_ok st \<Longrightarrow> m st = Inr (x, st') \<Longrightarrow> frames_ok st'"
  shows "keeps machine_ok (on_thread (on_stack m))"
  unfolding keeps_def on_thread_def on_stack_def zoom_def
  by (auto simp: machine_ok_def vm_stack_of_def loads_ok_def cache_of_def split: sum.splits intro: assms)

lemma in_frame_stack:
  "in_frame p m = on_thread (on_stack (\<lambda>st. case deref p st of Inl e \<Rightarrow> Inl e | Inr f \<Rightarrow>
     (case m f of Inl e \<Rightarrow> Inl e | Inr (x, f') \<Rightarrow> Inr (x, st\<lparr>st_mem := (st_mem st)(the p \<mapsto> f')\<rparr>))))"
  by (rule ext) (auto simp: in_frame_def on_thread_def on_stack_def zoom_def on_frame_def split: sum.splits)

lemma keeps_in_frame:
  assumes "\<And>g. keeps (frame_of g) m"
  shows "keeps machine_ok (in_frame p m)"
  unfolding in_frame_stack
proof (rule keeps_on_stack)
  fix st x st'
  assume ok: "frames_ok st" and run: "(case deref p st of Inl e \<Rightarrow> Inl e | Inr f \<Rightarrow>
     (case m f of Inl e \<Rightarrow> Inl e | Inr (x, f') \<Rightarrow> Inr (x, st\<lparr>st_mem := (st_mem st)(the p \<mapsto> f')\<rparr>))) = Inr (x, st')"
  then obtain a f f' where a: "p = Some a" "st_mem st a = Some f" and f': "m f = Inr (x, f')"
    and st': "st' = st\<lparr>st_mem := (st_mem st)(a \<mapsto> f')\<rparr>"
    by (auto simp: deref_def split: option.splits sum.splits)
  have "frame_wf f \<Longrightarrow> frame_of f f'"
    using keepsD [OF assms, of f f x f'] f' by simp
  then show "frames_ok st'"
    unfolding st' by (rule frames_ok_update [OF ok a(2)])
qed

lemma keeps_CreateFrame [keeps_rules]: "keeps machine_ok (on_thread (CreateFrame m))"
  unfolding CreateFrame_def
proof (rule keeps_on_stack)
  fix st p st'
  assume "frames_ok st" and run: "Stack_CreateFrame m st = Inr (p, st')"
  then obtain fs where repr: "stack_repr st fs" and fs: "list_all frame_wf fs"
    by (auto simp: frames_ok_def)
  have "fits (st_max_size st) m (length fs)"
    using CreateFrame_full [OF repr, of m] run by (metis Inl_Inr_False)
  from CreateFrame_room [OF repr this] run show "frames_ok st'"
    using fs by (auto simp: frames_ok_def frame_wf_new intro!: exI [of _ "Frame_new m (st_fp st) # fs"])
qed

lemma keeps_PopFrame [keeps_rules]: "keeps machine_ok (on_thread PopFrame)"
  unfolding PopFrame_def
proof (rule keeps_on_stack)
  fix st p st'
  assume "frames_ok st" and run: "Stack_PopFrame st = Inr (p, st')"
  then obtain fs where repr: "stack_repr st fs" and fs: "list_all frame_wf fs"
    by (auto simp: frames_ok_def)
  then obtain f gs where "fs = f # gs"
    using run by (cases fs) (auto simp: Stack_PopFrame_def deref_def stack_repr_def)
  then show "frames_ok st'"
    using PopFrame_top [of st f gs] repr fs run by (auto simp: frames_ok_def)
qed

lemma keeps_ClearStack [keeps_rules]: "keeps machine_ok (on_thread (modifies ClearStack))"
proof -
  have "on_thread (modifies ClearStack) = on_thread (on_stack (modifies Stack_Clear))"
    by (rule ext) (simp add: on_thread_def on_stack_def zoom_def modifies_def ClearStack_def)
  moreover have "keeps machine_ok (on_thread (on_stack (modifies Stack_Clear)))"
    by (rule keeps_on_stack) (auto simp: frames_ok_def modifies_def intro: stack_repr_clear exI [of _ "[]"])
  ultimately show ?thesis
    by simp
qed

lemma keeps_SetPc [keeps_rules]: "keeps machine_ok (on_thread (modifies (SetPc pc)))"
  by (auto simp: keeps_def on_thread_def zoom_def modifies_def SetPc_def machine_ok_def vm_stack_of_def
      loads_ok_def cache_of_def)

section \<open>Classes, objects, strings\<close>

text \<open>Operations that touch neither the thread nor the heap.\<close>

definition apart :: "(vm, 'a) op \<Rightarrow> bool" where
  "apart m \<longleftrightarrow> (\<forall>s x s'. m s = Inr (x, s') \<longrightarrow> v_thread s' = v_thread s \<and> v_heap s' = v_heap s)"

lemma rest_apart: "apart m \<Longrightarrow> keeps (rest_ok t) m"
  unfolding keeps_def apart_def rest_ok_def by metis

lemma machine_apart:
  assumes "quiet m" "apart m"
  shows "keeps machine_ok m"
  unfolding keeps_def
proof (intro allI impI)
  fix s x s'
  assume ok: "machine_ok s" and run: "m s = Inr (x, s')"
  then have "hierarchy (v_classes s') = hierarchy (v_classes s)" "length (v_classes s') = length (v_classes s)"
    "v_loaders s' = v_loaders s" "v_thread s' = v_thread s" "v_heap s' = v_heap s"
    using assms unfolding quiet_def apart_def by blast+
  then show "machine_ok s'"
    using ok by (simp add: machine_ok_def vm_stack_of_def loads_ok_def cache_of_def)
qed

lemma apart_on_classes [simp]: "apart (on_classes m)"
  by (auto simp: apart_def on_classes_def zoom_def split: sum.splits)

lemma apart_update [simp]: "apart (update_class c g)"
  by (simp add: update_class_def)

lemma apart_classes [simp]:
  "apart (read_class c)" "apart (GetClassLoader msg l)" "apart (on_static_vars c m)" "apart (cache_put l n c)"
  by (auto simp: apart_def read_class_def GetClassLoader_def on_static_vars_def cache_put_def
      split: sum.splits option.splits if_splits)

lemma apart_objects [simp]:
  "apart (new_object env)" "apart (GetClass env r)" "apart (modifies (\<lambda>s. s\<lparr>v_strings := g s\<rparr>))"
  "apart (modifies (\<lambda>s. s\<lparr>v_objects := h s\<rparr>))" "apart (in_object r k)" "apart (on_strings l)"
  by (auto simp: apart_def new_object_def GetClass_def modifies_def in_object_def on_strings_def zoom_def
      split: if_splits option.splits sum.splits)

lemma quiet_objects [simp]:
  "quiet (modifies (\<lambda>s. s\<lparr>v_objects := h s\<rparr>))" "quiet (in_object r k)" "quiet (on_strings l)"
  by (auto simp: quiet_def modifies_def in_object_def on_strings_def zoom_def split: option.splits sum.splits)

lemmas rest_primitive [keeps_rules] =
  apart_on_classes [THEN rest_apart] apart_update [THEN rest_apart] apart_classes [THEN rest_apart]
  apart_objects [THEN rest_apart]

lemma machine_primitive [keeps_rules]:
  "keeps machine_ok (read_class c)" "keeps machine_ok (GetClassLoader msg l)" "keeps machine_ok (on_static_vars c m)"
  "keeps machine_ok (new_object env)" "keeps machine_ok (GetClass env r)"
  "keeps machine_ok (modifies (\<lambda>s. s\<lparr>v_strings := g s\<rparr>))" "keeps machine_ok (modifies (\<lambda>s. s\<lparr>v_objects := h s\<rparr>))"
  "keeps machine_ok (in_object r k)" "keeps machine_ok (on_strings q)"
  by (rule machine_apart, simp_all add: quiet_static_vars quiet_strings)+

lemma machine_update: "(\<And>cl. same_parents cl (g cl)) \<Longrightarrow> keeps machine_ok (update_class c g)"
  by (rule machine_apart) (simp_all add: quiet_update)

lemma keeps_AllocObject [keeps_rules]:
  "keeps machine_ok (on_heap (AllocObject r n))" "keeps (rest_ok t) (on_heap (AllocObject r n))"
  by (auto simp: keeps_def on_heap_def zoom_def machine_ok_def rest_ok_def vm_stack_of_def loads_ok_def cache_of_def
      split: sum.splits intro: AllocObject_wf)

section \<open>Loading\<close>

lemma rest_resolve_from:
  "(\<And>l n. keeps (rest_ok t) (load l n)) \<Longrightarrow> keeps (rest_ok t) (resolve_from load l c i ns)"
  by (induction ns arbitrary: i) (auto intro!: keeps_rules)

lemma rest_StartLoad:
  assumes "\<And>l n. keeps (rest_ok t) (load l n)"
  shows "keeps (rest_ok t) (StartLoad load c cf)" "keeps (rest_ok t) (StartLoadArrayClass load c)"
  unfolding StartLoad_def StartLoadArrayClass_def ResolveSuperClass_def ResolveInterfaces_def push_interface_def
    GetBootClassLoader_def
  by (intro keeps_rules assms rest_resolve_from)+

lemma rest_NewJString:
  assumes "\<And>l n. keeps (rest_ok t) (load l n)"
  shows "keeps (rest_ok t) (NewJString env load str)"
  unfolding NewJString_def NewObject_def SetRefVar_def GetBootClassLoader_def
  by (intro keeps_rules assms)

lemma rest_InitStaticFinalVar:
  assumes "\<And>str. keeps (rest_ok t) (nj str)"
  shows "keeps (rest_ok t) (InitStaticFinalVar nj c f)"
  unfolding InitStaticFinalVar_def by (intro keeps_rules assms)

lemma rest_LinkClass:
  assumes "\<And>str. keeps (rest_ok t) (nj str)"
  shows "keeps (rest_ok t) (LinkClass nj c)"
  unfolding LinkClass_def VerifyClass_def PrepareClass_def AllocAndInitStaticVars_def
  by (intro keeps_rules keeps_each rest_InitStaticFinalVar assms)

text \<open>
  A function that makes class objects and leaves the thread and the spaces of the heap as they are gives a
  loader with these properties.
\<close>

locale machine_maker = class_maker +
  assumes mk_rest: "keeps (rest_ok t) mk"
begin

lemma rest_load: "keeps (rest_ok t) (load_class env mk k l n)"
proof (induction k arbitrary: l n)
  case (Suc k)
  have index: "keeps (rest_ok t) (cache_index l m)" for l m
  proof -
    have "keeps (rest_ok t) (andthen (cache_put l m None) (ret None))"
      by (intro keeps_rules)
    then show ?thesis
      by (auto simp: keeps_def cache_index_def split: option.splits)
  qed
  show ?case
    unfolding load_class.simps load_body_def LoadArrayClass_def LoadNonArrayClass_def DefineClass_def
    by (intro keeps_rules mk_rest rest_StartLoad rest_LinkClass rest_NewJString index Suc.IH)
qed (simp add: keeps_raise)

lemma machine_load: "keeps machine_ok (load_class env mk k l n)"
  unfolding keeps_def
proof (intro allI impI)
  fix s p s'
  assume ok: "machine_ok s" and run: "load_class env mk k l n s = Inr (p, s')"
  then obtain D where "loads_ok D s"
    by (auto simp: machine_ok_def)
  then obtain D' where "loads_ok D' s'"
    using load_keeps run by blast
  moreover have "rest_ok (v_thread s) s'"
    using keepsD [OF rest_load _ run, of "v_thread s"] ok by (simp add: machine_ok_def rest_ok_def)
  ultimately show "machine_ok s'"
    using ok by (auto simp: machine_ok_def rest_ok_def vm_stack_of_def)
qed

end

interpretation program_rest: machine_maker "NewClassObject env" for env
proof unfold_locales
  fix t
  show "keeps (rest_ok t) (NewClassObject env)"
    unfolding NewClassObject_def by (intro keeps_rules)
qed

interpretation constructed_rest: machine_maker construct_class
  by unfold_locales (auto simp: keeps_def construct_class_def rest_ok_def)

section \<open>Instructions\<close>

text \<open>Reading and writing the operand stack and the local variables of a frame.\<close>

lemma keeps_operands [keeps_rules]:
  assumes "\<And>c. keeps (os_inv c) m"
  shows "keeps machine_ok (operands p m)"
  unfolding operands_def by (intro keeps_in_frame keeps_on_operands assms)

lemma SetSlot_length: "LocalVars_SetSlot i v s = Inr (u, t) \<Longrightarrow> length t = length s"
  by (auto simp: LocalVars_SetSlot_def Slots_SetSlot_def vec_set_def split: if_splits sum.splits)

lemma keeps_local_vars [keeps_rules]:
  "keeps machine_ok (locals p (LocalVars_GetInt i))" "keeps machine_ok (locals p (LocalVars_GetFloat i))"
  "keeps machine_ok (locals p (LocalVars_GetLong i))" "keeps machine_ok (locals p (LocalVars_GetDouble i))"
  "keeps machine_ok (locals p (LocalVars_GetRef i))" "keeps machine_ok (locals p LocalVars_GetThis)"
  "keeps machine_ok (locals p (LocalVars_SetSlot i v))" "keeps machine_ok (locals p (LocalVars_SetRef i w))"
  unfolding locals_def LocalVars_GetThis_def
  by (rule keeps_in_frame, rule keeps_on_locals, erule local_gets_length local_sets_length SetSlot_length)+

lemma keeps_frame_reads [keeps_rules]: "keeps machine_ok (in_frame p (reads f))"
  by (rule keeps_in_frame) (rule keeps_reads)

lemma keeps_frame_pc [keeps_rules]: "keeps machine_ok (in_frame p (modifies (SetNextPc pc)))"
  "keeps machine_ok (in_frame p (modifies (RevertNextPc t)))"
  by (rule keeps_in_frame, rule keeps_modifies,
      auto simp: frame_of_def frame_wf_def SetNextPc_def RevertNextPc_def)+

lemma keeps_Clear [keeps_rules]: "keeps (os_inv c) (modifies Clear)"
  by (rule keeps_modifies) (auto simp: os_inv_def os_wf_def Clear_def)

lemma keeps_GetRefFromTop [keeps_rules]: "keeps (os_inv c) (GetRefFromTop n)"
  by (auto simp: keeps_def GetRefFromTop_def on_slots_def zoom_def split: if_splits sum.splits dest: slots_get_same)

lemma keeps_frame_inst: "exec_frame_inst pc i = Some m \<Longrightarrow> keeps machine_ok (in_frame p m)"
  by (intro keeps_in_frame keeps_exec_frame_inst)

lemma machine_Return: "keeps machine_ok (exec_return i)"
  by (cases i) (simp_all add: Return_def keeps_rules)

lemma machine_pass_args: "keeps machine_ok (pass_args p q n)"
  by (induction n) (simp_all add: keeps_rules)

lemma machine_InvokeMethod [keeps_rules]: "keeps machine_ok (InvokeMethod p m)"
  unfolding InvokeMethod_def by (intro keeps_rules machine_pass_args)

lemma machine_frame_access [keeps_rules]:
  "keeps machine_ok (frame_method p)" "keeps machine_ok (frame_class p)" "keeps machine_ok (revert_next_pc p)"
  unfolding frame_method_def frame_class_def revert_next_pc_def by (intro keeps_rules)+

lemma machine_constants [keeps_rules]:
  "keeps machine_ok (get_constant c i)" "keeps machine_ok (put_constant c i k)" "keeps machine_ok (check_access m c)"
  "keeps machine_ok (GetBootClassLoader)" "keeps machine_ok (assert_null env b)" "keeps machine_ok (read_field f)"
  "keeps machine_ok (read_method m')" "keeps machine_ok (ref_name c i)"
  unfolding get_constant_def put_constant_def check_access_def GetBootClassLoader_def assert_null_def read_field_def
    read_method_def ref_name_def
  by (intro keeps_rules machine_update; simp add: same_parents_def)+

lemma machine_discard [keeps_rules]: "keeps P m \<Longrightarrow> keeps P (discard m)"
  unfolding discard_def by (intro keeps_rules)

lemma machine_HackPrintln [keeps_rules]: "keeps machine_ok (HackPrintln m p)"
  unfolding HackPrintln_def by (intro keeps_rules)

text \<open>Initialisation of a class pushes frames.\<close>

lemma machine_init_class: "keeps machine_ok (init_class k c)"
proof (induction k arbitrary: c)
  case (Suc k)
  then show ?case
    unfolding init_class.simps StartClinit_def ScheduleClinit_def
    by (intro keeps_rules machine_update) (simp add: same_parents_def)
qed (simp add: keeps_raise)

lemma machine_InitClass [keeps_rules]: "keeps machine_ok (InitClass c)"
  using machine_init_class unfolding keeps_def InitClass_def by blast

lemma machine_objects [keeps_rules]:
  "keeps machine_ok (alloc_object env c n)" "keeps machine_ok (NewArray env c)" "keeps machine_ok (NewObject env c)"
  "keeps machine_ok (SetRefVar env r a b v)" "keeps machine_ok (GetRefByName env r a b)"
  unfolding alloc_object_def NewArray_def NewObject_def SetRefVar_def GetRefByName_def by (intro keeps_rules)+

lemma machine_HandleUncaught [keeps_rules]: "keeps machine_ok (HandleUncaughtException env ex)"
  unfolding HandleUncaughtException_def by (intro keeps_rules)

text \<open>What the instructions need of the loader.\<close>

locale machine_load =
  fixes load :: class_load
  assumes load_machine: "keeps machine_ok (load l n)"
begin

lemma machine_ResolveClass: "keeps machine_ok (ResolveClass load c i)"
  unfolding ResolveClass_def load_with_def by (intro keeps_rules load_machine)

lemma machine_resolve_member:
  "keeps machine_ok (ResolveField load c i)" "keeps machine_ok (ResolveMethod load c i)"
  "keeps machine_ok (ResolveInterfaceMethod load c i)"
  unfolding ResolveField_def ResolveMethod_def ResolveInterfaceMethod_def resolve_method_def
  by (intro keeps_rules machine_ResolveClass)+

lemma machine_arrays:
  "keeps machine_ok (GetComponentClass load c)" "keeps machine_ok (GetArrayClass load c)"
  "keeps machine_ok (GetPrimitiveArrayClass load t)"
  unfolding GetComponentClass_def GetArrayClass_def GetPrimitiveArrayClass_def load_with_def
  by (intro keeps_rules load_machine)+

lemma machine_assignable: "keeps machine_ok (assignable k load a b)"
proof (induction k arbitrary: a b)
  case (Suc k)
  then show ?case
    unfolding assignable.simps by (intro keeps_rules machine_arrays)
qed (simp add: keeps_raise)

lemma machine_types: "keeps machine_ok (IsInstanceOf env load r c)" "keeps machine_ok (NewJString env load str)"
  unfolding IsInstanceOf_def IsAssignableFrom_def NewJString_def
  by (intro keeps_rules machine_assignable load_machine)+

lemma machine_find_handler: "keeps machine_ok (find_handler load c hs k pc)"
  by (induction hs) (simp_all add: keeps_rules machine_ResolveClass split del: if_split)

lemma machine_unwind: "keeps machine_ok (unwind k env load ex)"
proof (induction k)
  case (Suc k)
  then show ?case
    unfolding unwind.simps FindExceptionHandler_def by (intro keeps_rules machine_find_handler)
qed (simp add: keeps_raise)

lemma machine_ATHROW: "keeps machine_ok (exec_ATHROW env load p)"
proof -
  have "keeps machine_ok (FindAndGotoExceptionHandler env load ex)" for ex
    using machine_unwind unfolding keeps_def FindAndGotoExceptionHandler_def by blast
  then show ?thesis
    unfolding exec_ATHROW_def by (intro keeps_rules)
qed

lemma machine_constant_uses:
  "keeps machine_ok (class_constant env b load c i)" "keeps machine_ok (field_constant env b load c i)"
  "keeps machine_ok (LoadConstant env load p i)" "keeps machine_ok (exec_LDC2_W i p)"
proof -
  show "keeps machine_ok (class_constant env b load c i)" "keeps machine_ok (field_constant env b load c i)"
    unfolding class_constant_def field_constant_def by (intro keeps_rules machine_ResolveClass machine_resolve_member)+
  show "keeps machine_ok (LoadConstant env load p i)" "keeps machine_ok (exec_LDC2_W i p)"
    unfolding LoadConstant_def exec_LDC2_W_def
    by (auto intro!: keeps_rules machine_ResolveClass machine_types split: option.split rt_constant.split)
qed

lemma machine_new_array:
  "keeps machine_ok (PopAndCheckCounts p n counts)" "keeps machine_ok (NewMultiDimensionalArray env load counts c)"
proof -
  show "keeps machine_ok (PopAndCheckCounts p n counts)"
    by (induction n arbitrary: counts) (auto intro!: keeps_rules)
  show "keeps machine_ok (NewMultiDimensionalArray env load counts c)"
    unfolding NewMultiDimensionalArray_def by (intro keeps_rules machine_arrays)
qed

lemma machine_reference: "keeps machine_ok (exec_reference env load p i)"
  unfolding exec_reference.simps
  by (cases i; simp only: exec_reference.simps exec_NEW_def exec_NEW_ARRAY_def exec_ANEW_ARRAY_def exec_ARRAY_LENGTH_def
    exec_MULTI_ANEW_ARRAY_def exec_PUT_STATIC_def exec_GET_STATIC_def exec_GET_FIELD_def exec_PUT_FIELD_def
    put_in_object_def exec_INSTANCE_OF_def exec_CHECK_CAST_def)
   (intro keeps_rules machine_ATHROW machine_constant_uses machine_arrays machine_new_array machine_types)+

lemma machine_native: "keeps machine_ok (run_native env load p m)"
proof -
  have init: "keeps machine_ok (native_Initialize env load p)"
    unfolding native_Initialize_def load_with_def by (intro keeps_rules load_machine machine_types)
  have copy: "keeps machine_ok (native_ArrayCopy env load p)" "keeps machine_ok (native_Clone env load p)"
    unfolding native_ArrayCopy_def CheckArrayCopy_def native_Clone_def load_with_def
    by (intro keeps_rules load_machine machine_arrays)+
  show ?thesis
    by (cases m; simp only: run_native.simps init copy native_GetClass_def native_HashCode_def native_GetPrimitiveClass_def
      native_DesiredAssertionStatus0_def native_DoubleToRawLongBits_def native_LongBitsToDouble_def
      native_FloatToRawIntBits_def native_Intern_def native_FillInStackTrace_def)
     (intro keeps_rules load_machine)+
qed

lemma machine_invoke: "keeps machine_ok (exec_invoke env load reg p i)"
proof -
  have found: "keeps machine_ok (invoke_found p t)" for t
    unfolding invoke_found_def by (intro keeps_rules)
  have access: "keeps machine_ok (illegal_access env m c r)" for m c r
    unfolding illegal_access_def by (intro keeps_rules)
  show ?thesis
    by (cases i; simp only: exec_invoke.simps exec_INVOKE_STATIC_def exec_INVOKE_SPECIAL_def exec_INVOKE_VIRTUAL_def
      exec_INVOKE_INTERFACE_def exec_INVOKE_NATIVE_def)
     (intro keeps_rules machine_resolve_member machine_ResolveClass found access machine_native)+
qed

text \<open>One instruction, one round.\<close>

lemma machine_exec_inst: "keeps machine_ok (exec_inst env load reg p i)"
  unfolding exec_inst_def
proof (rule keeps_bind [OF keeps_reads])
  fix t
  show "keeps machine_ok (case exec_frame_inst (GetPc t) i of Some m \<Rightarrow> in_frame p m
     | None \<Rightarrow> (case i of RetI r \<Rightarrow> exec_return r | RefI r \<Rightarrow> exec_reference env load p r
          | InvI r \<Rightarrow> exec_invoke env load reg p r | _ \<Rightarrow> ret ()))"
    by (auto simp: keeps_frame_inst machine_Return machine_reference machine_invoke keeps_ret
        split: option.split instruction.split)
qed

lemma machine_interpret_step: "keeps machine_ok (interpret_step env load reg)"
  unfolding interpret_step_def by (intro keeps_rules machine_exec_inst)

lemma machine_vm_steps: "vm_steps env load reg s t \<Longrightarrow> machine_ok s \<Longrightarrow> machine_ok t"
  by (induction rule: vm_steps.induct) (auto elim!: vm_stepE dest: keepsD [OF machine_interpret_step])

lemma machine_LoopExecute:
  assumes "LoopExecute env load reg s = Some (Inr t)" "machine_ok s"
  shows "machine_ok t \<and> stack_empty t"
proof -
  obtain u where "vm_steps env load reg s u" "final env load reg u (Inr t)"
    using assms(1) LoopExecute_iff by metis
  moreover from this(1) have "machine_ok u"
    using assms(2) by (rule machine_vm_steps)
  ultimately show ?thesis
    by (auto simp: final_def split: sum.splits prod.splits dest: keepsD [OF machine_interpret_step])
qed

end

text \<open>The loader of the program, and the one that makes class objects by their constructor.\<close>

interpretation program_load: machine_load "load_class env (NewClassObject env) k" for env k
  by unfold_locales (rule program_rest.machine_load)

interpretation constructed_load: machine_load "load_class env construct_class k" for env k
  by unfold_locales (rule constructed_rest.machine_load)

end
