(* ===== verification/Spec2Isabelle.thy ===== *)
theory Spec2Isabelle
  imports Class_File_Format Instruction_Format Vm_Frames_Spec Interpreter Class_Resolve_Spec Class_Init_Spec Vm_Exceptions_Spec Vm_Programs Vm_Calls Vm_Runs Vm_Invariant
begin

text \<open>
  \<^bold>\<open>A verification development for the Java virtual machine of \<open>src/src\<close>.\<close>

  \<^bold>\<open>The program.\<close> \<open>main.cpp\<close> reads the command line (\<open>command.cpp\<close>) and starts the virtual
  machine (\<open>jvm.cpp\<close>). Classes are found on the class path (\<open>classpath/\<close>), parsed
  (\<open>classfile/\<close>), turned into run-time classes with their constant pools, fields and methods
  (\<open>runtime/class_loader.cpp\<close>, \<open>runtime/oo/\<close>, \<open>runtime/constant_pool.cpp\<close>) and executed: the
  interpreter loop of \<open>jvm.cpp\<close> takes the current frame of the thread (\<open>runtime/thread.cpp\<close>,
  \<open>stack.cpp\<close>, \<open>frame.cpp\<close>), reads one instruction from the code of its method
  (\<open>instructions/base/bytecode_reader.h\<close>, \<open>instruction_factory.cpp\<close>), and executes it on the
  operand stack and the local variables of the frame (\<open>instructions/\<close>, \<open>runtime/operand_stack.cpp\<close>,
  \<open>local_vars.h\<close>, \<open>slots.h\<close>).

  \<^bold>\<open>Conventions.\<close> Definitions keep the names of the C++ functions. An operation that changes an object
  is a function from the old state to a value and the new state, or to one of the ways in which the
  program stops (\<open>vm_error\<close> and \<open>op\<close> in \<open>Jvm_Prelude\<close>): \<open>LOG(FATAL)\<close>, an uncaught exception,
  a failed assertion (the build keeps assertions), a null pointer, or a construct to which C++ gives
  no meaning. Integers are machine words of the width the code uses. Where the arithmetic instructions and conversions
  compute on signed numbers, a result that the type does not have is an error (\<open>signed_result\<close>), as are a shift by the width
  or more and the quotients without a value; a left shift of a negative number is that of the bits, as
  compilers define it. Sums of program counters, offsets and indexes are those of words. Floating-point numbers are
  bit patterns, with IEEE arithmetic in \<open>Ieee_Float\<close>; where an operation gives a NaN it is one
  fixed pattern, the sign and payload that the hardware would choose are not modelled. References are 64-bit addresses, 0 being the
  null pointer. Pointers to frames are addresses in the block of the stack.

  \<^bold>\<open>Theories.\<close>
  \<^item> \<open>Jvm_Prelude\<close>: errors, operations, total-correctness triples (\<open>valid\<close>, \<open>stops\<close>), invariants of
    operations (\<open>keeps\<close>, \<open>gives\<close>, with their rules in \<open>keeps_rules\<close>), vectors, \<open>size_t\<close> arithmetic, halves of 64-bit
    numbers.
  \<^item> \<open>Slots\<close>, \<open>Operand_Stack\<close>: slot arrays, local variables, the operand stack. The contracts
    \<open>typed_cell\<close> and \<open>typed_stack\<close> are interpreted for the five value types.
  \<^item> \<open>Class_File\<close>: the class-file parser. \<open>Class_File_Format\<close>: the format as a writer, the round
    trip, and that the nesting bound of the attribute parser is enough.
  \<^item> \<open>Bytecode_Reader\<close>, \<open>Instruction\<close>: the code cursor, the instruction objects, the opcode table,
    operand fetching. \<open>Instruction_Format\<close>: the encoding of instructions and its round trip.
  \<^item> \<open>Runtime_Constants\<close>, \<open>Method_Info\<close>: run-time constants, modified UTF-8, fields, methods,
    descriptors, the code of native methods.
  \<^item> \<open>Frame_Stack\<close>: frames in memory, the stack, threads; the contract \<open>lifo\<close> says that creating and
    popping frames refines a list of frames.
  \<^item> \<open>Ieee_Float\<close>, \<open>Frame_Insts\<close>: the instructions that work on one frame. \<open>Frame_Insts_Spec\<close>: what
    they compute over the abstract stack, and that they keep the frame well formed.
  \<^item> \<open>Class_Names\<close>, \<open>Class_Model\<close>: class objects in a table, lookup of methods and fields, subtype
    tests; over a table without cycles the loops return and decide the closures of the hierarchy.
  \<^item> \<open>Class_Layout\<close>: the slots of fields. \<open>Heap_Alloc\<close>: the spaces of the heap and allocation.
    \<open>Objects\<close>: fields of objects, arrays, the string pool. \<open>Class_Path\<close>: readers and the search for
    classes.
  \<^item> \<open>Class_Loader\<close>: the state of the whole machine (\<open>vm\<close>), the loaders, linking. \<open>Class_Loader_Spec\<close>: the
    contract \<open>class_maker\<close> of the function that makes class objects, the invariant \<open>loads_ok\<close> that
    every load keeps, and the loads that fail. The contract is interpreted for \<open>NewClassObject\<close> and for the
    constructor of \<open>Class\<close>.
  \<^item> \<open>Class_Resolve\<close>: resolution of constants, access checks, assignability, array classes,
    initialisation of classes, exception handlers. \<open>Class_Resolve_Spec\<close>: a load changes no class that exists (the
    contract \<open>conservative\<close>, interpreted for the loader), so that resolution happens once. \<open>Class_Init_Spec\<close>: which
    classes \<open>InitClass\<close> marks and which frames it pushes.
  \<^item> \<open>Vm_Frames\<close>: returns and the passing of arguments; \<open>Vm_Frames_Spec\<close>: what they do to the list
    of frames. \<open>Vm_References\<close>: the reference instructions and exceptions; \<open>Vm_Exceptions_Spec\<close>: which handler an
    exception reaches and which frames it leaves. \<open>Vm_Invoke\<close>: native methods and the invocation instructions.
  \<^item> \<open>Command_Line\<close>: options, the choice of \<open>main\<close>, the prefix of log lines. \<open>Interpreter\<close>: one round of the loop,
    the loop, the construction and the start of the machine, and \<open>main\<close>.
  \<^item> \<open>Vm_Programs\<close>: programs as lists of instructions (\<open>prog_step\<close>); the rounds of the interpreter follow their steps,
    and a return ends them; the loop runs forever, ends or stops with an error exactly when the program does
    (\<open>prog_endless\<close>, \<open>prog_returns\<close>, \<open>prog_fails\<close>). \<open>Vm_Calls\<close>: which method a call selects (\<open>call_target\<close>, the dispatch on the class of the
    receiver), and the round of a call and of a return. \<open>Vm_Runs\<close>: what methods compute with the calls they make (\<open>runs\<close>),
    for which the interpreter loop is shown to do the same. \<open>Vm_Invariant\<close>: the invariant \<open>machine_ok\<close> of the whole machine. Every
    instruction keeps it when the loader does (the contract \<open>machine_load\<close>), and the loader does when the function
    that makes class objects leaves thread and heap in order (\<open>machine_maker\<close>).
  \<^item> This theory: the properties.

  \<^bold>\<open>State.\<close> The record \<open>vm\<close> holds the table of classes (a class is its index), the heap, the objects by
  their addresses, the string pool, the caches of the three loaders, and the thread. What comes from outside is
  in \<open>env\<close> (class readers, \<open>realloc\<close>, the addresses of new objects and of class objects, whether the build keeps
  assertions) and in \<open>world\<close> (files, directories, archives, environment). Code that calls the loader
  gets it as the argument \<open>load\<close>, so that the mutual recursion of loading is written once, in \<open>load_class\<close>.

  \<^bold>\<open>Bounds.\<close> The recursion of the attribute parser has a bound; the property on its nesting bound shows that
  the size of the data is enough. The walks up the class hierarchy are bounded by the number of classes,
  which is enough when the hierarchy has no cycle; a walk that exceeds the bound in a table with a cycle
  would not end, and is an error. Nested loads have a bound that stands for the stack of the process. Unwinding is
  bounded by the number of bytes of the stack, more than it has frames. The interpreter loop is a partial
  function; \<open>Interpreter\<close> shows that it returns exactly after finitely many rounds, and the property on the fates of programs when
  it does so on the bytes of a program. All other loops are structural or have a termination
  proof. The position of the class-file parser is a natural number, so that the model describes files of less
  than \<open>2 ^ 31\<close> bytes.

  \<^bold>\<open>Not modelled.\<close> Vendored libraries (\<open>libs\<close>, \<open>tests/googletest\<close>), the text of log messages, memory release, and
  \<open>object_back.h\<close>, which no file includes. Several
  threads do not occur: the program makes one.
\<close>

section \<open>Sample data\<close>

text \<open>Concrete inputs for the instances of the properties.\<close>

definition sample_pool :: "constant_info list" where
  "sample_pool = [ConstantUtf8Info ''A'', ConstantClassInfo 1, ConstantUtf8Info ''Code'']"

definition sample_class :: class_file where
  "sample_class = \<lparr>cf_magic = 0xCAFEBABE, cf_minor_version = 0, cf_major_version = 52,
     cf_constant_pool = pool_of sample_pool, cf_access_flags = 0x21, cf_this_class = 2,
     cf_super_class = 0, cf_interfaces = [], cf_fields = [],
     cf_methods = [\<lparr>mi_access_flags = 9, mi_name_index = 1, mi_descriptor_index = 1,
       mi_attributes = [CodeAttributeInfo 1 1 [0xB1] [] []]\<rparr>], cf_attributes = []\<rparr>"

definition sample_method :: meth where
  "sample_method = \<lparr>cm_access_flags = 1, cm_name = ''f'', cm_descriptor = ''(IJ)V'', cm_class = 0,
     m_codes = None, m_max_stack = 4, m_max_locals = 4, m_arg_slot_count = 0,
     m_method_descriptor = \<lparr>md_parameter_types = [], md_return_type = []\<rparr>,
     m_exception_table = None, m_line_number_table = None\<rparr>"

primrec deep_frames :: "nat \<Rightarrow> frame list" where
  "deep_frames 0 = []"
| "deep_frames (Suc n) =
     Frame_new sample_method (if n = 0 then None else Some ((n - 1) * sizeof_Frame)) # deep_frames n"

definition deep_stack :: "nat \<Rightarrow> vm_stack" where
  "deep_stack n =
     \<lparr>st_base = 0, st_sp = n * sizeof_Frame, st_fp = (if n = 0 then None else Some ((n - 1) * sizeof_Frame)),
      st_max_size = 1024,
      st_mem = (\<lambda>a. Some (Frame_new sample_method (if a = 0 then None else Some (a - sizeof_Frame))))\<rparr>"

lemma length_deep_frames: "length (deep_frames n) = n"
  by (induction n) simp_all

lemma deep_frames_at: "frames_at (deep_stack k) (deep_frames n)"
proof (induction n)
  case (Suc n)
  then show ?case
    by (cases n) (auto simp: length_deep_frames deep_stack_def sizeof_Frame_def)
qed simp

lemma deep_stack_repr: "n * sizeof_Frame \<le> 1024 \<Longrightarrow> stack_repr (deep_stack n) (deep_frames n)"
  using deep_frames_at [of n n] by (cases n) (auto simp: stack_repr_def length_deep_frames deep_stack_def)

lemma sample_locals: "fr_local_vars (Frame_new sample_method None) = [0, 0, 0, 0]"
  by code_simp

lemma deep_stack_size: "st_max_size (deep_stack n) = 1024"
  by (simp add: deep_stack_def)

section \<open>Class files\<close>

text \<open>
  C1: parsing the bytes of a well-formed class file gives back that class file, whatever bytes
  follow. The class file may use every kind of attribute, nested code attributes included, and every
  kind of constant except the two with an eight-byte payload.
\<close>

theorem class_file_round_trip:
  assumes "wf_class_file ix cs cf"
  shows "Parse (emit_class_file ix cs cf @ rest) = Inr cf"
  using assms by (rule Parse_emit)

lemma sample_class_wf: "wf_class_file (\<lambda>_. 3) sample_pool sample_class"
  by (simp add: wf_class_file_def sample_class_def supported_version_def sample_pool_def wf_constant_def
    takes_two_entries_def wf_member_def pool_of_def GetUtf8_def GetConstantInfo_def vec_get_def)

theorem class_file_round_trip_witness:
  "Parse (emit_class_file (\<lambda>_. 3) sample_pool sample_class @ [1, 2, 3]) = Inr sample_class"
  by (rule class_file_round_trip [OF sample_class_wf])

text \<open>
  A constant with an eight-byte payload (a \<open>long\<close> or a \<open>double\<close>) cannot be read: on every
  data and from every position its parser has no defined result, because it shifts a 32-bit number
  by 56 places.
\<close>

theorem eight_byte_constants_undefined:
  "\<exists>m m'. ParseLongInfo data pos = Inl (Undefined m) \<and> ParseDoubleInfo data pos = Inl (Undefined m')"
  using parse_u8_undefined [of data pos] by (auto simp: ParseLongInfo_def ParseDoubleInfo_def bind_def)




text \<open>
  The parser never accepts a file whose first four bytes are not \<open>0xCAFEBABE\<close>, nor one of an
  unsupported version: on such a file it stops with the fatal error of the check.
\<close>

theorem parse_rejects_bad_header:
  assumes "magic \<noteq> 0xCAFEBABE \<or> \<not> supported_version minor major"
  shows "\<exists>m. Parse (emit_u4 magic @ emit_u2 minor @ emit_u2 major @ rest) = Inl (Fatal m)"
proof (cases "magic = 0xCAFEBABE")
  case True
  with assms have bad: "\<not> supported_version minor major"
    by simp
  let ?data = "emit_u4 magic @ emit_u2 minor @ emit_u2 major @ rest"
  have "ParseAndCheckMagic ?data 0 = Inr (magic, 4)"
    using parsesD [OF parses_magic, of "[]" "emit_u2 minor @ emit_u2 major @ rest"] True by simp
  moreover have "ParseAndCheckVersion ?data 4 = Inl (Fatal ''java.lang.UnsupportedClassVersionError'')"
    using bad_version [OF bad, of "emit_u4 magic" rest] by simp
  ultimately show ?thesis
    by (simp add: Parse_def bind_def)
next
  case False
  then have "ParseAndCheckMagic (emit_u4 magic @ emit_u2 minor @ emit_u2 major @ rest) 0 =
      Inl (Fatal ''Magic number wrong'')"
    using parsesD [OF parses_u4 [of magic], of "[]" "emit_u2 minor @ emit_u2 major @ rest"]
    by (simp add: ParseAndCheckMagic_def bind_def raise_def)
  then show ?thesis
    by (simp add: Parse_def bind_def)
qed

theorem parse_rejects_bad_header_witness:
  "\<exists>m. Parse (emit_u4 0xCAFEBABE @ emit_u2 0 @ emit_u2 53 @ []) = Inl (Fatal m)"
  by (rule parse_rejects_bad_header) (simp add: supported_version_def)

section \<open>Run-time constants, descriptors, methods\<close>

text \<open>
  C25: decoding modified UTF-8 inverts its encoding, for every sequence of 16-bit units (zero
  and unpaired surrogates included).
\<close>

theorem mutf8_round_trip: "DecodeMutf8 (concat (map encode_unit us)) = Inr us"
  by (simp add: DecodeMutf8_loop decode_loop_encode)

text \<open>
  C27: when the constructor of the run-time pool returns, the pool has one entry for every entry of
  the class file, each holding the constant made from it, and an empty one after each entry that takes
  two places.
\<close>

theorem runtime_pool_entries:
  assumes "pool_wf cf" and "ConstantPool_new cf = Inr p"
  shows "length p = unat (cp_count cf) \<and>
    (\<forall>j. 1 \<le> j \<longrightarrow> j < unat (cp_count cf) \<longrightarrow> expected cf j = Inr (p ! j))"
  using assms ConstantPool_loop_entries [of cf 1 "replicate (unat (cp_count cf)) None" p]
  by (simp add: ConstantPool_new_def)

lemma pool_wf_pool_of:
  assumes "list_all wf_constant cs" and "length cs + 1 < 2 ^ 16"
  shows "pool_wf (pool_of cs)"
proof -
  have "\<not> takes_two_entries c" if "(None # map Some cs) ! j = Some c" "j < length cs + 1" for j c
    using that assms(1) by (cases j) (auto simp: list_all_iff wf_constant_def)
  moreover have "unat (of_nat (length cs + 1) :: u2) = length cs + 1"
    using assms(2) by (subst unat_of_nat) simp
  ultimately show ?thesis
    by (auto simp: pool_wf_def pool_of_def simp del: of_nat_add of_nat_Suc)
qed

lemma sample_runtime_pool:
  "ConstantPool_new (pool_of sample_pool) = Inr [None, None, Some (ClassRefConstant ''A'' None), None]"
  by code_simp

lemma sample_pool_count: "unat (cp_count (pool_of sample_pool)) = 4"
  by code_simp

theorem runtime_pool_entries_witness:
  "expected (pool_of sample_pool) 2 = Inr (Some (ClassRefConstant ''A'' None))"
proof -
  have "pool_wf (pool_of sample_pool)"
    by (rule pool_wf_pool_of) (simp_all add: sample_pool_def wf_constant_def takes_two_entries_def)
  from runtime_pool_entries [OF this sample_runtime_pool] show ?thesis
    by (simp add: sample_pool_count)
qed

text \<open>
  C28: every entry of the run-time pool has the type of the entry of the class file it was made from, except that a
  string has the type of UTF-8 text and a reference to an interface method that of a method reference; entries that
  only others refer to, and the second places of longs and doubles, are empty.
\<close>

theorem constant_types:
  assumes "pool_wf cf" and "ConstantPool_new cf = Inr p" and "1 \<le> j" and "j < unat (cp_count cf)"
  shows "map_option GetConstantType (p ! j) = Option.bind (cp_infos cf ! j) rt_type"
proof -
  have "expected cf j = Inr (p ! j)"
    using ConstantPool_loop_entries [of cf 1 "replicate (unat (cp_count cf)) None" p] assms
    by (simp add: ConstantPool_new_def)
  then show ?thesis
    using make_constant_type by (cases "cp_infos cf ! j") (auto simp: expected_def)
qed

theorem constant_types_witness:
  "map_option GetConstantType ([None, None, Some (ClassRefConstant ''A'' None), None] ! 2) =
     Option.bind (cp_infos (pool_of sample_pool) ! 2) rt_type"
proof -
  have "pool_wf (pool_of sample_pool)"
    by (rule pool_wf_pool_of) (simp_all add: sample_pool_def wf_constant_def takes_two_entries_def)
  then show ?thesis
    using sample_runtime_pool by (rule constant_types) (simp_all add: sample_pool_count)
qed

text \<open>
  C32: the descriptor of a method is split into its parameter types and its return type; an array
  type of any dimension comes out with one bracket.
\<close>

theorem method_descriptor_round_trip:
  assumes "list_all wf_type ps"
  shows "ParseMethodDescriptor (print_method_type ps r) =
    Inr \<lparr>md_parameter_types = map parsed_type ps, md_return_type = r\<rparr>"
  using assms by (rule ParseMethodDescriptor_print)

theorem method_descriptor_round_trip_witness:
  "ParseMethodDescriptor ''(ILA;[[J)V'' =
     Inr \<lparr>md_parameter_types = [''I'', ''LA;'', ''[J''], md_return_type = ''V''\<rparr>"
  using method_descriptor_round_trip [of "[Prim CHR ''I'', Ref ''A'', Arr (Arr (Prim CHR ''J''))]" "''V''"]
  by (simp add: print_method_type_def parsed_type_def)

text \<open>
  C34: \<open>CalcArgSlotCount\<close> counts two slots for each \<open>long\<close> and \<open>double\<close> parameter, one for every
  other, and one more for the receiver of an instance method (modulo the width of the counter).
\<close>

theorem argument_slots:
  assumes "list_all wf_type ts" and "m_arg_slot_count m = 0"
  shows "m_arg_slot_count (CalcArgSlotCount (map parsed_type ts) m) =
    of_nat (sum_list (map width ts) + (if IsStatic m then 0 else 1))"
  using assms count_params_widths [of ts 0] by (simp add: CalcArgSlotCount_def)

theorem argument_slots_witness: "m_arg_slot_count (CalcArgSlotCount [''I'', ''J''] sample_method) = 4"
  using argument_slots [of "[Prim CHR ''I'', Prim CHR ''J'']" sample_method]
  by (simp add: sample_method_def parsed_type_def width_def IsStatic_def has_flag_def)

text \<open>
  The code given to a native method ends with the native call and the return instruction for its
  return type, whenever the first character of that type is one of the eleven a type can start with.
\<close>

theorem native_method_code:
  assumes "m_codes m = Some codes" and "return_opcode (char0 r) = Some opc"
  shows "m_codes (InjectCodeAttribute r m) = Some (codes @ [0xFE, opc]) \<and>
    CreateInstruction 0xFE = Some (InvI INVOKE_NATIVE) \<and>
    CreateInstruction opc \<in> Some ` RetI ` {RETURN, ARETURN, DRETURN, FRETURN, LRETURN, IRETURN}"
proof -
  have "(0xAC, RetI IRETURN) \<in> set opcode_table" "(0xAD, RetI LRETURN) \<in> set opcode_table"
    "(0xAE, RetI FRETURN) \<in> set opcode_table" "(0xAF, RetI DRETURN) \<in> set opcode_table"
    "(0xB0, RetI ARETURN) \<in> set opcode_table" "(0xB1, RetI RETURN) \<in> set opcode_table"
    "(0xFE, InvI INVOKE_NATIVE) \<in> set opcode_table"
    by (simp_all add: opcode_table_def control_table_def extend_table_def)
  then have "CreateInstruction 0xAC = Some (RetI IRETURN)" "CreateInstruction 0xAD = Some (RetI LRETURN)"
    "CreateInstruction 0xAE = Some (RetI FRETURN)" "CreateInstruction 0xAF = Some (RetI DRETURN)"
    "CreateInstruction 0xB0 = Some (RetI ARETURN)" "CreateInstruction 0xB1 = Some (RetI RETURN)"
    "CreateInstruction 0xFE = Some (InvI INVOKE_NATIVE)"
    by (simp_all add: CreateInstruction_iff)
  with assms show ?thesis
    by (auto simp: InjectCodeAttribute_def return_opcode_def Let_def split: if_splits)
qed

theorem native_method_code_witness:
  "m_codes (InjectCodeAttribute ''I'' (sample_method\<lparr>m_codes := Some [0, 0]\<rparr>)) = Some [0, 0, 0xFE, 0xAC]"
  using native_method_code [of "sample_method\<lparr>m_codes := Some [0, 0]\<rparr>" "[0, 0]" "''I''" "0xAC"]
  by (simp add: return_opcode_def char0_def)

section \<open>Bytecode\<close>

text \<open>
  C2: fetching instructions from the encoding of a list of instructions, at any place of the code,
  returns exactly that list and leaves the cursor behind it; the padding of the two switches is
  written and skipped consistently.
\<close>

theorem instruction_stream_round_trip:
  assumes "list_all wf_instruction is" and "length (pre @ encode_all (length pre) is @ post) < 2 ^ 31"
  shows "repeat_op (length is) fetch_instruction
      \<lparr>br_code = pre @ encode_all (length pre) is @ post, br_pc = of_nat (length pre)\<rparr> =
    Inr (is, \<lparr>br_code = pre @ encode_all (length pre) is @ post,
      br_pc = of_nat (length pre + length (encode_all (length pre) is))\<rparr>)"
  using reads_atD [OF fetch_encode_all [OF assms(1)] assms(2)] .

lemma sample_code:
  "opcode_of (ConstI (BIPUSH 7)) = Some 0x10" "opcode_of (CtrlI (LOOKUP_SWITCH 9 1 [5, 6])) = Some 0xAB"
  by code_simp+

theorem instruction_stream_round_trip_witness:
  "repeat_op (length [ConstI (BIPUSH 7), CtrlI (LOOKUP_SWITCH 9 1 [5, 6])]) fetch_instruction
      \<lparr>br_code = [0] @ encode_all (length [0 :: u1]) [ConstI (BIPUSH 7), CtrlI (LOOKUP_SWITCH 9 1 [5, 6])] @ [1],
       br_pc = of_nat (length [0 :: u1])\<rparr> =
    Inr ([ConstI (BIPUSH 7), CtrlI (LOOKUP_SWITCH 9 1 [5, 6])],
      \<lparr>br_code = [0] @ encode_all (length [0 :: u1]) [ConstI (BIPUSH 7), CtrlI (LOOKUP_SWITCH 9 1 [5, 6])] @ [1],
       br_pc = of_nat (length [0 :: u1] +
         length (encode_all (length [0 :: u1]) [ConstI (BIPUSH 7), CtrlI (LOOKUP_SWITCH 9 1 [5, 6])]))\<rparr>)"
  by (rule instruction_stream_round_trip)
    (simp_all add: wf_instruction_def sample_code encode_inst_def padding_def)

text \<open>
  C36: the factory has no instruction for exactly these opcodes: \<open>jsr\<close>, \<open>jsr_w\<close>, \<open>ret\<close>,
  \<open>invokedynamic\<close>, the two monitor instructions, and the unassigned ones; fetching one of them is
  fatal.
\<close>

theorem unsupported_opcodes:
  assumes "length (pre @ op # post) < 2 ^ 31"
  shows "(CreateInstruction op = None) =
      (unat op \<in> {0xA8, 0xA9, 0xBA, 0xC2, 0xC3, 0xFF} \<or> 0xC9 \<le> unat op \<and> unat op \<le> 0xFD) \<and>
    (CreateInstruction op = None \<longrightarrow>
      fetch_instruction \<lparr>br_code = pre @ op # post, br_pc = of_nat (length pre)\<rparr> =
        Inl (Fatal ''Unsupported OpCode''))"
  using fetch_unsupported [OF _ assms] CreateInstruction_None [of op] by (simp add: unsupported_def)

theorem unsupported_opcodes_witness:
  "fetch_instruction \<lparr>br_code = [0, 0xBA, 0], br_pc = 1\<rparr> = Inl (Fatal ''Unsupported OpCode'')"
  using unsupported_opcodes [of "[0]" "0xBA" "[0]"] by simp

text \<open>
  No two opcodes make the same instruction object, so that the instruction determines the
  opcode it came from.
\<close>

theorem opcodes_injective: "inj_on CreateInstruction {op. CreateInstruction op \<noteq> None}"
  by (rule inj_onI) (auto intro: CreateInstruction_inj)

text \<open>
  The padding before a switch's operands is skipped to the next multiple of four, by fewer than
  four bytes, when the code is long enough; the loop ends for every cursor.
\<close>

theorem switch_padding:
  assumes "unat (br_pc r) + 3 \<le> length (br_code r)" and "length (br_code r) < 2 ^ 31"
  shows "\<exists>k < 4. skipPadding r = Inr ((), r\<lparr>br_pc := br_pc r + of_nat k\<rparr>) \<and> (unat (br_pc r) + k) mod 4 = 0"
proof -
  let ?k = "(4 - unat (br_pc r) mod 4) mod 4"
  have k: "?k < 4" by simp
  then have "skipPadding r = Inr ((), r\<lparr>br_pc := br_pc r + of_nat ?k\<rparr>)"
    using assms by (intro skipPadding_moves) linarith+
  moreover have "(unat (br_pc r) + ?k) mod 4 = 0"
    by (rule padding_aligns)
  ultimately show ?thesis
    using k by (intro exI [of _ ?k] conjI)
qed

theorem switch_padding_witness:
  "\<exists>k < 4. skipPadding \<lparr>br_code = [1, 2, 3, 4, 5], br_pc = 1\<rparr> = Inr ((), \<lparr>br_code = [1, 2, 3, 4, 5], br_pc = 1 + of_nat k\<rparr>)
     \<and> (1 + k) mod 4 = 0"
  using switch_padding [of "\<lparr>br_code = [1, 2, 3, 4, 5], br_pc = 1\<rparr>"] by simp

section \<open>Slots, operand stacks, local variables\<close>

text \<open>
  A value written to a slot array is read back by the accessor of its type, and the slots it
  does not occupy keep their values, for the five typed pairs of accessors.
\<close>

theorem slots_set_get:
  assumes "unat i + 2 \<le> length s"
  shows "bind (Slots_SetInt i v) (\<lambda>_. Slots_GetInt i) s = Inr (v, splice s (unat i) [v]) \<and>
    bind (Slots_SetFloat i v) (\<lambda>_. Slots_GetFloat i) s = Inr (v, splice s (unat i) [v]) \<and>
    bind (Slots_SetLong i w) (\<lambda>_. Slots_GetLong i) s = Inr (w, splice s (unat i) [lo32 w, hi32 w]) \<and>
    bind (Slots_SetDouble i w) (\<lambda>_. Slots_GetDouble i) s = Inr (w, splice s (unat i) [lo32 w, hi32 w]) \<and>
    bind (Slots_SetRef i w) (\<lambda>_. Slots_GetRef i) s = Inr (w, splice s (unat i) [lo32 w, hi32 w])"
  using int_cell.get_set_same [of i s v] float_cell.get_set_same [of i s v]
    long_cell.get_set_same [of i s w] double_cell.get_set_same [of i s w] ref_cell.get_set_same [of i s w] assms
  by (simp add: enc1_def enc2_def)

theorem slots_set_get_witness:
  "bind (Slots_SetLong 1 0x100000002) (\<lambda>_. Slots_GetLong 1) [7, 7, 7, 7] = Inr (0x100000002, [7, 2, 1, 7])"
proof -
  have "lo32 0x100000002 = 2" "hi32 0x100000002 = 1"
    by code_simp+
  then show ?thesis
    using slots_set_get [of 1 "[7, 7, 7, 7]" 0 "0x100000002"] by (simp add: splice_def)
qed

text \<open>
  Pushing a value of one of the five types and popping it again returns the value and restores
  the stack, on every well-formed stack with room for it.
\<close>

theorem operand_stack_push_pop:
  assumes "length xs + 2 \<le> c"
  shows "valid (stk xs c) (bind (PushInt v) (\<lambda>_. PopInt)) (\<lambda>r t. r = v \<and> stk xs c t) \<and>
    valid (stk xs c) (bind (PushFloat v) (\<lambda>_. PopFloat)) (\<lambda>r t. r = v \<and> stk xs c t) \<and>
    valid (stk xs c) (bind (PushLong w) (\<lambda>_. PopLong)) (\<lambda>r t. r = w \<and> stk xs c t) \<and>
    valid (stk xs c) (bind (PushDouble w) (\<lambda>_. PopDouble)) (\<lambda>r t. r = w \<and> stk xs c t) \<and>
    valid (stk xs c) (bind (PushRef w) (\<lambda>_. PopRef)) (\<lambda>r t. r = w \<and> stk xs c t)"
  using int_stack.push_pop [of xs c v] float_stack.push_pop [of xs c v] long_stack.push_pop [of xs c w]
    double_stack.push_pop [of xs c w] ref_stack.push_pop [of xs c w] assms by simp

theorem operand_stack_push_pop_witness:
  "\<exists>t. bind (PushRef 5) (\<lambda>_. PopRef) (OperandStack_new 3) = Inr (5, t) \<and> stk [] 3 t"
  using operand_stack_push_pop [of "[]" 3 0 5] stk_new [of 3] by (fastforce simp: valid_def)

text \<open>
  C8: every stack instruction (\<open>pop\<close>, the six \<open>dup\<close> forms, \<open>swap\<close>) permutes the slots as its
  abstract effect on the list of slots says, as long as the stack is not full and has room for the
  result.
\<close>

theorem stack_instruction_refinement:
  assumes "stack_effect i ys = Some zs" and "length ys < c" and "length zs \<le> c"
  shows "valid (tstk ys c) (exec_stack i) (\<lambda>_. tstk zs c)"
  using assms by (rule exec_stack_effect)

theorem stack_instruction_refinement_witness:
  "valid (tstk [1, 2, 3] 5) (exec_stack DUP2_X1) (\<lambda>_. tstk [1, 2, 3, 1, 2] 5)"
  by (rule stack_instruction_refinement) simp_all

text \<open>
  C33: a stack instruction stops with a fatal error when it lacks operands, and also on every full
  stack, whatever it would do there: the bound that \<open>PopSlot\<close> tests is that of a two-slot read.
\<close>

theorem stack_instruction_errors:
  assumes "length ys = c \<or> stack_effect i ys = None \<and> length ys < c"
  shows "stops (tstk ys c) (exec_stack i) (\<lambda>e. \<exists>m. e = Fatal m)"
  using assms exec_stack_full exec_stack_underflow by blast

theorem stack_instruction_errors_witness:
  "stops (tstk [1, 2] 2) (exec_stack SWAP) (\<lambda>e. \<exists>m. e = Fatal m)"
  by (rule stack_instruction_errors) simp

text \<open>
  C23: storing the value on top of the operand stack in a local variable and loading it again restores
  the operand stack; only the slots of that local variable change, and only in the store.
\<close>

theorem store_then_load:
  assumes "t \<in> {Int32, Int64, Float, Double, ObjectPtr}" and "unat i + twidth t \<le> length (fr_local_vars f)"
    and "length ys = twidth t" and "length xs + twidth t \<le> c"
  shows "valid (frame_stk f (xs @ ys) c) (bind (Store t i) (\<lambda>_. Load t i))
    (\<lambda>_. frame_stk (f\<lparr>fr_local_vars := splice (fr_local_vars f) (unat i) ys\<rparr>) (xs @ ys) c)"
  using assms by (intro Store_Load) (simp_all add: slot_type_def)

theorem store_then_load_witness:
  "valid (frame_stk (Frame_new sample_method None) ([9] @ [1, 2]) 4) (bind (Store Int64 1) (\<lambda>_. Load Int64 1))
    (\<lambda>_. frame_stk (Frame_new sample_method None \<lparr>fr_local_vars := [0, 1, 2, 0]\<rparr>) ([9] @ [1, 2]) 4)"
  using store_then_load [of Int64 1 "Frame_new sample_method None" "[1, 2]" "[9]" 4]
  by (simp add: sample_locals splice_def)

section \<open>Instructions on one frame\<close>

text \<open>
  C7: every instruction that works on one frame keeps the frame well formed: the operand stack
  stays within the capacity given by the method, and both slot arrays keep their sizes.
\<close>

theorem frame_instructions_keep_wf:
  assumes "frame_wf f" and "exec_frame_inst pc i = Some m" and "m f = Inr (u, g)"
  shows "frame_wf g"
  using keepsD [OF keeps_exec_frame_inst [OF assms(2)], of f f] assms(1,3) by (simp add: frame_ofD)

theorem frame_instructions_keep_wf_witness:
  "\<exists>g. on_operands (exec_const ICONST_3) (Frame_new sample_method None) = Inr ((), g) \<and> frame_wf g"
  using frame_instructions_keep_wf [OF frame_wf_new, of 0 "ConstI ICONST_3" "on_operands (exec_const ICONST_3)" sample_method None "()"]
  by (simp add: on_operands_def zoom_def PushInt_def top_tests OperandStack_new_def Frame_new_def sample_method_def
    on_slots_def slots_defs Slots_new_def op_simps move_top_def)

text \<open>
  C22: a binary arithmetic or logical instruction takes the two operands off the stack and leaves the
  value of its operation on them, the operand below as the left one; where the operation has no value,
  the instruction stops with the error of the operation.
\<close>

theorem arithmetic_result:
  assumes "arith_op i = Some (t, op)" and "vtype a = t" and "vtype b = t"
  shows "(\<forall>v. op a b = Inr v \<longrightarrow> length xs + twidth (vtype v) \<le> c \<longrightarrow>
      valid (frame_stk f (xs @ enc_val a @ enc_val b) c) (exec_arithmetic i) (\<lambda>_. frame_stk f (xs @ enc_val v) c))
    \<and> (\<forall>e. op a b = Inl e \<longrightarrow>
      stops (frame_stk f (xs @ enc_val a @ enc_val b) c) (exec_arithmetic i) (\<lambda>x. x = e))"
  using exec_arith_result [OF assms] exec_arith_stops [OF assms] by blast

theorem arithmetic_result_witness:
  "valid (frame_stk (Frame_new sample_method None) [9, 4] 4) (exec_arithmetic (SUB Int32))
    (\<lambda>_. frame_stk (Frame_new sample_method None) [5] 4)"
  using arithmetic_result [of "SUB Int32" Int32 val_sub "VInt 9" "VInt 4" "[]" 4 "Frame_new sample_method None"]
  by (simp add: enc1_def signed_result_def)

text \<open>
  C26: integer division and remainder, for \<open>int\<close> and \<open>long\<close>. The divisor is on top. With the divisor zero both
  instructions are fatal, and with the least number and -1 neither has a meaning. Otherwise they take both
  operands off the stack and leave the quotient and the remainder of truncating division: the quotient times the divisor plus
  the remainder is the dividend, and the remainder is smaller than the divisor and has the sign of the dividend.
\<close>

theorem division_truncates:
  assumes "vtype a = t" and "vtype b = t" and "t \<in> {Int32, Int64}" and "length xs + twidth t \<le> c"
  shows "let operands_on = frame_stk f (xs @ enc_val a @ enc_val b) c in
    if int_value b = 0 then
      stops operands_on (exec_arithmetic (DIV t)) (\<lambda>e. e = Fatal ''ArithmeticException'') \<and>
      stops operands_on (exec_arithmetic (IREM t)) (\<lambda>e. e = Fatal ''ArithmeticException'')
    else if int_value a = least_value t \<and> int_value b = -1 then
      stops operands_on (exec_arithmetic (DIV t)) (\<lambda>e. e = Undefined ''signed overflow'') \<and>
      stops operands_on (exec_arithmetic (IREM t)) (\<lambda>e. e = Undefined ''signed overflow'')
    else \<exists>q r. vtype q = t \<and> vtype r = t \<and> int_value q * int_value b + int_value r = int_value a \<and>
      \<bar>int_value r\<bar> < \<bar>int_value b\<bar> \<and> (int_value r = 0 \<or> sgn (int_value r) = sgn (int_value a)) \<and>
      valid operands_on (exec_arithmetic (DIV t)) (\<lambda>_. frame_stk f (xs @ enc_val q) c) \<and>
      valid operands_on (exec_arithmetic (IREM t)) (\<lambda>_. frame_stk f (xs @ enc_val r) c)"
proof -
  let ?on = "frame_stk f (xs @ enc_val a @ enc_val b) c"
  have stop: "stops ?on (exec_arithmetic (DIV t)) (\<lambda>x. x = e) \<and>
      stops ?on (exec_arithmetic (IREM t)) (\<lambda>x. x = e)" if "val_div a b = Inl e \<and> val_irem a b = Inl e" for e
    using that exec_arith_stops [of "DIV t" t val_div a b e f xs c] exec_arith_stops [of "IREM t" t val_irem a b e f xs c]
      assms(1,2) by simp
  have result: "valid ?on (exec_arithmetic (DIV t)) (\<lambda>_. frame_stk f (xs @ enc_val q) c)"
    "valid ?on (exec_arithmetic (IREM t)) (\<lambda>_. frame_stk f (xs @ enc_val r) c)"
    if "val_div a b = Inr q" "val_irem a b = Inr r" "vtype q = t" "vtype r = t" for q r
    using that exec_arith_result [of "DIV t" t val_div a b q xs c f] exec_arith_result [of "IREM t" t val_irem a b r xs c f]
      assms(1,2,4) by simp_all
  consider "int_value b = 0" | "int_value b \<noteq> 0" "int_value a = least_value t \<and> int_value b = -1"
    | "int_value b \<noteq> 0" "\<not> (int_value a = least_value t \<and> int_value b = -1)"
    by blast
  then show ?thesis
  proof cases
    case 1
    then show ?thesis
      using stop [OF val_div_zero [OF assms(1-3)]] by simp
  next
    case 2
    then show ?thesis
      using stop [OF val_div_least [OF assms(1-3)]] by simp
  next
    case 3
    then show ?thesis
      unfolding Let_def if_not_P [OF 3(1)] if_not_P [OF 3(2)] using val_div_rem [OF assms(1-3) 3] result by blast
  qed
qed

theorem division_truncates_witness:
  "valid (frame_stk (Frame_new sample_method None) [-7, 2] 4) (exec_arithmetic (DIV Int32))
    (\<lambda>_. frame_stk (Frame_new sample_method None) [-3] 4)"
proof -
  let ?f = "Frame_new sample_method None"
  obtain q r where q: "vtype q = Int32" "vtype r = Int32" "int_value q * 2 + int_value r = -7" "\<bar>int_value r\<bar> < 2"
    "int_value r = 0 \<or> sgn (int_value r) = -1"
    "valid (frame_stk ?f ([] @ enc_val (VInt (-7)) @ enc_val (VInt 2)) 4) (exec_arithmetic (DIV Int32))
      (\<lambda>_. frame_stk ?f ([] @ enc_val q) 4)"
    using division_truncates [of "VInt (-7)" Int32 "VInt 2" "[]" 4 ?f]
    by (auto simp: Let_def simp del: exec_arithmetic.simps)
  then have "int_value q = -3"
    by (auto simp: sgn_if split: if_splits)
  moreover obtain w where "q = VInt w"
    using q(1) by (cases q) auto
  ultimately have "q = VInt (-3)"
    by (simp add: signed_word_eqI)
  with q(6) show ?thesis
    by (simp add: enc1_def)
qed

text \<open>
  Each of the six conditional branches on one \<open>int\<close> takes it off the stack and moves the
  program counter by its offset exactly when the signed number satisfies the condition.
\<close>

theorem branch_on_int:
  assumes "cond1 i = Some (off, p)"
  shows "valid (frame_stk f (xs @ [v]) c) (exec_compare pc i)
    (\<lambda>_. frame_stk (if p (sint v) then f\<lparr>fr_next_pc := pc + off\<rparr> else f) xs c)"
  using exec_cond1 [OF assms, of f xs v c pc] unfolding enc1_def after_branch_def SetNextPc_def .

theorem branch_on_int_witness:
  "valid (frame_stk (Frame_new sample_method None) ([] @ [-1]) 4) (exec_compare 10 (IFLT 5))
    (\<lambda>_. frame_stk (if sint (-1 :: 32 word) < 0 then Frame_new sample_method None \<lparr>fr_next_pc := 10 + 5\<rparr>
      else Frame_new sample_method None) [] 4)"
  by (rule branch_on_int) simp

text \<open>
  C24: each of the six conditional branches on two \<open>int\<close>s compares them as signed numbers, the lower
  one on the left.
\<close>

theorem branch_on_two_ints:
  assumes "cond2 i = Some (off, p)"
  shows "valid (frame_stk f (xs @ [a, b]) c) (exec_compare pc i)
    (\<lambda>_. frame_stk (if p (sint a) (sint b) then f\<lparr>fr_next_pc := pc + off\<rparr> else f) xs c)"
  using exec_cond2 [OF assms, of f xs a b c pc] unfolding enc1_def after_branch_def SetNextPc_def append_Cons append_Nil .

theorem branch_on_two_ints_witness:
  "valid (frame_stk (Frame_new sample_method None) ([] @ [2, 3]) 4) (exec_compare 10 (IF_ICMPLT (-5)))
    (\<lambda>_. frame_stk (if sint (2 :: 32 word) < sint (3 :: 32 word) then Frame_new sample_method None \<lparr>fr_next_pc := 10 + -5\<rparr>
      else Frame_new sample_method None) [] 4)"
  by (rule branch_on_two_ints) simp

text \<open>
  C38: the two switch instructions find an offset and do not use it: after either of them the program
  counter is that of the switch itself, whatever the index and the table.
\<close>

theorem switches_repeat_themselves:
  assumes "exec_control pc i f = Inr (u, g)" and "\<forall>off. i \<noteq> GOTO off"
  shows "fr_next_pc g = pc"
  using assms
  by (cases i) (auto simp: exec_tableswitch_def exec_lookupswitch_def Branch_def modifies_def SetNextPc_def
    elim!: bind_InrE)

theorem switches_repeat_themselves_witness:
  "\<exists>g. exec_control 7 (TABLE_SWITCH 20 0 1 [30, 40])
      (Frame_new sample_method None \<lparr>fr_operand_stack := \<lparr>os_top = 1, os_slots = [1, 0, 0, 0]\<rparr>\<rparr>) = Inr ((), g) \<and>
    fr_next_pc g = 7"
proof -
  let ?f = "Frame_new sample_method None \<lparr>fr_operand_stack := \<lparr>os_top = 1, os_slots = [1, 0, 0, 0]\<rparr>\<rparr>"
  obtain g where g: "exec_control 7 (TABLE_SWITCH 20 0 1 [30, 40]) ?f = Inr ((), g)"
    by (simp add: exec_tableswitch_def on_operands_def zoom_def PopInt_def top_tests on_slots_def slots_defs
      Branch_def op_simps word_sle_eq)
  with switches_repeat_themselves [OF g] show ?thesis
    by auto
qed

text \<open>
  C39: \<open>lcmp\<close> does not compare two \<open>long\<close>s: it pops the two halves of the upper one, compares those
  as \<open>int\<close>s, and leaves the lower one on the stack.
\<close>

theorem lcmp_compares_halves:
  assumes "length xs + 4 \<le> c"
  shows "valid (frame_stk f (xs @ [lo32 a, hi32 a, lo32 b, hi32 b]) c) (exec_compare pc LCMP)
    (\<lambda>_. frame_stk f (xs @ [lo32 a, hi32 a,
      if sint (hi32 b) < sint (lo32 b) then 1 else if sint (lo32 b) = sint (hi32 b) then 0 else -1]) c)"
  using lcmp_result [OF assms, of f a b pc] by (simp add: enc1_def enc2_def cmp3_int)

theorem lcmp_compares_halves_witness:
  "valid (frame_stk (Frame_new sample_method None) [1, 0, 2, 0] 4) (exec_compare 5 LCMP)
    (\<lambda>_. frame_stk (Frame_new sample_method None) [1, 0, 1] 4)"
proof -
  have "lo32 1 = 1" "hi32 1 = 0" "lo32 2 = 2" "hi32 2 = 0"
    by (simp_all add: lo32_def hi32_def)
  then show ?thesis
    using lcmp_compares_halves [of "[]" 4 "Frame_new sample_method None" 1 2 5] by simp
qed

text \<open>
  C40: a floating-point comparison with a NaN pushes two numbers, the one the instruction asks for and
  -1 above it, so that both comparison instructions leave -1 on top.
\<close>

theorem nan_comparison_pushes_twice:
  assumes "vtype a = t" and "vtype b = t" and "val_isnan a \<or> val_isnan b" and "length xs + 2 \<le> c"
  shows "valid (stk (xs @ enc_val a @ enc_val b) c) (exec_cmp t g) (\<lambda>_. stk (xs @ [if g then 1 else -1, -1]) c)"
  using assms by (rule exec_cmp_nan)

lemma sample_nan: "val_isnan (VFloat 0x7FC00000)"
  by code_simp

theorem nan_comparison_pushes_twice_witness:
  "valid (stk ([] @ enc_val (VFloat 0) @ enc_val (VFloat 0x7FC00000)) 4) (exec_cmp Float True)
    (\<lambda>_. stk ([] @ [if True then 1 else -1, -1]) 4)"
  using sample_nan by (intro nan_comparison_pushes_twice) simp_all

section \<open>Frames and the stack of a thread\<close>

text \<open>
  Calls nest: on a stack that holds some frames, creating one frame for each method of a list
  that fits and popping as many again leaves the same frames, whatever was done to the created ones
  is gone with them.
\<close>

theorem calls_nest:
  assumes "frames_repr bytes s fs" and "fits bytes m (length fs)"
  shows "\<exists>p s'. Stack_CreateFrame m s = Inr (p, s') \<and> frames_repr bytes s' (Frame_new m None # fs) \<and>
    (\<exists>q s''. Stack_PopFrame s' = Inr (q, s'') \<and> frames_repr bytes s'' fs)"
  using frame_lifo.push_room [OF assms] frame_lifo.pop_top by blast

theorem calls_nest_witness:
  "\<exists>p s'. Stack_CreateFrame sample_method (Stack_new 0 1024) = Inr (p, s') \<and>
    frames_repr 1024 s' (Frame_new sample_method None # []) \<and>
    (\<exists>q s''. Stack_PopFrame s' = Inr (q, s'') \<and> frames_repr 1024 s'' [])"
  by (rule calls_nest)
    (auto simp: frames_repr_def Stack_new_def stack_repr_def fits_def sizeof_Frame_def frame_need_def
      sample_method_def GetHeaderSize_def)

text \<open>
  Unwinding: popping as many frames as lie above a given depth leaves exactly the frames below;
  popping one more than the stack holds is an error, never a value.
\<close>

theorem unwinding:
  assumes "frames_repr bytes s (fs @ gs)"
  shows "(\<exists>ps s'. repeat_op (length fs) Stack_PopFrame s = Inr (ps, s') \<and> frames_repr bytes s' gs) \<and>
    (\<exists>e. repeat_op (Suc (length (fs @ gs))) Stack_PopFrame s = Inl e)"
  using frame_lifo.pop_prefix [OF assms] frame_lifo.pop_more_than_held [OF assms] by blast

theorem unwinding_witness:
  "(\<exists>ps s'. repeat_op (length (map core (deep_frames 2))) Stack_PopFrame (deep_stack 2) = Inr (ps, s') \<and>
      frames_repr 1024 s' []) \<and>
    (\<exists>e. repeat_op (Suc (length (map core (deep_frames 2) @ []))) Stack_PopFrame (deep_stack 2) = Inl e)"
  by (rule unwinding) (use deep_stack_repr [of 2] deep_stack_size [of 2] in \<open>auto simp: frames_repr_def sizeof_Frame_def\<close>)

text \<open>
  C37: the overflow check does not protect the block: with twelve frames on the stack of a thread, a
  method that needs no more than 64 bytes by the check's count passes it, and its frame is
  written past the end of the block.
\<close>

theorem thirteenth_frame_overruns:
  assumes "stack_repr s fs" and "length fs = 12" and "st_max_size s = 1024" and "unat (frame_need m) \<le> 64"
  shows "Stack_CreateFrame m s = Inl (Undefined ''frame written past the stack block'')"
  by (rule CreateFrame_overrun [OF assms(1)]) (use assms(2-) in \<open>simp_all add: sizeof_Frame_def\<close>)

theorem thirteenth_frame_overruns_witness:
  "Stack_CreateFrame sample_method (deep_stack 12) = Inl (Undefined ''frame written past the stack block'')"
  by (rule thirteenth_frame_overruns [OF deep_stack_repr])
    (simp_all add: length_deep_frames deep_stack_size frame_need_def sample_method_def GetHeaderSize_def sizeof_Frame_def)

section \<open>Classes\<close>

definition sample_table :: class_table where
  "sample_table =
     [Class_new\<lparr>c_name := ''java/lang/Object'', c_methods := [sample_method]\<rparr>,
      Class_new\<lparr>c_name := ''I'', c_access_flags := 0x200, c_super_class := Some 0\<rparr>,
      Class_new\<lparr>c_name := ''A'', c_super_class := Some 0, c_interfaces := [Some 1]\<rparr>]"

lemma sample_table_wf: "wf_classes sample_table"
  by (rule wf_classesI [where rank = id])
    (auto simp: sample_table_def Class_new_def pointers_ok_def hierarchy_def extends_rel_def
      implements_rel_def less_Suc_eq)

lemma sample_table_length: "length sample_table = 3"
  by (simp add: sample_table_def)

text \<open>
  \<^bold>\<open>C16\<close> Method lookup. On a class table without cycles, \<open>LookupMethodInClass\<close> and \<open>GetMethod\<close>
  always return: the first matching method of the nearest class, going up the super classes from the
  class itself, or null when no class on the way has one.
\<close>

theorem method_lookup_nearest:
  assumes "wf_classes ct" and "c < length ct"
  shows "(\<exists>r. LookupMethodInClass ct (Some c) n d = Inr r \<and> nearest_method ct (names n d) c r) \<and>
         (\<exists>r. GetMethod ct (Some c) n d st = Inr r \<and>
              nearest_method ct (\<lambda>m. names n d m \<and> IsStatic m = st) c r)"
  using LookupMethodInClass_nearest [OF assms] GetMethod_nearest [OF assms] by blast

theorem method_lookup_nearest_witness:
  "wf_classes sample_table \<and> (2::nat) < length sample_table \<and>
   (\<exists>r. LookupMethodInClass sample_table (Some 2) ''f'' ''(IJ)V'' = Inr r \<and>
        nearest_method sample_table (names ''f'' ''(IJ)V'') 2 r)"
  using method_lookup_nearest [OF sample_table_wf, of 2 "''f''" "''(IJ)V''" False]
    sample_table_wf sample_table_length by simp

text \<open>
  \<^bold>\<open>C17\<close> Subtype tests. On a class table without cycles the four loops decide the closures of the
  hierarchy: \<open>IsSubClassOf\<close> and \<open>IsSuperClassOf\<close> that of the super classes, \<open>IsSubInterfaceOf\<close>,
  \<open>IsSuperInterfaceOf\<close> and \<open>IsImplements\<close> that of the declared interfaces. An interface that only a
  super class implements is therefore not found by \<open>IsImplements\<close>.
\<close>

theorem subtype_tests_decide_closures:
  assumes "wf_classes ct" and "s < length ct"
  shows "IsSubClassOf ct (Some s) (Some t) = Inr ((s, t) \<in> (extends_rel ct)\<^sup>+) \<and>
         IsSuperClassOf ct (Some t) (Some s) = Inr ((s, t) \<in> (extends_rel ct)\<^sup>+) \<and>
         IsSubInterfaceOf ct (Some s) (Some t) = Inr ((s, t) \<in> (implements_rel ct)\<^sup>+) \<and>
         IsSuperInterfaceOf ct (Some t) (Some s) = Inr ((s, t) \<in> (implements_rel ct)\<^sup>+) \<and>
         IsImplements ct (Some s) (Some t) = Inr ((s, t) \<in> (implements_rel ct)\<^sup>+)"
  using assms
  by (simp add: IsSubClassOf_trancl IsSuperClassOf_trancl IsSubInterfaceOf_trancl
      IsImplements_trancl IsSuperInterfaceOf_def)

theorem subtype_tests_decide_closures_witness:
  "wf_classes sample_table \<and> (2::nat) < length sample_table \<and>
   IsSubClassOf sample_table (Some 2) (Some 0) = Inr ((2, 0) \<in> (extends_rel sample_table)\<^sup>+) \<and>
   IsImplements sample_table (Some 2) (Some 1) = Inr ((2, 1) \<in> (implements_rel sample_table)\<^sup>+)"
  using subtype_tests_decide_closures [OF sample_table_wf, of 2 0]
    subtype_tests_decide_closures [OF sample_table_wf, of 2 1] sample_table_wf sample_table_length
  by simp

text \<open>
  Field lookup. On a class table without cycles \<open>LookupField\<close> returns a matching field of the
  class itself when it has one, else one of an ancestor (interfaces included), and null only when no
  ancestor has one.
\<close>

theorem field_lookup_complete:
  assumes "wf_classes ct" and "c < length ct"
  shows "\<exists>r. LookupField ct (Some c) n d = Inr r \<and> field_of_ancestor ct n d c r"
  using LookupField_found [OF assms] .

theorem field_lookup_complete_witness:
  "wf_classes sample_table \<and> (2::nat) < length sample_table \<and>
   (\<exists>r. LookupField sample_table (Some 2) ''x'' ''I'' = Inr r \<and>
        field_of_ancestor sample_table ''x'' ''I'' 2 r)"
  using field_lookup_complete [OF sample_table_wf, of 2 "''x''" "''I''"]
    sample_table_wf sample_table_length by simp

text \<open>
  Class names. Turning a class name into a descriptor and back gives the name again, the
  component of the array class of a class is that class, and array class names are recognised as such.
\<close>

theorem class_name_round_trip:
  "ToClassName (ToDescriptor n) = Inr n \<and>
   GetComponentClassName (GetArrayClassName n) = Inr n \<and> IsArrayClass (GetArrayClassName n)"
  by (simp add: ToClassName_ToDescriptor component_of_array array_class_name_is_array)

section \<open>Layout, heap and objects\<close>

definition sample_field :: "string \<Rightarrow> string \<Rightarrow> field" where
  "sample_field n d = \<lparr>cm_access_flags = 0, cm_name = n, cm_descriptor = d, cm_class = 1,
     f_slot_id = 0, f_const_value_index = 0\<rparr>"

definition sample_layout :: class_table where
  "sample_layout =
     [Class_new\<lparr>c_instance_slot_count := 3\<rparr>,
      Class_new\<lparr>c_super_class := Some 0, c_fields := [sample_field ''x'' ''J'', sample_field ''y'' ''I'']\<rparr>]"

text \<open>
  C18: field layout. Numbering the instance and the static fields of a class succeeds; afterwards two
  fields of the same kind share no slot, an instance field lies behind the slots of the super class and
  below the instance slot count, and a static field below the static slot count.
\<close>

theorem field_slots_disjoint:
  assumes "c < length ct" and "first_slot ct (ct ! c) = Inr a" and "c_super_class (ct ! c) \<noteq> Some c"
    and "unat a + 2 * length (c_fields (ct ! c)) < 2 ^ 32"
  shows "\<exists>ct'. andthen (CalcInstanceFieldSlotIds (Some c)) (CalcStaticFieldSlotIds (Some c)) ct = Inr ((), ct') \<and>
    length (c_fields (ct' ! c)) = length (c_fields (ct ! c)) \<and> slots_apart (unat a) (ct' ! c)"
  using layout_class [OF assms] by blast

theorem field_slots_disjoint_witness:
  "\<exists>ct'. andthen (CalcInstanceFieldSlotIds (Some 1)) (CalcStaticFieldSlotIds (Some 1)) sample_layout = Inr ((), ct') \<and>
    length (c_fields (ct' ! 1)) = 2 \<and> slots_apart 3 (ct' ! 1)"
proof -
  have "1 < length sample_layout" "first_slot sample_layout (sample_layout ! 1) = Inr 3"
    "c_super_class (sample_layout ! 1) \<noteq> Some 1"
    by (simp_all add: sample_layout_def first_slot_def class_at_def Class_new_def)
  moreover have two: "length (c_fields (sample_layout ! 1)) = 2"
    by (simp add: sample_layout_def)
  ultimately have "\<exists>ct'. andthen (CalcInstanceFieldSlotIds (Some 1)) (CalcStaticFieldSlotIds (Some 1)) sample_layout = Inr ((), ct') \<and>
      length (c_fields (ct' ! 1)) = length (c_fields (sample_layout ! 1)) \<and> slots_apart (unat (3 :: u4)) (ct' ! 1)"
    by (intro field_slots_disjoint) (simp_all add: two [unfolded One_nat_def])
  then show ?thesis
    unfolding two by simp
qed

text \<open>
  C21: heap. The constructor divides the first quarter of its block into the fresh space, the two survivor spaces and
  what lies before the old space, aligned and one behind the other, and any number of allocations keeps
  this and leaves the position of the next object inside the fresh space.
\<close>

theorem heap_spaces_kept:
  assumes "8 dvd unat block" and "unat max_size + 8 \<le> 2 ^ 64"
    and "unat block + unat (h_absolute_max_size (Heap_new block max_size)) < 2 ^ 64"
    and "run_allocs realloc sizes (Heap_new block max_size) = Inr (ps, h)"
  shows "heap_wf h \<and> h_fresh_start h = block \<and>
    unat (h_old_start h) \<le> unat block + unat (h_absolute_max_size (Heap_new block max_size)) div 4"
  using Heap_new_wf [OF assms(1,2,3)] run_allocs_wf [OF _ assms(4)] by auto

theorem heap_spaces_kept_witness:
  "\<exists>ps h. run_allocs (\<lambda>p n. p) [100] (Heap_new 0x1000 0x20000000) = Inr (ps, h) \<and>
    heap_wf h \<and> h_fresh_start h = 0x1000 \<and>
    unat (h_old_start h) \<le> unat (0x1000 :: uptr) + unat (h_absolute_max_size (Heap_new 0x1000 0x20000000)) div 4"
proof -
  have size: "h_absolute_max_size (Heap_new 0x1000 0x20000000) = 0x20000000"
    by (simp add: Heap_new_def Let_def kMinHeapSize_def kObjectAlignment_def RoundUp_def RoundDown_def)
  have "AllocObject (\<lambda>p n. p) 100 (Heap_new 0x1000 0x20000000) \<noteq> Inl e" for e
    by (simp add: AllocObject_def Heap_new_def Let_def kMinHeapSize_def kObjectAlignment_def RoundUp_def RoundDown_def
        header_bytes_def)
  then obtain ps h where "run_allocs (\<lambda>p n. p) [100] (Heap_new 0x1000 0x20000000) = Inr (ps, h)"
    by (cases "AllocObject (\<lambda>p n. p) 100 (Heap_new 0x1000 0x20000000)") (auto simp: bind_def ret_def)
  moreover have "heap_wf h \<and> h_fresh_start h = 0x1000 \<and>
      unat (h_old_start h) \<le> unat (0x1000 :: uptr) + unat (h_absolute_max_size (Heap_new 0x1000 0x20000000)) div 4"
    by (rule heap_spaces_kept [OF _ _ _ calculation]) (simp_all add: size)
  ultimately show ?thesis
    by blast
qed

text \<open>
  C31: long fields. A long that is written to a field of an object and read again comes back exactly when bit 31 is
  clear or the upper 32 bits are all set; in every other case the reader fills the upper half with the sign of the lower one.
\<close>

theorem long_field_read_back:
  assumes "data_index i + 1 < length (o_data ob)"
  shows "\<exists>w ob'. bind (SetLongField i v) (\<lambda>_. GetLongField i) ob = Inr (w, ob') \<and>
    (w = v \<longleftrightarrow> \<not> bit v 31 \<or> (\<forall>n. 32 \<le> n \<and> n < 64 \<longrightarrow> bit v n))"
  using SetLong_GetLong [OF assms] join_signed_split by blast

theorem long_field_read_back_witness:
  "\<exists>w ob'. bind (SetLongField 1 0x80000000) (\<lambda>_. GetLongField 1) (heap_object None 56) = Inr (w, ob') \<and>
    (w = 0x80000000 \<longleftrightarrow> \<not> bit (0x80000000 :: 64 word) 31 \<or> (\<forall>n. 32 \<le> n \<and> n < 64 \<longrightarrow> bit (0x80000000 :: 64 word) n))"
  by (rule long_field_read_back)
    (simp add: data_index_def heap_object_def SetClass_def SetRemembered_def SetForwarded_def SetAge_def data_offset_def)

section \<open>Class path and class loading\<close>

definition sample_world :: world where
  "sample_world = \<lparr>w_is_dir = (\<lambda>p. p = ''./jre''), w_readdir = (\<lambda>_. None),
     w_file = (\<lambda>p. if p = ''b/A.class'' then Content [0xCA] else Cannot_Open), w_zip = (\<lambda>_. Inr []),
     w_getenv = (\<lambda>_. None), w_getcwd = Some ''b''\<rparr>"

definition class_A :: class_data where
  "class_A = \<lparr>cd_data = Some [0xCA], cd_read_errno = kSucceed\<rparr>"

lemma sample_world_w: "w_getcwd sample_world = Some ''b''"
  by (simp add: sample_world_def)

lemma find_last_None: "c \<notin> set xs \<Longrightarrow> find_last c xs = None"
  by (induction xs) auto

lemma not_wildcard: "CHR ''*'' \<notin> set p \<Longrightarrow> p \<noteq> [] \<Longrightarrow> length p < 2 ^ 64 \<Longrightarrow> \<not> is_wildcard p"
  by (cases p) (auto simp: is_wildcard_def find_last_None npos_def)

lemma sample_dirs: "entry_reader sample_world ''a'' = DirClassReader ''a''" "entry_reader sample_world ''b'' = DirClassReader ''b''"
  by (simp_all add: entry_reader_def not_wildcard suffix_of_def)

text \<open>
  C19: class path. A class path of several entries becomes one reader that asks the readers of the entries in order: when
  those of the first entries do not have a class and that of the next one has it, its data are the result.
\<close>

theorem class_path_search:
  assumes "path @ '':'' = entries (qs @ q # rs)" and "plain (qs @ q # rs)" and "CHR '':'' \<in> set path"
    and "CheckClassPathValid n"
    and "\<forall>p \<in> set qs. \<exists>d. ReadClass w n (entry_reader w p) = Inr d \<and> cd_read_errno d \<noteq> kSucceed"
    and "ReadClass w n (entry_reader w q) = Inr d" and "cd_read_errno d = kSucceed"
  shows "\<exists>r. CreateClassReader w path = Inr r \<and> ReadClass w n r = Inr d"
  using CreateClassReader_entries [OF assms(1-3), of w]
    composite_first [OF assms(4) _ assms(6,7), of "map (entry_reader w) qs" path "map (entry_reader w) rs"] assms(5)
  by auto

theorem class_path_search_witness:
  "\<exists>r. CreateClassReader sample_world ''a:b'' = Inr r \<and> ReadClass sample_world ''A.class'' r = Inr class_A"
proof (rule class_path_search [of _ "[''a'']" "''b''" "[]"])
  have "ReadClass sample_world ''A.class'' (entry_reader sample_world ''a'') = Inr (SetReadErrno kOpenClassFailed ClassData_new)"
    unfolding sample_dirs by code_simp
  then show "\<forall>p \<in> set [''a'']. \<exists>d. ReadClass sample_world ''A.class'' (entry_reader sample_world p) = Inr d \<and>
      cd_read_errno d \<noteq> kSucceed"
    by (simp add: SetReadErrno_def)
  show "ReadClass sample_world ''A.class'' (entry_reader sample_world ''b'') = Inr class_A"
    unfolding sample_dirs by code_simp
qed (simp_all add: entries_def plain_def CheckClassPathValid_def suffix_of_def class_A_def)

definition sample_env :: env where
  "sample_env = \<lparr>e_read = (\<lambda>_ _. Inr not_class_file), e_realloc = (\<lambda>p _. p), e_new = (\<lambda>_. 1),
     e_class_ptr = (\<lambda>c. of_nat c + 2), e_asserts = True\<rparr>"

definition sample_loader :: loader where
  "sample_loader = \<lparr>l_loaded_classes = [(''java/lang/Object'', Some 0), (''java/lang/Cloneable'', Some 1),
     (''java/io/Serializable'', Some 1)], l_parent = None\<rparr>"

definition sample_thread :: thread where
  "sample_thread = \<lparr>th_is_started = True, th_pc = 0, th_stack = deep_stack 2\<rparr>"

definition sample_vm :: vm where
  "sample_vm = \<lparr>v_classes = sample_table, v_heap = Heap_new 0x1000 0x20000000, v_objects = (\<lambda>_. None),
     v_strings = [], v_loaders = (\<lambda>l. if l = Boot_Loader then Some sample_loader else None),
     v_thread = sample_thread\<rparr>"

text \<open>
  C11: loading keeps the hierarchy. Whatever the class files on the class path say, a load that returns leaves the
  super-class and interface pointers without a cycle and without a pointer to a class that does not exist, as long
  as new class objects come from a function that appends one object or returns null. The classes that existed before
  are as they were, and those that were complete still are.
\<close>

theorem loading_keeps_hierarchy:
  assumes "class_maker mk" and "loads_ok D s" and "load_class env mk k l name s = Inr (p, s')"
  shows "acyclic (hierarchy (v_classes s')) \<and>
    hierarchy (v_classes s') \<subseteq> {..<length (v_classes s')} \<times> {..<length (v_classes s')} \<and>
    take (length (v_classes s)) (v_classes s') = v_classes s \<and>
    (\<exists>D'. D \<subseteq> D' \<and> loads_ok D' s')"
  using class_maker.load_keeps [OF assms] loads_ok_hierarchy class_maker.load_prefix [OF assms(1,3)] by metis

lemma sample_vm_ok: "loads_ok {0, 1} sample_vm"
proof -
  have "acyclic (hierarchy sample_table)"
    using sample_table_wf by (simp add: wf_classes_def)
  moreover have "map_of (cache_of l sample_vm) n = Some (Some c) \<Longrightarrow> c \<in> {0, 1}" for l n c
    by (auto simp: sample_vm_def cache_of_def sample_loader_def split: if_splits)
  ultimately show ?thesis
    by (auto simp: loads_ok_def sample_vm_def sample_table_length hierarchy_def extends_rel_def implements_rel_def
        sample_table_def Class_new_def less_Suc_eq)
qed

theorem loading_keeps_hierarchy_witness:
  "\<exists>s'. load_class sample_env construct_class 2 Boot_Loader ''[I'' sample_vm = Inr (Some 3, s') \<and>
    acyclic (hierarchy (v_classes s')) \<and> take (length (v_classes sample_vm)) (v_classes s') = v_classes sample_vm"
proof -
  have "(case load_class sample_env construct_class 2 Boot_Loader ''[I'' sample_vm of
      Inl e \<Rightarrow> False | Inr (p, s') \<Rightarrow> p = Some 3)"
    by code_simp
  then obtain s' where "load_class sample_env construct_class 2 Boot_Loader ''[I'' sample_vm = Inr (Some 3, s')"
    by (auto split: sum.splits)
  then show ?thesis
    using loading_keeps_hierarchy [OF constructed.class_maker_axioms sample_vm_ok] by blast
qed

section \<open>Native methods and instructions on objects\<close>

text \<open>
  C30: native methods. A native method that was registered is found under its class, name and descriptor, and
  registering it changes what is found for no other triple, as long as class and method names contain no tilde. In the table that
  the program fills, each of its native methods is found under one triple. Under a name that does not begin with a
  capital letter, as all methods of the Java library are named, two things are found and no others: \<open>initialize\<close> of
  \<open>sun/misc/VM\<close>, and the empty method for \<open>registerNatives\<close> of any class.
\<close>

theorem native_lookup:
  assumes "CHR ''~'' \<notin> set c \<union> set n \<union> set c' \<union> set n'"
  shows "FindNativeMethod (RegisterNativeMethod c n d m reg) c' n' d' =
      (if (c', n', d') = (c, n, d) then Some m else FindNativeMethod reg c' n' d') \<and>
    (m \<noteq> EmptyNativeMethod \<longrightarrow>
      (\<exists>!(c, n, d). CHR ''~'' \<notin> set c \<union> set n \<and> FindNativeMethod (init []) c n d = Some m)) \<and>
    (\<forall>x xs. n = x # xs \<and> \<not> capital x \<longrightarrow>
      FindNativeMethod (init []) c n d =
        (if (c, n, d) = (''sun/misc/VM'', ''initialize'', ''()V'') then Some Initialize
         else if n = ''registerNatives'' \<and> d = ''()V'' then Some EmptyNativeMethod else None))"
proof (intro conjI allI impI)
  show "FindNativeMethod (RegisterNativeMethod c n d m reg) c' n' d' =
      (if (c', n', d') = (c, n, d) then Some m else FindNativeMethod reg c' n' d')"
    using assms FindNativeMethod_registered FindNativeMethod_other [of c n c' n' d' d m reg] by auto
  show "\<exists>!(c, n, d). CHR ''~'' \<notin> set c \<union> set n \<and> FindNativeMethod (init []) c n d = Some m"
    if "m \<noteq> EmptyNativeMethod"
    using that by (rule registered_once)
  show "FindNativeMethod (init []) c n d =
      (if (c, n, d) = (''sun/misc/VM'', ''initialize'', ''()V'') then Some Initialize
       else if n = ''registerNatives'' \<and> d = ''()V'' then Some EmptyNativeMethod else None)"
    if "n = x # xs \<and> \<not> capital x" for x xs
    using that assms by (intro small_names) auto
qed

theorem native_lookup_witness:
  "FindNativeMethod (init []) ''java/lang/Object'' ''hashCode'' ''()I'' = None \<and>
   (\<exists>!(c, n, d). CHR ''~'' \<notin> set c \<union> set n \<and> FindNativeMethod (init []) c n d = Some HashCode)"
proof -
  have "CHR ''~'' \<notin> set ''java/lang/Object'' \<union> set ''hashCode'' \<union> set ''java/lang/Object'' \<union> set ''hashCode''"
    "\<not> capital (CHR ''h'')"
    by (simp_all add: capital_def)
  then show ?thesis
    using native_lookup [of "''java/lang/Object''" "''hashCode''" "''java/lang/Object''" "''hashCode''" "''()I''" HashCode "[]" "''()I''"]
    by simp
qed

text \<open>
  C29: inverted assertions. In a build with assertions \<open>new\<close>, \<open>anewarray\<close>, \<open>multianewarray\<close>, \<open>putstatic\<close>,
  \<open>getstatic\<close> and \<open>getfield\<close> complete in no state: either the constant they use exists and the assertion
  fails, or it does not and a null pointer is followed.
\<close>

theorem asserted_instructions_stop:
  assumes "e_asserts env" and "asserts_null i"
  shows "\<exists>e. exec_reference env load frame i s = Inl e"
  using asserted_instruction [OF assms] by (simp add: never_returns_def)

theorem asserted_instructions_stop_witness:
  "\<exists>e. exec_reference sample_env (LoadClass sample_env 3) (Some 80) (NEW 2) sample_vm = Inl e"
  by (rule asserted_instructions_stop) (simp_all add: sample_env_def)

section \<open>Calls\<close>

definition caller_frame :: frame where
  "caller_frame = (Frame_new sample_method None)\<lparr>fr_operand_stack := \<lparr>os_top = 3, os_slots = [7, 8, 9, 0]\<rparr>\<rparr>"

definition call_vm :: vm where
  "call_vm = with_stack \<lparr>st_base = 0, st_sp = 80, st_fp = Some 0, st_max_size = 1024,
     st_mem = (\<lambda>a. if a = 0 then Some caller_frame else None)\<rparr> sample_vm"

lemma call_vm_repr: "stack_repr (vm_stack_of call_vm) [caller_frame]"
  by (simp add: call_vm_def stack_repr_def sizeof_Frame_def caller_frame_def Frame_new_def)

lemma caller_stk: "stk ([7] @ [8, 9]) 4 (fr_operand_stack caller_frame)"
  by (simp add: stk_iff caller_frame_def)

text \<open>
  C9: invocation. When a frame of the method fits on the stack and the operand stack of the caller is not full, the new
  frame is on top, its first local variables are the argument slots in the order of the operand stack, the other
  ones are zero, and the caller has lost exactly the arguments. Nothing but the stack of frames has changed.
\<close>

theorem invocation_passes_arguments:
  assumes "stack_repr (vm_stack_of s) (f # fs)" and "fits (st_max_size (vm_stack_of s)) m (length (f # fs))"
    and "stk (xs @ args) c (fr_operand_stack f)" and "length xs + length args < c"
    and "length args \<le> unat (m_max_locals m)" and "unat (m_max_locals m) < 2 ^ 16"
    and "m_arg_slot_count m = of_nat (length args)"
  shows "\<exists>st f' g. InvokeMethod (current_frame s) m s = Inr ((), with_stack st s) \<and>
    stack_repr st (g # f' # fs) \<and> frame_stk f xs c f' \<and>
    g = (Frame_new m (current_frame s))\<lparr>fr_local_vars := args @ replicate (unat (m_max_locals m) - length args) 0\<rparr>"
  using assms by (rule InvokeMethod_frames)

theorem invocation_passes_arguments_witness:
  "\<exists>st f' g. InvokeMethod (current_frame call_vm) (sample_method\<lparr>m_arg_slot_count := 2\<rparr>) call_vm = Inr ((), with_stack st call_vm) \<and>
    stack_repr st [g, f'] \<and> frame_stk caller_frame [7] 4 f' \<and> fr_local_vars g = [8, 9, 0, 0]"
proof -
  have "fits (st_max_size (vm_stack_of call_vm)) (sample_method\<lparr>m_arg_slot_count := 2\<rparr>) (length [caller_frame])"
    by (simp add: call_vm_def fits_def sizeof_Frame_def frame_need_def GetHeaderSize_def sample_method_def)
  from invocation_passes_arguments [OF call_vm_repr this caller_stk]
  have "\<exists>st f' g. InvokeMethod (current_frame call_vm) (sample_method\<lparr>m_arg_slot_count := 2\<rparr>) call_vm =
      Inr ((), with_stack st call_vm) \<and> stack_repr st (g # f' # []) \<and> frame_stk caller_frame [7] 4 f' \<and>
      g = (Frame_new (sample_method\<lparr>m_arg_slot_count := 2\<rparr>) (current_frame call_vm))\<lparr>fr_local_vars := [8, 9] @
        replicate (unat (m_max_locals (sample_method\<lparr>m_arg_slot_count := 2\<rparr>)) - length [8, 9 :: slot]) 0\<rparr>"
    by (simp add: sample_method_def)
  moreover have "g = (Frame_new m p)\<lparr>fr_local_vars := l\<rparr> \<Longrightarrow> fr_local_vars g = l" for g m l p
    by simp
  moreover have "unat (m_max_locals (sample_method\<lparr>m_arg_slot_count := 2\<rparr>)) - length [8, 9 :: slot] = Suc (Suc 0)"
    by (simp add: sample_method_def)
  then have "[8, 9] @ replicate (unat (m_max_locals (sample_method\<lparr>m_arg_slot_count := 2\<rparr>)) - length [8, 9 :: slot]) 0 =
      [8, 9, 0, 0]"
    by simp
  ultimately show ?thesis
    by metis
qed

text \<open>
  C10: return. A return instruction with a value takes the current frame off the stack and appends the slots of its result to
  the operand stack of the caller; nothing else of the caller changes.
\<close>

theorem return_passes_result:
  assumes "stack_repr (vm_stack_of s) (g # f # fs)" and "T \<in> {Int32, Int64, Float, Double, ObjectPtr}"
    and "stk (zs @ ys) cg (fr_operand_stack g)" and "length ys = twidth T"
    and "stk xs c (fr_operand_stack f)" and "length xs + twidth T \<le> c"
  shows "\<exists>st f'. Return (Some T) s = Inr ((), with_stack st s) \<and> stack_repr st (f' # fs) \<and>
    frame_stk f (xs @ ys) c f'"
  using assms by (rule Return_frames)

definition callee_frame :: frame where
  "callee_frame = (Frame_new sample_method (Some 0))\<lparr>fr_operand_stack := \<lparr>os_top = 1, os_slots = [5, 0]\<rparr>\<rparr>"

definition return_vm :: vm where
  "return_vm = with_stack \<lparr>st_base = 0, st_sp = 160, st_fp = Some 80, st_max_size = 1024,
     st_mem = (\<lambda>a. if a = 0 then Some caller_frame else if a = 80 then Some callee_frame else None)\<rparr> sample_vm"

theorem return_passes_result_witness:
  "\<exists>st f'. Return (Some Int32) return_vm = Inr ((), with_stack st return_vm) \<and> stack_repr st [f'] \<and>
    frame_stk caller_frame [7, 8, 9, 5] 4 f'"
proof -
  have "stack_repr (vm_stack_of return_vm) [callee_frame, caller_frame]"
    by (simp add: return_vm_def stack_repr_def sizeof_Frame_def caller_frame_def callee_frame_def Frame_new_def)
  moreover have "stk ([] @ [5]) 2 (fr_operand_stack callee_frame)"
    by (simp add: stk_iff callee_frame_def)
  ultimately show ?thesis
    using return_passes_result [of return_vm callee_frame caller_frame "[]" Int32 "[]" "[5]" 2 "[7, 8, 9]" 4] caller_stk
    by simp
qed

section \<open>The interpreter and the machine\<close>

definition sample_command :: command where
  "sample_command = Command_new\<lparr>cmd_class_name := ''A''\<rparr>"

text \<open>
  C20: the whole program, from a fresh process. With the version option it prints the version, with the help option or
  without a class name it prints help; otherwise it ends with an error before the interpreter is reached, whatever is on the
  class path: the class \<open>java/lang/Class\<close> is not in the cache of the boot loader, and the object that loading it needs
  is cast without having been constructed, or is the null pointer. It never runs forever.
\<close>

theorem start_always_fails:
  assumes "p_jvm_current s = None" and "\<forall>l. v_loaders (p_vm s) l = None"
  shows "case ParseCommand opts argv optind of
      Inl e \<Rightarrow> main_program w env k thread block opts argv optind s = Some (Inl e)
    | Inr cmd \<Rightarrow>
        if PrintVersion cmd then main_program w env k thread block opts argv optind s = Some (Inr Version_Shown)
        else if PrintHelp cmd \<or> Command_GetClassName cmd = []
        then main_program w env k thread block opts argv optind s = Some (Inr Help_Shown)
        else \<exists>e. main_program w env k thread block opts argv optind s = Some (Inl e)"
proof (cases "ParseCommand opts argv optind")
  case (Inr cmd)
  have "\<exists>e. (case CreateVM w block cmd s of Inl e \<Rightarrow> Some (Inl e) | Inr (u, t) \<Rightarrow> run_current w env k thread t) = Some (Inl e)"
    using run_current_fails [OF assms] by (auto split: sum.splits)
  with Inr show ?thesis
    by (auto simp: main_program_def main_action_def)
qed (simp add: main_program_def)

definition fresh_process :: process where
  "fresh_process = \<lparr>p_vm = sample_vm\<lparr>v_loaders := (\<lambda>_. None)\<rparr>, p_jvm_current = None\<rparr>"

lemma JVM_new_returns:
  assumes "ClassPathParser_new w (GetJrePath cmd) (GetAppClassPath cmd) = Inr p" "\<forall>l. v_loaders s l = None"
  shows "\<exists>s'. JVM_new w cmd block s = Inr ((p, init []), s')"
  using assms by (simp add: JVM_new_def op_simps CreateBootClassLoader_def CreateExtClassLoader_def
    CreateBaseClassLoader_def create_loader_def GetBootClassLoader_def GetExtClassLoader_def GetClassLoader_def)

lemma sample_machine_made: "\<exists>t. CreateVM sample_world 0x1000 sample_command fresh_process = Inr ((), t)"
proof -
  have "ParseUserClassPath sample_world (GetAppClassPath sample_command) = Inr (DirClassReader ''b'')"
    by (simp add: ParseUserClassPath_def GetAppClassPath_def sample_command_def Command_new_def CreateClassReader_def sample_dirs
        sample_world_w)
  moreover have "GetJreDir sample_world (GetJrePath sample_command) = Inr ''./jre''"
    by code_simp
  ultimately obtain p where
    "ClassPathParser_new sample_world (GetJrePath sample_command) (GetAppClassPath sample_command) = Inr p"
    by (auto simp: ClassPathParser_new_def ParseBootAndExtClassPath_def)
  then have "\<exists>s'. JVM_new sample_world sample_command 0x1000 (p_vm fresh_process) = Inr ((p, init []), s')"
    by (rule JVM_new_returns) (simp add: fresh_process_def)
  then show ?thesis
    by (auto simp: CreateVM_def fresh_process_def)
qed

theorem start_always_fails_witness:
  "(\<exists>t. CreateVM sample_world 0x1000 sample_command fresh_process = Inr ((), t)) \<and>
   (\<exists>e. main_program sample_world sample_env 9 (Inr sample_thread) 0x1000 [] [''jvm'', ''A''] 1 fresh_process = Some (Inl e)) \<and>
   main_program sample_world sample_env 9 (Inr sample_thread) 0x1000 [(118, None)] [''jvm''] 1 fresh_process = Some (Inr Version_Shown)"
proof -
  have fresh: "p_jvm_current fresh_process = None" "\<forall>l. v_loaders (p_vm fresh_process) l = None"
    by (simp_all add: fresh_process_def)
  have "ParseCommand [] [''jvm'', ''A''] 1 = Inr sample_command"
    "ParseCommand [(118, None)] [''jvm''] 1 = Inr (Command_new\<lparr>cmd_version_flag := True\<rparr>)"
    by (simp_all add: ParseCommand_def sample_command_def Command_new_def switch_option_def opt_defs)
  then show ?thesis
    using start_always_fails [OF fresh, where opts = "[]" and argv = "[''jvm'', ''A'']" and optind = 1 and w = sample_world and env = sample_env
        and k = 9 and thread = "Inr sample_thread" and block = "0x1000"]
      start_always_fails [OF fresh, where opts = "[(118, None)]" and argv = "[''jvm'']" and optind = 1 and w = sample_world
        and env = sample_env and k = 9 and thread = "Inr sample_thread" and block = "0x1000"]
      sample_machine_made
    by (simp add: PrintVersion_def PrintHelp_def Command_GetClassName_def sample_command_def Command_new_def)
qed

section \<open>Whole programs\<close>

definition local_code :: "instruction list" where
  "local_code = [ConstI ICONST_1, ConstI ICONST_2, ArithI (ADD Int32), StoreI (STORE_0 Int32), RetI RETURN]"

lemma sample_opcodes:
  "opcode_of (ConstI ICONST_1) = Some 4" "opcode_of (ConstI ICONST_2) = Some 5" "opcode_of (ArithI (ADD Int32)) = Some 0x60"
  "opcode_of (StoreI (STORE_0 Int32)) = Some 0x3B" "opcode_of (RetI RETURN) = Some 0xB1" "opcode_of (RetI IRETURN) = Some 0xAC"
  "opcode_of (LoadI (LOAD_0 Int32)) = Some 0x1A" "opcode_of (LoadI (LOAD_1 Int32)) = Some 0x1B"
  "opcode_of (InvI (INVOKE_STATIC 1)) = Some 0xB8" "opcode_of (InvI (INVOKE_VIRTUAL 1)) = Some 0xB6"
  "opcode_of (CmpI (IFEQ 12)) = Some 0x99" "opcode_of (ArithI (SUB Int32)) = Some 0x64" "opcode_of (ConstI ICONST_0) = Some 3"
  "opcode_of (CtrlI (GOTO 0)) = Some 0xA7"
  by (simp_all add: opcode_of_def opcode_table_def const_table_def load_table_def store_table_def stack_table_def arithmetic_table_def
    conversion_table_def compare_table_def control_table_def reference_table_def extend_table_def)

lemmas encoding = encode_inst_def inst_addr_def wf_instruction_def emit_u2_def small16_def sample_opcodes local_code_def

definition local_method :: meth where
  "local_method = sample_method\<lparr>m_codes := Some (encode_all 0 local_code)\<rparr>"

definition local_frame :: frame where
  "local_frame = Frame_new local_method None"

definition one_frame_vm :: "frame \<Rightarrow> class_table \<Rightarrow> vm" where
  "one_frame_vm f ct = with_stack \<lparr>st_base = 0, st_sp = 80, st_fp = Some 0, st_max_size = 1024,
     st_mem = (\<lambda>a. if a = 0 then Some f else None)\<rparr> (sample_vm\<lparr>v_classes := ct\<rparr>)"

lemma one_frame_repr: "fr_prev_fp f = None \<Longrightarrow> stack_repr (vm_stack_of (one_frame_vm f ct)) [f]"
  by (simp add: one_frame_vm_def stack_repr_def sizeof_Frame_def)

lemma local_code_assembled: "assembled local_code local_method"
proof -
  have "encode_all 0 local_code = [4, 5, 0x60, 0x3B, 0xB1]" "list_all wf_instruction local_code"
    by (simp_all add: encoding)
  then show ?thesis
    by (simp add: assembled_def local_method_def)
qed

definition local_result :: frame where
  "local_result = local_frame\<lparr>fr_local_vars := [3, 0, 0, 0], fr_operand_stack := \<lparr>os_top = 0, os_slots = [3, 2, 0, 0]\<rparr>,
     fr_next_pc := 4\<rparr>"

lemmas evaluation = op_simps NextPc_def SetNextPc_def on_operands_def on_locals_def on_slots_def move_top_def Let_def
  PushInt_def PopInt_def IsFull_def IsEmpty_def Slots_GetSize_def Slots_SetInt_def Slots_GetInt_def vec_set_def vec_get_def
  PopOperandStack_def binary_op_def Load_def Store_def local_vars_defs signed_result_def

lemma four_slots: "Slots_new 4 = [0, 0, 0, 0]"
  by code_simp

lemma local_code_runs: "run_insts local_code [0, 1, 2, 3] local_frame = Some local_result"
proof -
  have addr: "inst_addr local_code 0 = 0" "inst_addr local_code (Suc 0) = 1" "inst_addr local_code (Suc (Suc 0)) = 2"
    "inst_addr local_code 2 = 2" "inst_addr local_code 3 = 3" "inst_addr local_code 4 = 4" "length local_code = 5"
    by (simp_all add: encoding)
  have nth: "local_code ! 0 = ConstI ICONST_1" "local_code ! Suc 0 = ConstI ICONST_2" "local_code ! 2 = ArithI (ADD Int32)"
    "local_code ! 3 = StoreI (STORE_0 Int32)"
    by (simp_all add: local_code_def)
  have frame: "local_frame = \<lparr>fr_prev_fp = None, fr_local_vars = [0, 0, 0, 0], fr_operand_stack = \<lparr>os_top = 0, os_slots = [0, 0, 0, 0]\<rparr>,
      fr_method = local_method, fr_next_pc = 0\<rparr>"
    using four_slots
    by (simp add: local_frame_def Frame_new_def LocalVars_new_def OperandStack_new_def local_method_def sample_method_def)
  show ?thesis
    by (simp add: at_inst_def addr nth frame local_result_def evaluation)
qed

text \<open>
  C4: programs. A list of instructions, each executed on one frame with the program counter at its start, is what the interpreter
  does on the bytes of its encoding: every sequence of steps of the program, branches included, is a sequence of
  rounds of the loop on the current frame, which leaves the other frames and the rest of the machine alone. When it
  reaches a \<open>return\<close> in the only frame, the loop ends.
\<close>

theorem programs_are_followed:
  assumes "(prog_step P)\<^sup>*\<^sup>* f g" and "stack_repr (vm_stack_of s) (f # fs)"
    and "assembled P (fr_method f)" and "frame_wf f"
  shows "(\<exists>t. vm_steps env load reg s t \<and> stack_repr (vm_stack_of t) (g # fs) \<and> same_world t s) \<and>
    (fs = [] \<and> at_inst P n g \<and> P ! n = RetI RETURN \<longrightarrow>
      (\<exists>t. LoopExecute env load reg s = Some (Inr t) \<and> stack_empty t \<and> same_world t s))"
  using prog_steps_rounds [OF assms, of env load reg] program_returns [OF assms(1) _ assms(3,4), of s n env load reg] assms(2)
  by blast

theorem programs_are_followed_witness:
  "\<exists>t. LoopExecute sample_env (LoadClass sample_env 3) [] (one_frame_vm local_frame sample_table) = Some (Inr t) \<and> stack_empty t"
proof -
  have "at_inst local_code 4 local_result" "local_code ! 4 = RetI RETURN"
    by (simp_all add: at_inst_def encoding local_result_def NextPc_def)
  then show ?thesis
    using programs_are_followed [OF run_insts_steps [OF local_code_runs] one_frame_repr [where ct = sample_table], of sample_env
        "LoadClass sample_env 3" "[]" 4] local_code_assembled frame_wf_new [of local_method None]
    by (auto simp: local_frame_def Frame_new_def)
qed

text \<open>
  C12: what becomes of a program of instructions on one frame and \<open>return\<close>, from a frame in which it stays at its
  instructions. The interpreter runs forever on its bytes exactly when the program goes on forever, ends exactly when the
  program comes to a \<open>return\<close>, and stops with an error exactly when the program comes to an instruction with that error.
\<close>

theorem program_fates:
  assumes "stack_repr (vm_stack_of s) [f]" and "assembled P (fr_method f)" and "frame_wf f"
    and "frame_program P" and "stays_inside P f"
  shows "(LoopExecute env load reg s = None \<longleftrightarrow> prog_endless P f) \<and>
    ((\<exists>t. LoopExecute env load reg s = Some (Inr t)) \<longleftrightarrow> prog_returns P f) \<and>
    (\<forall>e. LoopExecute env load reg s = Some (Inl e) \<longleftrightarrow> prog_fails P f e)"
  using three_fates [OF assms] by blast

definition goto_code :: "instruction list" where
  "goto_code = [CtrlI (GOTO 0)]"

definition goto_frame :: frame where
  "goto_frame = Frame_new (sample_method\<lparr>m_codes := Some (encode_all 0 goto_code)\<rparr>) None"

lemma goto_code_assembled: "assembled goto_code (fr_method goto_frame)"
proof -
  have "encode_all 0 goto_code = [0xA7, 0, 0]" "list_all wf_instruction goto_code"
    by (simp_all add: encoding goto_code_def signed16_def)
  then show ?thesis
    by (simp add: assembled_def goto_frame_def Frame_new_def)
qed

lemma goto_step: "prog_step goto_code goto_frame g \<longleftrightarrow> g = goto_frame"
proof -
  have at: "at_inst goto_code n goto_frame \<longleftrightarrow> n = 0" for n
    by (auto simp: at_inst_def goto_code_def goto_frame_def Frame_new_def NextPc_def inst_addr_def)
  have run: "exec_control 0 (GOTO 0) (SetNextPc p goto_frame) = Inr ((), goto_frame)" for p
    by (simp add: Branch_def modifies_def SetNextPc_def goto_frame_def Frame_new_def)
  have "NextPc goto_frame = 0"
    by (simp add: goto_frame_def Frame_new_def NextPc_def)
  moreover have "goto_code ! 0 = CtrlI (GOTO 0)"
    by (simp add: goto_code_def)
  ultimately show ?thesis
    using run by (auto simp: prog_step.simps at simp del: exec_control.simps)
qed

lemma goto_endless: "prog_endless goto_code goto_frame"
  by (coinduction) (simp add: goto_step)

lemma goto_inside: "stays_inside goto_code goto_frame"
proof -
  have "g = goto_frame" if "(prog_step goto_code)\<^sup>*\<^sup>* goto_frame g" for g
    using that by (induction rule: rtranclp_induct) (simp_all add: goto_step)
  moreover have "at_inst goto_code 0 goto_frame"
    by (simp add: at_inst_def goto_code_def goto_frame_def Frame_new_def NextPc_def inst_addr_def)
  ultimately show ?thesis
    unfolding stays_inside_def by blast
qed

theorem program_fates_witness:
  "LoopExecute sample_env (LoadClass sample_env 3) [] (one_frame_vm goto_frame sample_table) = None"
proof -
  have "stack_repr (vm_stack_of (one_frame_vm goto_frame sample_table)) [goto_frame]"
    by (rule one_frame_repr) (simp add: goto_frame_def Frame_new_def)
  moreover have "frame_wf goto_frame"
    unfolding goto_frame_def by (rule frame_wf_new)
  moreover have "frame_program goto_code"
    by (simp add: frame_program_def goto_code_def)
  ultimately show ?thesis
    using program_fates [OF _ goto_code_assembled _ _ goto_inside, of "one_frame_vm goto_frame sample_table" sample_env
        "LoadClass sample_env 3" "[]"] goto_endless by blast
qed

text \<open>
  C3: the invariant of the machine. When the frames in the block of the thread are well formed and linked, the classes form a
  hierarchy without cycles and dangling pointers, and the spaces of the heap are in order, then this is so after every number
  of rounds, whatever instructions the methods contain, and after the loop; all that is asked of new class objects is
  that they are appended and that the thread and the spaces of the heap are left alone.
\<close>

theorem machine_invariant:
  assumes "machine_maker mk" and "machine_ok s"
  shows "(vm_steps env (load_class env mk k) reg s t \<longrightarrow> machine_ok t) \<and>
    (LoopExecute env (load_class env mk k) reg s = Some (Inr u) \<longrightarrow> machine_ok u \<and> stack_empty u)"
proof -
  have load: "machine_load (load_class env mk k)"
    by (rule machine_load.intro) (rule machine_maker.machine_load [OF assms(1)])
  show ?thesis
    using machine_load.machine_vm_steps [OF load _ assms(2)] machine_load.machine_LoopExecute [OF load _ assms(2)] by blast
qed

lemma local_vm_ok: "machine_ok (one_frame_vm local_frame sample_table)"
proof -
  have "8 dvd unat (0x1000 :: uptr)" "unat (0x20000000 :: size_t) + 8 \<le> 2 ^ 64"
    by simp_all
  moreover have "unat (0x1000 :: uptr) + unat (h_absolute_max_size (Heap_new 0x1000 0x20000000)) < 2 ^ 64"
    by (simp add: Heap_new_def Let_def RoundUp_def RoundDown_def kMinHeapSize_def kObjectAlignment_def)
  ultimately have "heap_wf (Heap_new 0x1000 0x20000000)"
    by (rule Heap_new_wf [THEN conjunct1])
  moreover have "frames_ok (vm_stack_of (one_frame_vm local_frame sample_table))"
    using one_frame_repr [of local_frame sample_table] frame_wf_new [of local_method None]
    by (auto simp: frames_ok_def local_frame_def intro!: exI [of _ "[Frame_new local_method None]"])
  moreover have "loads_ok {0, 1} (one_frame_vm local_frame sample_table)"
    using sample_vm_ok by (simp add: loads_ok_def one_frame_vm_def cache_of_def with_stack_def sample_vm_def)
  ultimately show ?thesis
    by (auto simp: machine_ok_def one_frame_vm_def with_stack_def sample_vm_def)
qed

theorem machine_invariant_witness:
  "\<exists>t. vm_steps sample_env (load_class sample_env construct_class 3) [] (one_frame_vm local_frame sample_table) t \<and>
    stack_repr (vm_stack_of t) [local_result] \<and> machine_ok t"
proof -
  obtain t where "vm_steps sample_env (load_class sample_env construct_class 3) [] (one_frame_vm local_frame sample_table) t"
    "stack_repr (vm_stack_of t) [local_result]"
    using prog_steps_rounds [OF run_insts_steps [OF local_code_runs] one_frame_repr [where ct = sample_table], of sample_env
        "load_class sample_env construct_class 3" "[]"] local_code_assembled frame_wf_new [of local_method None]
    by (auto simp: local_frame_def Frame_new_def)
  then show ?thesis
    using machine_invariant [OF constructed_rest.machine_maker_axioms local_vm_ok] by blast
qed

section \<open>Calls\<close>

text \<open>A method that calls itself: the sum of the numbers up to its argument.\<close>

definition sum_code :: "instruction list" where
  "sum_code = [LoadI (LOAD_0 Int32), CmpI (IFEQ 12), LoadI (LOAD_0 Int32), LoadI (LOAD_0 Int32), ConstI ICONST_1, ArithI (SUB Int32),
     InvI (INVOKE_STATIC 1), ArithI (ADD Int32), RetI IRETURN, ConstI ICONST_0, RetI IRETURN]"

definition sum_method :: meth where
  "sum_method = sample_method\<lparr>cm_access_flags := 9, cm_name := ''sum'', cm_descriptor := ''(I)I'', m_arg_slot_count := 1,
     m_codes := Some (encode_all 0 sum_code)\<rparr>"

definition sum_table :: class_table where
  "sum_table = [Class_new\<lparr>c_clinit_started := True, c_methods := [sum_method],
     c_constant_pool := Some [None, Some (MethodRefConstant ''A'' ''sum'' ''(I)I'' (Some 0) (Some (0, 0)))]\<rparr>]"

lemma sum_code_addr:
  "inst_addr sum_code 0 = 0" "inst_addr sum_code (Suc 0) = 1" "inst_addr sum_code (Suc (Suc 0)) = 4" "inst_addr sum_code 2 = 4" "inst_addr sum_code 3 = 5"
  "inst_addr sum_code 4 = 6" "inst_addr sum_code 5 = 7" "inst_addr sum_code 6 = 8" "inst_addr sum_code 7 = 11"
  "inst_addr sum_code 8 = 12" "inst_addr sum_code 9 = 13" "inst_addr sum_code 10 = 14" "length sum_code = 11"
  by (simp_all add: encoding sum_code_def)

lemma sum_code_nth:
  "sum_code ! 0 = LoadI (LOAD_0 Int32)" "sum_code ! Suc 0 = CmpI (IFEQ 12)" "sum_code ! 2 = LoadI (LOAD_0 Int32)"
  "sum_code ! 3 = LoadI (LOAD_0 Int32)" "sum_code ! 4 = ConstI ICONST_1" "sum_code ! 5 = ArithI (SUB Int32)"
  "sum_code ! 6 = InvI (INVOKE_STATIC 1)" "sum_code ! 7 = ArithI (ADD Int32)" "sum_code ! 8 = RetI IRETURN"
  "sum_code ! 9 = ConstI ICONST_0" "sum_code ! 10 = RetI IRETURN"
  by (simp_all add: sum_code_def)

lemma sum_code_assembled: "assembled sum_code sum_method"
proof -
  have "encode_all 0 sum_code = [0x1A, 0x99, 0, 12, 0x1A, 0x1A, 4, 0x64, 0xB8, 0, 1, 0x60, 0xAC, 3, 0xAC]"
    "list_all wf_instruction sum_code"
    by (simp_all add: encoding sum_code_def signed16_def)
  then show ?thesis
    by (simp add: assembled_def sum_method_def)
qed

lemma sum_entry: "entry_frame sum_method p [n] = \<lparr>fr_prev_fp = p, fr_local_vars = [n, 0, 0, 0],
  fr_operand_stack = \<lparr>os_top = 0, os_slots = [0, 0, 0, 0]\<rparr>, fr_method = sum_method, fr_next_pc = 0\<rparr>"
  using four_slots
  by (simp add: entry_frame_def Frame_new_def OperandStack_new_def sum_method_def sample_method_def numeral_3_eq_3)

lemmas sum_evaluation = at_inst_def sum_code_addr sum_code_nth evaluation if_int_def Branch_def modifies_def

lemma sum_zero: "run_insts sum_code [0, 1, 9] (entry_frame sum_method p [0]) =
  Some ((entry_frame sum_method p [0])\<lparr>fr_operand_stack := \<lparr>os_top = 1, os_slots = [0, 0, 0, 0]\<rparr>, fr_next_pc := 14\<rparr>)"
  by (simp add: sum_entry sum_evaluation)

lemma sint_small:
  assumes "j < 2 ^ 31"
  shows "sint (of_nat j :: 32 word) = int j"
proof -
  have "sint (of_int (int j) :: 32 word) = int j"
    by (rule sint_of_int_in) (use assms in simp_all)
  then show ?thesis
    by simp
qed

lemma sum_suc: "0 < sint n \<Longrightarrow> run_insts sum_code [0, 1, 2, 3, 4, 5] (entry_frame sum_method p [n]) =
  Some ((entry_frame sum_method p [n])\<lparr>fr_operand_stack := \<lparr>os_top = 2, os_slots = [n, n - 1, 1, 0]\<rparr>, fr_next_pc := 8\<rparr>)"
  by (cases "n = 0") (use sint_bounds [of n] in \<open>simp_all add: sum_entry sum_evaluation\<close>)

definition sum_upto :: "nat \<Rightarrow> nat" where
  "sum_upto k = k * (k + 1) div 2"

lemma sum_upto_simps: "sum_upto 0 = 0" "sum_upto (Suc k) = Suc k + sum_upto k"
  by (simp_all add: sum_upto_def algebra_simps)

lemma sum_upto_bound: "k < 12 \<Longrightarrow> sum_upto k < 100"
  using mult_le_mono [of k 11 "k + 1" 12] by (simp add: sum_upto_def)

lemma sum_add:
  assumes "frame_stk (SetNextPc 11 f) [n, v] 4 g" and "0 \<le> sint n" "0 \<le> sint v" "sint n + sint v < 2 ^ 31"
  obtains h where "run_insts sum_code [7] g = Some h" "NextPc h = 12" "stk [n + v] 4 (fr_operand_stack h)"
proof -
  obtain os where os: "g = (SetNextPc 11 f)\<lparr>fr_operand_stack := os\<rparr>" "stk [n, v] 4 os"
    using assms(1) by (auto simp: frame_stk_def)
  then have stk: "length (os_slots os) = 4" "take (Suc (Suc 0)) (os_slots os) = [n, v]" "unat (os_top os) = 2"
    by (simp_all add: stk_iff)
  from stk(1) obtain a b x y where slots: "os_slots os = [a, b, x, y]"
    by (auto simp: length_Suc_conv eval_nat_numeral)
  moreover have "a = n" "b = v"
    using stk(2) slots by simp_all
  moreover have "os_top os = 2"
    using stk(3) by (simp add: word_unat_eq_iff)
  ultimately have "os = \<lparr>os_top = 2, os_slots = [n, v, x, y]\<rparr>"
    by simp
  then have "run_insts sum_code [7] g = Some (g\<lparr>fr_operand_stack := \<lparr>os_top = 1, os_slots = [n + v, v, x, y]\<rparr>, fr_next_pc := 12\<rparr>)"
    using os(1) assms(2-4) by (simp add: sum_evaluation)
  then show thesis
    by (rule that) (simp_all add: NextPc_def stk_iff)
qed

lemma sum_target: "static_target sum_table (cm_class sum_method) 1 = Some sum_method"
  by (simp add: static_target_def method_of_ref_def pool_entry_def sum_table_def GetConstant_def vec_get_def method_at_def
      sum_method_def sample_method_def IsStatic_def has_flag_def)

lemma sum_can_call: "d < 11 \<Longrightarrow> length xs < 3 \<Longrightarrow> can_call 1024 (Suc d) sum_method xs [v] 4"
  by (simp add: can_call_def fits_def sizeof_Frame_def frame_need_def GetHeaderSize_def sum_method_def sample_method_def)

lemma sum_runs:
  assumes "v_classes w = sum_table"
  shows "d + k < 12 \<Longrightarrow> runs env w 1024 d (entry_frame sum_method p [of_nat k]) (returning sum_code (\<lambda>ys. ys = [of_nat (sum_upto k)]))"
proof (induction k arbitrary: d p)
  case 0
  have "runs env w 1024 d ((entry_frame sum_method p [0])\<lparr>fr_operand_stack := \<lparr>os_top = 1, os_slots = [0, 0, 0, 0]\<rparr>, fr_next_pc := 14\<rparr>)
      (returning sum_code (\<lambda>ys. ys = [0]))"
    by (rule runs.arrived, rule returningI [where k = 10 and r = IRETURN and zs = "[]" and c = 4])
      (simp_all add: at_inst_def sum_code_addr sum_code_nth NextPc_def ret_width_def stk_iff sum_entry)
  then show ?case
    using runs_insts [OF sum_zero] sum_code_assembled entry_frame_wf [of "[0]" sum_method p]
    by (simp add: sum_upto_simps sum_method_def sample_method_def)
next
  case (Suc k)
  define n :: slot where "n = of_nat (Suc k)"
  have small: "sint n = int (Suc k)" "sint (of_nat (sum_upto k) :: slot) = int (sum_upto k)"
    using Suc.prems sum_upto_bound [of k] sint_small [of "Suc k"] sint_small [of "sum_upto k"]
    by (simp_all add: n_def del: of_nat_Suc)
  then have n: "0 < sint n" "n - 1 = of_nat k"
    by (auto simp: n_def)
  let ?f = "(entry_frame sum_method p [n])\<lparr>fr_operand_stack := \<lparr>os_top = 2, os_slots = [n, n - 1, 1, 0]\<rparr>, fr_next_pc := 8\<rparr>"
  have "runs env w 1024 d ?f (returning sum_code (\<lambda>ys. ys = [of_nat (sum_upto (Suc k))]))"
  proof (rule runs.calls [where P = sum_code and n = 6 and xs = "[n]" and args = "[of_nat k]" and m = sum_method and Q = sum_code and c = 4
        and i = "INVOKE_STATIC 1" and V = "\<lambda>ys. ys = [of_nat (sum_upto k)]"])
    show "runs env w 1024 (Suc d) (entry_frame sum_method p [of_nat k]) (returning sum_code (\<lambda>ys. ys = [of_nat (sum_upto k)]))" for p
      using Suc by simp
    show "runs env w 1024 d g (returning sum_code (\<lambda>ys. ys = [of_nat (sum_upto (Suc k))]))"
      if ys: "ys = [of_nat (sum_upto k)]" and g: "frame_stk (SetNextPc (of_nat (inst_addr sum_code (Suc 6))) ?f) ([n] @ ys) 4 g"
        and g_of: "frame_of ?f g" for ys g
    proof -
      obtain h where h: "run_insts sum_code [7] g = Some h" "NextPc h = 12" "stk [n + of_nat (sum_upto k)] 4 (fr_operand_stack h)"
        using sum_add [of ?f n "of_nat (sum_upto k)" g] g ys small sum_upto_bound [of k] Suc.prems
        by (auto simp: sum_code_addr)
      have "frame_wf g" "fr_method g = sum_method"
        using g_of by (simp_all add: frame_of_def)
      moreover have "runs env w 1024 d h (returning sum_code (\<lambda>ys. ys = [of_nat (sum_upto (Suc k))]))"
        by (rule runs.arrived, rule returningI [where k = 8 and r = IRETURN and zs = "[]" and c = 4])
          (use h(2,3) in \<open>simp_all add: at_inst_def sum_code_addr sum_code_nth ret_width_def sum_upto_simps n_def add.assoc\<close>)
      ultimately show ?thesis
        using runs_insts [OF h(1)] sum_code_assembled by simp
    qed
  qed (use n Suc.prems assms sum_code_assembled in \<open>simp_all add: at_inst_def NextPc_def sum_code_addr sum_code_nth stk_iff sum_target sum_can_call\<close>)
  then show ?case
    using runs_insts [OF sum_suc [OF n(1)]] sum_code_assembled entry_frame_wf [of "[n]" sum_method p]
    by (simp add: n_def sum_method_def sample_method_def)
qed

definition sum_frame :: frame where
  "sum_frame = (entry_frame sum_method None [4])"

text \<open>
  C5: calls, nested to any depth. Whatever \<open>runs\<close> says of a frame, the rounds of the interpreter do: the steps of its
  program, and calls of static, special, virtual and interface methods, where the called method starts with its arguments
  in its local variables, makes calls itself, and returns its result to the operand stack of the caller, which goes on behind
  the call. The frames below and the rest of the machine are as before. When the run of the only frame ends at a
  return instruction, the interpreter loop returns. (The witness is a method that calls itself, started with 4.)
\<close>

theorem calls_are_followed:
  assumes "runs env s (st_max_size (vm_stack_of s)) (length fs) f R"
    and "stack_repr (vm_stack_of s) (f # fs)" and "frame_wf f"
  shows "\<exists>t g. vm_steps env load reg s t \<and> stack_repr (vm_stack_of t) (g # fs) \<and> R g \<and> same_world t s \<and> frame_of f g \<and>
    (fs = [] \<and> assembled P (fr_method f) \<and> at_inst P n g \<and> P ! n = RetI RETURN \<longrightarrow>
      (\<exists>u. LoopExecute env load reg s = Some (Inr u) \<and> stack_empty u \<and> same_world u s))"
proof -
  obtain t g where t: "vm_steps env load reg s t" "stack_repr (vm_stack_of t) (g # fs)" "R g" "same_world t s" "frame_of f g"
    using runs_rounds [OF assms(1,2) refl assms(3), of load reg] by (auto simp: same_world_def stack_bytes_def)
  moreover have "\<exists>u. LoopExecute env load reg s = Some (Inr u) \<and> stack_empty u \<and> same_world u s"
    if "fs = []" "assembled P (fr_method f)" "at_inst P n g" "P ! n = RetI RETURN"
    using return_ends [OF t(1) _ t(4) _ that(3,4)] t(2,5) that(1,2) by (simp add: frame_of_def)
  ultimately show ?thesis
    by blast
qed

theorem calls_are_followed_witness:
  "\<exists>t g. vm_steps sample_env (LoadClass sample_env 3) [] (one_frame_vm sum_frame sum_table) t \<and>
    stack_repr (vm_stack_of t) [g] \<and> returning sum_code (\<lambda>ys. ys = [10]) g"
proof -
  let ?s = "one_frame_vm sum_frame sum_table"
  have size: "st_max_size (vm_stack_of ?s) = 1024" "v_classes ?s = sum_table"
    by (simp_all add: one_frame_vm_def)
  have wf: "frame_wf sum_frame"
    unfolding sum_frame_def by (rule entry_frame_wf) (simp_all add: sum_method_def sample_method_def)
  have prev: "fr_prev_fp sum_frame = None"
    by (simp add: sum_frame_def sum_entry)
  have "runs sample_env ?s (st_max_size (vm_stack_of ?s)) (length ([] :: frame list)) sum_frame
      (returning sum_code (\<lambda>ys. ys = [10]))"
    using sum_runs [OF size(2), of 0 4 sample_env None] size(1) by (simp add: sum_frame_def sum_upto_def)
  then show ?thesis
    using calls_are_followed [of sample_env ?s "[]" sum_frame "returning sum_code (\<lambda>ys. ys = [10])" "LoadClass sample_env 3" "[]"]
      one_frame_repr [OF prev, of sum_table] wf by blast
qed

text \<open>A class whose method a second class overrides; an object of the second class is the receiver.\<close>

definition get_code :: "instruction list" where
  "get_code = [ConstI ICONST_2, RetI IRETURN]"

definition get_method :: "class_id \<Rightarrow> meth" where
  "get_method c = sample_method\<lparr>cm_name := ''get'', cm_descriptor := ''()I'', cm_class := c, m_arg_slot_count := 1,
     m_codes := (if c = 0 then None else Some (encode_all 0 get_code))\<rparr>"

definition virtual_code :: "instruction list" where
  "virtual_code = [InvI (INVOKE_VIRTUAL 1), RetI RETURN]"

definition virtual_table :: class_table where
  "virtual_table = [Class_new\<lparr>c_methods := [get_method 0],
     c_constant_pool := Some [None, Some (MethodRefConstant ''A'' ''get'' ''()I'' (Some 0) (Some (0, 0)))]\<rparr>,
     Class_new\<lparr>c_super_class := Some 0, c_methods := [get_method 1]\<rparr>]"

definition virtual_frame :: frame where
  "virtual_frame = (Frame_new (sample_method\<lparr>m_codes := Some (encode_all 0 virtual_code)\<rparr>) None)
     \<lparr>fr_operand_stack := \<lparr>os_top = 3, os_slots = [7, 5, 0, 0]\<rparr>\<rparr>"

definition virtual_vm :: vm where
  "virtual_vm = (one_frame_vm virtual_frame virtual_table)
     \<lparr>v_objects := (\<lambda>r. if r = 5 then Some (Object_new\<lparr>o_klass := Some 1\<rparr>) else None)\<rparr>"


lemma virtual_code_assembled: "assembled virtual_code (fr_method virtual_frame)" "assembled get_code (get_method 1)"
proof -
  have "encode_all 0 virtual_code = [0xB6, 0, 1, 0xB1]" "list_all wf_instruction virtual_code"
    "encode_all 0 get_code = [5, 0xAC]" "list_all wf_instruction get_code"
    by (simp_all add: encoding virtual_code_def get_code_def)
  then show "assembled virtual_code (fr_method virtual_frame)" "assembled get_code (get_method 1)"
    by (simp_all add: assembled_def virtual_frame_def Frame_new_def get_method_def)
qed

lemma get_code_runs: "run_insts get_code [0] (entry_frame (get_method 1) p [v]) =
  Some ((entry_frame (get_method 1) p [v])\<lparr>fr_operand_stack := \<lparr>os_top = 1, os_slots = [2, 0, 0, 0]\<rparr>, fr_next_pc := 1\<rparr>)"
proof -
  have addr: "inst_addr get_code 0 = 0" "inst_addr get_code (Suc 0) = 1" "inst_addr get_code 1 = 1" "length get_code = 2"
    by (simp_all add: encoding get_code_def)
  have nth: "get_code ! 0 = ConstI ICONST_2"
    by (simp add: get_code_def)
  have frame: "entry_frame (get_method 1) p [v] = \<lparr>fr_prev_fp = p, fr_local_vars = [v, 0, 0, 0],
      fr_operand_stack = \<lparr>os_top = 0, os_slots = [0, 0, 0, 0]\<rparr>, fr_method = get_method 1, fr_next_pc = 0\<rparr>"
    using four_slots
    by (simp add: entry_frame_def Frame_new_def OperandStack_new_def get_method_def sample_method_def numeral_3_eq_3)
  show ?thesis
    by (simp add: at_inst_def addr nth frame evaluation del: One_nat_def)
qed

lemma virtual_wf: "wf_classes virtual_table"
  by (rule wf_classesI [where rank = id])
    (auto simp: pointers_ok_def virtual_table_def hierarchy_def extends_rel_def implements_rel_def Class_new_def nth_Cons'
      less_Suc_eq)

lemma virtual_receiver: "receiver [7, 5, 0] (Suc 0) = 5"
  by (simp add: receiver_def dec2_def join32_def)

lemma virtual_class: "class_of_object sample_env virtual_vm 5 = Some 1"
  by (simp add: class_of_object_def GetClass_def virtual_vm_def Object_new_def)

lemma virtual_method: "method_of_ref virtual_table 0 1 = Some (''get'', ''()I'', 0, 0)" "method_at virtual_table (0, 0) = Inr (get_method 0)"
  by (simp_all add: method_of_ref_def pool_entry_def virtual_table_def GetConstant_def vec_get_def method_at_def)

lemma virtual_repr: "stack_repr (vm_stack_of virtual_vm) [virtual_frame]" "stk [7, 5, 0] 4 (fr_operand_stack virtual_frame)"
  "current_frame virtual_vm = Some 0" "v_classes virtual_vm = virtual_table" "cm_class (fr_method virtual_frame) = 0"
  "vm_stack_of virtual_vm = vm_stack_of (one_frame_vm virtual_frame virtual_table)"
  using one_frame_repr [of virtual_frame virtual_table]
  by (simp_all add: virtual_vm_def vm_stack_of_def virtual_frame_def Frame_new_def stk_iff one_frame_vm_def with_stack_def
      current_frame_def CurrentFrame_def sample_method_def)

lemma virtual_call_target: "call_target sample_env virtual_vm 0 [7, 5, 0] (INVOKE_VIRTUAL 1) = Some (get_method 1)"
proof -
  have "LookupMethodInClass virtual_table (Some 1) ''get'' ''()I'' = Inr (Some (1, 0))"
    by (simp add: LookupMethodInClass_def search_depth_def virtual_table_def names_def get_method_def)
  moreover have "method_at virtual_table (1, 0) = Inr (get_method 1)"
    by (simp add: method_at_def virtual_table_def vec_get_def)
  ultimately show ?thesis
    using virtual_method virtual_receiver virtual_class
    by (simp add: virtual_target_def virtual_repr receiver_of_def dispatched_def concrete_def permitted_def illegal_access_def
        get_method_def sample_method_def IsStatic_def IsAbstract_def IsProtected_def has_flag_def ret_def)
qed

text \<open>
  A virtual call: the method of the class of the object runs. The receiver counts as one argument slot
  and has two, so that its lower half stays on the operand stack of the caller, under the result.
\<close>

lemma virtual_call_runs:
  "runs sample_env virtual_vm 1024 0 virtual_frame (\<lambda>g. NextPc g = 3 \<and> stk [7, 5, 2] 4 (fr_operand_stack g))"
proof (rule runs.calls [where P = virtual_code and n = 0 and xs = "[7, 5]" and args = "[0]" and m = "get_method 1" and Q = get_code and c = 4
      and i = "INVOKE_VIRTUAL 1" and V = "\<lambda>ys. ys = [2]"])
  have addr: "inst_addr virtual_code 0 = 0" "inst_addr virtual_code 1 = 3" "inst_addr get_code 1 = 1"
    "length virtual_code = 2" "length get_code = 2" "virtual_code ! 0 = InvI (INVOKE_VIRTUAL 1)" "get_code ! 1 = RetI IRETURN"
    by (simp_all add: encoding get_code_def virtual_code_def)
  show "at_inst virtual_code 0 virtual_frame" "virtual_code ! 0 = InvI (INVOKE_VIRTUAL 1)"
    using addr by (simp_all add: at_inst_def NextPc_def virtual_frame_def Frame_new_def)
  show "call_target sample_env virtual_vm (cm_class (fr_method virtual_frame)) ([7, 5] @ [0]) (INVOKE_VIRTUAL 1) = Some (get_method 1)"
    using virtual_call_target by (simp add: virtual_repr)
  show "can_call 1024 (Suc 0) (get_method 1) [7, 5] [0] 4"
    by (simp add: can_call_def fits_def sizeof_Frame_def frame_need_def GetHeaderSize_def get_method_def sample_method_def)
  show "runs sample_env virtual_vm 1024 (Suc 0) (entry_frame (get_method 1) p [0]) (returning get_code (\<lambda>ys. ys = [2]))" for p
  proof (rule runs_insts [OF get_code_runs])
    show "frame_wf (entry_frame (get_method 1) p [0])"
      by (rule entry_frame_wf) (simp_all add: get_method_def sample_method_def)
    show "runs sample_env virtual_vm 1024 (Suc 0)
       ((entry_frame (get_method 1) p [0])\<lparr>fr_operand_stack := \<lparr>os_top = 1, os_slots = [2, 0, 0, 0]\<rparr>, fr_next_pc := 1\<rparr>)
       (returning get_code (\<lambda>ys. ys = [2]))"
      using addr by (intro runs.arrived returningI [where k = 1 and r = IRETURN and zs = "[]" and c = 4])
        (simp_all add: at_inst_def NextPc_def ret_width_def stk_iff)
  qed (use virtual_code_assembled in simp)
  show "runs sample_env virtual_vm 1024 0 g (\<lambda>g. NextPc g = 3 \<and> stk [7, 5, 2] 4 (fr_operand_stack g))"
    if "ys = [2]" "frame_stk (SetNextPc (of_nat (inst_addr virtual_code (Suc 0))) virtual_frame) ([7, 5] @ ys) 4 g" for ys g
    using that addr by (intro runs.arrived) (auto simp: frame_stk_def SetNextPc_def NextPc_def)
qed (use virtual_code_assembled virtual_repr in simp_all)

text \<open>
  C6: dispatch. What a virtual call does, whatever its receiver is, once its reference is resolved and the hierarchy has no
  cycle: it is fatal when the receiver is the reference at the bottom of the operand stack, or lies below it; it
  is a null-pointer error for null; otherwise it invokes the nearest method with the name and descriptor of the
  reference, going up from the class of the object, and is an error when there is none or when it is abstract.
\<close>

theorem virtual_dispatch:
  assumes "stack_repr (vm_stack_of s) (f # fs)" and "stk xs c (fr_operand_stack f)"
    and "method_of_ref (v_classes s) (cm_class (fr_method f)) i = Some (n, d, mid)" and "method_at (v_classes s) mid = Inr r"
    and "\<not> IsStatic r" and "cm_name r \<noteq> ''println''"
    and "0 < unat (m_arg_slot_count r)" and "unat (m_arg_slot_count r) < 2 ^ 16" and "wf_classes (v_classes s)"
  shows "(length xs \<le> unat (m_arg_slot_count r) + 1 \<longrightarrow> exec_INVOKE_VIRTUAL env load i (current_frame s) s =
        Inl (Fatal ''GetRefFromTop operand_stack_ size less than'')) \<and>
    (unat (m_arg_slot_count r) + 1 < length xs \<and> receiver xs (unat (m_arg_slot_count r)) = 0 \<longrightarrow>
      exec_INVOKE_VIRTUAL env load i (current_frame s) s = Inl (Fatal ''java.lang.NullPointerException'')) \<and>
    (\<forall>p k. receiver_of xs r = Some p \<and> permitted env s r (cm_class (fr_method f)) p \<and>
        class_of_object env s p = Some k \<and> k < length (v_classes s) \<longrightarrow>
      (\<exists>q. nearest_method (v_classes s) (names n d) k q \<and> exec_INVOKE_VIRTUAL env load i (current_frame s) s =
         (case Option.bind q (concrete (v_classes s)) of
            None \<Rightarrow> Inl (Fatal ''java.lang.AbstractMethodError'')
          | Some m \<Rightarrow> InvokeMethod (current_frame s) m s)))"
  using virtual_outcome [OF assms(1-8)] assms(9) by blast

theorem virtual_dispatch_witness:
  "\<exists>q. nearest_method virtual_table (names ''get'' ''()I'') 1 q \<and>
     exec_INVOKE_VIRTUAL sample_env (LoadClass sample_env 3) 1 (Some 0) virtual_vm =
       (case Option.bind q (concrete virtual_table) of
          None \<Rightarrow> Inl (Fatal ''java.lang.AbstractMethodError'')
        | Some m \<Rightarrow> InvokeMethod (Some 0) m virtual_vm)"
proof -
  have r: "\<not> IsStatic (get_method 0)" "cm_name (get_method 0) \<noteq> ''println''" "unat (m_arg_slot_count (get_method 0)) = 1"
    by (simp_all add: get_method_def sample_method_def IsStatic_def has_flag_def)
  have "receiver_of [7, 5, 0] (get_method 0) = Some 5" "permitted sample_env virtual_vm (get_method 0) 0 5"
    using virtual_receiver r(3)
    by (simp_all add: receiver_of_def permitted_def illegal_access_def IsProtected_def has_flag_def get_method_def sample_method_def ret_def)
  moreover have "1 < length (v_classes virtual_vm)"
    by (simp add: virtual_repr virtual_table_def)
  ultimately have "receiver_of [7, 5, 0] (get_method 0) = Some 5 \<and>
      permitted sample_env virtual_vm (get_method 0) (cm_class (fr_method virtual_frame)) 5 \<and>
      class_of_object sample_env virtual_vm 5 = Some 1 \<and> 1 < length (v_classes virtual_vm)"
    using virtual_class by (simp add: virtual_repr)
  moreover have "method_of_ref (v_classes virtual_vm) (cm_class (fr_method virtual_frame)) 1 = Some (''get'', ''()I'', 0, 0)"
    "method_at (v_classes virtual_vm) (0, 0) = Inr (get_method 0)" "wf_classes (v_classes virtual_vm)"
    using virtual_method virtual_wf by (simp_all add: virtual_repr)
  ultimately have "\<exists>q. nearest_method (v_classes virtual_vm) (names ''get'' ''()I'') 1 q \<and>
     exec_INVOKE_VIRTUAL sample_env (LoadClass sample_env 3) 1 (current_frame virtual_vm) virtual_vm =
       (case Option.bind q (concrete (v_classes virtual_vm)) of
          None \<Rightarrow> Inl (Fatal ''java.lang.AbstractMethodError'')
        | Some m \<Rightarrow> InvokeMethod (current_frame virtual_vm) m virtual_vm)"
    using virtual_dispatch [OF virtual_repr(1,2) _ _ r(1,2), of 1 "''get''" "''()I''" "(0, 0)",
        THEN conjunct2, THEN conjunct2, THEN spec, THEN spec, THEN mp] r(3) by simp
  then show ?thesis
    by (simp only: virtual_repr)
qed

section \<open>Exceptions, initialisation, resolution\<close>

definition catch_table :: class_table where
  "catch_table = [Class_new\<lparr>c_name := ''E'', c_constant_pool := Some [None, Some (ClassRefConstant ''E'' (Some 0))]\<rparr>,
     Class_new\<lparr>c_name := ''F'', c_super_class := Some 0\<rparr>]"

definition catching_frame :: frame where
  "catching_frame = (Frame_new (sample_method\<lparr>m_exception_table :=
       Some [\<lparr>eh_start_pc = 0, eh_end_pc = 4, eh_handler_pc = 9, eh_catch_type = Some 1\<rparr>]\<rparr>) None)\<lparr>fr_next_pc := 3\<rparr>"

definition throwing_frame :: frame where
  "throwing_frame = (Frame_new (sample_method\<lparr>m_exception_table := Some []\<rparr>) (Some 0))
     \<lparr>fr_operand_stack := \<lparr>os_top = 2, os_slots = [1, 0, 0, 0]\<rparr>\<rparr>"

definition throw_vm :: vm where
  "throw_vm = with_stack \<lparr>st_base = 0, st_sp = 160, st_fp = Some 80, st_max_size = 1024,
     st_mem = (\<lambda>a. if a = 0 then Some catching_frame else if a = 80 then Some throwing_frame else None)\<rparr>
     (sample_vm\<lparr>v_classes := catch_table, v_objects := (\<lambda>r. if r = 1 then Some (heap_object (Some 1) 24) else None)\<rparr>)"

lemma catch_table_wf: "wf_classes catch_table"
  by (rule wf_classesI [where rank = id])
    (auto simp: catch_table_def Class_new_def pointers_ok_def hierarchy_def extends_rel_def implements_rel_def less_Suc_eq)

text \<open>
  C13: exceptions. With the catch types resolved, \<open>athrow\<close> drops the frames above the first one that has a handler: an
  entry of its table that covers the instruction and names the class of the exception, a super class of it, or
  no class, the first such entry counting. That frame goes on at the handler with the exception as its only
  operand. When no frame has a handler all frames are dropped. A first such entry whose handler is at position 0 of the code
  counts as none.
\<close>

theorem athrow_goes_to_handler:
  assumes "stack_repr (vm_stack_of s) (f # fs)" and "throwable s r ex (f # fs)"
    and "stk (xs @ enc2 r) c (fr_operand_stack f)"
    and "\<forall>f \<in> set (f # fs). caught (v_classes s) ex f \<longrightarrow> 2 \<le> length (os_slots (fr_operand_stack f))"
  shows "\<exists>found st gs. exec_ATHROW env load (current_frame s) s = Inr ((), with_stack st s) \<and> stack_repr st gs \<and>
    thrown (v_classes s) ex r (f # fs) found gs"
  using assms by (rule athrow_frames)

theorem athrow_goes_to_handler_witness:
  "\<exists>st g. exec_ATHROW sample_env (LoadClass sample_env 3) (current_frame throw_vm) throw_vm = Inr ((), with_stack st throw_vm) \<and>
    stack_repr st [g] \<and> fr_next_pc g = 9 \<and> stk (enc2 1) 4 (fr_operand_stack g)"
proof -
  have repr: "stack_repr (vm_stack_of throw_vm) [throwing_frame, catching_frame]"
    by (simp add: throw_vm_def stack_repr_def sizeof_Frame_def throwing_frame_def catching_frame_def Frame_new_def)
  have res: "resolved catch_table 0 1 = Some 0"
    by code_simp
  have classes: "v_classes throw_vm = catch_table" "length catch_table = 2"
    by (simp_all add: throw_vm_def catch_table_def)
  have "(1, 0) \<in> (extends_rel catch_table)\<^sup>*"
    by (rule r_into_rtrancl) (simp add: extends_rel_def catch_table_def Class_new_def)
  then have at: "caught_at catch_table 1 catching_frame = 9" "caught_at catch_table 1 throwing_frame = - 1"
    using res by (simp_all add: caught_at_def handler_of_def handler_in_def covers_def catches_def catching_frame_def throwing_frame_def
        Frame_new_def NextPc_def sample_method_def word_sless_alt word_sle_eq)
  have "throwable throw_vm 1 1 [throwing_frame, catching_frame]"
    using catch_table_wf res classes four_slots
    by (auto simp: throwable_def throw_vm_def heap_object_def SetClass_def catch_types_resolved_def throwing_frame_def catching_frame_def
        Frame_new_def sample_method_def frame_wf_def os_inv_def os_wf_def OperandStack_new_def LocalVars_new_def)
  moreover have "stk ([] @ enc2 1) 4 (fr_operand_stack throwing_frame)"
    by (simp add: throwing_frame_def stk_iff enc2_def lo32_ucast hi32_ucast)
  moreover have "\<forall>f \<in> set [throwing_frame, catching_frame]. 2 \<le> length (os_slots (fr_operand_stack f))"
    using four_slots by (simp add: throwing_frame_def catching_frame_def Frame_new_def OperandStack_new_def sample_method_def)
  ultimately obtain found st gs where run: "exec_ATHROW sample_env (LoadClass sample_env 3) (current_frame throw_vm) throw_vm =
      Inr ((), with_stack st throw_vm)" "stack_repr st gs" and "thrown catch_table 1 1 [throwing_frame, catching_frame] found gs"
    using athrow_goes_to_handler [OF repr, of 1 1 "[]" 4 sample_env "LoadClass sample_env 3"] classes(1) by auto
  moreover have "length (os_slots (fr_operand_stack catching_frame)) = 4"
    using four_slots by (simp add: catching_frame_def Frame_new_def OperandStack_new_def sample_method_def)
  moreover have "caught catch_table 1 catching_frame" "\<not> caught catch_table 1 throwing_frame"
    using at by (simp_all add: caught_def word_sless_alt)
  ultimately obtain os where "stk (enc2 1) 4 os" "gs = [catching_frame\<lparr>fr_operand_stack := os, fr_next_pc := 9\<rparr>]"
    using at by (auto simp: thrown_def handling_def)
  then show ?thesis
    using run by (intro exI [of _ st] exI [of _ "catching_frame\<lparr>fr_operand_stack := os, fr_next_pc := 9\<rparr>"]) simp
qed

definition clinit_method :: "class_id \<Rightarrow> meth" where
  "clinit_method c = sample_method\<lparr>cm_access_flags := 8, cm_name := ''<clinit>'', cm_descriptor := ''()V'', cm_class := c\<rparr>"

definition clinit_table :: class_table where
  "clinit_table = [Class_new\<lparr>c_methods := [clinit_method 0]\<rparr>,
     Class_new\<lparr>c_methods := [clinit_method 1], c_super_class := Some 0\<rparr>]"

text \<open>
  C14: initialisation. \<open>InitClass\<close> marks the class and its super classes up to the first one whose initialisation has begun, and
  pushes a frame for each of them that has an initialiser of its own: the class first, so that the initialiser of
  the topmost super class is the current frame and runs first. Nothing else changes. The interfaces are not
  initialised.
\<close>

theorem initialisation_order:
  assumes "wf_classes (v_classes s)" and "members_owned (v_classes s)" and "c < length (v_classes s)"
    and "stack_repr (vm_stack_of s) fs" and "cs = init_chain (search_depth (v_classes s)) (v_classes s) c"
    and "ms = clinits (v_classes s) cs"
    and "\<forall>i < length ms. fits (st_max_size (vm_stack_of s)) (ms ! i) (length fs + i)"
  shows "\<exists>st gs. InitClass (Some c) s = Inr ((), (with_stack st s)\<lparr>v_classes := fold started cs (v_classes s)\<rparr>) \<and>
    stack_repr st (gs @ fs) \<and> map core gs = frames_for ms"
  using assms by (rule InitClass_frames)

theorem initialisation_order_witness:
  "\<exists>st gs. InitClass (Some 1) (one_frame_vm local_frame clinit_table) = Inr ((), (with_stack st (one_frame_vm local_frame clinit_table))
      \<lparr>v_classes := fold started [1, 0] clinit_table\<rparr>) \<and>
    stack_repr st (gs @ [local_frame]) \<and> map core gs = [Frame_new (clinit_method 0) None, Frame_new (clinit_method 1) None]"
proof -
  let ?s = "one_frame_vm local_frame clinit_table"
  have ct: "v_classes ?s = clinit_table"
    by (simp add: one_frame_vm_def)
  have wf: "wf_classes clinit_table"
    by (rule wf_classesI [where rank = id])
      (auto simp: clinit_table_def Class_new_def pointers_ok_def hierarchy_def extends_rel_def implements_rel_def less_Suc_eq)
  have owned: "members_owned clinit_table"
    by (simp add: members_owned_def clinit_table_def clinit_method_def less_Suc_eq)
  have chain: "init_chain (search_depth clinit_table) clinit_table 1 = [1, 0]"
    by code_simp
  have ms: "clinits clinit_table [1, 0] = [clinit_method 1, clinit_method 0]"
    by (simp add: own_clinit_def clinit_table_def clinit_method_def names_def IsStatic_def has_flag_def)
  have repr: "stack_repr (vm_stack_of ?s) [local_frame]"
    by (rule one_frame_repr) (simp add: local_frame_def Frame_new_def)
  have "\<forall>i < length [clinit_method 1, clinit_method 0].
      fits (st_max_size (vm_stack_of ?s)) ([clinit_method 1, clinit_method 0] ! i) (length [local_frame] + i)"
    by (simp add: less_Suc_eq fits_def one_frame_vm_def sizeof_Frame_def frame_need_def GetHeaderSize_def clinit_method_def
        sample_method_def)
  then show ?thesis
    using initialisation_order [of ?s 1 "[local_frame]" "[1, 0]" "[clinit_method 1, clinit_method 0]"] wf owned repr chain ms
    by (simp add: ct frames_for_def) (simp add: clinit_table_def)
qed

text \<open>
  C15: resolution happens once. After a class, field, method or interface method reference has been resolved, resolving it
  again returns the same and changes nothing, with whatever loader: the loader is not asked again. The checks that
  resolution of a method makes the first time are not made again, but it makes no difference.
\<close>

theorem resolution_is_final:
  assumes "class_maker mk" and "load = load_class env mk k"
  shows "(ResolveClass load c i s = Inr (p, t) \<longrightarrow> ResolveClass load' c i t = Inr (p, t)) \<and>
    (ResolveField load c i s = Inr (m, t) \<longrightarrow> ResolveField load' c i t = Inr (m, t)) \<and>
    (ResolveMethod load c i s = Inr (m, t) \<longrightarrow> ResolveMethod load' c i t = Inr (m, t)) \<and>
    (ResolveInterfaceMethod load c i s = Inr (m, t) \<longrightarrow> ResolveInterfaceMethod load' c i t = Inr (m, t))"
proof -
  have load: "conservative load"
    unfolding assms(2) by (rule conservative.intro) (rule class_maker.load_prefix [OF assms(1)])
  show ?thesis
    by (intro conjI impI; erule conservative.resolve_class_again [OF load] conservative.resolve_field_again [OF load]
      conservative.resolve_method_again [OF load] conservative.resolve_interface_method_again [OF load])
qed

definition resolve_vm :: vm where
  "resolve_vm = sample_vm\<lparr>v_classes := sample_table[2 := (sample_table ! 2)\<lparr>c_loader := Some Boot_Loader,
     c_constant_pool := Some [None, Some (ClassRefConstant ''[I'' None)]\<rparr>]\<rparr>"

theorem resolution_is_final_witness:
  "\<exists>t. ResolveClass (load_class sample_env construct_class 2) 2 1 resolve_vm = Inr (Some 3, t) \<and>
    ResolveClass (LoadClass sample_env 3) 2 1 t = Inr (Some 3, t)"
proof -
  have "(case ResolveClass (load_class sample_env construct_class 2) 2 1 resolve_vm of
      Inl e \<Rightarrow> False | Inr (p, t) \<Rightarrow> p = Some 3)"
    by code_simp
  then obtain t where "ResolveClass (load_class sample_env construct_class 2) 2 1 resolve_vm = Inr (Some 3, t)"
    by (auto split: sum.splits)
  then show ?thesis
    using resolution_is_final [OF constructed.class_maker_axioms, of "load_class sample_env construct_class 2" sample_env 2 2 1
        resolve_vm "Some 3" t "LoadClass sample_env 3"] by blast
qed

end
